(* ===== verification/Prelude.thy ===== *)
theory Prelude
  imports Complex_Main "HOL-Library.Word" "HOL-Library.Multiset" "HOL-Library.Sublist"
    "HOL-Library.Code_Target_Nat"
begin

text \<open>
  The vocabulary every component of the development shares: the names of the basic types,
  the collections of rewrite rules the component proofs draw on, and generic facts about
  lists, filtered lists and association lists that the library does not have in the form
  the proofs need.
\<close>

section \<open>Types\<close>

text \<open>
  A Go string is a sequence of bytes; \<open>string\<close> (a list of 8-bit characters) is exactly
  that. \<open>uint64\<close>, \<open>int64\<close> and \<open>int32\<close> keep their width; Go's \<open>int\<close>
  (64 bits on every platform the server is built for) is \<open>int\<close> where the code only
  compares and counts.
\<close>

type_synonym uint64 = "64 word"
type_synonym int64 = "64 word"
type_synonym int32 = int

section \<open>Rule collections\<close>

named_theorems str_simps \<open>evaluation and algebra of the string routines\<close>
named_theorems parse_defs \<open>definitions of the line parsers\<close>
named_theorems out_simps \<open>how the output records and their error lists behave\<close>

section \<open>Lists\<close>

lemma map_filter_append [simp]:
  "List.map_filter f (xs @ ys) = List.map_filter f xs @ List.map_filter f ys"
  by (induction xs) (auto split: option.splits)

lemma length_map_filter_le: "length (List.map_filter f xs) \<le> length xs"
  by (induction xs) (auto split: option.splits)

lemma set_map_filter_Some:
  "set (List.map_filter f xs) = {y. \<exists>x \<in> set xs. f x = Some y}"
  by (induction xs) (auto split: option.splits)

lemma map_filter_map_Some:
  assumes "\<And>x. x \<in> set xs \<Longrightarrow> f (g x) = Some x"
  shows "List.map_filter f (map g xs) = xs"
  using assms by (induction xs) auto

lemma map_filter_cong:
  "(\<And>x. x \<in> set xs \<Longrightarrow> f x = g x) \<Longrightarrow> List.map_filter f xs = List.map_filter g xs"
  by (induction xs) (auto split: option.splits)

text \<open>A prefix of a descending list holds its greatest elements.\<close>

lemma sorted_wrt_take_drop:
  assumes "sorted_wrt R xs" "x \<in> set (take n xs)" "y \<in> set (drop n xs)"
  shows "R x y"
proof -
  have "sorted_wrt R (take n xs @ drop n xs)" using assms(1) by simp
  then show ?thesis using assms(2,3) by (auto simp only: sorted_wrt_append)
qed

end
