(* ===== verification/GoStrings.thy ===== *)
theory GoStrings
  imports Prelude
begin

text \<open>
  The part of Go's \<open>strings\<close> package the server's parsers are built from, on byte
  strings: prefixes and suffixes, \<open>Index\<close>/\<open>LastIndex\<close>/\<open>Cut\<close>, \<open>Split\<close>/\<open>SplitN\<close>/\<open>Join\<close>,
  \<open>TrimSpace\<close>/\<open>Fields\<close> (with the UTF-8 encodings of the Unicode white space characters
  that \<open>unicode.IsSpace\<close> accepts) and case folding. The lemmas are the algebra the
  component proofs use: what splitting, cutting, trimming and joining have in common.
\<close>

section \<open>Bytes\<close>

abbreviation nl :: char where "nl \<equiv> CHR 0x0A"
abbreviation tab :: char where "tab \<equiv> CHR 0x09"

definition byte :: "char \<Rightarrow> nat" where
  "byte c = of_char c"

definition is_ascii :: "string \<Rightarrow> bool" where
  "is_ascii s = list_all (\<lambda>c. byte c < 0x80) s"

section \<open>Prefixes, suffixes, searching\<close>

abbreviation HasPrefix :: "string \<Rightarrow> string \<Rightarrow> bool" where
  "HasPrefix s p \<equiv> prefix p s"

definition HasSuffix :: "string \<Rightarrow> string \<Rightarrow> bool" where
  "HasSuffix s p = (length p \<le> length s \<and> drop (length s - length p) s = p)"

definition CutPrefix :: "string \<Rightarrow> string \<Rightarrow> string option" where
  "CutPrefix s p = (if HasPrefix s p then Some (drop (length p) s) else None)"

definition CutSuffix :: "string \<Rightarrow> string \<Rightarrow> string option" where
  "CutSuffix s p = (if HasSuffix s p then Some (take (length s - length p) s) else None)"

definition TrimPrefix :: "string \<Rightarrow> string \<Rightarrow> string" where
  "TrimPrefix s p = (case CutPrefix s p of None \<Rightarrow> s | Some r \<Rightarrow> r)"

definition TrimSuffix :: "string \<Rightarrow> string \<Rightarrow> string" where
  "TrimSuffix s p = (case CutSuffix s p of None \<Rightarrow> s | Some r \<Rightarrow> r)"

fun Index :: "string \<Rightarrow> string \<Rightarrow> nat option" where
  "Index [] sub = (if sub = [] then Some 0 else None)"
| "Index (c # s) sub = (if prefix sub (c # s) then Some 0 else map_option Suc (Index s sub))"

fun LastIndex :: "string \<Rightarrow> string \<Rightarrow> nat option" where
  "LastIndex [] sub = (if sub = [] then Some 0 else None)"
| "LastIndex (c # s) sub =
     (case LastIndex s sub of
        Some i \<Rightarrow> Some (Suc i)
      | None \<Rightarrow> (if prefix sub (c # s) then Some 0 else None))"

definition Contains :: "string \<Rightarrow> string \<Rightarrow> bool" where
  "Contains s sub = (Index s sub \<noteq> None)"

text \<open>\<open>strings.Cut\<close>: the text around the first separator, and whether there is one.\<close>

definition Cut :: "string \<Rightarrow> string \<Rightarrow> string \<times> string \<times> bool" where
  "Cut s sep =
     (case Index s sep of
        Some i \<Rightarrow> (take i s, drop (i + length sep) s, True)
      | None \<Rightarrow> (s, [], False))"

section \<open>Splitting and joining\<close>

text \<open>\<open>strings.Split\<close> (and \<open>SplitSeq\<close>) at a one-byte separator, and \<open>SplitN\<close>.\<close>

fun split_char :: "char \<Rightarrow> string \<Rightarrow> string list" where
  "split_char c [] = [[]]"
| "split_char c (x # s) =
     (if x = c then [] # split_char c s
      else (case split_char c s of [] \<Rightarrow> [[x]] | t # ts \<Rightarrow> (x # t) # ts))"

fun splitn_char :: "nat \<Rightarrow> char \<Rightarrow> string \<Rightarrow> string list" where
  "splitn_char 0 c s = []"
| "splitn_char (Suc 0) c s = [s]"
| "splitn_char (Suc (Suc n)) c s =
     (case Index s [c] of
        None \<Rightarrow> [s]
      | Some i \<Rightarrow> take i s # splitn_char (Suc n) c (drop (Suc i) s))"

text \<open>\<open>strings.Split\<close> at a longer, non-empty separator.\<close>

lemma Index_bound: "Index s sub = Some i \<Longrightarrow> i + length sub \<le> length s"
  by (induction s sub arbitrary: i rule: Index.induct)
    (auto split: if_splits dest: prefix_length_le)

function split_sub :: "string \<Rightarrow> string \<Rightarrow> string list" where
  "split_sub sep s =
     (case (if sep = [] then None else Index s sep) of
        None \<Rightarrow> [s]
      | Some i \<Rightarrow> take i s # split_sub sep (drop (i + length sep) s))"
  by pat_completeness auto
termination
  by (relation "measure (\<lambda>(sep, s). length s)")
    (auto split: if_splits dest!: Index_bound simp: neq_Nil_conv)

declare split_sub.simps [simp del]

fun Join :: "string \<Rightarrow> string list \<Rightarrow> string" where
  "Join sep [] = []"
| "Join sep [x] = x"
| "Join sep (x # y # xs) = x @ sep @ Join sep (y # xs)"

abbreviation lines_of :: "string \<Rightarrow> string list" where
  "lines_of s \<equiv> split_char nl s"

section \<open>White space\<close>

text \<open>
  The length of the white space character at the head of a byte string, 0 when there is
  none: ASCII white space is one byte, U+0085 and U+00A0 two, U+1680, U+2000 to U+200A,
  U+2028, U+2029, U+202F, U+205F and U+3000 three. A lead byte is never a continuation
  byte, so looking at the head of every suffix finds exactly the characters that decoding
  the string finds.
\<close>

definition wide2 :: "string list" where
  "wide2 = [[CHR 0xC2, CHR 0x85], [CHR 0xC2, CHR 0xA0]]"

definition wide3 :: "string list" where
  "wide3 =
     [[CHR 0xE1, CHR 0x9A, CHR 0x80],
      [CHR 0xE2, CHR 0x80, CHR 0x80], [CHR 0xE2, CHR 0x80, CHR 0x81],
      [CHR 0xE2, CHR 0x80, CHR 0x82], [CHR 0xE2, CHR 0x80, CHR 0x83],
      [CHR 0xE2, CHR 0x80, CHR 0x84], [CHR 0xE2, CHR 0x80, CHR 0x85],
      [CHR 0xE2, CHR 0x80, CHR 0x86], [CHR 0xE2, CHR 0x80, CHR 0x87],
      [CHR 0xE2, CHR 0x80, CHR 0x88], [CHR 0xE2, CHR 0x80, CHR 0x89],
      [CHR 0xE2, CHR 0x80, CHR 0x8A], [CHR 0xE2, CHR 0x80, CHR 0xA8],
      [CHR 0xE2, CHR 0x80, CHR 0xA9], [CHR 0xE2, CHR 0x80, CHR 0xAF],
      [CHR 0xE2, CHR 0x81, CHR 0x9F], [CHR 0xE3, CHR 0x80, CHR 0x80]]"

definition space_len :: "string \<Rightarrow> nat" where
  "space_len s =
     (case s of
        [] \<Rightarrow> 0
      | c # _ \<Rightarrow>
          if byte c < 0x80 then (if byte c = 32 \<or> 9 \<le> byte c \<and> byte c \<le> 13 then 1 else 0)
          else if list_ex (HasPrefix s) wide2 then 2
          else if list_ex (HasPrefix s) wide3 then 3
          else 0)"

text \<open>\<open>skip_left k s\<close> drops \<open>k\<close> bytes of a white space character and then all further ones.\<close>

fun skip_left :: "nat \<Rightarrow> string \<Rightarrow> string" where
  "skip_left k [] = []"
| "skip_left (Suc k) (c # s) = skip_left k s"
| "skip_left 0 (c # s) =
     (let n = space_len (c # s) in if n = 0 then c # s else skip_left (n - 1) s)"

abbreviation trim_left :: "string \<Rightarrow> string" where
  "trim_left \<equiv> skip_left 0"

text \<open>Trailing white space: the longest suffix made of white space characters only.\<close>

fun trim_right :: "string \<Rightarrow> string" where
  "trim_right [] = []"
| "trim_right (c # s) = (if trim_left (c # s) = [] then [] else c # trim_right s)"

definition TrimSpace :: "string \<Rightarrow> string" where
  "TrimSpace s = trim_right (trim_left s)"

text \<open>
  \<open>strings.Fields\<close>: the maximal runs of other characters. The first argument counts the
  bytes of the current white space character still to skip, the second is the field read
  so far, reversed.
\<close>

fun fields_acc :: "nat \<Rightarrow> string \<Rightarrow> string \<Rightarrow> string list" where
  "fields_acc k cur [] = (if cur = [] then [] else [rev cur])"
| "fields_acc (Suc k) cur (c # s) = fields_acc k cur s"
| "fields_acc 0 cur (c # s) =
     (let n = space_len (c # s) in
      if n = 0 then fields_acc 0 (c # cur) s
      else (if cur = [] then [] else [rev cur]) @ fields_acc (n - 1) [] s)"

definition Fields :: "string \<Rightarrow> string list" where
  "Fields s = fields_acc 0 [] s"

text \<open>\<open>strings.TrimRight\<close> with a cutset of one ASCII character.\<close>

definition TrimRight_char :: "char \<Rightarrow> string \<Rightarrow> string" where
  "TrimRight_char c s = rev (dropWhile (\<lambda>x. x = c) (rev s))"

section \<open>Case folding\<close>

text \<open>
  \<open>strings.ToLower\<close> and \<open>ToUpper\<close> map an ASCII string byte by byte and any other string
  through the Unicode tables, which are a parameter (\<open>um\<close>).
\<close>

definition ascii_lower :: "char \<Rightarrow> char" where
  "ascii_lower c = (if 65 \<le> byte c \<and> byte c \<le> 90 then char_of (byte c + 32) else c)"

definition ascii_upper :: "char \<Rightarrow> char" where
  "ascii_upper c = (if 97 \<le> byte c \<and> byte c \<le> 122 then char_of (byte c - 32) else c)"

definition ToLower :: "(string \<Rightarrow> string) \<Rightarrow> string \<Rightarrow> string" where
  "ToLower um s = (if is_ascii s then map ascii_lower s else um s)"

definition ToUpper :: "(string \<Rightarrow> string) \<Rightarrow> string \<Rightarrow> string" where
  "ToUpper um s = (if is_ascii s then map ascii_upper s else um s)"

section \<open>Algebra of splitting, joining and searching\<close>

lemma split_char_ne [simp]: "split_char c s \<noteq> []"
  by (induction s) (auto split: list.splits)

lemma split_char_clean [simp]: "c \<notin> set s \<Longrightarrow> split_char c s = [s]"
  by (induction s) auto

lemma split_char_at: "split_char c (a @ c # b) = split_char c a @ split_char c b"
proof (induction a)
  case (Cons x a)
  then show ?case by (cases "split_char c a") auto
qed simp

lemma split_char_parts: "t \<in> set (split_char c s) \<Longrightarrow> c \<notin> set t \<and> set t \<subseteq> set s"
proof (induction s arbitrary: t)
  case (Cons x s)
  show ?case
  proof (cases "split_char c s")
    case (Cons u us)
    with Cons.IH [of u] Cons.IH [of t] Cons.prems show ?thesis
      by (auto split: if_splits)
  qed simp
qed simp

lemma Join_Cons: "xs \<noteq> [] \<Longrightarrow> Join sep (x # xs) = x @ sep @ Join sep xs"
  by (cases xs) auto

lemma Join_append: "xs \<noteq> [] \<Longrightarrow> ys \<noteq> [] \<Longrightarrow> Join sep (xs @ ys) = Join sep xs @ sep @ Join sep ys"
proof (induction xs)
  case (Cons a xs)
  then show ?case by (cases "xs = []") (auto simp: Join_Cons)
qed simp

lemma set_Join: "set (Join sep xs) \<subseteq> set sep \<union> (\<Union>x \<in> set xs. set x)"
  by (induction sep xs rule: Join.induct) auto

lemma Join_split_char [str_simps]: "Join [c] (split_char c s) = s"
proof (induction s)
  case (Cons x s)
  then show ?case
    by (cases "split_char c s"; cases "tl (split_char c s)") (auto simp: Join_Cons)
qed simp

lemma split_char_Join [str_simps]:
  "xs \<noteq> [] \<Longrightarrow> (\<And>x. x \<in> set xs \<Longrightarrow> c \<notin> set x) \<Longrightarrow> split_char c (Join [c] xs) = xs"
proof (induction xs)
  case (Cons x xs)
  then show ?case by (cases "xs = []") (auto simp: Join_Cons split_char_at)
qed simp

lemma length_split_char: "length (split_char c s) = Suc (count_list s c)"
proof (induction s)
  case (Cons x s)
  then show ?case by (cases "split_char c s") auto
qed simp

lemma prefix_single: "prefix [c] s \<longleftrightarrow> s \<noteq> [] \<and> hd s = c"
  by (cases s) auto

lemma Index_char_None: "Index s [c] = None \<longleftrightarrow> c \<notin> set s"
  by (induction s) auto

lemma Index_char_notin [simp]: "c \<notin> set s \<Longrightarrow> Index s [c] = None"
  by (simp add: Index_char_None)

lemma Index_char_at [simp]: "c \<notin> set a \<Longrightarrow> Index (a @ c # b) [c] = Some (length a)"
  by (induction a) auto

lemma Index_char_Some:
  "Index s [c] = Some i \<longleftrightarrow> (\<exists>a b. s = a @ c # b \<and> c \<notin> set a \<and> i = length a)"
proof
  assume "Index s [c] = Some i"
  then have "c \<in> set s" by (metis Index_char_None option.distinct(1))
  then obtain a b where "s = a @ c # b" "c \<notin> set a" by (meson split_list_first)
  with \<open>Index s [c] = Some i\<close> show "\<exists>a b. s = a @ c # b \<and> c \<notin> set a \<and> i = length a"
    by auto
qed auto

lemma Index_Some_split:
  "Index s sub = Some i \<Longrightarrow> s = take i s @ sub @ drop (i + length sub) s"
proof (induction s sub arbitrary: i rule: Index.induct)
  case (2 c s sub)
  then show ?case by (auto split: if_splits simp: prefix_def)
qed (auto split: if_splits)

text \<open>The first occurrence of a text whose first, or last, byte does not occur before it.\<close>

lemma Index_start: "x \<notin> set a \<Longrightarrow> Index (a @ (x # s) @ b) (x # s) = Some (length a)"
  by (induction a) auto

lemma Index_end:
  assumes "x \<notin> set a" "x \<notin> set s"
  shows "Index (a @ (s @ [x]) @ b) (s @ [x]) = Some (length a)"
  using assms(1)
proof (induction a)
  case Nil
  then show ?case by (cases s) auto
next
  case (Cons y a)
  have "\<not> prefix (s @ [x]) (y # a @ (s @ [x]) @ b)"
  proof
    assume "prefix (s @ [x]) (y # a @ (s @ [x]) @ b)"
    then obtain z where "(y # a @ s) @ x # b = s @ x # z" by (auto simp: prefix_def)
    then have "Index ((y # a @ s) @ x # b) [x] = Index (s @ x # z) [x]" by simp
    then show False using Cons.prems assms(2) by (simp del: append_Cons Index.simps)
  qed
  with Cons show ?case by simp
qed

lemma Contains_iff: "Contains s sub \<longleftrightarrow> (\<exists>a b. s = a @ sub @ b)"
proof
  assume "Contains s sub"
  then obtain i where "Index s sub = Some i" by (auto simp: Contains_def)
  from Index_Some_split [OF this] show "\<exists>a b. s = a @ sub @ b" by blast
next
  assume "\<exists>a b. s = a @ sub @ b"
  then obtain a b where s: "s = a @ sub @ b" by blast
  have "Index (a @ sub @ b) sub \<noteq> None"
  proof (induction a)
    case Nil
    show ?case
    proof (cases "sub @ b")
      case (Cons x r)
      then have "prefix sub (x # r)" by (metis prefixI)
      with Cons show ?thesis by simp
    qed simp
  next
    case (Cons x a)
    then show ?case by simp
  qed
  with s show "Contains s sub" by (simp add: Contains_def)
qed

lemma Contains_char [simp]: "Contains s [c] \<longleftrightarrow> c \<in> set s"
  by (simp add: Contains_def Index_char_None)

lemma Contains_append: "Contains a sub \<Longrightarrow> Contains (x @ a @ y) sub"
  unfolding Contains_iff by (metis append.assoc)

lemma LastIndex_char_None: "LastIndex s [c] = None \<longleftrightarrow> c \<notin> set s"
  by (induction s) (auto split: option.splits)

lemma LastIndex_char_notin [simp]: "c \<notin> set s \<Longrightarrow> LastIndex s [c] = None"
  by (simp add: LastIndex_char_None)

lemma LastIndex_char_at [simp]: "c \<notin> set b \<Longrightarrow> LastIndex (a @ c # b) [c] = Some (length a)"
  by (induction a) auto

lemma LastIndex_bound: "LastIndex s sub = Some i \<Longrightarrow> i + length sub \<le> length s"
  by (induction s sub arbitrary: i rule: LastIndex.induct)
    (auto split: if_splits option.splits dest: prefix_length_le)

lemma LastIndex_char_Some:
  "LastIndex s [c] = Some i \<longleftrightarrow> (\<exists>a b. s = a @ c # b \<and> c \<notin> set b \<and> i = length a)"
proof
  assume "LastIndex s [c] = Some i"
  then have "c \<in> set s" by (metis LastIndex_char_None option.distinct(1))
  then obtain a b where "s = a @ c # b" "c \<notin> set b" by (meson split_list_last)
  with \<open>LastIndex s [c] = Some i\<close> show "\<exists>a b. s = a @ c # b \<and> c \<notin> set b \<and> i = length a"
    by auto
qed auto

lemma Cut_char_at [simp]: "c \<notin> set a \<Longrightarrow> Cut (a @ c # b) [c] = (a, b, True)"
  by (simp add: Cut_def)

lemma Cut_char_None [simp]: "c \<notin> set s \<Longrightarrow> Cut s [c] = (s, [], False)"
  by (simp add: Cut_def)

lemma Cut_True: "Cut s sep = (a, b, True) \<Longrightarrow> s = a @ sep @ b"
  by (auto simp: Cut_def split: option.splits dest: Index_Some_split)

lemma CutPrefix_append [simp]: "CutPrefix (p @ s) p = Some s"
  by (simp add: CutPrefix_def)

lemma CutPrefix_Some: "CutPrefix s p = Some r \<longleftrightarrow> s = p @ r"
  by (auto simp: CutPrefix_def prefix_def)

lemma HasSuffix_iff: "HasSuffix s p \<longleftrightarrow> suffix p s"
  by (auto simp: HasSuffix_def suffix_def) (metis append_take_drop_id)

lemma CutSuffix_Some: "CutSuffix s p = Some r \<longleftrightarrow> s = r @ p"
  by (auto simp: CutSuffix_def HasSuffix_def) (metis append_take_drop_id)

section \<open>White space and fields\<close>

text \<open>A word holds no white space character; a token is a word of printable ASCII.\<close>

fun no_space :: "string \<Rightarrow> bool" where
  "no_space [] = True"
| "no_space (c # s) = (space_len (c # s) = 0 \<and> no_space s)"

definition printable :: "char \<Rightarrow> bool" where
  "printable c = (32 < byte c \<and> byte c < 127)"

definition token :: "string \<Rightarrow> bool" where
  "token t = (t \<noteq> [] \<and> list_all printable t)"

lemma wide_lengths: "p \<in> set wide2 \<Longrightarrow> length p = 2" "p \<in> set wide3 \<Longrightarrow> length p = 3"
  by (auto simp: wide2_def wide3_def)

lemma prefix_append_iff: "length p \<le> length s \<Longrightarrow> prefix p (s @ r) \<longleftrightarrow> prefix p s"
  by (metis prefix_append prefix_length_prefix prefixI prefix_order.dual_order.trans)

lemma space_len_append:
  assumes "space_len s \<noteq> 0"
  shows "space_len (s @ r) = space_len s"
proof (cases s)
  case (Cons c t)
  show ?thesis
  proof (cases "byte c < 0x80")
    case True
    with Cons show ?thesis by (simp add: space_len_def)
  next
    case False
    show ?thesis
    proof (cases "list_ex (HasPrefix s) wide2")
      case True
      then have "list_ex (HasPrefix (s @ r)) wide2"
        unfolding list_ex_iff by (blast intro: prefix_prefix)
      with True False Cons show ?thesis by (simp add: space_len_def)
    next
      case no2: False
      with assms False Cons have w3: "list_ex (HasPrefix s) wide3"
        by (auto simp: space_len_def split: if_splits)
      then have "3 \<le> length s"
        by (auto simp: list_ex_iff dest!: prefix_length_le wide_lengths(2))
      then have "\<not> list_ex (HasPrefix (s @ r)) wide2"
        using no2 wide_lengths(1) by (auto simp: list_ex_iff prefix_append_iff)
      moreover have "list_ex (HasPrefix (s @ r)) wide3"
        using w3 unfolding list_ex_iff by (blast intro: prefix_prefix)
      ultimately show ?thesis using no2 w3 False Cons by (simp add: space_len_def)
    qed
  qed
qed (use assms in \<open>simp add: space_len_def\<close>)

lemma space_len_ascii:
  "byte c < 0x80 \<Longrightarrow> space_len (c # s) = (if byte c = 32 \<or> 9 \<le> byte c \<and> byte c \<le> 13 then 1 else 0)"
  by (simp add: space_len_def)

lemma space_len_printable [simp]: "printable c \<Longrightarrow> space_len (c # s) = 0"
  by (simp add: printable_def space_len_ascii)

lemma byte_space [simp]: "byte (CHR '' '') = 32" and byte_nl [simp]: "byte nl = 10"
  and byte_tab [simp]: "byte tab = 9"
  by (simp_all add: byte_def)

lemma space_len_blank [simp]:
  "space_len (CHR '' '' # s) = 1" "space_len (nl # s) = 1" "space_len (tab # s) = 1"
  by (simp_all add: space_len_ascii)

lemma token_ne [simp]: "token t \<Longrightarrow> t \<noteq> []"
  by (simp add: token_def)

lemma printable_not_blank [simp]:
  "printable c \<Longrightarrow> c \<noteq> CHR '' ''" "printable c \<Longrightarrow> c \<noteq> nl" "printable c \<Longrightarrow> c \<noteq> tab"
  by (auto simp: printable_def)

lemma token_no_blank:
  "token t \<Longrightarrow> CHR '' '' \<notin> set t" "token t \<Longrightarrow> nl \<notin> set t" "token t \<Longrightarrow> tab \<notin> set t"
  by (auto simp: token_def list_all_iff dest: printable_not_blank)

lemma token_no_space: "token t \<Longrightarrow> no_space t"
proof -
  have "list_all printable t \<Longrightarrow> no_space t" by (induction t) auto
  then show "token t \<Longrightarrow> no_space t" by (simp add: token_def)
qed

lemma fields_acc_printable:
  "list_all printable t \<Longrightarrow> fields_acc 0 cur (t @ r) = fields_acc 0 (rev t @ cur) r"
  by (induction t arbitrary: cur) auto

lemma Fields_Nil [simp]: "Fields [] = []"
  by (simp add: Fields_def)

lemma Fields_blank [simp]:
  "Fields (CHR '' '' # s) = Fields s" "Fields (nl # s) = Fields s" "Fields (tab # s) = Fields s"
  by (simp_all add: Fields_def)

lemma Fields_token [simp]: "token t \<Longrightarrow> Fields t = [t]"
  using fields_acc_printable [of t "[]" "[]"] by (simp add: Fields_def token_def)

lemma Fields_token_blank [simp]:
  "token t \<Longrightarrow> Fields (t @ CHR '' '' # s) = t # Fields s"
  using fields_acc_printable [of t "[]" "CHR '' '' # s"] by (simp add: Fields_def token_def)

lemma Fields_padded [simp]: "Fields (replicate n (CHR '' '') @ s) = Fields s"
  by (induction n) simp_all

lemma Fields_Join [str_simps]: "(\<And>t. t \<in> set ts \<Longrightarrow> token t) \<Longrightarrow> Fields (Join '' '' ts) = ts"
  by (induction "'' ''" ts rule: Join.induct) auto

text \<open>Every field is a non-empty word.\<close>

lemma fields_acc_words:
  assumes "\<forall>i < length cur. space_len (drop i (rev cur) @ s) = 0" "k = 0 \<or> cur = []"
  shows "\<forall>t \<in> set (fields_acc k cur s). t \<noteq> [] \<and> (\<forall>i < length t. space_len (drop i t) = 0)"
  using assms
proof (induction k cur s rule: fields_acc.induct)
  case (1 k cur)
  then show ?case by auto
next
  case (2 k cur c s)
  then show ?case by auto
next
  case (3 cur c s)
  let ?n = "space_len (c # s)"
  show ?case
  proof (cases "?n = 0")
    case True
    have "space_len (drop i (rev (c # cur)) @ s) = 0" if "i < length (c # cur)" for i
      using "3.prems"(1) True that by (cases "i = length cur") auto
    with "3.IH"(1) True show ?thesis by simp
  next
    case False
    have "space_len (drop i (rev cur)) = 0" if "i < length cur" for i
      using "3.prems"(1) that space_len_append [of "drop i (rev cur)" "c # s"] by force
    moreover have "\<forall>t \<in> set (fields_acc (?n - 1) [] s).
        t \<noteq> [] \<and> (\<forall>i < length t. space_len (drop i t) = 0)"
      using "3.IH"(2) False by simp
    ultimately show ?thesis using False by auto
  qed
qed

lemma no_space_iff: "no_space t \<longleftrightarrow> (\<forall>i < length t. space_len (drop i t) = 0)"
proof (induction t)
  case (Cons c t)
  then show ?case by (auto simp: less_Suc_eq_0_disj)
qed simp

lemma Fields_words: "t \<in> set (Fields s) \<Longrightarrow> t \<noteq> [] \<and> no_space t"
  using fields_acc_words [of "[]" s 0] by (auto simp: Fields_def no_space_iff)

section \<open>Trimming\<close>

lemma skip_left_printable [simp]: "printable c \<Longrightarrow> skip_left 0 (c # s) = c # s"
  by simp

lemma trim_left_has_printable:
  "c \<in> set s \<Longrightarrow> printable c \<Longrightarrow> list_all (\<lambda>x. byte x < 0x80) s \<Longrightarrow> trim_left s \<noteq> []"
proof (induction s)
  case (Cons x s)
  then show ?case
    by (cases "x = c") (auto simp: Let_def space_len_ascii)
qed simp

lemma trim_right_printable:
  "printable c \<Longrightarrow> list_all (\<lambda>x. byte x < 0x80) s \<Longrightarrow> trim_right (s @ [c]) = s @ [c]"
proof (induction s)
  case Nil
  then show ?case by simp
next
  case (Cons x s)
  have "list_all (\<lambda>x. byte x < 0x80) ((x # s) @ [c])"
    using Cons.prems by (auto simp: printable_def)
  then have "trim_left ((x # s) @ [c]) \<noteq> []"
    using Cons.prems(1) by (intro trim_left_has_printable [of c]) auto
  then show ?case using Cons by auto
qed

text \<open>An ASCII text that begins and ends with a printable character is already trimmed.\<close>

definition is_trimmed :: "string \<Rightarrow> bool" where
  "is_trimmed s = (s \<noteq> [] \<and> printable (hd s) \<and> printable (last s) \<and> list_all (\<lambda>x. byte x < 0x80) s)"

lemma TrimSpace_trimmed: "is_trimmed s \<Longrightarrow> TrimSpace s = s"
proof -
  assume s: "is_trimmed s"
  then obtain a c where ac: "s = a @ [c]" by (metis append_butlast_last_id is_trimmed_def)
  from s obtain x r where "s = x # r" and "printable x"
    by (cases s) (auto simp: is_trimmed_def)
  then have "trim_left s = s" by simp
  with s ac show ?thesis
    by (simp add: TrimSpace_def is_trimmed_def trim_right_printable)
qed

lemma trim_right_newline:
  "printable c \<Longrightarrow> list_all (\<lambda>x. byte x < 0x80) s \<Longrightarrow> trim_right (s @ [c, nl]) = s @ [c]"
proof (induction s)
  case Nil
  then show ?case by (simp add: Let_def space_len_ascii)
next
  case (Cons x s)
  have "list_all (\<lambda>x. byte x < 0x80) ((x # s) @ [c, nl])"
    using Cons.prems by (auto simp: printable_def)
  then have "trim_left ((x # s) @ [c, nl]) \<noteq> []"
    using Cons.prems(1) by (intro trim_left_has_printable [of c]) auto
  then show ?case using Cons by auto
qed

lemma TrimSpace_newline: "is_trimmed s \<Longrightarrow> TrimSpace (s @ [nl]) = s"
proof -
  assume s: "is_trimmed s"
  then obtain a c where ac: "s = a @ [c]" by (metis append_butlast_last_id is_trimmed_def)
  from s obtain x r where "s = x # r" and "printable x"
    by (cases s) (auto simp: is_trimmed_def)
  then have "trim_left (s @ [nl]) = s @ [nl]" by simp
  with s ac show ?thesis
    by (simp add: TrimSpace_def is_trimmed_def trim_right_newline)
qed

lemma TrimSpace_padded [simp]: "TrimSpace (replicate n (CHR '' '') @ s) = TrimSpace s"
  by (induction n) (simp_all add: TrimSpace_def Let_def space_len_ascii)

lemma TrimSpace_Nil [simp]: "TrimSpace [] = []"
  by (simp add: TrimSpace_def)

lemma token_trimmed: "token t \<Longrightarrow> is_trimmed t"
  by (auto simp: token_def is_trimmed_def list_all_iff printable_def)

lemma TrimSpace_token [simp]: "token t \<Longrightarrow> TrimSpace t = t"
  by (simp add: TrimSpace_trimmed token_trimmed)

lemma trimmed_append:
  "is_trimmed a \<Longrightarrow> is_trimmed b \<Longrightarrow> list_all (\<lambda>x. byte x < 0x80) m \<Longrightarrow> is_trimmed (a @ m @ b)"
  by (auto simp: is_trimmed_def)

lemma Join_trimmed:
  "ts \<noteq> [] \<Longrightarrow> (\<And>t. t \<in> set ts \<Longrightarrow> token t) \<Longrightarrow> is_trimmed (Join '' '' ts)"
proof (induction "'' ''" ts rule: Join.induct)
  case (3 x y xs)
  then have "is_trimmed x" "is_trimmed (Join '' '' (y # xs))" by (auto intro: token_trimmed)
  then show ?case using trimmed_append [of x _ "'' ''"] by simp
qed (auto intro: token_trimmed)

lemma TrimSpace_Join:
  "(\<And>t. t \<in> set ts \<Longrightarrow> token t) \<Longrightarrow> TrimSpace (Join '' '' ts) = Join '' '' ts"
  by (cases "ts = []") (auto simp: TrimSpace_trimmed Join_trimmed)

lemma Join_tokens_no_nl: "(\<And>t. t \<in> set ts \<Longrightarrow> token t) \<Longrightarrow> nl \<notin> set (Join '' '' ts)"
  using set_Join [of "'' ''" ts] token_no_blank(2) by fastforce

lemma Join_tokens_Nil [simp]: "(\<And>t. t \<in> set ts \<Longrightarrow> token t) \<Longrightarrow> Join '' '' ts = [] \<longleftrightarrow> ts = []"
  using Fields_Join [of ts] by fastforce

lemma Join_lines_trimmed:
  "xs \<noteq> [] \<Longrightarrow> (\<And>x. x \<in> set xs \<Longrightarrow> is_trimmed x) \<Longrightarrow> is_trimmed (Join [nl] xs)"
proof (induction xs)
  case (Cons x xs)
  then show ?case by (cases "xs = []") (auto simp: Join_Cons intro!: trimmed_append [of x _ "[nl]", simplified])
qed simp

end
