(* ===== verification/GoNum.thy ===== *)
theory GoNum
  imports GoStrings
begin

text \<open>
  Numbers as the code reads and prints them: \<open>strconv.ParseUint\<close>, \<open>ParseInt\<close> and
  \<open>Atoi\<close> in base 10 with both of their errors (and the value they return beside a range
  error, which the code keeps when it ignores the error), decimal printing, and the
  \<open>float64\<close> values the code compares. The lemmas are the round trip between printing
  and parsing.
\<close>

section \<open>Parsing\<close>

datatype num_err = ErrSyntax | ErrRange

definition digit_val :: "char \<Rightarrow> nat option" where
  "digit_val c = (if 48 \<le> byte c \<and> byte c \<le> 57 then Some (byte c - 48) else None)"

definition is_digit :: "char \<Rightarrow> bool" where
  "is_digit c = (digit_val c \<noteq> None)"

text \<open>
  The digit loop of \<open>strconv.ParseUint\<close>: it stops at the first byte that is no digit, or
  as soon as the value passes the maximum, whichever comes first.
\<close>

fun parse_digits :: "nat \<Rightarrow> nat \<Rightarrow> string \<Rightarrow> nat \<times> num_err option" where
  "parse_digits mx n [] = (n, None)"
| "parse_digits mx n (c # s) =
     (case digit_val c of
        None \<Rightarrow> (0, Some ErrSyntax)
      | Some d \<Rightarrow> if 10 * n + d > mx then (mx, Some ErrRange) else parse_digits mx (10 * n + d) s)"

definition ParseUint :: "nat \<Rightarrow> string \<Rightarrow> nat \<times> num_err option" where
  "ParseUint bits s =
     (if s = [] then (0, Some ErrSyntax) else parse_digits (2 ^ bits - 1) 0 s)"

definition ParseUint64 :: "string \<Rightarrow> uint64 \<times> num_err option" where
  "ParseUint64 s = (case ParseUint 64 s of (v, e) \<Rightarrow> (of_nat v, e))"

text \<open>The value of \<open>v, _ := strconv.ParseUint(s, 10, 64)\<close>.\<close>

definition uint_or_zero :: "string \<Rightarrow> uint64" where
  "uint_or_zero s = fst (ParseUint64 s)"

definition ParseInt :: "nat \<Rightarrow> string \<Rightarrow> int \<times> num_err option" where
  "ParseInt bits s =
     (case s of
        [] \<Rightarrow> (0, Some ErrSyntax)
      | c # r \<Rightarrow>
          let neg = (c = CHR ''-'');
              body = (if c = CHR ''+'' \<or> c = CHR ''-'' then r else s);
              cutoff = 2 ^ (bits - 1)
          in (case ParseUint bits body of
                (un, Some ErrSyntax) \<Rightarrow> (0, Some ErrSyntax)
              | (un, _) \<Rightarrow>
                  if \<not> neg \<and> un \<ge> cutoff then (int cutoff - 1, Some ErrRange)
                  else if neg \<and> un > cutoff then (- int cutoff, Some ErrRange)
                  else (if neg then - int un else int un, None)))"

definition Atoi :: "string \<Rightarrow> int \<times> num_err option" where
  "Atoi s = ParseInt 64 s"

section \<open>Printing\<close>

definition digit_char :: "nat \<Rightarrow> char" where
  "digit_char d = char_of (48 + d)"

fun show_nat :: "nat \<Rightarrow> string" where
  "show_nat n = (if n < 10 then [digit_char n] else show_nat (n div 10) @ [digit_char (n mod 10)])"

declare show_nat.simps [simp del]

definition show_int :: "int \<Rightarrow> string" where
  "show_int i = (if i < 0 then CHR ''-'' # show_nat (nat (- i)) else show_nat (nat i))"

lemma digit_char_simps [str_simps]:
  "digit_char 0 = CHR ''0''" "digit_char (Suc 0) = CHR ''1''" "digit_char 1 = CHR ''1''"
  "digit_char 2 = CHR ''2''" "digit_char 3 = CHR ''3''" "digit_char 4 = CHR ''4''"
  "digit_char 5 = CHR ''5''" "digit_char 6 = CHR ''6''" "digit_char 7 = CHR ''7''"
  "digit_char 8 = CHR ''8''" "digit_char 9 = CHR ''9''"
  by code_simp+

section \<open>Printing and parsing are inverse\<close>

lemma byte_digit_char [simp]: "d < 10 \<Longrightarrow> byte (digit_char d) = 48 + d"
  by (simp add: byte_def digit_char_def)

lemma digit_val_digit_char [simp]: "d < 10 \<Longrightarrow> digit_val (digit_char d) = Some d"
  by (simp add: digit_val_def)

lemma digit_val_bound: "digit_val c = Some d \<Longrightarrow> d < 10"
  by (auto simp: digit_val_def split: if_splits)

lemma printable_digit_char [simp]: "d < 10 \<Longrightarrow> printable (digit_char d)"
  by (simp add: printable_def)

fun dec_value :: "nat \<Rightarrow> string \<Rightarrow> nat" where
  "dec_value n [] = n"
| "dec_value n (c # s) = dec_value (10 * n + the (digit_val c)) s"

lemma dec_value_append: "dec_value n (s @ t) = dec_value (dec_value n s) t"
  by (induction n s rule: dec_value.induct) auto

lemma dec_value_ge: "n \<le> dec_value n s"
proof (induction n s rule: dec_value.induct)
  case (2 n c s)
  then show ?case by simp
qed simp

lemma parse_digits_ok:
  "list_all (\<lambda>c. digit_val c \<noteq> None) s \<Longrightarrow> dec_value n s \<le> mx \<Longrightarrow>
   parse_digits mx n s = (dec_value n s, None)"
proof (induction mx n s rule: parse_digits.induct)
  case (2 mx n c s)
  then obtain d where d: "digit_val c = Some d" by auto
  then have "10 * n + d \<le> mx"
    using "2.prems"(2) dec_value_ge [of "10 * n + d" s] by simp
  with d "2.IH" [OF d] "2.prems" show ?case by simp
qed simp

lemma parse_digits_bound:
  "n \<le> mx \<Longrightarrow> fst (parse_digits mx n s) \<le> mx"
proof (induction mx n s rule: parse_digits.induct)
  case (2 mx n c s)
  then show ?case by (cases "digit_val c") auto
qed simp

lemma ParseUint_bound: "fst (ParseUint bits s) < 2 ^ bits"
proof -
  have "fst (ParseUint bits s) \<le> 2 ^ bits - 1"
    using parse_digits_bound [of 0 "2 ^ bits - 1" s] by (simp add: ParseUint_def)
  moreover have "(0::nat) < 2 ^ bits" by simp
  ultimately show ?thesis by linarith
qed

lemma show_nat_ne [simp]: "show_nat n \<noteq> []"
  by (subst show_nat.simps) simp

lemma show_nat_digits: "list_all (\<lambda>c. digit_val c \<noteq> None) (show_nat n)"
proof (induction n rule: show_nat.induct)
  case (1 n)
  then show ?case by (subst show_nat.simps) (auto simp: digit_val_digit_char)
qed

lemma dec_value_show_nat [simp]: "dec_value 0 (show_nat n) = n"
proof (induction n rule: show_nat.induct)
  case (1 n)
  then show ?case by (subst show_nat.simps) (auto simp: dec_value_append)
qed

lemma token_show_nat [simp]: "token (show_nat n)"
proof (induction n rule: show_nat.induct)
  case (1 n)
  then show ?case by (subst show_nat.simps) (auto simp: token_def)
qed

lemma hd_show_nat: "digit_val (hd (show_nat n)) \<noteq> None"
  using show_nat_digits [of n] by (cases "show_nat n") auto

lemma hd_show_nat_sign [simp]: "hd (show_nat n) \<noteq> CHR ''-''" "hd (show_nat n) \<noteq> CHR ''+''"
  using hd_show_nat [of n] by (auto simp: digit_val_def byte_def)

lemma ParseUint_show_nat [simp]: "n < 2 ^ bits \<Longrightarrow> ParseUint bits (show_nat n) = (n, None)"
  using parse_digits_ok [OF show_nat_digits, of 0 n "2 ^ bits - 1"]
  by (auto simp: ParseUint_def)

lemma ParseUint64_show_nat [simp]: "ParseUint64 (show_nat (unat (w :: uint64))) = (w, None)"
  using unsigned_less [of w, where ?'a = nat] by (simp add: ParseUint64_def)

lemma uint_or_zero_show_nat [simp]: "uint_or_zero (show_nat (unat w)) = w"
  by (simp add: uint_or_zero_def)

lemma ParseInt_show_nat [simp]:
  assumes "0 < bits" "n < 2 ^ (bits - 1)"
  shows "ParseInt bits (show_nat n) = (int n, None)"
proof -
  have "n < 2 ^ bits"
    using assms by (meson diff_le_self less_le_trans one_le_numeral power_increasing)
  then have p: "ParseUint bits (show_nat n) = (n, None)" by simp
  obtain c r where cr: "show_nat n = c # r" by (cases "show_nat n") auto
  with hd_show_nat_sign [of n] p assms show ?thesis
    by (simp add: ParseInt_def Let_def)
qed

lemma ParseInt_show_int [simp]:
  assumes "0 < bits" "- (2 ^ (bits - 1)) \<le> i" "i < 2 ^ (bits - 1)"
  shows "ParseInt bits (show_int i) = (i, None)"
proof (cases "i < 0")
  case False
  then show ?thesis using assms ParseInt_show_nat [of bits "nat i"]
    by (simp add: show_int_def nat_less_iff)
next
  case True
  have le: "nat (- i) \<le> 2 ^ (bits - 1)" using assms(2) by (simp add: nat_le_iff)
  moreover have "(2::nat) ^ (bits - 1) < 2 ^ bits" using assms(1) by simp
  ultimately have "ParseUint bits (show_nat (nat (- i))) = (nat (- i), None)"
    by (intro ParseUint_show_nat) linarith
  with True le show ?thesis by (simp add: ParseInt_def Let_def show_int_def)
qed

lemma token_show_int [simp]: "token (show_int i)"
proof -
  have "printable (CHR ''-'')" by (simp add: printable_def byte_def)
  then show ?thesis using token_show_nat by (simp add: show_int_def token_def)
qed

section \<open>Arithmetic on int\<close>

text \<open>The value of a sum or difference of two \<open>int\<close>s, which wraps around at 64 bits.\<close>

definition wrap_int :: "int \<Rightarrow> int" where
  "wrap_int i = (i + 2 ^ 63) mod 2 ^ 64 - 2 ^ 63"

lemma wrap_int_id [simp]: "- (2 ^ 63) \<le> i \<Longrightarrow> i < 2 ^ 63 \<Longrightarrow> wrap_int i = i"
  by (simp add: wrap_int_def)

section \<open>Floating point values\<close>

text \<open>
  The values of \<open>float64\<close>: the finite ones as the rationals they are, the infinities and
  NaN. Comparisons are exact, and every comparison with NaN is false.
\<close>

datatype f64 = Fin rat | PosInf | NegInf | NaN

fun f64_less :: "f64 \<Rightarrow> f64 \<Rightarrow> bool" where
  "f64_less NaN y = False"
| "f64_less x NaN = False"
| "f64_less (Fin x) (Fin y) = (x < y)"
| "f64_less NegInf y = (y \<noteq> NegInf)"
| "f64_less PosInf y = False"
| "f64_less (Fin x) PosInf = True"
| "f64_less (Fin x) NegInf = False"

fun f64_eq :: "f64 \<Rightarrow> f64 \<Rightarrow> bool" where
  "f64_eq NaN y = False"
| "f64_eq x NaN = False"
| "f64_eq x y = (x = y)"

definition f64_le :: "f64 \<Rightarrow> f64 \<Rightarrow> bool" where
  "f64_le x y = (f64_less x y \<or> f64_eq x y)"

text \<open>
  Rounding to the nearest, halves to even: of a quotient of naturals to a natural, and of a
  natural to the nearest \<open>float64\<close> (53 significant bits).
\<close>

definition rne_div :: "nat \<Rightarrow> nat \<Rightarrow> nat" where
  "rne_div a b =
     (let q = a div b; r = a mod b in
      if 2 * r < b then q else if 2 * r > b then Suc q else if even q then q else Suc q)"

fun ulp_of :: "nat \<Rightarrow> nat" where
  "ulp_of n = (if n < 2 ^ 53 then 1 else 2 * ulp_of (n div 2))"

declare ulp_of.simps [simp del]

definition f64_of_nat :: "nat \<Rightarrow> nat" where
  "f64_of_nat n = rne_div n (ulp_of n) * ulp_of n"

lemma rne_div_mono:
  assumes "0 < b" "a \<le> c"
  shows "rne_div a b \<le> rne_div c b"
proof (cases "a div b = c div b")
  case True
  then have "a mod b \<le> c mod b"
    using assms(2) by (metis add_le_cancel_left mult_div_mod_eq)
  with True show ?thesis by (auto simp: rne_div_def Let_def)
next
  case False
  then have "a div b < c div b" using div_le_mono [OF assms(2), of b] by simp
  then show ?thesis by (auto simp: rne_div_def Let_def)
qed

lemma rne_div_exact [simp]: "0 < b \<Longrightarrow> rne_div (q * b) b = q"
  by (simp add: rne_div_def Let_def)

lemma rne_div_one [simp]: "rne_div n (Suc 0) = n"
  by (simp add: rne_div_def)

lemma ulp_of_power: "\<exists>j. ulp_of n = 2 ^ j"
proof (induction n rule: ulp_of.induct)
  case (1 n)
  show ?case
  proof (cases "n < 2 ^ 53")
    case True
    then show ?thesis by (auto simp: ulp_of.simps [of n] intro: exI [of _ 0])
  next
    case False
    then obtain j where "ulp_of (n div 2) = 2 ^ j" using "1.IH" by auto
    with False have "ulp_of n = 2 ^ Suc j" by (simp add: ulp_of.simps [of n])
    then show ?thesis by blast
  qed
qed

lemma ulp_of_le: "ulp_of n = 1 \<or> ulp_of n * 2 ^ 52 \<le> n"
proof (induction n rule: ulp_of.induct)
  case (1 n)
  show ?case
  proof (cases "n < 2 ^ 53")
    case True
    then show ?thesis by (simp add: ulp_of.simps [of n])
  next
    case False
    then have "ulp_of (n div 2) * 2 ^ 52 \<le> n div 2"
      using "1.IH" by auto
    with False show ?thesis by (simp add: ulp_of.simps [of n])
  qed
qed

lemma f64_of_nat_small: "n < 2 ^ 53 \<Longrightarrow> f64_of_nat n = n"
  by (simp add: f64_of_nat_def ulp_of.simps [of n])

text \<open>Rounding to \<open>float64\<close> does not leave the interval between two powers of 1024.\<close>

lemma f64_of_nat_bracket:
  assumes "1024 ^ k \<le> n" "n < 1024 ^ Suc k"
  shows "1024 ^ k \<le> f64_of_nat n" "f64_of_nat n \<le> 1024 ^ Suc k"
proof -
  obtain j where u: "ulp_of n = 2 ^ j" using ulp_of_power by blast
  have "ulp_of n \<le> 1024 ^ k"
  proof (cases "ulp_of n = 1")
    case False
    then have "ulp_of n * 2 ^ 52 < 1024 ^ Suc k" using ulp_of_le [of n] assms(2) by linarith
    then show ?thesis by simp
  qed simp
  moreover have pow: "(1024::nat) ^ k = 2 ^ (10 * k)" by (simp only: power_mult) simp
  ultimately have "(2::nat) ^ j \<le> 2 ^ (10 * k)" using u by simp
  then have "j \<le> 10 * k" by (rule power_le_imp_le_exp [rotated]) simp
  then have "(2::nat) ^ j dvd 2 ^ (10 * k)" by (rule le_imp_power_dvd)
  then have dvd: "ulp_of n dvd 1024 ^ k" unfolding u pow .
  then have dvd': "ulp_of n dvd 1024 ^ Suc k" by simp
  have pos: "0 < ulp_of n" using u by simp
  have ex: "rne_div m (ulp_of n) * ulp_of n = m" if "ulp_of n dvd m" for m
  proof -
    from that obtain q where "m = q * ulp_of n" by (metis dvd_div_mult_self)
    with pos show ?thesis by simp
  qed
  show "1024 ^ k \<le> f64_of_nat n"
    using ex [OF dvd] rne_div_mono [OF pos assms(1)]
    by (metis f64_of_nat_def mult_le_mono1)
  show "f64_of_nat n \<le> 1024 ^ Suc k"
    using ex [OF dvd'] rne_div_mono [OF pos less_imp_le [OF assms(2)]]
    by (metis f64_of_nat_def mult_le_mono1)
qed

end
