(* ===== verification/GoRuntime.thy ===== *)
theory GoRuntime
  imports GoNum
begin

text \<open>
  The parts of Go's runtime the handlers use besides strings and numbers: error values and
  what \<open>errors.Is\<close> and \<open>errors.As\<close> see of them, contexts with a deadline, the operating
  system as the handlers observe it, and \<open>sort.Slice\<close>. The operating system and the
  third-party packages are parameters, collected in the record \<open>world\<close>; \<open>sort.Slice\<close>,
  which is not stable, is a parameter whose documented contract is the locale
  \<open>slice_sorter\<close>.
\<close>

section \<open>Errors\<close>

text \<open>
  \<open>ErrText\<close> is \<open>errors.New\<close> or an unwrapped \<open>fmt.Errorf\<close>, \<open>ErrWrap\<close> a \<open>fmt.Errorf\<close>
  with \<open>: %w\<close> after its text, \<open>ErrQuoted\<close> one with a \<open>%q\<close> argument (kept apart from
  the text before it), \<open>ErrNum\<close> an error of \<open>strconv\<close> with the function and the text it
  rejected, \<open>ErrOS\<close>
  an error of a system call that says whether the file does not exist, \<open>ErrExecNotFound\<close> a
  missing executable (\<open>exec.ErrNotFound\<close> itself with an empty name), \<open>ErrExit\<close> an exit code with the standard error output, \<open>ErrJoin\<close> is
  \<open>errors.Join\<close>.
\<close>

datatype goerr =
    ErrText string
  | ErrWrap string goerr
  | ErrQuoted string string
  | ErrNum string num_err string
  | ErrOS bool string
  | ErrExecNotFound string
  | ErrExit int string
  | ErrJoin goerr goerr

text \<open>
  \<open>strconv.Quote\<close>: the escapes of ASCII control characters, quotes and backslashes. Bytes of
  a UTF-8 sequence are kept as they are, which is what the runtime does for the printable
  characters.
\<close>

definition hex_digit :: "nat \<Rightarrow> char" where
  "hex_digit d = char_of (if d < 10 then 48 + d else 87 + d)"

definition quote_byte :: "char \<Rightarrow> string" where
  "quote_byte c =
     (let n = byte c in
      if n = 0x22 \<or> n = 0x5C then [CHR 0x5C, c]
      else if n = 7 then [CHR 0x5C, CHR ''a''] else if n = 8 then [CHR 0x5C, CHR ''b'']
      else if n = 9 then [CHR 0x5C, CHR ''t''] else if n = 10 then [CHR 0x5C, CHR ''n'']
      else if n = 11 then [CHR 0x5C, CHR ''v''] else if n = 12 then [CHR 0x5C, CHR ''f'']
      else if n = 13 then [CHR 0x5C, CHR ''r'']
      else if n < 32 \<or> n = 127 then [CHR 0x5C, CHR ''x'', hex_digit (n div 16), hex_digit (n mod 16)]
      else [c])"

definition go_quote :: "string \<Rightarrow> string" where
  "go_quote s = [CHR 0x22] @ concat (map quote_byte s) @ [CHR 0x22]"

fun err_text :: "goerr \<Rightarrow> string" where
  "err_text (ErrText s) = s"
| "err_text (ErrWrap s e) = s @ '': '' @ err_text e"
| "err_text (ErrQuoted s q) = s @ '' '' @ go_quote q"
| "err_text (ErrNum f k s) =
     ''strconv.'' @ f @ '': parsing '' @ go_quote s @
     (case k of ErrSyntax \<Rightarrow> '': invalid syntax'' | ErrRange \<Rightarrow> '': value out of range'')"
| "err_text (ErrOS _ s) = s"
| "err_text (ErrExecNotFound s) =
     (if s = [] then [] else ''exec: '' @ go_quote s @ '': '') @ ''executable file not found in $PATH''"
| "err_text (ErrExit n _) = ''exit status '' @ show_int n"
| "err_text (ErrJoin a b) = err_text a @ [nl] @ err_text b"

text \<open>\<open>errors.Is(err, os.ErrNotExist)\<close> and \<open>errors.Is(err, exec.ErrNotFound)\<close>.\<close>

fun is_not_exist :: "goerr \<Rightarrow> bool" where
  "is_not_exist (ErrOS ne _) = ne"
| "is_not_exist (ErrWrap _ e) = is_not_exist e"
| "is_not_exist (ErrJoin a b) = (is_not_exist a \<or> is_not_exist b)"
| "is_not_exist _ = False"

fun is_exec_not_found :: "goerr \<Rightarrow> bool" where
  "is_exec_not_found (ErrExecNotFound _) = True"
| "is_exec_not_found (ErrWrap _ e) = is_exec_not_found e"
| "is_exec_not_found (ErrJoin a b) = (is_exec_not_found a \<or> is_exec_not_found b)"
| "is_exec_not_found _ = False"

text \<open>\<open>errors.As\<close> for an exit error: its exit code.\<close>

fun exit_code :: "goerr \<Rightarrow> int option" where
  "exit_code (ErrExit n _) = Some n"
| "exit_code (ErrWrap _ e) = exit_code e"
| "exit_code (ErrJoin a b) = (case exit_code a of None \<Rightarrow> exit_code b | r \<Rightarrow> r)"
| "exit_code _ = None"

text \<open>A Go call that returns a pointer and an error may return both, or neither.\<close>

type_synonym 'o result = "'o option \<times> goerr option"

section \<open>Contexts\<close>

text \<open>A context is what it says about time: its deadline, in nanoseconds, if it has one.\<close>

record ctx =
  deadline :: "int option"

definition with_timeout :: "int \<Rightarrow> ctx \<Rightarrow> int \<Rightarrow> ctx" where
  "with_timeout now c d =
     (case deadline c of
        None \<Rightarrow> c\<lparr>deadline := Some (now + d)\<rparr>
      | Some t \<Rightarrow> c\<lparr>deadline := Some (min t (now + d))\<rparr>)"

section \<open>The world\<close>

text \<open>
  What the handlers observe: file contents, directories, the output of a command run under a
  context (its standard output and error), the search path, the environment and the Unicode
  case tables. One call of a handler sees one world.
\<close>

record dirent =
  de_name :: string
  de_isdir :: bool

record world =
  w_read :: "string \<Rightarrow> goerr + string"
  w_readdir :: "string \<Rightarrow> goerr + dirent list"
  w_exec :: "ctx \<Rightarrow> string \<Rightarrow> string list \<Rightarrow> string \<times> goerr option"
  w_look :: "string \<Rightarrow> goerr option"
  w_environ :: "string list"
  w_glob :: "string \<Rightarrow> string list"
  w_readlink :: "string \<Rightarrow> goerr + string"
  w_stat :: "string \<Rightarrow> goerr option"
  w_upper :: "string \<Rightarrow> string"
  w_lower :: "string \<Rightarrow> string"

section \<open>Environment and paths\<close>

text \<open>\<open>os.LookupEnv\<close>: the value of the first entry with the name.\<close>

fun LookupEnv :: "string list \<Rightarrow> string \<Rightarrow> string option" where
  "LookupEnv [] key = None"
| "LookupEnv (e # es) key =
     (case Cut e ''='' of
        (k, v, found) \<Rightarrow> if found \<and> k = key then Some v else LookupEnv es key)"

definition Getenv :: "string list \<Rightarrow> string \<Rightarrow> string" where
  "Getenv env key = (case LookupEnv env key of None \<Rightarrow> [] | Some v \<Rightarrow> v)"

definition UserHomeDir :: "string list \<Rightarrow> goerr + string" where
  "UserHomeDir env =
     (let h = Getenv env ''HOME'' in
      if h = [] then Inl (ErrText ''$HOME is not defined'') else Inr h)"

text \<open>
  \<open>filepath.Clean\<close>: empty and \<open>.\<close> components vanish, \<open>..\<close> removes the component before it
  (kept in reverse in the first argument), and an empty result is \<open>.\<close>.
\<close>

fun clean_components :: "bool \<Rightarrow> string list \<Rightarrow> string list \<Rightarrow> string list" where
  "clean_components rooted acc [] = rev acc"
| "clean_components rooted acc (c # cs) =
     (if c = [] \<or> c = ''.'' then clean_components rooted acc cs
      else if c = ''..'' then
        (case acc of
           [] \<Rightarrow> clean_components rooted (if rooted then [] else [c]) cs
         | a # acc' \<Rightarrow>
             if a = ''..'' then clean_components rooted (c # acc) cs
             else clean_components rooted acc' cs)
      else clean_components rooted (c # acc) cs)"

definition filepath_Clean :: "string \<Rightarrow> string" where
  "filepath_Clean p =
     (let rooted = (p \<noteq> [] \<and> hd p = CHR ''/'');
          cs = clean_components rooted [] (split_char (CHR ''/'') p);
          r = (if rooted then ''/'' else []) @ Join ''/'' cs
      in if r = [] then ''.'' else r)"

definition filepath_Join :: "string list \<Rightarrow> string" where
  "filepath_Join elems =
     (let es = dropWhile (\<lambda>e. e = []) elems
      in if es = [] then [] else filepath_Clean (Join ''/'' es))"

section \<open>bufio.Scanner\<close>

text \<open>
  The lines a scanner returns, and its error: a last line that is empty is none, a carriage
  return at the end of a line is dropped, and a line that does not fit into the buffer with its
  newline stops the scan. The default buffer has 65536 bytes.
\<close>

definition drop_cr :: "string \<Rightarrow> string" where
  "drop_cr l = (if l \<noteq> [] \<and> byte (last l) = 13 then butlast l else l)"

definition scan_lines_max :: "nat \<Rightarrow> string \<Rightarrow> string list \<times> goerr option" where
  "scan_lines_max buffer s =
     (let ls = lines_of s; ls = (if last ls = [] then butlast ls else ls);
          short = takeWhile (\<lambda>l. length l < buffer) ls
      in (map drop_cr short,
          if length short < length ls then Some (ErrText ''bufio.Scanner: token too long'') else None))"

definition scan_lines :: "string \<Rightarrow> string list \<times> goerr option" where
  "scan_lines s = scan_lines_max 65536 s"

section \<open>sort.Slice\<close>

text \<open>
  The contract of \<open>sort.Slice\<close>: for a comparison that is a strict weak order the result is
  a permutation of the slice in which no element is less than one before it. Elements that
  compare equal may come in any order, so theorems hold for every function with this
  contract.
\<close>

definition strict_weak :: "'a set \<Rightarrow> ('a \<Rightarrow> 'a \<Rightarrow> bool) \<Rightarrow> bool" where
  "strict_weak A lt =
     ((\<forall>a \<in> A. \<forall>b \<in> A. lt a b \<longrightarrow> \<not> lt b a) \<and>
      (\<forall>a \<in> A. \<forall>b \<in> A. \<forall>c \<in> A. lt a c \<longrightarrow> lt a b \<or> lt b c))"

definition sorts_slices :: "(('a \<Rightarrow> 'a \<Rightarrow> bool) \<Rightarrow> 'a list \<Rightarrow> 'a list) \<Rightarrow> bool" where
  "sorts_slices srt =
     (\<forall>lt xs. strict_weak (set xs) lt \<longrightarrow>
        mset (srt lt xs) = mset xs \<and> sorted_wrt (\<lambda>a b. \<not> lt b a) (srt lt xs))"

lemma strict_weak_key_desc [intro, simp]:
  fixes f :: "'a \<Rightarrow> 'b::linorder"
  shows "strict_weak A (\<lambda>a b. f a > f b)"
  by (auto simp: strict_weak_def)

lemma strict_weak_key_asc [intro, simp]:
  fixes f :: "'a \<Rightarrow> 'b::linorder"
  shows "strict_weak A (\<lambda>a b. f a < f b)"
  by (auto simp: strict_weak_def)

lemma strict_weak_mono: "strict_weak A lt \<Longrightarrow> B \<subseteq> A \<Longrightarrow> strict_weak B lt"
  unfolding strict_weak_def by blast

text \<open>Floats without NaN are ordered, so sorting by a float key is within the contract.\<close>

lemma strict_weak_f64:
  assumes "\<And>a. a \<in> A \<Longrightarrow> f a \<noteq> NaN"
  shows "strict_weak A (\<lambda>a b. f64_less (f b) (f a))"
proof -
  have "f64_less x y \<Longrightarrow> \<not> f64_less y x" for x y by (cases x; cases y) auto
  moreover have "f64_less x z \<Longrightarrow> y \<noteq> NaN \<Longrightarrow> f64_less x y \<or> f64_less y z" for x y z
    by (cases x; cases y; cases z) auto
  ultimately show ?thesis using assms unfolding strict_weak_def by blast
qed

locale slice_sorter =
  fixes srt :: "('a \<Rightarrow> 'a \<Rightarrow> bool) \<Rightarrow> 'a list \<Rightarrow> 'a list"
  assumes sorts: "sorts_slices srt"
begin

lemma srt_mset: "strict_weak (set xs) lt \<Longrightarrow> mset (srt lt xs) = mset xs"
  using sorts by (auto simp: sorts_slices_def)

lemma srt_set: "strict_weak (set xs) lt \<Longrightarrow> set (srt lt xs) = set xs"
  using srt_mset by (metis set_mset_mset)

lemma srt_length: "strict_weak (set xs) lt \<Longrightarrow> length (srt lt xs) = length xs"
  using srt_mset by (metis size_mset)

lemma srt_ordered: "strict_weak (set xs) lt \<Longrightarrow> sorted_wrt (\<lambda>a b. \<not> lt b a) (srt lt xs)"
  using sorts by (auto simp: sorts_slices_def)

lemma srt_distinct: "strict_weak (set xs) lt \<Longrightarrow> distinct (srt lt xs) = distinct xs"
  using srt_mset by (metis mset_eq_imp_distinct_iff)

text \<open>The first \<open>k\<close> elements: as many as there are, taken from the slice, none worse than one left out.\<close>

lemma srt_top:
  assumes "strict_weak (set xs) lt"
  shows "length (take k (srt lt xs)) = min k (length xs)"
    and "set (take k (srt lt xs)) \<subseteq> set xs"
    and "mset xs = mset (take k (srt lt xs)) + mset (drop k (srt lt xs))"
    and "a \<in> set (take k (srt lt xs)) \<Longrightarrow> b \<in> set (drop k (srt lt xs)) \<Longrightarrow> \<not> lt b a"
proof -
  show "length (take k (srt lt xs)) = min k (length xs)"
    using srt_length [OF assms] by simp
  show "set (take k (srt lt xs)) \<subseteq> set xs"
    using srt_set [OF assms] by (auto dest: in_set_takeD)
  show "mset xs = mset (take k (srt lt xs)) + mset (drop k (srt lt xs))"
    using srt_mset [OF assms] by (metis append_take_drop_id mset_append)
  show "\<not> lt b a" if "a \<in> set (take k (srt lt xs))" "b \<in> set (drop k (srt lt xs))"
    using sorted_wrt_take_drop [OF srt_ordered [OF assms]] that by blast
qed

text \<open>With distinct keys the result is determined by the multiset of the slice.\<close>

lemma srt_key_desc:
  fixes f :: "'a \<Rightarrow> 'b::linorder"
  shows "sorted (rev (map f (srt (\<lambda>a b. f a > f b) xs)))"
proof -
  have "sorted_wrt (\<lambda>a b. f a \<ge> f b) (srt (\<lambda>a b. f a > f b) xs)"
    using srt_ordered [of xs "\<lambda>a b. f a > f b"] by (simp add: strict_weak_key_desc not_less)
  then show ?thesis by (simp add: sorted_wrt_rev sorted_wrt_map)
qed

lemma srt_key_asc:
  fixes f :: "'a \<Rightarrow> 'b::linorder"
  shows "sorted (map f (srt (\<lambda>a b. f a < f b) xs))"
proof -
  have "sorted_wrt (\<lambda>a b. f a \<le> f b) (srt (\<lambda>a b. f a < f b) xs)"
    using srt_ordered [of xs "\<lambda>a b. f a < f b"] by (simp add: strict_weak_key_asc not_less)
  then show ?thesis by (simp add: sorted_wrt_map)
qed

lemma srt_top_desc:
  fixes f :: "'a \<Rightarrow> 'b::linorder"
  shows "\<exists>top rest. take k (srt (\<lambda>a b. f a > f b) xs) = top \<and>
           mset xs = mset top + mset rest \<and> length top = min k (length xs) \<and>
           sorted (rev (map f top)) \<and> (\<forall>a \<in> set top. \<forall>b \<in> set rest. f b \<le> f a)"
proof -
  let ?lt = "\<lambda>a b. f a > f b"
  let ?top = "take k (srt ?lt xs)" and ?rest = "drop k (srt ?lt xs)"
  have sw: "strict_weak (set xs) ?lt" by (rule strict_weak_key_desc)
  have "sorted_wrt (\<lambda>a b. f a \<ge> f b) ?top"
    using srt_ordered [OF sw] by (simp add: not_less sorted_wrt_take)
  then have "sorted (rev (map f ?top))" by (simp add: sorted_wrt_rev sorted_wrt_map)
  moreover have "f b \<le> f a" if "a \<in> set ?top" "b \<in> set ?rest" for a b
    using srt_top(4) [OF sw that] by (simp add: not_less)
  moreover note srt_top(1) [OF sw, of k] srt_top(3) [OF sw, of k]
  ultimately show ?thesis by blast
qed

end

text \<open>The contract used outside the locale: sorting by a key, and keeping the greatest.\<close>

lemma sort_top_desc:
  fixes f :: "'a \<Rightarrow> 'b::linorder"
  assumes "sorts_slices srt"
  shows "\<exists>top rest. take k (srt (\<lambda>a b. f a > f b) xs) = top \<and>
           mset xs = mset top + mset rest \<and> length top = min k (length xs) \<and>
           sorted (rev (map f top)) \<and> (\<forall>a \<in> set top. \<forall>b \<in> set rest. f b \<le> f a)"
  by (rule slice_sorter.srt_top_desc [OF slice_sorter.intro [OF assms]])

lemma sort_key_asc:
  fixes f :: "'a \<Rightarrow> 'b::linorder"
  assumes "sorts_slices srt"
  shows "mset (srt (\<lambda>a b. f a < f b) xs) = mset xs" "sorted (map f (srt (\<lambda>a b. f a < f b) xs))"
  using slice_sorter.srt_mset [OF slice_sorter.intro [OF assms] strict_weak_key_asc]
    slice_sorter.srt_key_asc [OF slice_sorter.intro [OF assms]] by blast+

type_synonym 'a sorter = "('a \<Rightarrow> 'a \<Rightarrow> bool) \<Rightarrow> 'a list \<Rightarrow> 'a list"

text \<open>
  The runtime's own routine for slices of at most twelve elements is insertion sort: each
  element moves left while it is less than its neighbour. \<open>ins_left\<close> works on the sorted
  part in reverse order.
\<close>

fun ins_left :: "('a \<Rightarrow> 'a \<Rightarrow> bool) \<Rightarrow> 'a \<Rightarrow> 'a list \<Rightarrow> 'a list" where
  "ins_left lt x [] = [x]"
| "ins_left lt x (y # ys) = (if lt x y then y # ins_left lt x ys else x # y # ys)"

definition insertion_sort :: "('a \<Rightarrow> 'a \<Rightarrow> bool) \<Rightarrow> 'a list \<Rightarrow> 'a list" where
  "insertion_sort lt xs = rev (foldl (\<lambda>acc x. ins_left lt x acc) [] xs)"

lemma mset_ins_left: "mset (ins_left lt x ys) = add_mset x (mset ys)"
  by (induction ys) auto

lemma set_ins_left: "set (ins_left lt x ys) = insert x (set ys)"
  by (induction ys) auto

lemma ins_left_ordered:
  assumes "strict_weak (insert x (set ys)) lt" "sorted_wrt (\<lambda>a b. \<not> lt a b) ys"
  shows "sorted_wrt (\<lambda>a b. \<not> lt a b) (ins_left lt x ys)"
  using assms
proof (induction ys)
  case (Cons y ys)
  have "strict_weak (insert x (set ys)) lt" by (rule strict_weak_mono [OF Cons.prems(1)]) auto
  with Cons have IH: "sorted_wrt (\<lambda>a b. \<not> lt a b) (ins_left lt x ys)" by simp
  have y: "\<not> lt y z" if "z \<in> set ys" for z using Cons.prems(2) that by simp
  show ?case
  proof (cases "lt x y")
    case True
    then have "\<not> lt y x" using Cons.prems(1) by (simp add: strict_weak_def)
    with True IH y show ?thesis by (auto simp: set_ins_left)
  next
    case False
    have "\<not> lt x z" if "z \<in> set ys" for z
      using Cons.prems(1) False y [OF that] that unfolding strict_weak_def by (meson insertI1 insertI2 list.set_intros)
    with False Cons.prems(2) show ?thesis by simp
  qed
qed simp

lemma insertion_sort_loop:
  "mset (foldl (\<lambda>acc x. ins_left lt x acc) ys xs) = mset ys + mset xs"
  "strict_weak (set ys \<union> set xs) lt \<Longrightarrow> sorted_wrt (\<lambda>a b. \<not> lt a b) ys \<Longrightarrow>
   sorted_wrt (\<lambda>a b. \<not> lt a b) (foldl (\<lambda>acc x. ins_left lt x acc) ys xs)"
proof (induction xs arbitrary: ys)
  case (Cons x xs)
  {
    case 1
    then show ?case by (simp add: Cons.IH(1) mset_ins_left)
  next
    case 2
    then have "strict_weak (insert x (set ys)) lt" by (elim strict_weak_mono) auto
    with 2 show ?case by (simp add: Cons.IH(2) ins_left_ordered set_ins_left Un_commute insert_commute)
  }
qed simp_all

lemma insertion_sort_sorts: "sorts_slices insertion_sort"
  by (simp add: sorts_slices_def insertion_sort_def sorted_wrt_rev insertion_sort_loop)

interpretation short_slice: slice_sorter insertion_sort
  by unfold_locales (rule insertion_sort_sorts)

section \<open>Ranging over a map\<close>

text \<open>
  A \<open>range\<close> over a map visits every key once, in an order that is not specified: the order is
  a parameter with this contract, which the ascending order meets.
\<close>

definition ranges :: "(('k \<rightharpoonup> 'v) \<Rightarrow> 'k list) \<Rightarrow> bool" where
  "ranges enum = (\<forall>m. finite (dom m) \<longrightarrow> distinct (enum m) \<and> set (enum m) = dom m)"

lemma sorted_ranges: "ranges (\<lambda>m :: 'k::linorder \<rightharpoonup> 'v. sorted_list_of_set (dom m))"
  by (simp add: ranges_def)

section \<open>Parsers that read a text line by line\<close>

text \<open>
  Most parsers split a text at newlines and turn each line into an entry or skip it.
  \<open>line_parser\<close> states that shape and what follows from it; \<open>line_printer\<close> adds a
  printer whose lines the parser reads back. \<open>text_of\<close> is the text that a program prints, each line with its newline.
\<close>

definition text_of :: "('a \<Rightarrow> string) \<Rightarrow> 'a list \<Rightarrow> string" where
  "text_of print_line xs = concat (map (\<lambda>x. print_line x @ [nl]) xs)"

lemma text_of_Join: "xs \<noteq> [] \<Longrightarrow> text_of f xs = Join [nl] (map f xs) @ [nl]"
proof (induction xs)
  case (Cons x xs)
  then show ?case by (cases "xs = []") (simp_all add: text_of_def Join_Cons)
qed simp

lemma TrimSpace_text_of:
  assumes "\<And>x. x \<in> set xs \<Longrightarrow> is_trimmed (print_line x)"
  shows "TrimSpace (text_of print_line xs) = Join [nl] (map print_line xs)"
  using assms
proof (cases "xs = []")
  case False
  have "is_trimmed (Join [nl] (map print_line xs))" using assms False by (intro Join_lines_trimmed) auto
  with False show ?thesis by (simp add: text_of_Join TrimSpace_newline)
qed (simp add: text_of_def)

locale line_parser =
  fixes parse :: "string \<Rightarrow> 'a list" and step :: "string \<Rightarrow> 'a option"
  assumes parse_lines: "parse s = List.map_filter step (lines_of s)"
begin

lemma parse_cat: "parse (a @ nl # b) = parse a @ parse b"
  by (simp add: parse_lines split_char_at)

lemma parse_skip: "step l = None \<Longrightarrow> nl \<notin> set l \<Longrightarrow> parse (l @ nl # b) = parse b"
  by (simp add: parse_cat parse_lines [of l])

lemma parse_text_of:
  assumes "step [] = None" "\<And>x. x \<in> set xs \<Longrightarrow> nl \<notin> set (print_line x)"
  shows "parse (text_of print_line xs) = List.map_filter (\<lambda>x. step (print_line x)) xs"
  using assms(2)
proof (induction xs)
  case Nil
  then show ?case using assms(1) by (simp add: text_of_def parse_lines)
next
  case (Cons x xs)
  then show ?case by (simp add: text_of_def parse_cat parse_lines [of "print_line x"] split: option.split)
qed

lemma parse_length: "length (parse s) \<le> Suc (count_list s nl)"
  unfolding parse_lines using length_map_filter_le [of step "lines_of s"]
  by (simp add: length_split_char)

lemma parse_elem: "x \<in> set (parse s) \<longleftrightarrow> (\<exists>l \<in> set (lines_of s). step l = Some x)"
  by (simp add: parse_lines set_map_filter_Some)

lemma parse_all: "(\<And>l x. step l = Some x \<Longrightarrow> P x) \<Longrightarrow> x \<in> set (parse s) \<Longrightarrow> P x"
  by (auto simp: parse_elem)

end

locale line_printer = line_parser +
  fixes print_line :: "'a \<Rightarrow> string" and ok :: "'a \<Rightarrow> bool"
  assumes print_step: "ok x \<Longrightarrow> step (print_line x) = Some x"
    and print_one_line: "ok x \<Longrightarrow> nl \<notin> set (print_line x)"
begin

lemma parse_print:
  assumes "xs \<noteq> []" "\<And>x. x \<in> set xs \<Longrightarrow> ok x"
  shows "parse (Join [nl] (map print_line xs)) = xs"
proof -
  have "lines_of (Join [nl] (map print_line xs)) = map print_line xs"
    using assms by (intro split_char_Join) (auto simp: print_one_line)
  then show ?thesis
    using assms by (simp add: parse_lines map_filter_map_Some print_step)
qed

end

text \<open>
  A text form that is read back says everything about its value: different values have different
  texts. Every printed line has that contract.
\<close>

locale round_trip =
  fixes enc :: "'a \<Rightarrow> string" and dec :: "string \<Rightarrow> 'a option" and valid :: "'a \<Rightarrow> bool"
  assumes dec_enc: "valid x \<Longrightarrow> dec (enc x) = Some x"
begin

lemma enc_inj: "valid x \<Longrightarrow> valid y \<Longrightarrow> enc x = enc y \<longleftrightarrow> x = y"
  by (metis dec_enc option.inject)

lemma dec_all: "(\<And>x. x \<in> set xs \<Longrightarrow> valid x) \<Longrightarrow> List.map_filter dec (map enc xs) = xs"
  by (rule map_filter_map_Some) (rule dec_enc)

end

sublocale line_printer \<subseteq> entry: round_trip print_line step ok
  by unfold_locales (rule print_step)

section \<open>Stores that only ever hold good values\<close>

text \<open>
  A component whose operations, each of which may fail, change one state. If every operation
  keeps a property of the state, every history of operations does; and if a failed operation
  leaves a part of the state (\<open>view\<close>) alone, a history of failures does.
\<close>

locale guarded_store =
  fixes perform :: "'e \<Rightarrow> 's \<Rightarrow> 's \<times> goerr option" and good :: "'s \<Rightarrow> bool" and view :: "'s \<Rightarrow> 'v"
  assumes perform_good: "good s \<Longrightarrow> good (fst (perform e s))"
    and failed_view: "snd (perform e s) \<noteq> None \<Longrightarrow> view (fst (perform e s)) = view s"
begin

lemma history_good: "good s \<Longrightarrow> good (fold (\<lambda>e s. fst (perform e s)) es s)"
  by (induction es arbitrary: s) (auto intro: perform_good)

lemma history_view:
  "(\<And>e s. e \<in> set es \<Longrightarrow> snd (perform e s) \<noteq> None) \<Longrightarrow>
   view (fold (\<lambda>e s. fst (perform e s)) es s) = view s"
  by (induction es arbitrary: s) (auto simp: failed_view)

end

end
