(* ===== verification/ToolNames.thy ===== *)
theory ToolNames
  imports GoRuntime
begin

text \<open>
  The tool name constants of config/config.go, in the order of the source, and the list of
  all of them, in the order \<open>defaultConfig\<close> gives their timeouts.
\<close>

abbreviation ToolNameGetSystemInfo :: string where "ToolNameGetSystemInfo \<equiv> ''get_system_info''"
abbreviation ToolNameGetCPUInfo :: string where "ToolNameGetCPUInfo \<equiv> ''get_cpu_info''"
abbreviation ToolNameGetCPUTemperature :: string where "ToolNameGetCPUTemperature \<equiv> ''get_cpu_temperature''"
abbreviation ToolNameGetMemoryInfo :: string where "ToolNameGetMemoryInfo \<equiv> ''get_memory_info''"
abbreviation ToolNameGetDiskInfo :: string where "ToolNameGetDiskInfo \<equiv> ''get_disk_info''"
abbreviation ToolNameGetNetworkInfo :: string where "ToolNameGetNetworkInfo \<equiv> ''get_network_info''"
abbreviation ToolNameGetProcessInfo :: string where "ToolNameGetProcessInfo \<equiv> ''get_process_info''"
abbreviation ToolNameGetDockerInfo :: string where "ToolNameGetDockerInfo \<equiv> ''get_docker_info''"
abbreviation ToolNameGetDockerContainerDetails :: string where "ToolNameGetDockerContainerDetails \<equiv> ''get_docker_container_details''"
abbreviation ToolNameGetDockerContainerLogs :: string where "ToolNameGetDockerContainerLogs \<equiv> ''get_docker_container_logs''"
abbreviation ToolNameGetDockerContainerStats :: string where "ToolNameGetDockerContainerStats \<equiv> ''get_docker_container_stats''"
abbreviation ToolNameGetDockerContainerTop :: string where "ToolNameGetDockerContainerTop \<equiv> ''get_docker_container_top''"
abbreviation ToolNameGetDockerContainerDiff :: string where "ToolNameGetDockerContainerDiff \<equiv> ''get_docker_container_diff''"
abbreviation ToolNameGetDockerImageHistory :: string where "ToolNameGetDockerImageHistory \<equiv> ''get_docker_image_history''"
abbreviation ToolNameGetDockerImageDetails :: string where "ToolNameGetDockerImageDetails \<equiv> ''get_docker_image_details''"
abbreviation ToolNameGetDockerNetworks :: string where "ToolNameGetDockerNetworks \<equiv> ''get_docker_networks''"
abbreviation ToolNameGetDockerVolumes :: string where "ToolNameGetDockerVolumes \<equiv> ''get_docker_volumes''"
abbreviation ToolNameGetDockerSystemInfo :: string where "ToolNameGetDockerSystemInfo \<equiv> ''get_docker_system_info''"
abbreviation ToolNameGetDockerDiskUsage :: string where "ToolNameGetDockerDiskUsage \<equiv> ''get_docker_disk_usage''"
abbreviation ToolNameGetSystemSnapshot :: string where "ToolNameGetSystemSnapshot \<equiv> ''get_system_snapshot''"
abbreviation ToolNameGetJournalLogs :: string where "ToolNameGetJournalLogs \<equiv> ''get_journal_logs''"
abbreviation ToolNameGetInodeUsage :: string where "ToolNameGetInodeUsage \<equiv> ''get_inode_usage''"
abbreviation ToolNameGetNetworkConnections :: string where "ToolNameGetNetworkConnections \<equiv> ''get_network_connections''"
abbreviation ToolNameGetServiceStatus :: string where "ToolNameGetServiceStatus \<equiv> ''get_service_status''"
abbreviation ToolNameGetProcessFDs :: string where "ToolNameGetProcessFDs \<equiv> ''get_process_fds''"
abbreviation ToolNameGetTopIOProcesses :: string where "ToolNameGetTopIOProcesses \<equiv> ''get_top_io_processes''"
abbreviation ToolNameGetFailedLogins :: string where "ToolNameGetFailedLogins \<equiv> ''get_failed_logins''"
abbreviation ToolNameGetGPUInfo :: string where "ToolNameGetGPUInfo \<equiv> ''get_gpu_info''"
abbreviation ToolNameGetLargestFiles :: string where "ToolNameGetLargestFiles \<equiv> ''get_largest_files''"
abbreviation ToolNamePingHost :: string where "ToolNamePingHost \<equiv> ''ping_host''"
abbreviation ToolNameGetInstalledPackages :: string where "ToolNameGetInstalledPackages \<equiv> ''get_installed_packages''"
abbreviation ToolNameGetAvailableUpdates :: string where "ToolNameGetAvailableUpdates \<equiv> ''get_available_updates''"
abbreviation ToolNameGetLoadAverage :: string where "ToolNameGetLoadAverage \<equiv> ''get_load_average''"
abbreviation ToolNameGetLoggedInUsers :: string where "ToolNameGetLoggedInUsers \<equiv> ''get_logged_in_users''"
abbreviation ToolNameResolveDNS :: string where "ToolNameResolveDNS \<equiv> ''resolve_dns''"
abbreviation ToolNameGetMountOptions :: string where "ToolNameGetMountOptions \<equiv> ''get_mount_options''"
abbreviation ToolNameGetSystemdUnits :: string where "ToolNameGetSystemdUnits \<equiv> ''get_systemd_units''"
abbreviation ToolNameGetBootTime :: string where "ToolNameGetBootTime \<equiv> ''get_boot_time''"
abbreviation ToolNameGetBootBlame :: string where "ToolNameGetBootBlame \<equiv> ''get_boot_blame''"
abbreviation ToolNameGetBootCriticalChain :: string where "ToolNameGetBootCriticalChain \<equiv> ''get_boot_critical_chain''"
abbreviation ToolNameGetManPage :: string where "ToolNameGetManPage \<equiv> ''get_man_page''"
abbreviation ToolNameGetEnvironmentVariables :: string where "ToolNameGetEnvironmentVariables \<equiv> ''get_environment_variables''"
abbreviation ToolNameGetHardwareBusInfo :: string where "ToolNameGetHardwareBusInfo \<equiv> ''get_hardware_bus_info''"
abbreviation ToolNameGetUserAutomation :: string where "ToolNameGetUserAutomation \<equiv> ''get_user_automation''"
abbreviation ToolNameGetDesktopSessionInfo :: string where "ToolNameGetDesktopSessionInfo \<equiv> ''get_desktop_session_info''"
abbreviation ToolNameGetPowerAnalytics :: string where "ToolNameGetPowerAnalytics \<equiv> ''get_power_analytics''"
abbreviation ToolNameGetUserInfo :: string where "ToolNameGetUserInfo \<equiv> ''get_user_info''"
abbreviation ToolNameGetIPInfo :: string where "ToolNameGetIPInfo \<equiv> ''get_ip_info''"
abbreviation ToolNameGetBlockDevices :: string where "ToolNameGetBlockDevices \<equiv> ''get_block_devices''"
abbreviation ToolNameGetSELinuxAppArmorStatus :: string where "ToolNameGetSELinuxAppArmorStatus \<equiv> ''get_selinux_apparmor_status''"
abbreviation ToolNameGetTimeSyncStatus :: string where "ToolNameGetTimeSyncStatus \<equiv> ''get_time_sync_status''"
abbreviation ToolNameGetRAIDStatus :: string where "ToolNameGetRAIDStatus \<equiv> ''get_raid_status''"
abbreviation ToolNameGetLogrotateStatus :: string where "ToolNameGetLogrotateStatus \<equiv> ''get_logrotate_status''"
abbreviation ToolNameGetCronJobs :: string where "ToolNameGetCronJobs \<equiv> ''get_cron_jobs''"
abbreviation ToolNameGetSystemHealthCheck :: string where "ToolNameGetSystemHealthCheck \<equiv> ''get_system_health_check''"
abbreviation ToolNameGetSecurityAudit :: string where "ToolNameGetSecurityAudit \<equiv> ''get_security_audit''"
abbreviation ToolNameGetSMARTHealth :: string where "ToolNameGetSMARTHealth \<equiv> ''get_smart_health''"
abbreviation ToolNameGetDiskIOMetrics :: string where "ToolNameGetDiskIOMetrics \<equiv> ''get_disk_io_metrics''"
abbreviation ToolNameGetProcDiagnostics :: string where "ToolNameGetProcDiagnostics \<equiv> ''get_proc_diagnostics''"
abbreviation ToolNameGetAuditLogs :: string where "ToolNameGetAuditLogs \<equiv> ''get_audit_logs''"
abbreviation ToolNameGetFileLocks :: string where "ToolNameGetFileLocks \<equiv> ''get_file_locks''"
abbreviation ToolNameGetSharedMemorySegments :: string where "ToolNameGetSharedMemorySegments \<equiv> ''get_shared_memory_segments''"
abbreviation ToolNameGetProcessTree :: string where "ToolNameGetProcessTree \<equiv> ''get_process_tree''"
abbreviation ToolNameGetKernelModules :: string where "ToolNameGetKernelModules \<equiv> ''get_kernel_modules''"
abbreviation ToolNameGetRoutingTable :: string where "ToolNameGetRoutingTable \<equiv> ''get_routing_table''"

definition tool_names :: "string list" where
  "tool_names =
     [ToolNameGetCPUInfo,
      ToolNameGetCPUTemperature,
      ToolNameGetMemoryInfo,
      ToolNameGetDiskInfo,
      ToolNameGetInodeUsage,
      ToolNameGetNetworkInfo,
      ToolNameGetSystemInfo,
      ToolNameGetProcessInfo,
      ToolNameGetProcessFDs,
      ToolNameGetEnvironmentVariables,
      ToolNameGetHardwareBusInfo,
      ToolNameGetUserAutomation,
      ToolNameGetDesktopSessionInfo,
      ToolNameGetManPage,
      ToolNameGetDockerContainerDetails,
      ToolNameGetDockerContainerLogs,
      ToolNameGetDockerContainerStats,
      ToolNameGetDockerContainerTop,
      ToolNameGetDockerContainerDiff,
      ToolNameGetDockerImageHistory,
      ToolNameGetDockerImageDetails,
      ToolNameGetDockerNetworks,
      ToolNameGetDockerVolumes,
      ToolNameGetDockerSystemInfo,
      ToolNameGetDockerDiskUsage,
      ToolNameGetDockerInfo,
      ToolNameGetSystemSnapshot,
      ToolNameGetJournalLogs,
      ToolNameGetServiceStatus,
      ToolNameGetTopIOProcesses,
      ToolNameGetFailedLogins,
      ToolNameGetGPUInfo,
      ToolNameGetLargestFiles,
      ToolNamePingHost,
      ToolNameGetInstalledPackages,
      ToolNameGetAvailableUpdates,
      ToolNameGetLoadAverage,
      ToolNameGetLoggedInUsers,
      ToolNameResolveDNS,
      ToolNameGetMountOptions,
      ToolNameGetSystemdUnits,
      ToolNameGetBootTime,
      ToolNameGetBootBlame,
      ToolNameGetBootCriticalChain,
      ToolNameGetNetworkConnections,
      ToolNameGetPowerAnalytics,
      ToolNameGetUserInfo,
      ToolNameGetIPInfo,
      ToolNameGetBlockDevices,
      ToolNameGetSELinuxAppArmorStatus,
      ToolNameGetTimeSyncStatus,
      ToolNameGetRAIDStatus,
      ToolNameGetLogrotateStatus,
      ToolNameGetCronJobs,
      ToolNameGetSystemHealthCheck,
      ToolNameGetSecurityAudit,
      ToolNameGetSMARTHealth,
      ToolNameGetDiskIOMetrics,
      ToolNameGetProcDiagnostics,
      ToolNameGetAuditLogs,
      ToolNameGetFileLocks,
      ToolNameGetSharedMemorySegments,
      ToolNameGetProcessTree,
      ToolNameGetKernelModules,
      ToolNameGetRoutingTable]"

end
