(* ===== verification/Config.thy ===== *)
theory Config
  imports ToolNames
begin

text \<open>
  The configuration of the server (config/config.go): loading, validating and reloading a
  JSON file, the timeout of each tool and the list of disabled tools. The package keeps the
  current configuration in an \<open>atomic.Value\<close> and the path it was loaded from; both are the
  record \<open>cfg_state\<close>, and every operation returns the new state. Decoding JSON is a
  parameter; parsing durations is modelled from \<open>time.ParseDuration\<close>.
\<close>

section \<open>Durations\<close>

text \<open>
  \<open>time.ParseDuration\<close>: a sign, then numbers with an optional fraction and a unit. The
  value of a fraction is computed in floating point by the runtime and comes from
  \<open>w_frac\<close> (digits of the fraction, unit, scale); everything else is integer arithmetic,
  with the 64-bit overflow checks of the runtime.
\<close>

definition duration_unit :: "string \<Rightarrow> nat option" where
  "duration_unit u =
     (if u = ''ns'' then Some 1
      else if u = ''us'' \<or> u = [CHR 0xC2, CHR 0xB5, CHR ''s''] \<or> u = [CHR 0xCE, CHR 0xBC, CHR ''s'']
        then Some 1000
      else if u = ''ms'' then Some 1000000
      else if u = ''s'' then Some 1000000000
      else if u = ''m'' then Some 60000000000
      else if u = ''h'' then Some 3600000000000
      else None)"

fun leadingInt :: "nat \<Rightarrow> string \<Rightarrow> (nat \<times> string) option" where
  "leadingInt x [] = Some (x, [])"
| "leadingInt x (c # s) =
     (case digit_val c of
        None \<Rightarrow> Some (x, c # s)
      | Some d \<Rightarrow>
          if x > 2 ^ 63 div 10 then None
          else if 10 * x + d > 2 ^ 63 then None
          else leadingInt (10 * x + d) s)"

text \<open>\<open>leadingFraction\<close> returns the digits that fit, the power of ten below them, and the rest.\<close>

fun leadingFraction :: "bool \<Rightarrow> nat \<Rightarrow> nat \<Rightarrow> string \<Rightarrow> nat \<times> nat \<times> string" where
  "leadingFraction over x scale [] = (x, scale, [])"
| "leadingFraction over x scale (c # s) =
     (case digit_val c of
        None \<Rightarrow> (x, scale, c # s)
      | Some d \<Rightarrow>
          if over then leadingFraction True x scale s
          else if x > (2 ^ 63 - 1) div 10 then leadingFraction True x scale s
          else if 10 * x + d > 2 ^ 63 then leadingFraction True x scale s
          else leadingFraction False (10 * x + d) (10 * scale) s)"

text \<open>One \<open>number unit\<close> group: its value and the rest of the text, or an error.\<close>

definition duration_group :: "(nat \<Rightarrow> nat \<Rightarrow> nat \<Rightarrow> nat) \<Rightarrow> string \<Rightarrow> (nat \<times> string) option" where
  "duration_group fr s =
     (if s = [] \<or> \<not> (hd s = CHR ''.'' \<or> is_digit (hd s)) then None
      else case leadingInt 0 s of
        None \<Rightarrow> None
      | Some (v, s1) \<Rightarrow>
          let pre = (length s \<noteq> length s1);
              dot = (s1 \<noteq> [] \<and> hd s1 = CHR ''.'');
              (f, scale, s2) = (if dot then leadingFraction False 0 1 (tl s1) else (0, 1, s1));
              post = (dot \<and> length (tl s1) \<noteq> length s2)
          in if \<not> pre \<and> \<not> post then None
             else
               let u = takeWhile (\<lambda>c. \<not> (c = CHR ''.'' \<or> is_digit c)) s2;
                   s3 = drop (length u) s2
               in if u = [] then None
                  else case duration_unit u of
                    None \<Rightarrow> None
                  | Some unit \<Rightarrow>
                      if v > 2 ^ 63 div unit then None
                      else
                        let v1 = v * unit;
                            v2 = (if f > 0 then (v1 + fr f unit scale) mod 2 ^ 64 else v1)
                        in if f > 0 \<and> v2 > 2 ^ 63 then None else Some (v2, s3))"

lemma leadingInt_length: "leadingInt x s = Some (v, r) \<Longrightarrow> length r \<le> length s"
  by (induction x s rule: leadingInt.induct) (auto split: option.splits if_splits)

lemma leadingFraction_length: "leadingFraction ov x sc s = (f, sc', r) \<Longrightarrow> length r \<le> length s"
  by (induction ov x sc s rule: leadingFraction.induct) (auto split: option.splits if_splits)

lemma duration_group_shorter: "duration_group fr s = Some (v, r) \<Longrightarrow> length r < length s"
  by (auto simp: duration_group_def Let_def split: option.splits if_splits prod.splits
        dest!: leadingInt_length leadingFraction_length)

function duration_groups :: "(nat \<Rightarrow> nat \<Rightarrow> nat \<Rightarrow> nat) \<Rightarrow> nat \<Rightarrow> string \<Rightarrow> nat option" where
  "duration_groups fr d s =
     (if s = [] then Some d
      else case duration_group fr s of
        None \<Rightarrow> None
      | Some (v, r) \<Rightarrow>
          let d' = (d + v) mod 2 ^ 64
          in if d' > 2 ^ 63 then None else duration_groups fr d' r)"
  by pat_completeness auto
termination
  by (relation "measure (\<lambda>(fr, d, s). length s)") (auto dest: duration_group_shorter)

declare duration_groups.simps [simp del]

definition ParseDuration :: "(nat \<Rightarrow> nat \<Rightarrow> nat \<Rightarrow> nat) \<Rightarrow> string \<Rightarrow> int option" where
  "ParseDuration fr s0 =
     (let neg = (s0 \<noteq> [] \<and> hd s0 = CHR ''-'');
          s = (if s0 \<noteq> [] \<and> (hd s0 = CHR ''-'' \<or> hd s0 = CHR ''+'') then tl s0 else s0)
      in if s = ''0'' then Some 0
         else if s = [] then None
         else case duration_groups fr 0 s of
             None \<Rightarrow> None
           | Some d \<Rightarrow>
               if neg then Some (- int d)
               else if d > 2 ^ 63 - 1 then None
               else Some (int d))"

section \<open>The configuration and its validation\<close>

text \<open>
  The map of timeouts is an association list with distinct keys, in the order a \<open>range\<close>
  over the map visits it; lookups are \<open>map_of\<close>.
\<close>

record Config =
  LogLevel :: string
  Timeouts :: "(string \<times> string) list"
  Disabled :: "string list"

definition defaultConfig :: Config where
  "defaultConfig =
     \<lparr>LogLevel = ''info'',
      Timeouts =
        [(ToolNameGetCPUInfo, ''5s''),
         (ToolNameGetCPUTemperature, ''5s''),
         (ToolNameGetMemoryInfo, ''5s''),
         (ToolNameGetDiskInfo, ''10s''),
         (ToolNameGetInodeUsage, ''10s''),
         (ToolNameGetNetworkInfo, ''5s''),
         (ToolNameGetSystemInfo, ''5s''),
         (ToolNameGetProcessInfo, ''10s''),
         (ToolNameGetProcessFDs, ''10s''),
         (ToolNameGetEnvironmentVariables, ''5s''),
         (ToolNameGetHardwareBusInfo, ''10s''),
         (ToolNameGetUserAutomation, ''10s''),
         (ToolNameGetDesktopSessionInfo, ''5s''),
         (ToolNameGetManPage, ''15s''),
         (ToolNameGetDockerContainerDetails, ''10s''),
         (ToolNameGetDockerContainerLogs, ''30s''),
         (ToolNameGetDockerContainerStats, ''30s''),
         (ToolNameGetDockerContainerTop, ''10s''),
         (ToolNameGetDockerContainerDiff, ''10s''),
         (ToolNameGetDockerImageHistory, ''10s''),
         (ToolNameGetDockerImageDetails, ''10s''),
         (ToolNameGetDockerNetworks, ''10s''),
         (ToolNameGetDockerVolumes, ''10s''),
         (ToolNameGetDockerSystemInfo, ''10s''),
         (ToolNameGetDockerDiskUsage, ''10s''),
         (ToolNameGetDockerInfo, ''10s''),
         (ToolNameGetSystemSnapshot, ''120s''),
         (ToolNameGetJournalLogs, ''20s''),
         (ToolNameGetServiceStatus, ''10s''),
         (ToolNameGetTopIOProcesses, ''15s''),
         (ToolNameGetFailedLogins, ''10s''),
         (ToolNameGetGPUInfo, ''5s''),
         (ToolNameGetLargestFiles, ''30s''),
         (ToolNamePingHost, ''10s''),
         (ToolNameGetInstalledPackages, ''15s''),
         (ToolNameGetAvailableUpdates, ''15s''),
         (ToolNameGetLoadAverage, ''5s''),
         (ToolNameGetLoggedInUsers, ''5s''),
         (ToolNameResolveDNS, ''10s''),
         (ToolNameGetMountOptions, ''10s''),
         (ToolNameGetSystemdUnits, ''10s''),
         (ToolNameGetBootTime, ''10s''),
         (ToolNameGetBootBlame, ''10s''),
         (ToolNameGetBootCriticalChain, ''10s''),
         (ToolNameGetNetworkConnections, ''10s''),
         (ToolNameGetPowerAnalytics, ''10s''),
         (ToolNameGetUserInfo, ''10s''),
         (ToolNameGetIPInfo, ''10s''),
         (ToolNameGetBlockDevices, ''10s''),
         (ToolNameGetSELinuxAppArmorStatus, ''5s''),
         (ToolNameGetTimeSyncStatus, ''10s''),
         (ToolNameGetRAIDStatus, ''5s''),
         (ToolNameGetLogrotateStatus, ''10s''),
         (ToolNameGetCronJobs, ''10s''),
         (ToolNameGetSystemHealthCheck, ''30s''),
         (ToolNameGetSecurityAudit, ''120s''),
         (ToolNameGetSMARTHealth, ''30s''),
         (ToolNameGetDiskIOMetrics, ''10s''),
         (ToolNameGetProcDiagnostics, ''10s''),
         (ToolNameGetAuditLogs, ''15s''),
         (ToolNameGetFileLocks, ''5s''),
         (ToolNameGetSharedMemorySegments, ''5s''),
         (ToolNameGetProcessTree, ''10s''),
         (ToolNameGetKernelModules, ''5s''),
         (ToolNameGetRoutingTable, ''5s'')],
      Disabled = []\<rparr>"

fun validate_timeouts :: "(nat \<Rightarrow> nat \<Rightarrow> nat \<Rightarrow> nat) \<Rightarrow> (string \<times> string) list \<Rightarrow> goerr option" where
  "validate_timeouts fr [] = None"
| "validate_timeouts fr ((name, d) # ts) =
     (case ParseDuration fr d of
        None \<Rightarrow> Some (ErrWrap (''invalid timeout for '' @ go_quote name) (ErrQuoted ''time: invalid duration'' d))
      | Some _ \<Rightarrow> validate_timeouts fr ts)"

definition validate :: "(nat \<Rightarrow> nat \<Rightarrow> nat \<Rightarrow> nat) \<Rightarrow> Config \<Rightarrow> goerr option" where
  "validate fr c =
     (if LogLevel c \<notin> set [''debug'', ''info'', ''warn'', ''error'']
      then Some (ErrQuoted ''invalid log_level'' (LogLevel c))
      else validate_timeouts fr (Timeouts c))"

section \<open>Loading\<close>

text \<open>
  What \<open>json.Unmarshal\<close> leaves in a zero \<open>Config\<close>: an absent level is the empty string,
  an absent map or slice is nil (\<open>None\<close>). The decoder itself is a parameter.
\<close>

record RawConfig =
  raw_level :: string
  raw_timeouts :: "(string \<times> string) list option"
  raw_disabled :: "string list option"

type_synonym decoder = "string \<Rightarrow> goerr + RawConfig"

definition with_defaults :: "RawConfig \<Rightarrow> Config" where
  "with_defaults r =
     \<lparr>LogLevel = (if raw_level r = [] then LogLevel defaultConfig else raw_level r),
      Timeouts = (case raw_timeouts r of None \<Rightarrow> [] | Some t \<Rightarrow> t),
      Disabled = (case raw_disabled r of None \<Rightarrow> [] | Some d \<Rightarrow> d)\<rparr>"

definition loadFile ::
  "decoder \<Rightarrow> (nat \<Rightarrow> nat \<Rightarrow> nat \<Rightarrow> nat) \<Rightarrow> world \<Rightarrow> string \<Rightarrow> goerr + Config" where
  "loadFile dec fr w path =
     (case w_read w path of
        Inl e \<Rightarrow> Inl e
      | Inr data \<Rightarrow>
          (case dec data of
             Inl e \<Rightarrow> Inl e
           | Inr raw \<Rightarrow>
               let cfg = with_defaults raw in
               (case validate fr cfg of Some e \<Rightarrow> Inl e | None \<Rightarrow> Inr cfg)))"

text \<open>The package variables: \<open>current\<close> (an \<open>atomic.Value\<close>, unset at first) and \<open>filePath\<close>.\<close>

record cfg_state =
  current :: "Config option"
  filePath :: string

definition init_state :: cfg_state where
  "init_state = \<lparr>current = None, filePath = []\<rparr>"

definition envPath :: "world \<Rightarrow> string" where
  "envPath w =
     (case LookupEnv (w_environ w) ''LINUX_MCP_CONFIG'' of
        Some p \<Rightarrow> p
      | None \<Rightarrow>
          (case UserHomeDir (w_environ w) of
             Inl _ \<Rightarrow> []
           | Inr home \<Rightarrow> filepath_Join [home, ''.config'', ''linux-mcp'', ''config.json'']))"

definition loadAtPath ::
  "decoder \<Rightarrow> (nat \<Rightarrow> nat \<Rightarrow> nat \<Rightarrow> nat) \<Rightarrow> world \<Rightarrow> string \<Rightarrow> cfg_state \<Rightarrow> cfg_state \<times> goerr option" where
  "loadAtPath dec fr w path s =
     (if path = [] then (s\<lparr>current := Some defaultConfig\<rparr>, None)
      else
        let s' = s\<lparr>filePath := path\<rparr> in
        (case loadFile dec fr w path of
           Inl e \<Rightarrow>
             if is_not_exist e then (s'\<lparr>current := Some defaultConfig\<rparr>, None) else (s', Some e)
         | Inr cfg \<Rightarrow> (s'\<lparr>current := Some cfg\<rparr>, None)))"

definition Load ::
  "decoder \<Rightarrow> (nat \<Rightarrow> nat \<Rightarrow> nat \<Rightarrow> nat) \<Rightarrow> world \<Rightarrow> cfg_state \<Rightarrow> cfg_state \<times> goerr option" where
  "Load dec fr w s = loadAtPath dec fr w (envPath w) s"

definition Reload ::
  "decoder \<Rightarrow> (nat \<Rightarrow> nat \<Rightarrow> nat \<Rightarrow> nat) \<Rightarrow> world \<Rightarrow> cfg_state \<Rightarrow> cfg_state \<times> goerr option" where
  "Reload dec fr w s =
     (if filePath s = [] then (s, None)
      else (case loadFile dec fr w (filePath s) of
              Inl e \<Rightarrow> (s, Some e)
            | Inr cfg \<Rightarrow> (s\<lparr>current := Some cfg\<rparr>, None)))"

section \<open>What the handlers ask\<close>

definition Get :: "cfg_state \<Rightarrow> Config" where
  "Get s = (case current s of Some c \<Rightarrow> c | None \<Rightarrow> defaultConfig)"

definition lookup_timeout :: "(nat \<Rightarrow> nat \<Rightarrow> nat \<Rightarrow> nat) \<Rightarrow> Config \<Rightarrow> string \<Rightarrow> int option" where
  "lookup_timeout fr c name =
     (case map_of (Timeouts c) name of None \<Rightarrow> None | Some d \<Rightarrow> ParseDuration fr d)"

definition ToolTimeout ::
  "(nat \<Rightarrow> nat \<Rightarrow> nat \<Rightarrow> nat) \<Rightarrow> cfg_state \<Rightarrow> string \<Rightarrow> int \<Rightarrow> int" where
  "ToolTimeout fr s name fallback =
     (case lookup_timeout fr (Get s) name of
        Some d \<Rightarrow> d
      | None \<Rightarrow>
          if fallback > 0 then fallback
          else (case lookup_timeout fr defaultConfig name of
                  Some d \<Rightarrow> d
                | None \<Rightarrow> 30 * 1000000000))"

definition IsDisabled :: "cfg_state \<Rightarrow> string \<Rightarrow> bool" where
  "IsDisabled s name = List.member (Disabled (Get s)) name"

section \<open>Histories of the configuration\<close>

text \<open>
  The process loads the configuration at start and again on every SIGHUP (main.go); between
  two events the file, the environment and so the world may have changed.
\<close>

datatype cfg_event = EvLoad world | EvReload world

fun cfg_perform ::
  "decoder \<Rightarrow> (nat \<Rightarrow> nat \<Rightarrow> nat \<Rightarrow> nat) \<Rightarrow> cfg_event \<Rightarrow> cfg_state \<Rightarrow> cfg_state \<times> goerr option" where
  "cfg_perform dec fr (EvLoad w) s = Load dec fr w s"
| "cfg_perform dec fr (EvReload w) s = Reload dec fr w s"

definition cfg_run ::
  "decoder \<Rightarrow> (nat \<Rightarrow> nat \<Rightarrow> nat \<Rightarrow> nat) \<Rightarrow> cfg_event list \<Rightarrow> cfg_state \<Rightarrow> cfg_state" where
  "cfg_run dec fr es s = fold (\<lambda>e s. fst (cfg_perform dec fr e s)) es s"

definition cfg_good :: "(nat \<Rightarrow> nat \<Rightarrow> nat \<Rightarrow> nat) \<Rightarrow> cfg_state \<Rightarrow> bool" where
  "cfg_good fr s = (case current s of None \<Rightarrow> True | Some c \<Rightarrow> validate fr c = None)"

lemma default_durations:
  "ParseDuration fr ''5s'' = Some 5000000000" "ParseDuration fr ''10s'' = Some 10000000000"
  "ParseDuration fr ''15s'' = Some 15000000000" "ParseDuration fr ''20s'' = Some 20000000000"
  "ParseDuration fr ''30s'' = Some 30000000000" "ParseDuration fr ''120s'' = Some 120000000000"
  by (simp_all add: ParseDuration_def duration_groups.simps duration_group_def duration_unit_def
      is_digit_def digit_val_def byte_def)

lemma default_timeouts:
  "\<forall>(n, d) \<in> set (Timeouts defaultConfig).
     d \<in> {''5s'', ''10s'', ''15s'', ''20s'', ''30s'', ''120s''}"
  by (simp add: defaultConfig_def)

lemma tool_names_have_defaults: "map fst (Timeouts defaultConfig) = tool_names"
  by (simp add: defaultConfig_def tool_names_def)

lemma validate_timeouts_iff:
  "validate_timeouts fr ts = None \<longleftrightarrow> (\<forall>(n, d) \<in> set ts. ParseDuration fr d \<noteq> None)"
  by (induction fr ts rule: validate_timeouts.induct) (auto split: option.splits)

lemma validate_default: "validate fr defaultConfig = None"
proof -
  have "validate_timeouts fr (Timeouts defaultConfig) = None"
    unfolding validate_timeouts_iff using default_timeouts by (auto simp: default_durations)
  then show ?thesis by (simp add: validate_def defaultConfig_def)
qed

lemma default_timeout_range:
  assumes "n \<in> set tool_names"
  shows "\<exists>d. lookup_timeout fr defaultConfig n = Some d \<and> 5000000000 \<le> d \<and> d \<le> 120000000000"
proof -
  from assms have "n \<in> fst ` set (Timeouts defaultConfig)"
    by (simp flip: tool_names_have_defaults)
  then obtain d where "map_of (Timeouts defaultConfig) n = Some d"
    by (metis domIff dom_map_of_conv_image_fst option.exhaust)
  moreover from this have "(n, d) \<in> set (Timeouts defaultConfig)" by (rule map_of_SomeD)
  ultimately show ?thesis
    using default_timeouts by (auto simp: lookup_timeout_def default_durations)
qed

lemma loadFile_valid: "loadFile dec fr w p = Inr c \<Longrightarrow> validate fr c = None"
  by (auto simp: loadFile_def Let_def split: sum.splits option.splits)

interpretation cfg: guarded_store "cfg_perform dec fr" "cfg_good fr" current
  for dec :: decoder and fr
proof
  show "cfg_good fr (fst (cfg_perform dec fr e s))" if "cfg_good fr s" for e s
    using that
    by (cases e)
      (auto simp: Load_def loadAtPath_def Reload_def cfg_good_def Let_def validate_default
        loadFile_valid split: sum.splits)
  show "current (fst (cfg_perform dec fr e s)) = current s"
    if "snd (cfg_perform dec fr e s) \<noteq> None" for e s
    using that
    by (cases e) (auto simp: Load_def loadAtPath_def Reload_def Let_def split: sum.splits if_splits)
qed

lemma cfg_run_good: "cfg_good fr s \<Longrightarrow> cfg_good fr (cfg_run dec fr es s)"
  unfolding cfg_run_def by (rule cfg.history_good)

lemma Get_valid: "cfg_good fr s \<Longrightarrow> validate fr (Get s) = None"
  by (auto simp: cfg_good_def Get_def validate_default split: option.splits)

lemma validate_lookup:
  "validate fr c = None \<Longrightarrow> map_of (Timeouts c) n = Some d \<Longrightarrow>
   \<exists>t. ParseDuration fr d = Some t \<and> lookup_timeout fr c n = Some t"
  by (auto simp: validate_def validate_timeouts_iff lookup_timeout_def split: if_splits
      dest!: map_of_SomeD)

section \<open>Properties\<close>

text \<open>A fraction in exact arithmetic, and a decoder that rejects every text: instances for the parameters.\<close>

definition exact_fraction :: "nat \<Rightarrow> nat \<Rightarrow> nat \<Rightarrow> nat" where
  "exact_fraction f unit scale = f * unit div scale"

definition reject_all :: decoder where
  "reject_all data = Inl (ErrText ''unexpected end of JSON input'')"

text \<open>
  Whatever sequence of loads and reloads the process goes through, with whatever files, the
  configuration the handlers read is a validated one.
\<close>

theorem config_always_valid: "validate fr (Get (cfg_run dec fr es init_state)) = None"
  by (rule Get_valid [OF cfg_run_good]) (simp add: cfg_good_def init_state_def)

text \<open>
  C34. A timeout written in the configuration is the timeout the tool runs with: in every
  reachable state a configured duration parses, and neither the handler's fallback nor the
  built-in default replaces it.
\<close>

theorem configured_timeout_used:
  assumes "map_of (Timeouts (Get (cfg_run dec fr es init_state))) name = Some d"
  shows "\<exists>t. ParseDuration fr d = Some t \<and> ToolTimeout fr (cfg_run dec fr es init_state) name fallback = t"
  using validate_lookup [OF config_always_valid assms] by (auto simp: ToolTimeout_def)

theorem configured_timeout_used_witness:
  "\<exists>t. ParseDuration exact_fraction ''20s'' = Some t \<and>
       ToolTimeout exact_fraction (cfg_run reject_all exact_fraction [] init_state) ''get_journal_logs'' 7 = t"
  by (rule configured_timeout_used) (simp add: cfg_run_def Get_def init_state_def defaultConfig_def)

text \<open>
  Failures leave the configuration in force: after any sequence of loads and reloads each of
  which fails, the handlers read the same configuration as before.
\<close>

theorem failed_loads_keep_config:
  assumes "\<And>e s. e \<in> set es \<Longrightarrow> snd (cfg_perform dec fr e s) \<noteq> None"
  shows "Get (cfg_run dec fr es s) = Get s"
  using cfg.history_view [of es dec fr s] assms by (simp add: cfg_run_def Get_def)

definition broken_world :: world where
  "broken_world =
     \<lparr>w_read = (\<lambda>_. Inr ''{''), w_readdir = (\<lambda>_. Inr []), w_exec = (\<lambda>_ _ _. ([], None)),
      w_look = (\<lambda>_. None), w_environ = [''LINUX_MCP_CONFIG=/c.json''], w_glob = (\<lambda>_. []),
      w_readlink = (\<lambda>_. Inr []), w_stat = (\<lambda>_. None),
      w_upper = id, w_lower = id\<rparr>"

theorem failed_loads_keep_config_witness:
  "Get (cfg_run reject_all exact_fraction
          [EvLoad broken_world, EvLoad broken_world] init_state) = Get init_state"
  by (rule failed_loads_keep_config)
    (auto simp: broken_world_def Load_def envPath_def Cut_def loadAtPath_def loadFile_def reject_all_def)

text \<open>
  With no configuration file every tool has a timeout between 5 seconds and 2 minutes (in
  nanoseconds), even when its handler passes no fallback.
\<close>

theorem default_tool_timeouts:
  assumes "name \<in> set tool_names"
  shows "5 * 10 ^ 9 \<le> ToolTimeout fr (fst (loadAtPath dec fr w [] s)) name 0 \<and>
         ToolTimeout fr (fst (loadAtPath dec fr w [] s)) name 0 \<le> 120 * 10 ^ 9"
  using default_timeout_range [OF assms, of fr]
  by (auto simp: ToolTimeout_def loadAtPath_def Get_def)

theorem default_tool_timeouts_witness:
  "''ping_host'' \<in> set tool_names \<and> ToolTimeout exact_fraction (fst (loadAtPath reject_all exact_fraction broken_world [] init_state)) ''ping_host'' 0 \<le> 120 * 10 ^ 9"
proof -
  have h: "''ping_host'' \<in> set tool_names" by (simp add: tool_names_def)
  from h default_tool_timeouts [OF h] show ?thesis by blast
qed

text \<open>Validation accepts durations that are not positive; the tool's deadline is then in the past.\<close>

lemma nonpositive_timeout_accepted:
  "validate fr \<lparr>LogLevel = ''info'', Timeouts = [(''ping_host'', ''-5s'')], Disabled = []\<rparr> = None \<and>
   ToolTimeout fr \<lparr>current = Some \<lparr>LogLevel = ''info'', Timeouts = [(''ping_host'', ''-5s'')], Disabled = []\<rparr>,
                   filePath = ''/c.json''\<rparr> ''ping_host'' 10 < 0"
proof -
  have "ParseDuration fr ''-5s'' = Some (- 5000000000)"
    by (simp add: ParseDuration_def duration_groups.simps duration_group_def duration_unit_def
        is_digit_def digit_val_def byte_def)
  then show ?thesis by (simp add: validate_def ToolTimeout_def Get_def lookup_timeout_def)
qed

end
