(* ===== verification/Util.thy ===== *)
theory Util
  imports Config
begin

text \<open>
  The helpers of tools/util.go: the error list every output carries, sizes for people, host
  and port, clamping, redaction of environment entries, running commands and reading sysfs
  files. A panic of the code is \<open>None\<close>.
\<close>

section \<open>Error accumulation\<close>

text \<open>
  Every output struct embeds \<open>OutputErrors\<close>; its record extends this one, and the methods
  are polymorphic in the extension.
\<close>

record OutputErrors =
  Errors :: "string list"

definition AppendError :: "string \<Rightarrow> 'a OutputErrors_scheme \<Rightarrow> 'a OutputErrors_scheme" where
  "AppendError s out = out\<lparr>Errors := Errors out @ [s]\<rparr>"

definition ErrorCount :: "'a OutputErrors_scheme \<Rightarrow> nat" where
  "ErrorCount out = length (Errors out)"

definition appendErr :: "string list \<Rightarrow> string \<Rightarrow> goerr option \<Rightarrow> string list" where
  "appendErr errs context err =
     (case err of None \<Rightarrow> errs | Some e \<Rightarrow> errs @ [context @ '': '' @ err_text e])"

definition joinErrs :: "string list \<Rightarrow> goerr option" where
  "joinErrs errs = (if errs = [] then None else Some (ErrText (Join ''; '' errs)))"

definition Add :: "string \<Rightarrow> goerr option \<Rightarrow> 'a OutputErrors_scheme \<Rightarrow> 'a OutputErrors_scheme" where
  "Add context err out = out\<lparr>Errors := appendErr (Errors out) context err\<rparr>"

definition Err :: "'a OutputErrors_scheme \<Rightarrow> goerr option" where
  "Err out = joinErrs (Errors out)"

lemma appendErr_simps [simp, out_simps]:
  "appendErr errs c None = errs"
  "appendErr errs c (Some e) = errs @ [c @ '': '' @ err_text e]"
  by (simp_all add: appendErr_def)

lemma joinErrs_None [simp]: "joinErrs errs = None \<longleftrightarrow> errs = []"
  by (simp add: joinErrs_def)

lemma ErrorCount_AppendError [out_simps]: "ErrorCount (AppendError s out) = Suc (ErrorCount out)"
  by (simp add: ErrorCount_def AppendError_def)

section \<open>Sizes\<close>

text \<open>
  The loop of \<open>HumanSize\<close>, with \<open>div\<close> in 64 bits as in the code, and the formatting of
  \<open>float64(bytes)/float64(div)\<close> with one decimal: \<open>f64_of_nat\<close> is the conversion, the
  division by a power of two is exact, and \<open>%.1f\<close> rounds the exact value to the nearest
  tenth, halves to even.
\<close>

fun human_loop :: "nat \<Rightarrow> int64 \<Rightarrow> nat \<Rightarrow> int64 \<times> nat" where
  "human_loop n d e = (if n \<ge> 1024 then human_loop (n div 1024) (d * 1024) (Suc e) else (d, e))"

declare human_loop.simps [simp del]

definition show_tenths :: "nat \<Rightarrow> string" where
  "show_tenths t = show_nat (t div 10) @ ''.'' @ [digit_char (t mod 10)]"

definition HumanSize :: "int64 \<Rightarrow> string option" where
  "HumanSize bytes =
     (let b = sint bytes in
      if b < 1024 then Some (show_int b @ '' B'')
      else
        let (d, e) = human_loop (nat b div 1024) 1024 0 in
        if e < length ''KMGTPE''
        then Some (show_tenths (rne_div (10 * f64_of_nat (nat b)) (nat (sint d))) @
                   '' '' @ [''KMGTPE'' ! e] @ ''B'')
        else None)"

section \<open>Text helpers\<close>

definition SplitHostPort :: "string \<Rightarrow> string \<times> string \<times> bool" where
  "SplitHostPort s =
     (case LastIndex s '':'' of
        Some i \<Rightarrow> (take i s, drop (Suc i) s, True)
      | None \<Rightarrow> (s, [], False))"

definition ParseProcessField :: "string \<Rightarrow> string" where
  "ParseProcessField s =
     (case CutPrefix s ''users:(('' of
        None \<Rightarrow> s
      | Some trimmed \<Rightarrow>
          (case Index trimmed [CHR 0x22] of
             None \<Rightarrow> s
           | Some start \<Rightarrow>
               (case Cut (drop (Suc start) trimmed) [CHR 0x22] of
                  (before, after, ok) \<Rightarrow> if ok then before else s)))"

definition shortID :: "string \<Rightarrow> string" where
  "shortID ident = (if length ident > 12 then take 12 ident else ident)"

definition requireField :: "string \<Rightarrow> string \<Rightarrow> goerr option" where
  "requireField val name = (if val = [] then Some (ErrText (name @ '' is required'')) else None)"

section \<open>Clamping\<close>

definition clampVal :: "int \<Rightarrow> int \<Rightarrow> int \<Rightarrow> int" where
  "clampVal val lo hi = (if val < lo then lo else if val > hi then hi else val)"

definition clampZero :: "int \<Rightarrow> int \<Rightarrow> int \<Rightarrow> int" where
  "clampZero val def hi = (if val \<le> 0 then def else if val > hi then hi else val)"

text \<open>A nil slice is \<open>None\<close> where the code tells it from an empty one.\<close>

definition nilToEmpty :: "'a list option \<Rightarrow> 'a list" where
  "nilToEmpty s = (case s of None \<Rightarrow> [] | Some xs \<Rightarrow> xs)"

section \<open>Environment entries\<close>

definition sensitiveEnvPatterns :: "string list" where
  "sensitiveEnvPatterns =
     [''SECRET'', ''TOKEN'', ''PASSWORD'', ''CREDENTIAL'', ''API_KEY'', ''PRIVATE_KEY'', ''DATABASE_URL'']"

definition redact_entry :: "string \<Rightarrow> string" where
  "redact_entry e = (case Cut e ''='' of (before, _, ok) \<Rightarrow> if ok then before @ ''=***'' else ''***'')"

definition redactSensitiveEnv :: "string list option \<Rightarrow> string list" where
  "redactSensitiveEnv env = map redact_entry (nilToEmpty env)"

definition isSensitiveEnvVar :: "world \<Rightarrow> string \<Rightarrow> bool" where
  "isSensitiveEnvVar w name =
     list_ex (\<lambda>p. Contains (ToUpper (w_upper w) name) p) sensitiveEnvPatterns"

section \<open>Commands and files\<close>

definition execOutput :: "world \<Rightarrow> ctx \<Rightarrow> string \<Rightarrow> string list \<Rightarrow> string \<times> goerr option" where
  "execOutput w c binary args = (case w_exec w c binary args of (out, err) \<Rightarrow> (TrimSpace out, err))"

definition execLines :: "world \<Rightarrow> ctx \<Rightarrow> string \<Rightarrow> string list \<Rightarrow> goerr + string list" where
  "execLines w c binary args =
     (case execOutput w c binary args of
        (_, Some e) \<Rightarrow> Inl e
      | (out, None) \<Rightarrow> Inr (filter (\<lambda>l. l \<noteq> []) (lines_of out)))"

definition readSysfsFile :: "world \<Rightarrow> string \<Rightarrow> goerr + string" where
  "readSysfsFile w path = (case w_read w path of Inl e \<Rightarrow> Inl e | Inr d \<Rightarrow> Inr (TrimSpace d))"

section \<open>Lemmas\<close>

lemma human_loop_small [simp]: "n < 1024 \<Longrightarrow> human_loop n d e = (d, e)"
  by (subst human_loop.simps) simp

lemma human_loop_step: "n \<ge> 1024 \<Longrightarrow> human_loop n d e = human_loop (n div 1024) (d * 1024) (Suc e)"
  by (subst human_loop.simps) simp

lemma human_loop_value:
  assumes "1024 ^ k \<le> n" "n < 1024 ^ Suc k"
  shows "human_loop n d e = (d * 1024 ^ k, e + k)"
  using assms
proof (induction k arbitrary: n d e)
  case (Suc k)
  have "1024 ^ k \<le> n div 1024"
    using Suc.prems(1) by (simp add: less_eq_div_iff_mult_less_eq mult.commute)
  moreover have "n div 1024 < 1024 ^ Suc k"
    using Suc.prems(2) by (intro less_mult_imp_div_less) (simp add: mult.commute)
  moreover have "1024 \<le> n"
  proof -
    have "1024 * 1 \<le> (1024 :: nat) * 1024 ^ k" by (intro mult_le_mono2) simp
    also have "\<dots> \<le> n" using Suc.prems(1) by simp
    finally show ?thesis by simp
  qed
  ultimately show ?case by (simp add: human_loop_step Suc.IH mult.assoc)
qed simp

lemma power_bracket:
  assumes "0 < n" "2 \<le> (b::nat)"
  obtains k where "b ^ k \<le> n" "n < b ^ Suc k"
  using ex_power_ivl1 [of b n] assms by auto

lemma clampVal_range: "lo \<le> hi \<Longrightarrow> lo \<le> clampVal v lo hi \<and> clampVal v lo hi \<le> hi"
  by (auto simp: clampVal_def)

lemma clampZero_range: "0 < def \<Longrightarrow> def \<le> hi \<Longrightarrow> 0 < clampZero v def hi \<and> clampZero v def hi \<le> hi"
  by (auto simp: clampZero_def)

lemma nilToEmpty_simps [simp]: "nilToEmpty None = []" "nilToEmpty (Some xs) = xs"
  by (simp_all add: nilToEmpty_def)

section \<open>Properties\<close>

lemma HumanSize_large:
  assumes "1024 \<le> sint b"
  obtains e where "e < 6" "1024 ^ Suc e \<le> nat (sint b)" "nat (sint b) < 1024 ^ Suc (Suc e)"
    "HumanSize b = Some (show_tenths (rne_div (10 * f64_of_nat (nat (sint b))) (1024 ^ Suc e)) @
                         '' '' @ [''KMGTPE'' ! e] @ ''B'')"
proof -
  let ?n = "nat (sint b)"
  have "0 < ?n div 1024" using assms by (simp add: div_greater_zero_iff)
  then obtain e where lo: "1024 ^ e \<le> ?n div 1024" and hi: "?n div 1024 < 1024 ^ Suc e"
    by (rule power_bracket [of _ 1024]) auto
  have lo': "1024 ^ Suc e \<le> ?n" using lo by (simp add: less_eq_div_iff_mult_less_eq mult.commute)
  have hi': "?n < 1024 ^ Suc (Suc e)" using hi by (simp add: div_less_iff_less_mult mult.commute)
  have "sint b < 2 ^ 63" using sint_lt [of b] by simp
  then have "(1024::nat) ^ Suc e < 2 ^ 63" using lo' assms by (simp add: nat_less_iff)
  then have "(2::nat) ^ (10 * Suc e) < 2 ^ 63" by (simp only: power_mult) simp
  then have "10 * Suc e < 63" by (rule power_less_imp_less_exp [rotated]) simp
  then have e: "e < 6" by simp
  then have "e \<in> {0, 1, 2, 3, 4, 5}" by auto
  then have d: "nat (sint (1024 * 1024 ^ e :: int64)) = 1024 ^ Suc e" by auto
  have "HumanSize b = Some (show_tenths (rne_div (10 * f64_of_nat ?n) (1024 ^ Suc e)) @
                         '' '' @ [''KMGTPE'' ! e] @ ''B'')"
    using assms e d by (simp add: HumanSize_def human_loop_value [OF lo hi] Let_def nat_power_eq del: power_Suc)
  with e lo' hi' show thesis by (rule that)
qed

text \<open>
  \<open>HumanSize\<close> never indexes past the unit letters: for every 64-bit size, negative ones
  included, it returns a text.
\<close>

theorem HumanSize_total: "HumanSize b \<noteq> None"
proof (cases "1024 \<le> sint b")
  case True
  then show ?thesis by (rule HumanSize_large) simp
next
  case False
  then show ?thesis by (simp add: HumanSize_def Let_def)
qed

text \<open>
  C37. From 1024 bytes on, \<open>HumanSize\<close> picks the unit whose power of 1024 brackets the size,
  and the number it prints is the size in that unit, converted to \<open>float64\<close> and rounded to
  the nearest tenth; it lies between 1.0 and 1024.0.
\<close>

theorem HumanSize_unit:
  assumes "1024 \<le> sint b"
  shows "\<exists>e t. e < 6 \<and> 1024 ^ Suc e \<le> nat (sint b) \<and> nat (sint b) < 1024 ^ Suc (Suc e) \<and>
           t = rne_div (10 * f64_of_nat (nat (sint b))) (1024 ^ Suc e) \<and> 10 \<le> t \<and> t \<le> 10240 \<and>
           HumanSize b = Some (show_tenths t @ '' '' @ [''KMGTPE'' ! e] @ ''B'')"
proof -
  obtain e where e: "e < 6" "1024 ^ Suc e \<le> nat (sint b)" "nat (sint b) < 1024 ^ Suc (Suc e)"
    "HumanSize b = Some (show_tenths (rne_div (10 * f64_of_nat (nat (sint b))) (1024 ^ Suc e)) @
                         '' '' @ [''KMGTPE'' ! e] @ ''B'')"
    using assms by (rule HumanSize_large)
  let ?D = "1024 ^ Suc e :: nat" and ?f = "f64_of_nat (nat (sint b))"
  note f = f64_of_nat_bracket [OF e(2,3)]
  have pos: "0 < ?D" by simp
  have "rne_div (10 * ?D) ?D \<le> rne_div (10 * ?f) ?D" using f(1) by (intro rne_div_mono) auto
  moreover have "rne_div (10 * ?f) ?D \<le> rne_div (10240 * ?D) ?D"
    using f(2) by (intro rne_div_mono) auto
  ultimately have "10 \<le> rne_div (10 * ?f) ?D \<and> rne_div (10 * ?f) ?D \<le> 10240"
    unfolding rne_div_exact [OF pos] by blast
  with e show ?thesis by blast
qed

theorem HumanSize_unit_witness:
  "1024 \<le> sint (1536 :: int64) \<and> HumanSize 1536 = Some ''1.5 KB''"
proof -
  have h: "1024 \<le> sint (1536 :: int64)" by simp
  from HumanSize_unit [OF h] have "HumanSize (1536 :: int64) \<noteq> None" by auto
  moreover have "HumanSize 1536 = Some ''1.5 KB''" by code_simp
  ultimately show ?thesis using h by blast
qed

text \<open>
  \<open>SplitHostPort\<close> succeeds exactly on \<open>host:port\<close> with no colon in the port, and then
  returns these two parts; so it splits bracketed IPv6 addresses at the port as well.
\<close>

theorem SplitHostPort_iff:
  "SplitHostPort s = (host, port, True) \<longleftrightarrow> s = host @ '':'' @ port \<and> CHR '':'' \<notin> set port"
proof
  assume S: "SplitHostPort s = (host, port, True)"
  then obtain i where i: "LastIndex s '':'' = Some i"
    by (auto simp: SplitHostPort_def split: option.splits)
  then obtain a b where "s = a @ CHR '':'' # b" "CHR '':'' \<notin> set b" "i = length a"
    by (auto simp: LastIndex_char_Some)
  with S i show "s = host @ '':'' @ port \<and> CHR '':'' \<notin> set port"
    by (simp add: SplitHostPort_def)
qed (simp add: SplitHostPort_def)

text \<open>The name of an environment entry, if it has one.\<close>

definition env_name :: "string \<Rightarrow> string option" where
  "env_name e = (case Cut e ''='' of (n, _, ok) \<Rightarrow> if ok then Some n else None)"

text \<open>
  Redaction of container and image environments hides every value: the output is a
  function of the variable names alone, so two environments that differ only in values are
  indistinguishable in it.
\<close>

lemma redact_by_names:
  assumes "map env_name env1 = map env_name env2"
  shows "redactSensitiveEnv (Some env1) = redactSensitiveEnv (Some env2)"
proof -
  have "redact_entry e = (case env_name e of Some n \<Rightarrow> n @ ''=***'' | None \<Rightarrow> ''***'')" for e
    by (simp add: redact_entry_def env_name_def split: prod.splits)
  then have "map redact_entry es =
      map (\<lambda>n. case n of Some m \<Rightarrow> m @ ''=***'' | None \<Rightarrow> ''***'') (map env_name es)" for es
    by simp
  with assms show ?thesis by (simp only: redactSensitiveEnv_def nilToEmpty_simps)
qed

text \<open>
  The listening-port owner that \<open>ParseProcessField\<close> extracts from the \<open>users:\<close> column of
  \<open>ss\<close> is the quoted process name, whatever follows it.
\<close>

theorem ParseProcessField_name:
  assumes "CHR 0x22 \<notin> set pre" "CHR 0x22 \<notin> set name"
  shows "ParseProcessField (''users:(('' @ pre @ [CHR 0x22] @ name @ [CHR 0x22] @ rest) = name"
proof -
  have "CutPrefix (''users:(('' @ pre @ [CHR 0x22] @ name @ [CHR 0x22] @ rest) ''users:((''
      = Some (pre @ [CHR 0x22] @ name @ [CHR 0x22] @ rest)"
    by (rule CutPrefix_append)
  then show ?thesis unfolding ParseProcessField_def using assms by simp
qed

end
