(* ===== verification/Handler.thy ===== *)
theory Handler
  imports Util
begin

text \<open>
  What every tool handler goes through (tools/handler.go, and \<open>WithToolTimeout\<close>,
  \<open>collectOrFallback\<close> of tools/util.go): the tool's timeout becomes the deadline of the
  context, a disabled tool is refused before its gather function runs, and an error that
  comes with an output is moved into the output. The interface \<open>toolOutput\<close> of the code is
  the locale \<open>tool_output\<close>, interpreted on the embedded \<open>OutputErrors\<close>.
\<close>

section \<open>The handlers\<close>

type_synonym 'o gather = "ctx \<Rightarrow> 'o result"

text \<open>The log lines of a call: \<open>LogToolCall\<close>, and the one for a nil output with an error.\<close>

datatype log_event = ToolCall string int nat | NilOutput string goerr

definition LogToolCall :: "string \<Rightarrow> int \<Rightarrow> nat \<Rightarrow> log_event" where
  "LogToolCall tool dur errs = ToolCall tool dur errs"

definition WithToolTimeout ::
  "(nat \<Rightarrow> nat \<Rightarrow> nat \<Rightarrow> nat) \<Rightarrow> cfg_state \<Rightarrow> int \<Rightarrow> ctx \<Rightarrow> string \<Rightarrow> int \<Rightarrow> ctx" where
  "WithToolTimeout fr s now c name fallback = with_timeout now c (ToolTimeout fr s name fallback)"

definition gatherEnabled :: "cfg_state \<Rightarrow> ctx \<Rightarrow> string \<Rightarrow> 'o gather \<Rightarrow> 'o result" where
  "gatherEnabled s c name gather =
     (if IsDisabled s name then (None, Some (ErrText ''tool disabled by configuration''))
      else gather c)"

text \<open>
  \<open>handleToolCall\<close>, for any output type with the two methods of \<open>toolOutput\<close>; \<open>dur\<close> is the
  time the gather function took. The result is the output, the error and the log.
\<close>

definition handleToolCall ::
  "(string \<Rightarrow> 'o \<Rightarrow> 'o) \<Rightarrow> ('o \<Rightarrow> nat) \<Rightarrow> (nat \<Rightarrow> nat \<Rightarrow> nat \<Rightarrow> nat) \<Rightarrow> cfg_state \<Rightarrow> int \<Rightarrow> int \<Rightarrow>
   ctx \<Rightarrow> string \<Rightarrow> int \<Rightarrow> 'o gather \<Rightarrow> 'o result \<times> log_event list" where
  "handleToolCall append_error error_count fr s now dur c name fallback gather =
     (case gatherEnabled s (WithToolTimeout fr s now c name fallback) name gather of
        (Some out, err) \<Rightarrow>
          ((Some (case err of None \<Rightarrow> out | Some e \<Rightarrow> append_error (err_text e) out), None),
           [LogToolCall name dur (error_count out)])
      | (None, Some e) \<Rightarrow> ((None, Some e), [LogToolCall name dur 0, NilOutput name e])
      | (None, None) \<Rightarrow> ((None, None), [LogToolCall name dur 0]))"

text \<open>
  \<open>collectOrFallback\<close> dereferences the output when there is no error: with a nil output it
  panics (\<open>None\<close>).
\<close>

definition collectOrFallback ::
  "cfg_state \<Rightarrow> ctx \<Rightarrow> string \<Rightarrow> 'o gather \<Rightarrow> 'o \<Rightarrow> string list \<Rightarrow> ('o \<times> string list) option" where
  "collectOrFallback s c name gather fallback errs =
     (case gatherEnabled s c name gather of
        (_, Some e) \<Rightarrow> Some (fallback, appendErr errs name (Some e))
      | (Some out, None) \<Rightarrow> Some (out, errs)
      | (None, None) \<Rightarrow> None)"

section \<open>The interface of outputs\<close>

locale tool_output =
  fixes append_error :: "string \<Rightarrow> 'o \<Rightarrow> 'o" and errors_of :: "'o \<Rightarrow> string list"
    and error_count :: "'o \<Rightarrow> nat"
  assumes errors_append: "errors_of (append_error m out) = errors_of out @ [m]"
    and count_errors: "error_count out = length (errors_of out)"
begin

lemma enabled_output:
  assumes "\<not> IsDisabled s name" "gather (WithToolTimeout fr s now c name fallback) = (Some out, err)"
  shows "\<exists>out'. fst (handleToolCall append_error error_count fr s now dur c name fallback gather) = (Some out', None)
           \<and> errors_of out' = errors_of out @ (case err of None \<Rightarrow> [] | Some e \<Rightarrow> [err_text e])"
  using assms
  by (auto simp: handleToolCall_def gatherEnabled_def errors_append split: option.splits)

lemma one_channel:
  assumes "fst (handleToolCall append_error error_count fr s now dur c name fallback gather) = (out, err)"
  shows "out = None \<or> err = None"
  using assms by (auto simp: handleToolCall_def split: option.splits prod.splits)

lemma error_reported:
  assumes "\<not> IsDisabled s name" "gather (WithToolTimeout fr s now c name fallback) = (out0, Some e)"
    "fst (handleToolCall append_error error_count fr s now dur c name fallback gather) = (out, err)"
  shows "err = Some e \<or> (\<exists>out'. out = Some out' \<and> err_text e \<in> set (errors_of out'))"
  using assms
  by (cases out0) (auto simp: handleToolCall_def gatherEnabled_def errors_append)

lemma logged_count:
  "\<exists>n. hd (snd (handleToolCall append_error error_count fr s now dur c name fallback gather)) = ToolCall name dur n"
  by (auto simp: handleToolCall_def LogToolCall_def split: option.splits prod.splits)

end

interpretation outputs: tool_output AppendError Errors ErrorCount
  by unfold_locales (simp_all add: AppendError_def ErrorCount_def)

abbreviation run_tool ::
  "(nat \<Rightarrow> nat \<Rightarrow> nat \<Rightarrow> nat) \<Rightarrow> cfg_state \<Rightarrow> int \<Rightarrow> int \<Rightarrow> ctx \<Rightarrow> string \<Rightarrow> int \<Rightarrow>
   ('a OutputErrors_scheme) gather \<Rightarrow> ('a OutputErrors_scheme) result \<times> log_event list" where
  "run_tool \<equiv> handleToolCall AppendError ErrorCount"

text \<open>A tool whose gather function may panic or not return (\<open>None\<close>); a disabled one does neither.\<close>

definition run_partial ::
  "(nat \<Rightarrow> nat \<Rightarrow> nat \<Rightarrow> nat) \<Rightarrow> cfg_state \<Rightarrow> int \<Rightarrow> int \<Rightarrow> ctx \<Rightarrow> string \<Rightarrow> int \<Rightarrow>
   (ctx \<Rightarrow> ('a OutputErrors_scheme) result option) \<Rightarrow>
   (('a OutputErrors_scheme) result \<times> log_event list) option" where
  "run_partial fr s now dur c name fallback gather =
     (if IsDisabled s name then Some (run_tool fr s now dur c name fallback (\<lambda>_. (None, None)))
      else map_option (\<lambda>r. run_tool fr s now dur c name fallback (\<lambda>_. r))
             (gather (WithToolTimeout fr s now c name fallback)))"

section \<open>Properties\<close>

lemma with_timeout_deadline:
  "\<exists>t. deadline (with_timeout now c d) = Some t \<and> t \<le> now + d \<and>
       (\<forall>t0. deadline c = Some t0 \<longrightarrow> t \<le> t0)"
  by (auto simp: with_timeout_def split: option.splits)

text \<open>
  A disabled tool is refused without running its gather function: the caller gets no
  output and the error "tool disabled by configuration", whatever the gather function is.
\<close>

theorem disabled_tool_refused:
  assumes "IsDisabled s name"
  shows "fst (run_tool fr s now dur c name fallback gather) =
           (None, Some (ErrText ''tool disabled by configuration''))"
  using assms by (simp add: handleToolCall_def gatherEnabled_def)

theorem disabled_tool_refused_witness:
  "fst (run_tool exact_fraction \<lparr>current = Some (defaultConfig\<lparr>Disabled := [''ping_host'']\<rparr>), filePath = []\<rparr>
        0 0 \<lparr>deadline = None\<rparr> ''ping_host'' 0 (\<lambda>_. (Some \<lparr>Errors = []\<rparr>, None))) =
     (None, Some (ErrText ''tool disabled by configuration''))"
  by (rule disabled_tool_refused) (simp add: IsDisabled_def Get_def)

text \<open>
  C13. The answer of an enabled tool: with an output, the caller never sees an error, and the
  output is the one of the gather function, unchanged in every field but that the text of the error
  it returned, if any, stands at the end of its list of errors; without an output, the caller sees
  exactly the gather function's error.
\<close>

theorem enabled_tool_answer:
  assumes "\<not> IsDisabled s name"
    "gather (WithToolTimeout fr s now c name fallback) = (out, err)"
  shows "fst (run_tool fr s now dur c name fallback gather) =
           (case out of
              Some o1 \<Rightarrow> (Some (o1\<lparr>Errors := Errors o1 @ (case err of None \<Rightarrow> [] | Some e \<Rightarrow> [err_text e])\<rparr>), None)
            | None \<Rightarrow> (None, err))"
  using assms by (auto simp: handleToolCall_def gatherEnabled_def AppendError_def split: option.splits)

theorem enabled_tool_answer_witness:
  "fst (run_tool exact_fraction init_state 0 0 \<lparr>deadline = None\<rparr> ''ping_host'' 0
     (\<lambda>_. (Some \<lparr>Errors = [''a: b''], \<dots> = ()\<rparr>, Some (ErrText ''c'')))) = (Some \<lparr>Errors = [''a: b'', ''c'']\<rparr>, None)"
  using enabled_tool_answer [of init_state "''ping_host''" "\<lambda>_. (Some \<lparr>Errors = [''a: b''], \<dots> = ()\<rparr>, Some (ErrText ''c''))"
      exact_fraction 0 "\<lparr>deadline = None\<rparr>" 0 "Some \<lparr>Errors = [''a: b'']\<rparr>" "Some (ErrText ''c'')" 0]
  by (simp add: IsDisabled_def Get_def init_state_def defaultConfig_def)

text \<open>
  The gather function runs under a deadline no later than the call's start plus the
  tool's configured timeout, and no later than the caller's own deadline.
\<close>

theorem gather_deadline:
  "\<exists>t. deadline (WithToolTimeout fr s now c name fallback) = Some t \<and>
       t \<le> now + ToolTimeout fr s name fallback \<and> (\<forall>t0. deadline c = Some t0 \<longrightarrow> t \<le> t0)"
  unfolding WithToolTimeout_def by (rule with_timeout_deadline)

theorem gather_deadline_witness:
  "\<exists>t. deadline (WithToolTimeout exact_fraction init_state 5 \<lparr>deadline = Some 7\<rparr> ''ping_host'' 0) = Some t \<and> t \<le> 7"
  using gather_deadline [of exact_fraction init_state 5 "\<lparr>deadline = Some 7\<rparr>" "''ping_host''" 0] by auto

text \<open>
  A gather function that stores its errors in the output and also returns them joined (as
  \<open>return out, out.Err()\<close> does) has them reported twice: the list of errors is followed by all
  of them in one text, while the log line counts them once.
\<close>

theorem errors_reported_twice:
  assumes "\<not> IsDisabled s name" "Errors out \<noteq> []"
    "gather (WithToolTimeout fr s now c name fallback) = (Some out, Err out)"
  shows "\<exists>o2. run_tool fr s now dur c name fallback gather =
                ((Some o2, None), [ToolCall name dur (length (Errors out))]) \<and>
              Errors o2 = Errors out @ [Join ''; '' (Errors out)]"
  using assms
  by (simp add: handleToolCall_def gatherEnabled_def Err_def joinErrs_def AppendError_def
      ErrorCount_def LogToolCall_def)

theorem errors_reported_twice_witness:
  "\<exists>o2. run_tool exact_fraction init_state 0 0 \<lparr>deadline = None\<rparr> ''get_cron_jobs'' 0
          (\<lambda>_. (Some \<lparr>Errors = [''e1'', ''e2'']\<rparr>, Err \<lparr>Errors = [''e1'', ''e2'']\<rparr>)) =
        ((Some o2, None), [ToolCall ''get_cron_jobs'' 0 (length (Errors \<lparr>Errors = [''e1'', ''e2'']\<rparr>))]) \<and>
        Errors o2 = Errors \<lparr>Errors = [''e1'', ''e2'']\<rparr> @ [Join ''; '' (Errors \<lparr>Errors = [''e1'', ''e2'']\<rparr>)]"
  by (rule errors_reported_twice) (simp_all add: IsDisabled_def Get_def init_state_def defaultConfig_def)

end
