(* ===== verification/Proc.thy ===== *)
theory Proc
  imports Handler
begin

text \<open>
  The kernel's diagnostic files (tools/proc.go): the parsers of /proc/interrupts, softirqs,
  vmstat, diskstats, filesystems and slabinfo, and the handler that reads the sections its
  caller asks for. Lines that a parser skips are \<open>None\<close> of its line function; the disk
  statistics parser is an instance of \<open>line_parser\<close>, and is read back from texts in the kernel's format.
\<close>

section \<open>Interrupts\<close>

text \<open>The loops that add up the fields that parse as numbers, in 64 bits.\<close>

definition sum_fields :: "string list \<Rightarrow> uint64" where
  "sum_fields fs =
     foldl (\<lambda>total f. case ParseUint64 f of (v, None) \<Rightarrow> total + v | (_, Some _) \<Rightarrow> total) 0 fs"

record irqLine =
  irq_line :: string
  irq_total :: uint64

definition interrupt_line :: "string \<Rightarrow> irqLine option" where
  "interrupt_line raw =
     (let line = TrimSpace raw in
      if line = [] then None
      else if HasPrefix line ''CPU'' \<or> HasPrefix line ''IWI'' then None
      else
        let fields = Fields line in
        if length fields < 3 then None
        else
          let irqName = fields ! 0 in
          if irqName = [] \<or> last irqName \<noteq> CHR '':'' then None
          else
            let total = sum_fields (butlast (tl fields)); devName = last fields
            in Some \<lparr>irq_line = butlast irqName @ '' '' @ devName, irq_total = total\<rparr>)"

definition interrupt_lines :: "string \<Rightarrow> irqLine list" where
  "interrupt_lines content = List.map_filter interrupt_line (lines_of content)"

definition parseProcInterrupts ::
  "((irqLine \<Rightarrow> irqLine \<Rightarrow> bool) \<Rightarrow> irqLine list \<Rightarrow> irqLine list) \<Rightarrow> string \<Rightarrow> string list" where
  "parseProcInterrupts srt content =
     map irq_line (take 10 (srt (\<lambda>a b. irq_total a > irq_total b) (interrupt_lines content)))"

section \<open>Soft interrupts and vmstat\<close>

record SoftIRQInfo =
  sirq_Type :: string
  sirq_Total :: uint64

definition softirq_line :: "string \<Rightarrow> SoftIRQInfo option" where
  "softirq_line raw =
     (let line = TrimSpace raw in
      if line = [] \<or> HasPrefix line ''CPU'' then None
      else
        let fields = Fields line in
        if length fields < 2 then None
        else Some \<lparr>sirq_Type = TrimSuffix (fields ! 0) '':'', sirq_Total = sum_fields (tl fields)\<rparr>)"

definition parseProcSoftIRQs :: "string \<Rightarrow> SoftIRQInfo list" where
  "parseProcSoftIRQs content = List.map_filter softirq_line (lines_of content)"

definition vmstat_line :: "string \<Rightarrow> (string \<rightharpoonup> uint64) \<Rightarrow> (string \<rightharpoonup> uint64)" where
  "vmstat_line raw metrics =
     (let line = TrimSpace raw in
      if line = [] then metrics
      else
        let fields = Fields line in
        if length fields = 2 then
          (case ParseUint64 (fields ! 1) of
             (v, None) \<Rightarrow> metrics(fields ! 0 \<mapsto> v)
           | (_, Some _) \<Rightarrow> metrics)
        else metrics)"

definition parseProcVMStat :: "string \<Rightarrow> (string \<rightharpoonup> uint64)" where
  "parseProcVMStat content = fold vmstat_line (lines_of content) Map.empty"

section \<open>Disk statistics\<close>

record ProcDiskStat =
  ds_Device :: string
  ds_ReadsCompleted :: uint64
  ds_ReadsMerged :: uint64
  ds_SectorsRead :: uint64
  ds_ReadMs :: uint64
  ds_WritesCompleted :: uint64
  ds_WritesMerged :: uint64
  ds_SectorsWritten :: uint64
  ds_WriteMs :: uint64
  ds_IOsInProgress :: uint64
  ds_IoMs :: uint64
  ds_WeightedIoMs :: uint64

definition diskstat_line :: "string \<Rightarrow> ProcDiskStat option" where
  "diskstat_line raw =
     (let line = TrimSpace raw in
      if line = [] then None
      else
        let fields = Fields line in
        if length fields < 14 then None
        else
          let name = fields ! 2 in
          if HasPrefix name ''loop'' \<or> HasPrefix name ''ram'' \<or> HasPrefix name ''zram'' then None
          else Some
            \<lparr>ds_Device = name,
             ds_ReadsCompleted = uint_or_zero (fields ! 3),
             ds_ReadsMerged = uint_or_zero (fields ! 4),
             ds_SectorsRead = uint_or_zero (fields ! 5),
             ds_ReadMs = uint_or_zero (fields ! 6),
             ds_WritesCompleted = uint_or_zero (fields ! 7),
             ds_WritesMerged = uint_or_zero (fields ! 8),
             ds_SectorsWritten = uint_or_zero (fields ! 9),
             ds_WriteMs = uint_or_zero (fields ! 10),
             ds_IOsInProgress = uint_or_zero (fields ! 11),
             ds_IoMs = uint_or_zero (fields ! 12),
             ds_WeightedIoMs = uint_or_zero (fields ! 13)\<rparr>)"

definition parseProcDiskStats :: "string \<Rightarrow> ProcDiskStat list" where
  "parseProcDiskStats content = List.map_filter diskstat_line (lines_of content)"

section \<open>Filesystems and slabs\<close>

record FilesystemInfo =
  fs_Name :: string
  fs_Nodev :: bool

definition filesystem_line :: "string \<Rightarrow> FilesystemInfo option" where
  "filesystem_line raw =
     (let line = TrimSpace raw in
      if line = [] then None
      else
        let nodev = HasPrefix line ''nodev'';
            line = (if nodev then TrimSpace (TrimPrefix line ''nodev'') else line)
        in if line \<noteq> [] then Some \<lparr>fs_Name = line, fs_Nodev = nodev\<rparr> else None)"

definition parseProcFilesystems :: "string \<Rightarrow> FilesystemInfo list" where
  "parseProcFilesystems content = List.map_filter filesystem_line (lines_of content)"

record SlabInfoEntry =
  slab_Name :: string
  slab_ActiveObjs :: uint64
  slab_NumObjs :: uint64
  slab_ObjSize :: uint64

text \<open>The loop of \<open>parseProcSlabinfo\<close>; the first argument is \<open>sawHeader\<close>.\<close>

fun slab_loop :: "bool \<Rightarrow> string list \<Rightarrow> SlabInfoEntry list" where
  "slab_loop sawHeader [] = []"
| "slab_loop sawHeader (raw # rest) =
     (let line = TrimSpace raw in
      if line = [] then slab_loop sawHeader rest
      else if \<not> sawHeader then slab_loop True rest
      else
        let fields = Fields line in
        if length fields < 4 then slab_loop sawHeader rest
        else
          \<lparr>slab_Name = fields ! 0, slab_ActiveObjs = uint_or_zero (fields ! 1),
           slab_NumObjs = uint_or_zero (fields ! 2), slab_ObjSize = uint_or_zero (fields ! 3)\<rparr>
          # slab_loop sawHeader rest)"

definition parseProcSlabinfo ::
  "((SlabInfoEntry \<Rightarrow> SlabInfoEntry \<Rightarrow> bool) \<Rightarrow> SlabInfoEntry list \<Rightarrow> SlabInfoEntry list) \<Rightarrow>
   string \<Rightarrow> SlabInfoEntry list" where
  "parseProcSlabinfo srt content =
     take 20 (srt (\<lambda>a b. slab_ActiveObjs a > slab_ActiveObjs b) (slab_loop False (lines_of content)))"

section \<open>The handler\<close>

record ProcDiagnosticsOutput = OutputErrors +
  Interrupts :: "string list"
  SoftIRQs :: "SoftIRQInfo list"
  VMStat :: "(string \<rightharpoonup> uint64) option"
  DiskStats :: "ProcDiskStat list"
  Filesystems :: "FilesystemInfo list"
  Version :: string
  SlabInfo :: "SlabInfoEntry list"

definition empty_diagnostics :: ProcDiagnosticsOutput where
  "empty_diagnostics =
     \<lparr>Errors = [], Interrupts = [], SoftIRQs = [], VMStat = None, DiskStats = [],
      Filesystems = [], Version = [], SlabInfo = []\<rparr>"

definition readProcFile :: "world \<Rightarrow> string \<Rightarrow> goerr + string" where
  "readProcFile w path = w_read w path"

definition proc_sections :: "string list" where
  "proc_sections =
     [''interrupts'', ''softirqs'', ''vmstat'', ''diskstats'', ''filesystems'', ''version'', ''slabinfo'']"

definition wanted :: "string \<Rightarrow> string \<Rightarrow> bool" where
  "wanted sections name =
     (if sections = [] then name \<in> set proc_sections
      else name \<in> set (map TrimSpace (split_char (CHR '','') sections)))"

text \<open>
  One of the seven conditional blocks of \<open>GatherProcDiagnostics\<close>: each reads the file of
  /proc named like its section, and stores what its parser makes of it or appends an error.
\<close>

type_synonym gather_state = "ProcDiagnosticsOutput \<times> string list"

definition read_section ::
  "world \<Rightarrow> string \<Rightarrow> string \<Rightarrow> (string \<Rightarrow> ProcDiagnosticsOutput \<Rightarrow> ProcDiagnosticsOutput) \<Rightarrow>
   gather_state \<Rightarrow> gather_state" where
  "read_section w sections name store st =
     (case st of
        (out, errs) \<Rightarrow>
          if wanted sections name then
            (case readProcFile w (''/proc/'' @ name) of
               Inr content \<Rightarrow> (store content out, errs)
             | Inl e \<Rightarrow> (out, appendErr errs name (Some e)))
          else (out, errs))"

definition GatherProcDiagnostics ::
  "((irqLine \<Rightarrow> irqLine \<Rightarrow> bool) \<Rightarrow> irqLine list \<Rightarrow> irqLine list) \<Rightarrow>
   ((SlabInfoEntry \<Rightarrow> SlabInfoEntry \<Rightarrow> bool) \<Rightarrow> SlabInfoEntry list \<Rightarrow> SlabInfoEntry list) \<Rightarrow>
   world \<Rightarrow> string \<Rightarrow> ProcDiagnosticsOutput result" where
  "GatherProcDiagnostics srt srt' w sections =
     (let st = (empty_diagnostics, []);
          st = read_section w sections ''interrupts''
                 (\<lambda>content out. out\<lparr>Interrupts := parseProcInterrupts srt content\<rparr>) st;
          st = read_section w sections ''softirqs''
                 (\<lambda>content out. out\<lparr>SoftIRQs := parseProcSoftIRQs content\<rparr>) st;
          st = read_section w sections ''vmstat''
                 (\<lambda>content out. out\<lparr>VMStat := Some (parseProcVMStat content)\<rparr>) st;
          st = read_section w sections ''diskstats''
                 (\<lambda>content out. out\<lparr>DiskStats := parseProcDiskStats content\<rparr>) st;
          st = read_section w sections ''filesystems''
                 (\<lambda>content out. out\<lparr>Filesystems := parseProcFilesystems content\<rparr>) st;
          st = read_section w sections ''version''
                 (\<lambda>content out. out\<lparr>Version := TrimSpace content\<rparr>) st;
          st = read_section w sections ''slabinfo''
                 (\<lambda>content out. out\<lparr>SlabInfo := parseProcSlabinfo srt' content\<rparr>) st;
          out = (fst st)\<lparr>Errors := snd st\<rparr>
      in (Some out, Err out))"

definition HandleGetProcDiagnostics ::
  "(nat \<Rightarrow> nat \<Rightarrow> nat \<Rightarrow> nat) \<Rightarrow> cfg_state \<Rightarrow> int \<Rightarrow> int \<Rightarrow> ctx \<Rightarrow>
   ((irqLine \<Rightarrow> irqLine \<Rightarrow> bool) \<Rightarrow> irqLine list \<Rightarrow> irqLine list) \<Rightarrow>
   ((SlabInfoEntry \<Rightarrow> SlabInfoEntry \<Rightarrow> bool) \<Rightarrow> SlabInfoEntry list \<Rightarrow> SlabInfoEntry list) \<Rightarrow>
   world \<Rightarrow> string \<Rightarrow> ProcDiagnosticsOutput result \<times> log_event list" where
  "HandleGetProcDiagnostics fr s now dur c srt srt' w input =
     run_tool fr s now dur c ToolNameGetProcDiagnostics 0
       (\<lambda>_. GatherProcDiagnostics srt srt' w (TrimSpace input))"

section \<open>Sums\<close>

lemma sum_fields_foldl:
  "foldl (\<lambda>total f. case ParseUint64 f of (v, None) \<Rightarrow> total + v | (_, Some _) \<Rightarrow> total) (t :: uint64) fs =
   t + sum_fields fs"
proof (induction fs arbitrary: t)
  case (Cons f fs)
  show ?case
    unfolding sum_fields_def foldl_Cons by (subst (1 2) Cons.IH) (auto split: prod.splits option.splits)
qed (simp add: sum_fields_def)

lemma sum_fields_Nil [simp]: "sum_fields [] = 0"
  by (simp add: sum_fields_def)

lemma sum_fields_Cons [simp]:
  "sum_fields (f # fs) =
     (case ParseUint64 f of (v, None) \<Rightarrow> v | (_, Some _) \<Rightarrow> 0) + sum_fields fs"
  unfolding sum_fields_def foldl_Cons
  by (subst sum_fields_foldl [unfolded sum_fields_def]) (auto split: prod.splits option.splits)

lemma sum_fields_append [simp]: "sum_fields (a @ b) = sum_fields a + sum_fields b"
  by (induction a) (auto simp: add.assoc)

lemma sum_fields_counts:
  "(\<And>n. n \<in> set ns \<Longrightarrow> n < 2 ^ 64) \<Longrightarrow> sum_fields (map show_nat ns) = of_nat (sum_list ns)"
  by (induction ns) (auto simp: ParseUint64_def)

lemma sum_fields_words:
  "(\<And>f. f \<in> set fs \<Longrightarrow> snd (ParseUint64 f) \<noteq> None) \<Longrightarrow> sum_fields fs = 0"
proof (induction fs)
  case (Cons f fs)
  then have "snd (ParseUint64 f) \<noteq> None" "sum_fields fs = 0" by simp_all
  then show ?case by (auto split: prod.splits option.splits)
qed simp

section \<open>The sections of the handler\<close>

lemmas proc_section_defs = read_section_def readProcFile_def

text \<open>The errors after a section, and that its result depends on its own file only.\<close>

definition section_error :: "world \<Rightarrow> string \<Rightarrow> string \<Rightarrow> string option" where
  "section_error w sections name =
     (if wanted sections name then
        (case w_read w (''/proc/'' @ name) of Inl e \<Rightarrow> Some (name @ '': '' @ err_text e) | Inr _ \<Rightarrow> None)
      else None)"

lemma read_section_errs:
  "snd (read_section w sections name store st) =
     snd st @ (case section_error w sections name of None \<Rightarrow> [] | Some e \<Rightarrow> [e])"
  by (auto simp: proc_section_defs section_error_def split: prod.splits sum.splits)

lemma read_section_local:
  assumes "wanted sections name \<Longrightarrow> w_read w1 (''/proc/'' @ name) = w_read w2 (''/proc/'' @ name)"
  shows "read_section w1 sections name store st = read_section w2 sections name store st"
  using assms by (auto simp: proc_section_defs split: prod.splits sum.splits)

interpretation softirqs: line_parser parseProcSoftIRQs softirq_line
  by unfold_locales (simp add: parseProcSoftIRQs_def)

interpretation filesystems: line_parser parseProcFilesystems filesystem_line
  by unfold_locales (simp add: parseProcFilesystems_def)

section \<open>A printer for disk statistics\<close>

text \<open>
  The kernel's format, \<open>%4d %7d %s\<close> and the counters: eleven of them, to which newer kernels
  add those of discards and flushes.
\<close>

definition diskstat_counters :: "ProcDiskStat \<Rightarrow> uint64 list" where
  "diskstat_counters d =
     [ds_ReadsCompleted d, ds_ReadsMerged d, ds_SectorsRead d, ds_ReadMs d,
      ds_WritesCompleted d, ds_WritesMerged d, ds_SectorsWritten d, ds_WriteMs d,
      ds_IOsInProgress d, ds_IoMs d, ds_WeightedIoMs d]"

record diskstat_row =
  dr_Major :: nat
  dr_Minor :: nat
  dr_Disk :: ProcDiskStat
  dr_More :: "uint64 list"

definition padded :: "nat \<Rightarrow> string \<Rightarrow> string" where
  "padded width s = replicate (width - length s) (CHR '' '') @ s"

definition print_diskstat :: "diskstat_row \<Rightarrow> string" where
  "print_diskstat r =
     padded 4 (show_nat (dr_Major r)) @ '' '' @ padded 7 (show_nat (dr_Minor r)) @ '' '' @
     Join '' '' (ds_Device (dr_Disk r) # map (\<lambda>c. show_nat (unat c)) (diskstat_counters (dr_Disk r) @ dr_More r))"

definition virtual_device :: "string \<Rightarrow> bool" where
  "virtual_device name = list_ex (HasPrefix name) [''loop'', ''ram'', ''zram'']"

lemma print_diskstat_fields:
  fixes r :: diskstat_row
  assumes "token (ds_Device (dr_Disk r))"
  shows "Fields (print_diskstat r) =
           [show_nat (dr_Major r), show_nat (dr_Minor r), ds_Device (dr_Disk r)] @
           map (\<lambda>c. show_nat (unat c)) (diskstat_counters (dr_Disk r) @ dr_More r)"
    and "Fields (TrimSpace (print_diskstat r)) = Fields (print_diskstat r)" "TrimSpace (print_diskstat r) \<noteq> []"
    and "nl \<notin> set (print_diskstat r)"
proof -
  let ?ts = "ds_Device (dr_Disk r) # map (\<lambda>c. show_nat (unat c)) (diskstat_counters (dr_Disk r) @ dr_More r)"
  let ?mid = "show_nat (dr_Major r) @ ('' '' @ replicate (7 - length (show_nat (dr_Minor r))) (CHR '' '')) @
      show_nat (dr_Minor r) @ '' '' @ Join '' '' ?ts"
  have t: "token t" if "t \<in> set ?ts" for t using that assms by auto
  have line: "print_diskstat r = replicate (4 - length (show_nat (dr_Major r))) (CHR '' '') @ ?mid"
    by (simp add: print_diskstat_def padded_def)
  have "list_all (\<lambda>x. byte x < 0x80) (replicate k (CHR '' ''))" for k by (simp add: byte_def list_all_iff)
  moreover have "is_trimmed (Join '' '' ?ts)" using t by (intro Join_trimmed) auto
  moreover have "is_trimmed (show_nat n)" for n by (simp add: token_trimmed)
  ultimately have mid: "is_trimmed ?mid" by (intro trimmed_append) (simp_all add: byte_def)
  then have trim: "TrimSpace (print_diskstat r) = ?mid" unfolding line by (simp only: TrimSpace_padded TrimSpace_trimmed)
  show "Fields (print_diskstat r) =
           [show_nat (dr_Major r), show_nat (dr_Minor r), ds_Device (dr_Disk r)] @
           map (\<lambda>c. show_nat (unat c)) (diskstat_counters (dr_Disk r) @ dr_More r)"
    unfolding line Fields_padded using Fields_Join [of ?ts, OF t] by simp
  show "Fields (TrimSpace (print_diskstat r)) = Fields (print_diskstat r)"
    unfolding trim unfolding line Fields_padded ..
  show "TrimSpace (print_diskstat r) \<noteq> []" unfolding trim by simp
  have "nl \<notin> set (Join '' '' ?ts)" using t by (rule Join_tokens_no_nl)
  then show "nl \<notin> set (print_diskstat r)"
    using token_no_blank(2) [OF token_show_nat] unfolding line by simp
qed

lemma diskstat_line_printed:
  assumes "token (ds_Device (dr_Disk r))"
  shows "diskstat_line (print_diskstat r) = (if virtual_device (ds_Device (dr_Disk r)) then None else Some (dr_Disk r))"
  using print_diskstat_fields(1-3) [OF assms]
  by (simp add: diskstat_line_def diskstat_counters_def virtual_device_def numeral_nat)

interpretation diskstats: line_parser parseProcDiskStats diskstat_line
  by unfold_locales (simp add: parseProcDiskStats_def)

section \<open>Properties\<close>

text \<open>
  The interrupts listed are the ten busiest: whatever order \<open>sort.Slice\<close> gives equal
  totals, the output names a duplicate-preserving selection of the parsed lines, as many as
  there are up to ten, in descending order of their totals, and no line left out has a greater
  total than one that is listed.
\<close>

theorem interrupts_top_ten:
  assumes "sorts_slices srt"
  shows "\<exists>top rest. parseProcInterrupts srt content = map irq_line top \<and>
           mset (interrupt_lines content) = mset top + mset rest \<and>
           length top = min 10 (length (interrupt_lines content)) \<and>
           sorted (rev (map irq_total top)) \<and>
           (\<forall>a \<in> set top. \<forall>b \<in> set rest. irq_total b \<le> irq_total a)"
  unfolding parseProcInterrupts_def
  using sort_top_desc [OF assms, where k = 10 and f = irq_total and xs = "interrupt_lines content"] by blast

theorem interrupts_top_ten_witness:
  "\<exists>top rest. parseProcInterrupts insertion_sort ''1: 7 timer'' = map irq_line top \<and>
     mset (interrupt_lines ''1: 7 timer'') = mset top + mset rest \<and>
     length top = min 10 (length (interrupt_lines ''1: 7 timer'')) \<and>
     sorted (rev (map irq_total top)) \<and>
     (\<forall>a \<in> set top. \<forall>b \<in> set rest. irq_total b \<le> irq_total a)"
  by (rule interrupts_top_ten) (rule insertion_sort_sorts)

text \<open>
  The total of an interrupt is the sum of its per-CPU counts modulo 2^64, the words of the
  interrupt controller not counted, and it is listed under its name and its last word.
\<close>

theorem interrupt_total:
  assumes "token name" "\<not> HasPrefix name ''CPU''" "\<not> HasPrefix name ''IWI''" "token dev"
    "ns \<noteq> []" "\<And>n. n \<in> set ns \<Longrightarrow> n < 2 ^ 64"
    "\<And>c. c \<in> set controller \<Longrightarrow> token c \<and> snd (ParseUint64 c) \<noteq> None"
  shows "interrupt_line (Join '' '' ([name @ '':''] @ map show_nat ns @ controller @ [dev])) =
           Some \<lparr>irq_line = name @ '' '' @ dev, irq_total = of_nat (sum_list ns)\<rparr>"
proof -
  let ?ts = "[name @ '':''] @ map show_nat ns @ controller @ [dev]"
  have "token (name @ '':'')" using assms(1) by (simp add: token_def printable_def byte_def)
  then have t: "token t" if "t \<in> set ?ts" for t using that assms by auto
  have f: "Fields (Join '' '' ?ts) = ?ts" "TrimSpace (Join '' '' ?ts) = Join '' '' ?ts"
    using t by (blast intro: Fields_Join TrimSpace_Join)+
  have ne: "Join '' '' ?ts \<noteq> []" using Join_tokens_Nil [of ?ts, OF t] by simp
  obtain x y where xy: "map show_nat ns @ controller @ [dev] = x # y" using assms(5) by (cases ns) auto
  have "Join '' '' ?ts = name @ '':'' @ '' '' @ Join '' '' (map show_nat ns @ controller @ [dev])"
    using xy by (simp add: Join_Cons)
  moreover have "\<not> prefix p (name @ '':'' @ r)" if "\<not> prefix p name" "CHR '':'' \<notin> set p" for p r
    using that by (auto simp: prefix_append prefix_Cons)
  ultimately have p: "\<not> HasPrefix (Join '' '' ?ts) ''CPU''" "\<not> HasPrefix (Join '' '' ?ts) ''IWI''"
    using assms(2,3) by simp_all
  have "sum_fields (map show_nat ns @ controller) = of_nat (sum_list ns)"
    using assms(6,7) sum_fields_words [of controller] by (simp add: sum_fields_counts)
  moreover have "\<not> length ?ts < 3" using assms(5) by (cases ns) auto
  ultimately show ?thesis
    unfolding interrupt_line_def using f p ne by (simp add: butlast_append Let_def)
qed

theorem interrupt_total_witness:
  "interrupt_line (Join '' '' ([''24'' @ '':''] @ map show_nat [18446744073709551615, 3] @ [''PCI-MSI''] @ [''eth0''])) =
     Some \<lparr>irq_line = ''24'' @ '' '' @ ''eth0'', irq_total = of_nat (sum_list [18446744073709551615, 3])\<rparr>"
  by (rule interrupt_total) (auto simp: token_def printable_def byte_def ParseUint64_def ParseUint_def digit_val_def)

text \<open>
  A controller's hardware interrupt number is a number too: where the kernel prints it as a
  word of its own it is added to the counts.
\<close>

lemma hwirq_counted:
  "interrupt_line ''11: 5 7 GICv2 29 timer'' = Some \<lparr>irq_line = ''11 timer'', irq_total = 41\<rparr>"
  by code_simp

text \<open>Only one header line of slabinfo is skipped, and the file has two.\<close>

lemma slab_second_header:
  "slab_loop False [''slabinfo - version: 2.1'', ''# name <active_objs> <num_objs> <objsize>'', ''dentry 5 6 192''] =
     [\<lparr>slab_Name = ''#'', slab_ActiveObjs = 0, slab_NumObjs = 0, slab_ObjSize = 0\<rparr>,
      \<lparr>slab_Name = ''dentry'', slab_ActiveObjs = 5, slab_NumObjs = 6, slab_ObjSize = 192\<rparr>]"
  by code_simp

text \<open>
  C35. Of a /proc/diskstats text in the kernel's format, with any device numbers and any further counters at the
  ends of its lines, the parser returns exactly the devices that are no loop, ram or zram device,
  in the order of the file, each with its eleven counters.
\<close>

theorem diskstats_roundtrip:
  assumes "\<And>r. r \<in> set rows \<Longrightarrow> token (ds_Device (dr_Disk r))"
  shows "parseProcDiskStats (text_of print_diskstat rows) =
           filter (\<lambda>d. \<not> virtual_device (ds_Device d)) (map dr_Disk rows)"
proof -
  have "parseProcDiskStats (text_of print_diskstat rows) = List.map_filter (\<lambda>r. diskstat_line (print_diskstat r)) rows"
    using assms by (intro diskstats.parse_text_of) (auto simp: diskstat_line_def print_diskstat_fields(4))
  also have "\<dots> = filter (\<lambda>d. \<not> virtual_device (ds_Device d)) (map dr_Disk rows)"
    using assms by (induction rows) (simp_all add: diskstat_line_printed)
  finally show ?thesis .
qed

theorem diskstats_roundtrip_witness:
  "parseProcDiskStats (text_of print_diskstat
     [\<lparr>dr_Major = 7, dr_Minor = 0, dr_Disk = ProcDiskStat.make ''loop0'' 1 2 3 4 5 6 7 8 9 10 11, dr_More = []\<rparr>,
      \<lparr>dr_Major = 259, dr_Minor = 1, dr_Disk = ProcDiskStat.make ''nvme0n1p1'' 1 2 3 4 5 6 7 8 9 10 11, dr_More = [0, 0]\<rparr>]) =
     [ProcDiskStat.make ''nvme0n1p1'' 1 2 3 4 5 6 7 8 9 10 11]"
  by (subst diskstats_roundtrip)
    (auto simp: virtual_device_def ProcDiskStat.defs token_def printable_def byte_def)

text \<open>
  C36. The handler always returns an output, and its errors are exactly those of the wanted
  sections whose file cannot be read, in the order of the sections; the returned error is
  nil exactly when there are none.
\<close>

theorem gather_proc_errors:
  "\<exists>out. GatherProcDiagnostics srt srt' w sections = (Some out, joinErrs (Errors out)) \<and>
     Errors out = List.map_filter (section_error w sections) proc_sections"
  by (simp add: GatherProcDiagnostics_def Let_def read_section_errs Err_def proc_sections_def
      empty_diagnostics_def split: option.splits)

text \<open>
  A call reads nothing but the files of the sections it asks for: two systems that agree
  on these files give the same output and the same error, whatever else differs.
\<close>

theorem gather_proc_reads_wanted:
  assumes "\<And>name. name \<in> set proc_sections \<Longrightarrow> wanted sections name \<Longrightarrow>
             w_read w1 (''/proc/'' @ name) = w_read w2 (''/proc/'' @ name)"
  shows "GatherProcDiagnostics srt srt' w1 sections = GatherProcDiagnostics srt srt' w2 sections"
proof -
  have "read_section w1 sections name store st = read_section w2 sections name store st"
    if "name \<in> set proc_sections" for name store st
    using assms that by (intro read_section_local)
  then show ?thesis by (simp add: GatherProcDiagnostics_def Let_def proc_sections_def)
qed

theorem gather_proc_reads_wanted_witness:
  "GatherProcDiagnostics insertion_sort insertion_sort
      (broken_world\<lparr>w_read := \<lambda>p. if p = ''/proc/version'' then Inr ''Linux 6.1'' else Inl (ErrText ''x'')\<rparr>) '' version'' =
   GatherProcDiagnostics insertion_sort insertion_sort
      (broken_world\<lparr>w_read := \<lambda>p. if p = ''/proc/version'' then Inr ''Linux 6.1'' else Inr ''y''\<rparr>) '' version''"
proof (rule gather_proc_reads_wanted)
  have "set (map TrimSpace (split_char (CHR '','') '' version'')) = {''version''}" by code_simp
  then have "wanted '' version'' name \<longleftrightarrow> name = ''version''" for name by (simp add: wanted_def)
  then show "w_read (broken_world\<lparr>w_read := \<lambda>p. if p = ''/proc/version'' then Inr ''Linux 6.1'' else Inl (ErrText ''x'')\<rparr>) (''/proc/'' @ name) =
        w_read (broken_world\<lparr>w_read := \<lambda>p. if p = ''/proc/version'' then Inr ''Linux 6.1'' else Inr ''y''\<rparr>) (''/proc/'' @ name)"
    if "wanted '' version'' name" for name using that by simp
qed

end
