(* ===== verification/GoFloat.thy ===== *)
theory GoFloat
  imports GoRuntime
begin

text \<open>
  \<open>float64\<close> as far as the code uses it: rounding of an exact value, addition, multiplication
  and division, and \<open>strconv.ParseFloat\<close>. Zero has one sign, and \<open>ParseFloat\<close> has no
  hexadecimal syntax, which none of the files and commands that are read prints.
\<close>

section \<open>Rounding\<close>

text \<open>
  The nearest \<open>float64\<close>, halves to even: \<open>2^1074\<close> is the inverse of the smallest positive
  value, and values from \<open>2^1024\<close> on are infinite.
\<close>

definition rne :: "rat \<Rightarrow> int" where
  "rne x =
     (let f = \<lfloor>x\<rfloor>; d = x - of_int f
      in if 2 * d < 1 then f else if 2 * d > 1 then f + 1 else if even f then f else f + 1)"

definition f64_round :: "rat \<Rightarrow> f64" where
  "f64_round r =
     (let n = \<bar>r\<bar> * 2 ^ 1074; u = ulp_of (nat \<lfloor>n\<rfloor>); v = rne (n / of_nat u) * int u
      in if v \<ge> 2 ^ 2098 then (if r < 0 then NegInf else PosInf)
         else Fin (sgn r * (of_int v / 2 ^ 1074)))"

section \<open>Arithmetic\<close>

fun f64_add :: "f64 \<Rightarrow> f64 \<Rightarrow> f64" where
  "f64_add (Fin x) (Fin y) = f64_round (x + y)"
| "f64_add NaN y = NaN"
| "f64_add x NaN = NaN"
| "f64_add PosInf NegInf = NaN"
| "f64_add NegInf PosInf = NaN"
| "f64_add PosInf y = PosInf"
| "f64_add NegInf y = NegInf"
| "f64_add x y = y"

definition f64_inf_sign :: "bool \<Rightarrow> f64" where
  "f64_inf_sign pos = (if pos then PosInf else NegInf)"

fun f64_mul :: "f64 \<Rightarrow> f64 \<Rightarrow> f64" where
  "f64_mul (Fin x) (Fin y) = f64_round (x * y)"
| "f64_mul NaN y = NaN"
| "f64_mul x NaN = NaN"
| "f64_mul (Fin x) y = (if x = 0 then NaN else f64_inf_sign ((0 < x) = (y = PosInf)))"
| "f64_mul x (Fin y) = (if y = 0 then NaN else f64_inf_sign ((0 < y) = (x = PosInf)))"
| "f64_mul x y = f64_inf_sign (x = y)"

fun f64_div :: "f64 \<Rightarrow> f64 \<Rightarrow> f64" where
  "f64_div (Fin x) (Fin y) =
     (if y = 0 then (if x = 0 then NaN else f64_inf_sign (0 < x)) else f64_round (x / y))"
| "f64_div NaN y = NaN"
| "f64_div x NaN = NaN"
| "f64_div (Fin x) y = Fin 0"
| "f64_div x (Fin y) = f64_inf_sign ((0 \<le> y) = (x = PosInf))"
| "f64_div x y = NaN"

fun f64_neg :: "f64 \<Rightarrow> f64" where
  "f64_neg (Fin x) = Fin (- x)"
| "f64_neg NaN = NaN"
| "f64_neg PosInf = NegInf"
| "f64_neg NegInf = PosInf"

definition f64_sub :: "f64 \<Rightarrow> f64 \<Rightarrow> f64" where
  "f64_sub x y = f64_add x (f64_neg y)"

text \<open>
  The conversion to \<open>int\<close> truncates; out of range, and for values that are no number, the
  language leaves the result to the implementation, and amd64 gives the smallest integer.
\<close>

definition f64_to_int :: "f64 \<Rightarrow> int" where
  "f64_to_int x =
     (case x of
        Fin r \<Rightarrow>
          let t = (if r < 0 then - \<lfloor>- r\<rfloor> else \<lfloor>r\<rfloor>)
          in if - (2 ^ 63) \<le> t \<and> t < 2 ^ 63 then t else - (2 ^ 63)
      | _ \<Rightarrow> - (2 ^ 63))"

text \<open>\<open>%.Nf\<close>: the exact value rounded to N decimals, halves to even.\<close>

definition show_fixed :: "nat \<Rightarrow> f64 \<Rightarrow> string" where
  "show_fixed d x =
     (case x of
        NaN \<Rightarrow> ''NaN''
      | PosInf \<Rightarrow> ''+Inf''
      | NegInf \<Rightarrow> ''-Inf''
      | Fin r \<Rightarrow>
          let n = nat (rne (\<bar>r\<bar> * 10 ^ d)); digits = show_nat n;
              padded = replicate (Suc d - length digits) (CHR ''0'') @ digits;
              k = length padded - d
          in (if r < 0 then ''-'' else []) @ take k padded @
             (if d = 0 then [] else ''.'' @ drop k padded))"

section \<open>ParseFloat\<close>

text \<open>The exponent after the mantissa: its value, or a syntax error; digits past 10000 do not count.\<close>

definition float_exponent :: "string \<Rightarrow> int option" where
  "float_exponent s =
     (case s of
        [] \<Rightarrow> Some 0
      | c # r \<Rightarrow>
          if c = CHR ''e'' \<or> c = CHR ''E'' then
            let neg = (r \<noteq> [] \<and> hd r = CHR ''-'');
                ds = (if r \<noteq> [] \<and> (hd r = CHR ''+'' \<or> hd r = CHR ''-'') then tl r else r);
                e = foldl (\<lambda>e c. if e < 10000 then 10 * e + int (the (digit_val c)) else e) 0 ds
            in if ds = [] \<or> \<not> list_all is_digit ds then None else Some (if neg then - e else e)
          else None)"

definition float_special :: "string \<Rightarrow> f64 option" where
  "float_special s =
     (let sign = (s \<noteq> [] \<and> (hd s = CHR ''+'' \<or> hd s = CHR ''-''));
          body = map ascii_lower (if sign then tl s else s)
      in if body = ''inf'' \<or> body = ''infinity'' then Some (if hd s = CHR ''-'' then NegInf else PosInf)
         else if \<not> sign \<and> body = ''nan'' then Some NaN
         else None)"

definition ParseFloat :: "string \<Rightarrow> f64 \<times> num_err option" where
  "ParseFloat s =
     (case float_special s of
        Some v \<Rightarrow> (v, None)
      | None \<Rightarrow>
          let neg = (s \<noteq> [] \<and> hd s = CHR ''-'');
              body = (if s \<noteq> [] \<and> (hd s = CHR ''+'' \<or> hd s = CHR ''-'') then tl s else s);
              a = takeWhile is_digit body; r = dropWhile is_digit body;
              point = (r \<noteq> [] \<and> hd r = CHR ''.'');
              b = (if point then takeWhile is_digit (tl r) else []);
              r' = (if point then dropWhile is_digit (tl r) else r)
          in if a @ b = [] then (Fin 0, Some ErrSyntax)
             else (case float_exponent r' of
                     None \<Rightarrow> (Fin 0, Some ErrSyntax)
                   | Some e \<Rightarrow>
                       let v = of_nat (dec_value 0 (a @ b)) * 10 powi (e - int (length b));
                           x = f64_round (if neg then - v else v)
                       in (x, if x = PosInf \<or> x = NegInf then Some ErrRange else None)))"

section \<open>Sscanf\<close>

text \<open>
  \<open>fmt.Sscanf\<close> for the formats the code uses. A verb skips blanks and takes the longest
  number there; a text without blanks must be there as it is, and a blank matches one blank or
  more, or the end. The values scanned before the first mismatch are kept.
\<close>

datatype scan_item = ScanInt | ScanFloat | ScanText string | ScanBlank
datatype scan_value = IntVal int | FloatVal f64

definition skip_blanks :: "string \<Rightarrow> string" where
  "skip_blanks s = dropWhile (\<lambda>c. c = CHR '' '' \<or> byte c = 9 \<or> byte c = 13) s"

definition split_sign :: "string \<Rightarrow> string \<times> string" where
  "split_sign s =
     (case s of [] \<Rightarrow> ([], []) | c # r \<Rightarrow> if c = CHR ''+'' \<or> c = CHR ''-'' then ([c], r) else ([], s))"

text \<open>\<open>%d\<close>: the number and the rest.\<close>

definition scan_int :: "string \<Rightarrow> (int \<times> string) option" where
  "scan_int s =
     (case split_sign (skip_blanks s) of
        (sign, body) \<Rightarrow>
          let ds = takeWhile is_digit body
          in if ds = [] then None
             else (case ParseInt 64 (sign @ ds) of
                     (v, None) \<Rightarrow> Some (v, dropWhile is_digit body)
                   | (_, Some _) \<Rightarrow> None))"

text \<open>\<open>%f\<close>: sign, digits, fraction and exponent, or one of the special words.\<close>

definition float_token :: "string \<Rightarrow> string \<times> string" where
  "float_token s =
     (let low = map ascii_lower (take 3 s) in
      case split_sign s of
        (sign, body) \<Rightarrow>
          if low = ''nan'' then (take 3 s, drop 3 s)
          else if map ascii_lower (take 3 body) = ''inf'' then (sign @ take 3 body, drop 3 body)
          else
            let a = takeWhile is_digit body; r = dropWhile is_digit body;
                point = (r \<noteq> [] \<and> hd r = CHR ''.'');
                b = (if point then CHR ''.'' # takeWhile is_digit (tl r) else []);
                r' = (if point then dropWhile is_digit (tl r) else r)
            in if r' \<noteq> [] \<and> (hd r' = CHR ''e'' \<or> hd r' = CHR ''E'') then
                 (case split_sign (tl r') of
                    (es, eb) \<Rightarrow> (sign @ a @ b @ [hd r'] @ es @ takeWhile is_digit eb, dropWhile is_digit eb))
               else (sign @ a @ b, r'))"

definition scan_float :: "string \<Rightarrow> (f64 \<times> string) option" where
  "scan_float s =
     (case float_token (skip_blanks s) of
        (tok, rest) \<Rightarrow>
          (case ParseFloat tok of (v, None) \<Rightarrow> Some (v, rest) | (_, Some _) \<Rightarrow> None))"

fun Sscanf :: "scan_item list \<Rightarrow> string \<Rightarrow> scan_value list" where
  "Sscanf [] s = []"
| "Sscanf (ScanInt # fs) s =
     (case scan_int s of None \<Rightarrow> [] | Some (v, rest) \<Rightarrow> IntVal v # Sscanf fs rest)"
| "Sscanf (ScanFloat # fs) s =
     (case scan_float s of None \<Rightarrow> [] | Some (v, rest) \<Rightarrow> FloatVal v # Sscanf fs rest)"
| "Sscanf (ScanText t # fs) s = (case CutPrefix s t of None \<Rightarrow> [] | Some rest \<Rightarrow> Sscanf fs rest)"
| "Sscanf (ScanBlank # fs) s =
     (let rest = skip_blanks s in if rest = s \<and> s \<noteq> [] then [] else Sscanf fs rest)"

text \<open>A variable scanned with \<open>%d\<close> or \<open>%f\<close> keeps its value when nothing is scanned.\<close>

definition scanned_int :: "string \<Rightarrow> int \<Rightarrow> int" where
  "scanned_int s old = (case scan_int s of None \<Rightarrow> old | Some (v, _) \<Rightarrow> v)"

definition scanned_float :: "string \<Rightarrow> f64 \<Rightarrow> f64" where
  "scanned_float s old = (case scan_float s of None \<Rightarrow> old | Some (v, _) \<Rightarrow> v)"

section \<open>Lemmas\<close>

lemma rne_of_int [simp]: "rne (of_int i) = i"
  by (simp add: rne_def)

lemma rne_mono: "x \<le> y \<Longrightarrow> rne x \<le> rne y"
proof -
  assume le: "x \<le> y"
  then have fl: "\<lfloor>x\<rfloor> \<le> \<lfloor>y\<rfloor>" by (rule floor_mono)
  show ?thesis
  proof (cases "\<lfloor>x\<rfloor> = \<lfloor>y\<rfloor>")
    case True
    with le show ?thesis by (auto simp: rne_def Let_def)
  next
    case False
    with fl have "\<lfloor>x\<rfloor> + 1 \<le> \<lfloor>y\<rfloor>" by simp
    then show ?thesis by (auto simp: rne_def Let_def)
  qed
qed

lemma f64_round_not_nan [simp]: "f64_round r \<noteq> NaN"
  by (simp add: f64_round_def Let_def)

text \<open>Integers below 2^53 are exact.\<close>

lemma ulp_divides:
  assumes "n < 2 ^ (53 + k)"
  shows "ulp_of n dvd 2 ^ k"
proof (cases "ulp_of n = 1")
  case False
  obtain j where j: "ulp_of n = 2 ^ j" using ulp_of_power by blast
  have "ulp_of n * 2 ^ 52 \<le> n" using ulp_of_le [of n] False by simp
  then have "(2::nat) ^ (j + 52) < 2 ^ (53 + k)" using assms j by (simp add: power_add)
  then have "j + 52 < 53 + k" by (rule power_less_imp_less_exp [rotated]) simp
  then show ?thesis unfolding j by (intro le_imp_power_dvd) simp
qed simp

lemma f64_round_int:
  assumes "\<bar>i\<bar> < 2 ^ 53"
  shows "f64_round (of_int i) = Fin (of_int i)"
proof -
  define p :: nat where "p = 2 ^ 1074"
  define m where "m = nat \<bar>i\<bar>"
  have p: "0 < p" by (simp add: p_def)
  have m: "m < 2 ^ 53" using assms by (simp add: m_def nat_less_iff)
  have n: "\<bar>of_int i :: rat\<bar> * 2 ^ 1074 = of_nat (m * p)"
    by (simp add: m_def p_def)
  have fl: "nat \<lfloor>of_nat (m * p) :: rat\<rfloor> = m * p" by (metis floor_of_nat nat_int)
  let ?u = "ulp_of (m * p)"
  have "m * p < 2 ^ 53 * p" using m p by simp
  then have "m * p < 2 ^ (53 + 1074)" unfolding p_def power_add .
  then have "?u dvd p" unfolding p_def by (rule ulp_divides)
  then obtain q where q: "m * p = ?u * q" by (meson dvd_def dvd_mult)
  have u: "0 < ?u" using ulp_of_power [of "m * p"] by (metis zero_less_numeral zero_less_power)
  have "(of_nat (m * p) :: rat) / of_nat ?u = of_int (int q)"
    using u by (subst q) simp
  then have v: "rne (of_nat (m * p) / of_nat ?u) * int ?u = int (m * p)"
    by (simp only: rne_of_int) (subst q, simp)
  have "int (m * p) < 2 ^ 2098"
  proof -
    have "m * p < 2 ^ (53 + 1074)" by fact
    also have "(2::nat) ^ (53 + 1074) \<le> 2 ^ 2098" by (rule power_increasing) simp_all
    finally show ?thesis by (metis of_nat_less_iff of_nat_numeral of_nat_power)
  qed
  then have big: "\<not> 2 ^ 2098 \<le> int (m * p)" by linarith
  have quot: "of_int (int (m * p)) / 2 ^ 1074 = (of_nat m :: rat)"
    using p by (simp add: p_def)
  have sg: "sgn (of_int i :: rat) * of_nat m = of_int i"
    by (simp add: m_def sgn_if)
  show ?thesis
    unfolding f64_round_def Let_def n fl v if_not_P [OF big] quot sg ..
qed

lemma f64_round_zero [simp]: "f64_round 0 = Fin 0"
  using f64_round_int [of 0] by simp

text \<open>A decimal number below 2^53 is read exactly.\<close>

lemma digit_no_letter:
  assumes "digit_val (hd s) \<noteq> None" "s \<noteq> []"
  shows "map ascii_lower s \<noteq> c # ''nf'' @ t \<or> c \<noteq> CHR ''i''" "map ascii_lower s \<noteq> ''nan''"
proof -
  obtain d r where s: "s = d # r" using assms(2) by (cases s) auto
  have "ascii_lower d = d" "d \<noteq> CHR ''i''" "d \<noteq> CHR ''n''"
    using assms(1) s by (auto simp: digit_val_def ascii_lower_def byte_def split: if_splits)
  then show "map ascii_lower s \<noteq> c # ''nf'' @ t \<or> c \<noteq> CHR ''i''" "map ascii_lower s \<noteq> ''nan''"
    using s by auto
qed

lemma float_special_show_nat: "float_special (show_nat n) = None"
  using digit_no_letter(1) [OF hd_show_nat show_nat_ne, of n "CHR ''i''" "[]"]
    digit_no_letter(1) [OF hd_show_nat show_nat_ne, of n "CHR ''i''" "''inity''"]
    digit_no_letter(2) [OF hd_show_nat show_nat_ne, of n]
  by (simp add: float_special_def)

lemma ParseFloat_show_nat:
  assumes "n < 2 ^ 53"
  shows "ParseFloat (show_nat n) = (Fin (of_nat n), None)"
proof -
  have d: "list_all is_digit (show_nat n)" using show_nat_digits by (simp add: is_digit_def [abs_def])
  then have t: "takeWhile is_digit (show_nat n) = show_nat n" "dropWhile is_digit (show_nat n) = []"
    "\<not> (\<exists>c \<in> set (show_nat n). \<not> is_digit c)"
    by (auto simp: list_all_iff)
  have "f64_round (of_int (int n)) = Fin (of_int (int n))" using assms by (intro f64_round_int) simp
  then have r: "f64_round (of_nat n) = Fin (of_nat n)" by simp
  have e: "float_exponent [] = Some 0" by (simp add: float_exponent_def)
  show ?thesis by (simp add: ParseFloat_def float_special_show_nat t e r Let_def)
qed

end
