(* ===== verification/Process.thy ===== *)
theory Process
  imports Handler GoFloat
begin

text \<open>
  Processes (tools/process.go): the process list and its orders, the I/O ranking of pidstat,
  open file descriptors, and the process tree read from /proc. The process library (gopsutil)
  is a parameter, and so is the order in which Go ranges over a map. A panic, or a recursion
  that does not end, is \<open>None\<close>.
\<close>

section \<open>The process list\<close>

text \<open>A handle of the library, with what its methods return; the code ignores most errors.\<close>

record gproc =
  gp_Pid :: int
  gp_Name :: string
  gp_CPUPercent :: f64
  gp_MemoryPercent :: f64
  gp_Status :: "string list"
  gp_MemoryMaps :: "goerr + (uint64 \<times> uint64 \<times> uint64) list"

record ProcessStat =
  ps_PID :: int
  ps_Name :: string
  ps_CPUPercent :: f64
  ps_MemoryPercent :: f64
  ps_Status :: string
  ps_RSSBytes :: "int64 option"
  ps_PSSBytes :: "int64 option"
  ps_SwapBytes :: "int64 option"
  ps_CgroupPath :: "string option"

record ProcessInfoOutput = OutputErrors +
  Processes :: "ProcessStat list"
  ByCPU :: "ProcessStat list"
  ByMemory :: "ProcessStat list"

fun cgroup_loop :: "string list \<Rightarrow> string" where
  "cgroup_loop [] = []"
| "cgroup_loop (line # rest) =
     (let parts = splitn_char 3 (CHR '':'') line in
      if length parts = 3 \<and> parts ! 2 \<noteq> [] then parts ! 2 else cgroup_loop rest)"

definition readCgroupPath :: "world \<Rightarrow> int \<Rightarrow> string" where
  "readCgroupPath w pid =
     (case w_read w (''/proc/'' @ show_int pid @ ''/cgroup'') of
        Inl _ \<Rightarrow> []
      | Inr data \<Rightarrow> cgroup_loop (lines_of data))"

definition process_stat :: "world \<Rightarrow> gproc \<Rightarrow> ProcessStat" where
  "process_stat w p =
     (let stat = \<lparr>ps_PID = gp_Pid p, ps_Name = gp_Name p, ps_CPUPercent = gp_CPUPercent p,
                  ps_MemoryPercent = gp_MemoryPercent p, ps_Status = Join '','' (gp_Status p),
                  ps_RSSBytes = None, ps_PSSBytes = None, ps_SwapBytes = None, ps_CgroupPath = None\<rparr>;
          stat = (case gp_MemoryMaps p of
                    Inr ((rss, pss, swap) # _) \<Rightarrow>
                      stat\<lparr>ps_RSSBytes := Some (rss * 1024), ps_PSSBytes := Some (pss * 1024),
                           ps_SwapBytes := Some (swap * 1024)\<rparr>
                  | _ \<Rightarrow> stat);
          cg = readCgroupPath w (gp_Pid p)
      in if cg \<noteq> [] then stat\<lparr>ps_CgroupPath := Some cg\<rparr> else stat)"

definition limit_to :: "nat \<Rightarrow> 'a list \<Rightarrow> 'a list" where
  "limit_to limit xs = (if length xs > limit then take limit xs else xs)"

definition by_cpu :: "ProcessStat \<Rightarrow> ProcessStat \<Rightarrow> bool" where
  "by_cpu a b = f64_less (ps_CPUPercent b) (ps_CPUPercent a)"

definition by_memory :: "ProcessStat \<Rightarrow> ProcessStat \<Rightarrow> bool" where
  "by_memory a b = f64_less (ps_MemoryPercent b) (ps_MemoryPercent a)"

definition GatherProcessInfo ::
  "ProcessStat sorter \<Rightarrow> world \<Rightarrow> goerr + gproc list \<Rightarrow> string \<Rightarrow> nat \<Rightarrow> ProcessInfoOutput result" where
  "GatherProcessInfo srt w processes sortBy0 limit =
     (let sortBy = (if sortBy0 = [] then ''cpu'' else sortBy0) in
      case processes of
        Inl e \<Rightarrow> (None, Some e)
      | Inr procs \<Rightarrow>
          let result = map (process_stat w) procs;
              out = \<lparr>Errors = [], Processes = [], ByCPU = [], ByMemory = []\<rparr>
          in if sortBy = ''both'' then
               (Some (out\<lparr>ByCPU := limit_to limit (srt by_cpu result),
                          ByMemory := limit_to limit (srt by_memory result)\<rparr>), None)
             else
               (Some (out\<lparr>Processes :=
                   limit_to limit (srt (if sortBy = ''memory'' then by_memory else by_cpu) result)\<rparr>), None))"

definition HandleGetProcessInfo ::
  "(nat \<Rightarrow> nat \<Rightarrow> nat \<Rightarrow> nat) \<Rightarrow> cfg_state \<Rightarrow> int \<Rightarrow> int \<Rightarrow> ctx \<Rightarrow> ProcessStat sorter \<Rightarrow> world \<Rightarrow>
   goerr + gproc list \<Rightarrow> string \<Rightarrow> int \<Rightarrow> ProcessInfoOutput result \<times> log_event list" where
  "HandleGetProcessInfo fr s now dur c srt w processes sortBy limit0 =
     run_tool fr s now dur c ToolNameGetProcessInfo 0
       (\<lambda>_. GatherProcessInfo srt w processes sortBy (nat (clampZero limit0 10 100)))"

section \<open>The I/O ranking\<close>

record IOProcessStat =
  io_Time :: string
  io_PID :: int
  io_KbRdS :: f64
  io_KbWrS :: f64
  io_Command :: string

record TopIOProcessesOutput = OutputErrors +
  IOProcesses :: "IOProcessStat list"

definition pidstat_line :: "string \<Rightarrow> IOProcessStat option" where
  "pidstat_line line =
     (let fields = Fields line in
      if length fields < 7 \<or> fields ! 0 = ''Linux'' \<or> fields ! 0 = ''#'' \<or> fields ! 0 = ''Time'' \<or>
         fields ! 0 = ''Average:'' \<or> fields ! 0 = ''PID''
      then None
      else Some \<lparr>io_Time = fields ! 0, io_PID = fst (Atoi (fields ! 1)),
                 io_KbRdS = fst (ParseFloat (fields ! 2)), io_KbWrS = fst (ParseFloat (fields ! 3)),
                 io_Command = Join '' '' (drop 6 fields)\<rparr>)"

definition parsePIDStatOutput :: "string list \<Rightarrow> IOProcessStat list" where
  "parsePIDStatOutput ls = List.map_filter pidstat_line ls"

definition io_rate :: "IOProcessStat \<Rightarrow> f64" where
  "io_rate p = f64_add (io_KbRdS p) (io_KbWrS p)"

definition GatherTopIOProcesses ::
  "IOProcessStat sorter \<Rightarrow> world \<Rightarrow> ctx \<Rightarrow> int \<Rightarrow> TopIOProcessesOutput result" where
  "GatherTopIOProcesses srt w c limit0 =
     (let limit = nat (clampZero limit0 10 50) in
      case execLines w c ''pidstat'' [''-d'', ''1'', ''1''] of
        Inl e \<Rightarrow> (Some (Add ''pidstat'' (Some e) \<lparr>Errors = [], IOProcesses = []\<rparr>), None)
      | Inr ls \<Rightarrow>
          (Some \<lparr>Errors = [],
                 IOProcesses = limit_to limit
                   (srt (\<lambda>a b. f64_less (io_rate b) (io_rate a)) (parsePIDStatOutput ls))\<rparr>, None))"

definition HandleGetTopIOProcesses ::
  "(nat \<Rightarrow> nat \<Rightarrow> nat \<Rightarrow> nat) \<Rightarrow> cfg_state \<Rightarrow> int \<Rightarrow> int \<Rightarrow> ctx \<Rightarrow> IOProcessStat sorter \<Rightarrow> world \<Rightarrow>
   int \<Rightarrow> TopIOProcessesOutput result \<times> log_event list" where
  "HandleGetTopIOProcesses fr s now dur c srt w limit0 =
     run_tool fr s now dur c ToolNameGetTopIOProcesses 0
       (\<lambda>ct. GatherTopIOProcesses srt w ct limit0)"

section \<open>Open file descriptors\<close>

record ProcessFD =
  fd_FD :: uint64
  fd_Type :: string
  fd_Target :: string

record ProcessFDsOutput = OutputErrors +
  fds_PID :: int
  fds_Name :: string
  fds_Count :: nat
  fds_FDs :: "ProcessFD list"

definition classifyFD :: "string \<Rightarrow> string" where
  "classifyFD target =
     (if HasPrefix target ''socket:'' then ''socket''
      else if HasPrefix target ''pipe:'' then ''pipe''
      else if HasPrefix target ''anon_inode:'' then ''anon_inode''
      else ''file'')"

text \<open>The two loops that fill the map: the library's open files, then the links in /proc.\<close>

definition open_file :: "uint64 \<times> string \<Rightarrow> (uint64 \<rightharpoonup> ProcessFD) \<Rightarrow> (uint64 \<rightharpoonup> ProcessFD)" where
  "open_file f m =
     m(fst f \<mapsto> \<lparr>fd_FD = fst f, fd_Type = ''file'', fd_Target = snd f\<rparr>)"

definition open_files_map :: "(uint64 \<times> string) list \<Rightarrow> (uint64 \<rightharpoonup> ProcessFD)" where
  "open_files_map files = fold open_file files Map.empty"

definition fd_entry :: "world \<Rightarrow> string \<Rightarrow> dirent \<Rightarrow> (uint64 \<rightharpoonup> ProcessFD) \<Rightarrow> (uint64 \<rightharpoonup> ProcessFD)" where
  "fd_entry w fdDir entry m =
     (case ParseUint64 (de_name entry) of
        (_, Some _) \<Rightarrow> m
      | (fdNum, None) \<Rightarrow>
          if m fdNum \<noteq> None then m
          else (case w_readlink w (filepath_Join [fdDir, de_name entry]) of
                  Inl _ \<Rightarrow> m
                | Inr target \<Rightarrow>
                    m(fdNum \<mapsto> \<lparr>fd_FD = fdNum, fd_Type = classifyFD target, fd_Target = target\<rparr>)))"

definition GatherProcessFDs ::
  "((uint64 \<rightharpoonup> ProcessFD) \<Rightarrow> uint64 list) \<Rightarrow> ProcessFD sorter \<Rightarrow> world \<Rightarrow>
   (int \<Rightarrow> goerr + string \<times> (uint64 \<times> string) list) \<Rightarrow> int \<Rightarrow> ProcessFDsOutput result" where
  "GatherProcessFDs enum srt w newProcess pid =
     (case newProcess pid of
        Inl e \<Rightarrow>
          (Some (Add ''process'' (Some e)
                   \<lparr>Errors = [], fds_PID = pid, fds_Name = [], fds_Count = 0, fds_FDs = []\<rparr>), None)
      | Inr (name, openFiles) \<Rightarrow>
          let fdDir = ''/proc/'' @ show_int pid @ ''/fd'';
              fdMap = open_files_map openFiles;
              fdMap = (case w_readdir w fdDir of
                         Inl _ \<Rightarrow> fdMap
                       | Inr entries \<Rightarrow> fold (fd_entry w fdDir) entries fdMap);
              result = srt (\<lambda>a b. fd_FD a < fd_FD b) (map (\<lambda>k. the (fdMap k)) (enum fdMap))
          in (Some \<lparr>Errors = [], fds_PID = pid, fds_Name = name, fds_Count = length result,
                    fds_FDs = result\<rparr>, None))"

definition HandleGetProcessFDs ::
  "(nat \<Rightarrow> nat \<Rightarrow> nat \<Rightarrow> nat) \<Rightarrow> cfg_state \<Rightarrow> int \<Rightarrow> int \<Rightarrow> ctx \<Rightarrow>
   ((uint64 \<rightharpoonup> ProcessFD) \<Rightarrow> uint64 list) \<Rightarrow> ProcessFD sorter \<Rightarrow> world \<Rightarrow>
   (int \<Rightarrow> goerr + string \<times> (uint64 \<times> string) list) \<Rightarrow> int \<Rightarrow>
   ProcessFDsOutput result \<times> log_event list" where
  "HandleGetProcessFDs fr s now dur c enum srt w newProcess pid =
     run_tool fr s now dur c ToolNameGetProcessFDs 0
       (\<lambda>_. GatherProcessFDs enum srt w newProcess pid)"

section \<open>The process tree\<close>

record procInfo =
  ppid :: int
  pname :: string

record ProcessTreeNode =
  tn_PID :: int
  tn_PPID :: int
  tn_Name :: string
  tn_Depth :: int
  tn_IsLeaf :: bool

record ProcessTreeOutput = OutputErrors +
  Nodes :: "ProcessTreeNode list"
  Total :: nat
  Filtered :: bool

text \<open>
  The parent's number in a stat file: the second field after the last closing parenthesis.
  \<open>content[idx+2:]\<close> panics when the parenthesis is the last byte (\<open>None\<close>); \<open>Some None\<close>
  is a \<open>continue\<close>.
\<close>

definition stat_ppid :: "string \<Rightarrow> int option option" where
  "stat_ppid content =
     (case LastIndex content '')'' of
        None \<Rightarrow> Some None
      | Some idx \<Rightarrow>
          if idx + 2 > length content then None
          else
            let fields = Fields (drop (idx + 2) content) in
            if length fields < 2 then Some None
            else Some (Some (fst (ParseInt 32 (fields ! 1)))))"

definition stat_entry :: "world \<Rightarrow> dirent \<Rightarrow> (int \<rightharpoonup> procInfo) \<Rightarrow> (int \<rightharpoonup> procInfo) option" where
  "stat_entry w e procs =
     (if \<not> de_isdir e then Some procs
      else
        case ParseInt 32 (de_name e) of
          (_, Some _) \<Rightarrow> Some procs
        | (pid, None) \<Rightarrow>
            (case w_read w (''/proc/'' @ show_int pid @ ''/stat'') of
               Inl _ \<Rightarrow> Some procs
             | Inr content \<Rightarrow>
                 (case stat_ppid content of
                    None \<Rightarrow> None
                  | Some None \<Rightarrow> Some procs
                  | Some (Some pp) \<Rightarrow>
                      let comm = (case w_read w (''/proc/'' @ show_int pid @ ''/comm'') of
                                    Inl _ \<Rightarrow> [] | Inr name \<Rightarrow> TrimSpace name)
                      in Some (procs(pid \<mapsto> \<lparr>ppid = pp, pname = comm\<rparr>)))))"

fun stat_entries :: "world \<Rightarrow> dirent list \<Rightarrow> (int \<rightharpoonup> procInfo) \<Rightarrow> (int \<rightharpoonup> procInfo) option" where
  "stat_entries w [] procs = Some procs"
| "stat_entries w (e # es) procs =
     (case stat_entry w e procs of None \<Rightarrow> None | Some procs' \<Rightarrow> stat_entries w es procs')"

definition parseProcStat :: "world \<Rightarrow> (goerr + (int \<rightharpoonup> procInfo)) option" where
  "parseProcStat w =
     (case w_readdir w ''/proc'' of
        Inl e \<Rightarrow> Some (Inl e)
      | Inr entries \<Rightarrow> map_option Inr (stat_entries w entries Map.empty))"

text \<open>\<open>flattenTree\<close>: the children map, the recursive walk (with fuel), the roots.\<close>

definition proc_get :: "(int \<rightharpoonup> procInfo) \<Rightarrow> int \<Rightarrow> procInfo" where
  "proc_get procs pid = (case procs pid of None \<Rightarrow> \<lparr>ppid = 0, pname = []\<rparr> | Some i \<Rightarrow> i)"

definition build_children :: "(int \<rightharpoonup> procInfo) \<Rightarrow> int \<Rightarrow> int list \<Rightarrow> int \<Rightarrow> int list" where
  "build_children procs rootPID order =
     fold (\<lambda>pid m. if pid \<noteq> rootPID
                   then m(ppid (proc_get procs pid) := m (ppid (proc_get procs pid)) @ [pid]) else m)
       order (\<lambda>_. [])"

fun concat_opt :: "'a list option list \<Rightarrow> 'a list option" where
  "concat_opt [] = Some []"
| "concat_opt (None # r) = None"
| "concat_opt (Some x # r) = map_option (\<lambda>y. x @ y) (concat_opt r)"

fun walk :: "nat \<Rightarrow> (int \<rightharpoonup> procInfo) \<Rightarrow> (int \<Rightarrow> int list) \<Rightarrow> int \<Rightarrow> int \<Rightarrow> ProcessTreeNode list option" where
  "walk 0 procs childrenMap pid depth = None"
| "walk (Suc fuel) procs childrenMap pid depth =
     (let info = proc_get procs pid; children = childrenMap pid in
      map_option
        (\<lambda>below. \<lparr>tn_PID = pid, tn_PPID = ppid info, tn_Name = pname info, tn_Depth = depth,
                  tn_IsLeaf = (children = [])\<rparr> # below)
        (concat_opt (map (\<lambda>q. walk fuel procs childrenMap q (depth + 1)) children)))"

definition flattenTree ::
  "nat \<Rightarrow> ((int \<rightharpoonup> procInfo) \<Rightarrow> int list) \<Rightarrow> ((int \<rightharpoonup> procInfo) \<Rightarrow> int list) \<Rightarrow> (int \<rightharpoonup> procInfo) \<Rightarrow> int \<Rightarrow>
   ProcessTreeNode list option" where
  "flattenTree fuel enum enum' procs rootPID =
     (let childrenMap = build_children procs rootPID (enum procs) in
      if rootPID \<noteq> 0 then
        (if procs rootPID \<noteq> None then walk fuel procs childrenMap rootPID 0 else Some [])
      else
        let roots = filter (\<lambda>pid. ppid (proc_get procs pid) = 0 \<or> ppid (proc_get procs pid) = pid) (enum' procs)
        in concat_opt (map (\<lambda>r. walk fuel procs childrenMap r 0) roots))"

definition GatherProcessTree ::
  "nat \<Rightarrow> ((int \<rightharpoonup> procInfo) \<Rightarrow> int list) \<Rightarrow> ((int \<rightharpoonup> procInfo) \<Rightarrow> int list) \<Rightarrow> world \<Rightarrow> int option \<Rightarrow>
   ProcessTreeOutput result option" where
  "GatherProcessTree fuel enum enum' w pid =
     (case parseProcStat w of
        None \<Rightarrow> None
      | Some (Inl e) \<Rightarrow> Some (None, Some e)
      | Some (Inr procs) \<Rightarrow>
          let rootPID = (case pid of None \<Rightarrow> 0 | Some p \<Rightarrow> p) in
          map_option
            (\<lambda>nodes. (Some \<lparr>Errors = [], Nodes = nodes, Total = length nodes, Filtered = (pid \<noteq> None)\<rparr>, None))
            (flattenTree fuel enum enum' procs rootPID))"

definition HandleGetProcessTree ::
  "(nat \<Rightarrow> nat \<Rightarrow> nat \<Rightarrow> nat) \<Rightarrow> cfg_state \<Rightarrow> int \<Rightarrow> int \<Rightarrow> ctx \<Rightarrow> nat \<Rightarrow>
   ((int \<rightharpoonup> procInfo) \<Rightarrow> int list) \<Rightarrow> ((int \<rightharpoonup> procInfo) \<Rightarrow> int list) \<Rightarrow> world \<Rightarrow> int option \<Rightarrow>
   (ProcessTreeOutput result \<times> log_event list) option" where
  "HandleGetProcessTree fr s now dur c fuel enum enum' w pid =
     run_partial fr s now dur c ToolNameGetProcessTree 0 (\<lambda>_. GatherProcessTree fuel enum enum' w pid)"

text \<open>
  pidstat as current versions print it, with the column UID before the column PID: the user is
  reported as the process, and the process number as its read rate.
\<close>

lemma pidstat_uid_as_pid:
  assumes "token t" "t \<notin> {''Linux'', ''#'', ''Time'', ''Average:'', ''PID''}" "token rd" "token wr" "token cc"
    "token delay" "token cmd" "\<bar>uid\<bar> < 2 ^ 63"
  shows "\<exists>p. pidstat_line (Join '' '' [t, show_int uid, show_int pid, rd, wr, cc, delay, cmd]) = Some p \<and>
           io_PID p = uid \<and> io_KbRdS p = fst (ParseFloat (show_int pid)) \<and> io_Command p = delay @ '' '' @ cmd"
proof -
  have f: "Fields (Join '' '' [t, show_int uid, show_int pid, rd, wr, cc, delay, cmd]) =
          [t, show_int uid, show_int pid, rd, wr, cc, delay, cmd]"
    using assms by (intro Fields_Join) auto
  show ?thesis unfolding pidstat_line_def f Let_def using assms by (simp add: Atoi_def)
qed

section \<open>Walking the tree\<close>

lemma concat_opt_Some:
  "concat_opt xs = Some y \<longleftrightarrow> None \<notin> set xs \<and> y = concat (map the xs)"
  by (induction xs arbitrary: y rule: concat_opt.induct) auto

lemma concat_opt_None: "concat_opt xs = None \<longleftrightarrow> None \<in> set xs"
  by (induction xs rule: concat_opt.induct) auto

lemma build_children_eq:
  "build_children procs r order p = filter (\<lambda>q. q \<noteq> r \<and> ppid (proc_get procs q) = p) order"
proof -
  have "fold (\<lambda>pid m. if pid \<noteq> r
            then m(ppid (proc_get procs pid) := m (ppid (proc_get procs pid)) @ [pid]) else m) order m p =
        m p @ filter (\<lambda>q. q \<noteq> r \<and> ppid (proc_get procs q) = p) order" for m
    by (induction order arbitrary: m) auto
  then show ?thesis by (simp add: build_children_def)
qed

text \<open>The edges of a children map, and the processes below one: itself and its descendants.\<close>

definition edges :: "('a \<Rightarrow> 'a list) \<Rightarrow> ('a \<times> 'a) set" where
  "edges ch = {(p, q). q \<in> set (ch p)}"

definition below :: "('a \<Rightarrow> 'a list) \<Rightarrow> 'a \<Rightarrow> 'a set" where
  "below ch p = {q. (p, q) \<in> (edges ch)\<^sup>*}"

lemma below_unfold: "below ch p = insert p (\<Union>q \<in> set (ch p). below ch q)"
  by (auto simp: below_def edges_def elim: converse_rtranclE intro: converse_rtrancl_into_rtrancl)

lemma walk_Suc:
  assumes "walk (Suc n) procs ch p d = Some nodes"
  shows "map tn_PID nodes = p # concat (map (\<lambda>q. map tn_PID (the (walk n procs ch q (d + 1)))) (ch p))"
    and "q \<in> set (ch p) \<Longrightarrow> walk n procs ch q (d + 1) = Some (the (walk n procs ch q (d + 1)))"
proof -
  show "map tn_PID nodes = p # concat (map (\<lambda>q. map tn_PID (the (walk n procs ch q (d + 1)))) (ch p))"
    using assms by (auto simp: Let_def concat_opt_Some map_concat comp_def)
  have "None \<notin> (\<lambda>q. walk n procs ch q (d + 1)) ` set (ch p)"
    using assms by (auto simp: Let_def concat_opt_Some)
  then show "q \<in> set (ch p) \<Longrightarrow> walk n procs ch q (d + 1) = Some (the (walk n procs ch q (d + 1)))"
    by (metis imageI option.collapse)
qed

lemma walk_PIDs:
  "walk n procs ch p d = Some nodes \<Longrightarrow> set (map tn_PID nodes) = below ch p"
proof (induction n arbitrary: p d nodes)
  case (Suc n)
  have "set (map tn_PID nodes) =
      insert p (\<Union>q \<in> set (ch p). set (map tn_PID (the (walk n procs ch q (d + 1)))))"
    unfolding walk_Suc(1) [OF Suc.prems] by simp
  also have "\<dots> = insert p (\<Union>q \<in> set (ch p). below ch q)"
    using Suc.IH [OF walk_Suc(2) [OF Suc.prems]] by simp
  finally show ?case by (subst below_unfold)
qed simp

text \<open>
  A part of the forest: every process has one parent, is listed once as its child, and none
  that can be reached is its own ancestor.
\<close>

definition treelike :: "('a \<Rightarrow> 'a list) \<Rightarrow> 'a \<Rightarrow> bool" where
  "treelike ch p =
     (single_valued ((edges ch)\<inverse>) \<and> (\<forall>q. distinct (ch q)) \<and> finite (below ch p) \<and>
      (\<forall>x \<in> below ch p. (x, x) \<notin> (edges ch)\<^sup>+))"

lemma below_child: "q \<in> set (ch p) \<Longrightarrow> below ch q \<subseteq> below ch p"
  by (subst (2) below_unfold) auto

lemma treelike_child: "treelike ch p \<Longrightarrow> q \<in> set (ch p) \<Longrightarrow> treelike ch q"
  using below_child [of q ch p] by (auto simp: treelike_def intro: finite_subset)

lemma not_below_child:
  assumes "treelike ch p" "q \<in> set (ch p)"
  shows "p \<notin> below ch q"
proof
  assume "p \<in> below ch q"
  then have "(p, p) \<in> (edges ch)\<^sup>+"
    using assms(2) by (auto simp: below_def edges_def intro: rtrancl_into_trancl2)
  moreover have "p \<in> below ch p" by (simp add: below_def)
  ultimately show False using assms(1) by (auto simp: treelike_def)
qed

lemma ancestors_linear:
  assumes "single_valued ((edges ch)\<inverse>)" "x \<in> below ch a" "x \<in> below ch b"
  shows "b \<in> below ch a \<or> a \<in> below ch b"
proof -
  have "(x, a) \<in> ((edges ch)\<inverse>)\<^sup>*" "(x, b) \<in> ((edges ch)\<inverse>)\<^sup>*"
    using assms(2,3) by (auto simp: below_def rtrancl_converse)
  from single_valued_confluent [OF assms(1) this] show ?thesis
    by (auto simp: below_def rtrancl_converse)
qed

lemma siblings_disjoint:
  assumes t: "treelike ch p" and ab: "a \<in> set (ch p)" "b \<in> set (ch p)" "a \<noteq> b"
  shows "below ch a \<inter> below ch b = {}"
proof -
  have sv: "single_valued ((edges ch)\<inverse>)" using t by (simp add: treelike_def)
  have no: "b' \<notin> below ch a'" if a': "a' \<in> set (ch p)" and b': "b' \<in> set (ch p)" and ne: "a' \<noteq> b'" for a' b'
  proof
    assume "b' \<in> below ch a'"
    then obtain y where "(a', y) \<in> (edges ch)\<^sup>*" "(y, b') \<in> edges ch"
      using ne by (auto simp: below_def elim: rtranclE)
    moreover have "y = p"
      using sv calculation(2) b' by (auto simp: single_valued_def edges_def)
    ultimately show False using not_below_child [OF t a'] by (simp add: below_def)
  qed
  show ?thesis using ancestors_linear [OF sv] no [OF ab] no [OF ab(2,1)] ab(3) by blast
qed

text \<open>Walks of disjoint parts, one after the other.\<close>

lemma concat_walks:
  assumes "distinct qs"
    and "\<And>q. q \<in> set qs \<Longrightarrow> walk n procs ch q d = Some (f q) \<and> distinct (map tn_PID (f q))"
    and "\<And>a b. a \<in> set qs \<Longrightarrow> b \<in> set qs \<Longrightarrow> a \<noteq> b \<Longrightarrow> below ch a \<inter> below ch b = {}"
  shows "concat_opt (map (\<lambda>q. walk n procs ch q d) qs) = Some (concat (map f qs)) \<and>
         distinct (map tn_PID (concat (map f qs))) \<and>
         set (map tn_PID (concat (map f qs))) = (\<Union>q \<in> set qs. below ch q)"
  using assms
proof (induction qs)
  case (Cons q qs)
  have ids: "set (map tn_PID (f a)) = below ch a" if "a \<in> set (q # qs)" for a
    using Cons.prems(2) [OF that] walk_PIDs by blast
  have IH: "concat_opt (map (\<lambda>q. walk n procs ch q d) qs) = Some (concat (map f qs))"
    "distinct (map tn_PID (concat (map f qs)))"
    "set (map tn_PID (concat (map f qs))) = (\<Union>q \<in> set qs. below ch q)"
    using Cons by simp_all
  have "below ch q \<inter> (\<Union>a \<in> set qs. below ch a) = {}"
    using Cons.prems(1,3) by auto
  with IH ids [of q] Cons.prems(2) [of q] show ?case by auto
qed simp

lemma walk_distinct:
  "walk n procs ch p d = Some nodes \<Longrightarrow> treelike ch p \<Longrightarrow> distinct (map tn_PID nodes)"
proof (induction n arbitrary: p d nodes)
  case (Suc n)
  let ?sub = "\<lambda>q. the (walk n procs ch q (d + 1))"
  note nodes = walk_Suc(1) [OF Suc.prems(1)] and some = walk_Suc(2) [OF Suc.prems(1)]
  have "distinct (map tn_PID (concat (map ?sub (ch p)))) \<and>
      set (map tn_PID (concat (map ?sub (ch p)))) = (\<Union>q \<in> set (ch p). below ch q)"
    using concat_walks [of "ch p" n procs ch "d + 1" ?sub] Suc.prems(2) some
      Suc.IH [OF some treelike_child [OF Suc.prems(2)]] siblings_disjoint [OF Suc.prems(2)]
    by (simp add: treelike_def)
  then show ?case unfolding nodes
    using not_below_child [OF Suc.prems(2)] by (auto simp: map_concat comp_def)
qed simp

lemma roots_disjoint:
  assumes sv: "single_valued ((edges ch)\<inverse>)" and "a \<noteq> b"
    and "\<And>y. y \<in> below ch a \<Longrightarrow> b \<notin> set (ch y)" "\<And>y. y \<in> below ch b \<Longrightarrow> a \<notin> set (ch y)"
  shows "below ch a \<inter> below ch b = {}"
proof -
  have no: "b' \<notin> below ch a'"
    if ne: "a' \<noteq> b'" and np: "\<And>y. y \<in> below ch a' \<Longrightarrow> b' \<notin> set (ch y)" for a' b'
  proof
    assume "b' \<in> below ch a'"
    then obtain y where "y \<in> below ch a'" "b' \<in> set (ch y)"
      using ne by (auto simp: below_def edges_def elim: rtranclE)
    with np show False by blast
  qed
  have "b \<notin> below ch a" using assms(2,3) by (rule no)
  moreover have "a \<notin> below ch b" using assms(2) [symmetric] assms(4) by (rule no)
  ultimately show ?thesis using ancestors_linear [OF sv, of _ a b] by blast
qed

lemma walk_total:
  "treelike ch p \<Longrightarrow> card (below ch p) \<le> n \<Longrightarrow> \<exists>nodes. walk n procs ch p d = Some nodes"
proof (induction n arbitrary: p d)
  case 0
  then have "below ch p = {}" by (simp add: treelike_def)
  moreover have "p \<in> below ch p" by (simp add: below_def)
  ultimately show ?case by simp
next
  case (Suc n)
  have "\<exists>nodes. walk n procs ch q (d + 1) = Some nodes" if q: "q \<in> set (ch p)" for q
  proof (rule Suc.IH [OF treelike_child [OF Suc.prems(1) q]])
    have "below ch q \<subset> below ch p"
      using below_child [of q ch p, OF q] not_below_child [OF Suc.prems(1) q] by (auto simp: below_def)
    moreover have "finite (below ch p)" using Suc.prems(1) by (simp add: treelike_def)
    ultimately have "card (below ch q) < card (below ch p)" by (simp add: psubset_card_mono)
    with Suc.prems(2) show "card (below ch q) \<le> n" by simp
  qed
  then have "None \<notin> set (map (\<lambda>q. walk n procs ch q (d + 1)) (ch p))" by fastforce
  then show ?case by (simp add: Let_def concat_opt_Some del: set_map)
qed

text \<open>A root that is nobody's child has a treelike part below it.\<close>

lemma rooted_acyclic:
  assumes sv: "single_valued ((edges ch)\<inverse>)" and root: "\<And>y. y \<in> below ch r \<Longrightarrow> r \<notin> set (ch y)"
    and x: "x \<in> below ch r"
  shows "(x, x) \<notin> (edges ch)\<^sup>+"
proof -
  from x have "(r, x) \<in> (edges ch)\<^sup>*" by (simp add: below_def)
  then show ?thesis
  proof (induction rule: rtrancl_induct)
    case base
    show ?case
    proof
      assume "(r, r) \<in> (edges ch)\<^sup>+"
      then obtain y where "(r, y) \<in> (edges ch)\<^sup>*" "(y, r) \<in> edges ch" by (blast elim: tranclE dest: trancl_into_rtrancl)
      then show False using root [of y] by (simp add: below_def edges_def)
    qed
  next
    case (step y z)
    show ?case
    proof
      assume "(z, z) \<in> (edges ch)\<^sup>+"
      then obtain w where w: "(z, w) \<in> (edges ch)\<^sup>*" "(w, z) \<in> edges ch"
        by (blast elim: tranclE dest: trancl_into_rtrancl)
      then have "w = y" using sv step(2) by (auto simp: single_valued_def)
      with w step(2) have "(y, y) \<in> (edges ch)\<^sup>+" by (simp add: rtrancl_into_trancl2)
      with step(3) show False ..
    qed
  qed
qed

lemma rooted_treelike:
  assumes "single_valued ((edges ch)\<inverse>)" "\<And>q. distinct (ch q)" "finite (below ch r)"
    "\<And>y. y \<in> below ch r \<Longrightarrow> r \<notin> set (ch y)"
  shows "treelike ch r"
  using assms rooted_acyclic [OF assms(1)] by (auto simp: treelike_def)

section \<open>The tree of a snapshot of /proc\<close>

text \<open>The parent relation of a snapshot, and the children map that \<open>flattenTree\<close> builds from it.\<close>

definition child_of :: "(int \<rightharpoonup> procInfo) \<Rightarrow> (int \<times> int) set" where
  "child_of procs = {(p, q). \<exists>i. procs q = Some i \<and> ppid i = p}"

lemma edges_built:
  assumes "ranges enum" "finite (dom procs)"
  shows "edges (build_children procs r (enum procs)) = {(p, q). (p, q) \<in> child_of procs \<and> q \<noteq> r}"
  using assms by (auto simp: edges_def build_children_eq child_of_def proc_get_def ranges_def dom_def)

lemma child_of_single: "single_valued ((child_of procs)\<inverse>)"
  by (auto simp: single_valued_def child_of_def)

lemma built_single:
  assumes "ranges enum" "finite (dom procs)"
  shows "single_valued ((edges (build_children procs r (enum procs)))\<inverse>)"
  unfolding edges_built [OF assms] by (auto simp: single_valued_def child_of_def)

lemma built_distinct:
  assumes "ranges enum" "finite (dom procs)"
  shows "distinct (build_children procs r (enum procs) q)"
  using assms by (simp add: build_children_eq ranges_def)

lemma below_built:
  assumes "ranges enum" "finite (dom procs)"
  shows "below (build_children procs r (enum procs)) p \<subseteq> insert p (dom procs)"
proof
  fix q assume "q \<in> below (build_children procs r (enum procs)) p"
  then have "(p, q) \<in> (edges (build_children procs r (enum procs)))\<^sup>*" by (simp add: below_def)
  then show "q \<in> insert p (dom procs)"
    unfolding edges_built [OF assms] by (cases rule: rtranclE) (auto simp: child_of_def)
qed

text \<open>The part below the root does not change when the edges into the root are left out.\<close>

lemma below_root:
  assumes "ranges enum" "finite (dom procs)"
  shows "below (build_children procs r (enum procs)) r = {q. (r, q) \<in> (child_of procs)\<^sup>*}"
proof -
  let ?E = "{(p, q). (p, q) \<in> child_of procs \<and> q \<noteq> r}"
  have "(r, q) \<in> ?E\<^sup>*" if "(r, q) \<in> (child_of procs)\<^sup>*" for q
    using that
  proof (induction rule: rtrancl_induct)
    case (step y z)
    then show ?case by (cases "z = r") (auto intro: rtrancl_into_rtrancl)
  qed simp
  moreover have "?E\<^sup>* \<subseteq> (child_of procs)\<^sup>*" by (rule rtrancl_mono) auto
  ultimately show ?thesis by (auto simp: below_def edges_built [OF assms])
qed

lemma parent_built:
  assumes "ranges enum" "finite (dom procs)" "q \<in> set (build_children procs r (enum procs) y)"
  shows "q \<noteq> r \<and> (\<exists>i. procs q = Some i \<and> ppid i = y)"
  using assms by (auto simp: build_children_eq proc_get_def ranges_def dom_def split: option.splits)

section \<open>Properties\<close>

text \<open>
  C6. The subtree of a process is always answered, even when the snapshot of /proc that was
  read file by file has cycles: with fuel for as many levels as there are processes the walk
  ends, and the answer lists the process and all its descendants, each exactly once.
\<close>

theorem subtree_exact:
  assumes "ranges enum" "finite (dom procs)" "rootPID \<noteq> 0" "procs rootPID = Some i"
    "card (dom procs) \<le> fuel"
  shows "\<exists>nodes. flattenTree fuel enum enum' procs rootPID = Some nodes \<and>
           distinct (map tn_PID nodes) \<and>
           set (map tn_PID nodes) = {q. (rootPID, q) \<in> (child_of procs)\<^sup>*}"
proof -
  let ?ch = "build_children procs rootPID (enum procs)"
  have sub: "below ?ch rootPID \<subseteq> dom procs" using below_built [OF assms(1,2)] assms(4) by fastforce
  have t: "treelike ?ch rootPID"
    using built_single [OF assms(1,2)] built_distinct [OF assms(1,2)] finite_subset [OF sub assms(2)]
      parent_built [OF assms(1,2)] by (intro rooted_treelike) blast+
  have "card (below ?ch rootPID) \<le> fuel" using card_mono [OF assms(2) sub] assms(5) by simp
  from walk_total [OF t this] obtain nodes where w: "walk fuel procs ?ch rootPID 0 = Some nodes" by blast
  then have "flattenTree fuel enum enum' procs rootPID = Some nodes"
    using assms(3,4) by (simp add: flattenTree_def)
  with walk_distinct [OF w t] walk_PIDs [OF w] below_root [OF assms(1,2)] show ?thesis by metis
qed

theorem subtree_exact_witness:
  "\<exists>nodes. flattenTree 3 (\<lambda>m. sorted_list_of_set (dom m)) (\<lambda>m. sorted_list_of_set (dom m))
            [2 \<mapsto> \<lparr>ppid = 3, pname = ''a''\<rparr>, 3 \<mapsto> \<lparr>ppid = 2, pname = ''b''\<rparr>, 5 \<mapsto> \<lparr>ppid = 3, pname = ''c''\<rparr>] 2 = Some nodes \<and>
     distinct (map tn_PID nodes) \<and>
     set (map tn_PID nodes) = {q. (2, q) \<in> (child_of
            [2 \<mapsto> \<lparr>ppid = 3, pname = ''a''\<rparr>, 3 \<mapsto> \<lparr>ppid = 2, pname = ''b''\<rparr>, 5 \<mapsto> \<lparr>ppid = 3, pname = ''c''\<rparr>])\<^sup>*}"
  by (rule subtree_exact [OF sorted_ranges]) simp_all

text \<open>
  C27. The whole tree is answered unless a process is its own parent: with process 0 not in
  /proc the walk from the roots ends, lists no process twice, and lists exactly the processes
  that descend from one whose parent is 0. Processes whose parent has gone are not listed.
\<close>

theorem whole_tree_exact:
  assumes "ranges enum" "ranges enum'" "finite (dom procs)" "procs 0 = None"
    "\<And>p i. procs p = Some i \<Longrightarrow> ppid i \<noteq> p" "card (dom procs) \<le> fuel"
  shows "\<exists>nodes. flattenTree fuel enum enum' procs 0 = Some nodes \<and>
           distinct (map tn_PID nodes) \<and>
           set (map tn_PID nodes) =
             {q. \<exists>r i. procs r = Some i \<and> ppid i = 0 \<and> (r, q) \<in> (child_of procs)\<^sup>*}"
proof -
  let ?ch = "build_children procs 0 (enum procs)"
  let ?roots = "filter (\<lambda>pid. ppid (proc_get procs pid) = 0 \<or> ppid (proc_get procs pid) = pid) (enum' procs)"
  have dom: "distinct (enum' procs)" "set (enum' procs) = dom procs"
    using assms(2,3) by (auto simp: ranges_def)
  have roots: "r \<in> set ?roots \<longleftrightarrow> (\<exists>i. procs r = Some i \<and> ppid i = 0)" for r
    using dom(2) assms(5) by (auto simp: proc_get_def)
  have edges: "edges ?ch = child_of procs"
    unfolding edges_built [OF assms(1,3)] using assms(4) by (auto simp: child_of_def)
  have sub: "below ?ch r \<subseteq> dom procs" if "r \<in> set ?roots" for r
    using below_built [OF assms(1,3), of 0 r] that roots by fastforce
  have no_parent: "r \<notin> set (?ch y)" if "r \<in> set ?roots" "y \<in> dom procs" for r y
    using parent_built [OF assms(1,3), of r 0 y] that roots [of r] assms(4) by fastforce
  have t: "treelike ?ch r" if r: "r \<in> set ?roots" for r
  proof (rule rooted_treelike)
    show "finite (below ?ch r)" using sub [OF r] assms(3) by (rule finite_subset)
    show "r \<notin> set (?ch y)" if "y \<in> below ?ch r" for y using no_parent [OF r] sub [OF r] that by blast
  qed (use built_single [OF assms(1,3)] built_distinct [OF assms(1,3)] in auto)
  let ?sub = "\<lambda>r. the (walk fuel procs ?ch r 0)"
  have some: "walk fuel procs ?ch r 0 = Some (?sub r)" if r: "r \<in> set ?roots" for r
  proof -
    have "card (below ?ch r) \<le> fuel" using card_mono [OF assms(3) sub [OF r]] assms(6) by simp
    from walk_total [OF t [OF r] this] show ?thesis by fastforce
  qed
  have disj: "below ?ch a \<inter> below ?ch b = {}" if "a \<in> set ?roots" "b \<in> set ?roots" "a \<noteq> b" for a b
    using that no_parent sub by (intro roots_disjoint [OF built_single [OF assms(1,3)]]) blast+
  have "concat_opt (map (\<lambda>r. walk fuel procs ?ch r 0) ?roots) = Some (concat (map ?sub ?roots)) \<and>
      distinct (map tn_PID (concat (map ?sub ?roots))) \<and>
      set (map tn_PID (concat (map ?sub ?roots))) = (\<Union>r \<in> set ?roots. below ?ch r)"
    using dom(1) some walk_distinct [OF some t] disj by (intro concat_walks) auto
  moreover have "(\<Union>r \<in> set ?roots. below ?ch r) =
      {q. \<exists>r i. procs r = Some i \<and> ppid i = 0 \<and> (r, q) \<in> (child_of procs)\<^sup>*}"
    using roots by (auto simp: below_def edges)
  ultimately show ?thesis by (simp add: flattenTree_def)
qed

theorem whole_tree_exact_witness:
  "\<exists>nodes. flattenTree 2 (\<lambda>m. sorted_list_of_set (dom m)) (\<lambda>m. sorted_list_of_set (dom m))
            [1 \<mapsto> \<lparr>ppid = 0, pname = ''init''\<rparr>, 7 \<mapsto> \<lparr>ppid = 1, pname = ''sh''\<rparr>] 0 = Some nodes \<and>
     distinct (map tn_PID nodes) \<and>
     set (map tn_PID nodes) = {q. \<exists>r i. [1 \<mapsto> \<lparr>ppid = 0, pname = ''init''\<rparr>, 7 \<mapsto> \<lparr>ppid = 1, pname = ''sh''\<rparr>] r = Some i \<and>
       ppid i = 0 \<and> (r, q) \<in> (child_of [1 \<mapsto> \<lparr>ppid = 0, pname = ''init''\<rparr>, 7 \<mapsto> \<lparr>ppid = 1, pname = ''sh''\<rparr>])\<^sup>*}"
  by (rule whole_tree_exact [OF sorted_ranges sorted_ranges]) (auto split: if_splits)

text \<open>
  A process that is its own parent, which the code takes for a root, makes the walk of the
  whole tree recurse for ever: no fuel is enough.
\<close>

theorem self_parent_diverges:
  assumes "ranges enum" "ranges enum'" "finite (dom procs)" "procs p = Some i" "ppid i = p" "p \<noteq> 0"
  shows "flattenTree fuel enum enum' procs 0 = None"
proof -
  let ?ch = "build_children procs 0 (enum procs)"
  have in_all: "p \<in> set (enum procs)" "p \<in> set (enum' procs)" using assms(1-4) by (auto simp: ranges_def)
  then have "p \<in> set (?ch p)" using assms(4-6) by (simp add: build_children_eq proc_get_def)
  then have "walk n procs ?ch p d = None" for n d
  proof (induction n arbitrary: d)
    case (Suc n)
    then have "None \<in> set (map (\<lambda>q. walk n procs ?ch q (d + 1)) (?ch p))"
      by (metis imageI list.set_map)
    then show ?case by (auto simp: Let_def concat_opt_None)
  qed simp
  moreover have "p \<in> set (filter (\<lambda>pid. ppid (proc_get procs pid) = 0 \<or> ppid (proc_get procs pid) = pid) (enum' procs))"
    using in_all(2) assms(4,5) by (simp add: proc_get_def)
  ultimately have "None \<in> set (map (\<lambda>r. walk fuel procs ?ch r 0)
      (filter (\<lambda>pid. ppid (proc_get procs pid) = 0 \<or> ppid (proc_get procs pid) = pid) (enum' procs)))"
    unfolding set_map by (intro image_eqI [where x = p]) simp_all
  then show ?thesis by (simp add: flattenTree_def concat_opt_None del: set_map)
qed

theorem self_parent_diverges_witness:
  "flattenTree 100 (\<lambda>m. sorted_list_of_set (dom m)) (\<lambda>m. sorted_list_of_set (dom m))
     [1 \<mapsto> \<lparr>ppid = 1, pname = ''init''\<rparr>] 0 = None"
  by (rule self_parent_diverges [OF sorted_ranges sorted_ranges, where p = 1 and i = "\<lparr>ppid = 1, pname = ''init''\<rparr>"]) simp_all

text \<open>
  C20. A process cannot forge its parent with its name: whatever bytes the name in a stat line
  consists of, closing parentheses and digits included, the parent read is the one the kernel
  wrote after it.
\<close>

theorem name_cannot_forge_parent:
  assumes "token state" "\<And>t. t \<in> set rest \<Longrightarrow> token t" "CHR '')'' \<notin> set (Join '' '' (state # show_int pp # rest))"
    "- (2 ^ 31) \<le> pp" "pp < 2 ^ 31"
  shows "stat_ppid (show_nat pid @ '' ('' @ comm @ '') '' @ Join '' '' (state # show_int pp # rest)) = Some (Some pp)"
proof -
  define tail where "tail = Join '' '' (state # show_int pp # rest)"
  define head where "head = show_nat pid @ '' ('' @ comm"
  have "LastIndex (head @ CHR '')'' # (CHR '' '' # tail)) '')'' = Some (length head)"
    using assms(3) by (intro LastIndex_char_at) (simp add: tail_def)
  moreover have "Fields tail = state # show_int pp # rest"
    unfolding tail_def using assms(1,2) by (intro Fields_Join) auto
  moreover have "ParseInt 32 (show_int pp) = (pp, None)" using assms(4,5) by (intro ParseInt_show_int) auto
  ultimately have "stat_ppid (head @ CHR '')'' # CHR '' '' # tail) = Some (Some pp)" by (simp add: stat_ppid_def)
  then show ?thesis by (simp add: tail_def head_def)
qed

theorem name_cannot_forge_parent_witness:
  "stat_ppid (show_nat 42 @ '' ('' @ ''evil) S 1 (x'' @ '') '' @ Join '' '' (''S'' # show_int 7 # [''42''])) = Some (Some 7)"
  by (rule name_cannot_forge_parent) (auto simp: token_def printable_def byte_def show_int_def show_nat.simps str_simps)

text \<open>A stat text that ends with the parenthesis makes the slice expression panic.\<close>

lemma stat_ppid_panic: "stat_ppid ''42 (sh)'' = None"
  by code_simp

text \<open>What the map of descriptors is at every moment: finite, and keyed by the numbers of its values.\<close>

definition fd_map :: "(uint64 \<rightharpoonup> ProcessFD) \<Rightarrow> bool" where
  "fd_map m = (finite (dom m) \<and> (\<forall>k f. m k = Some f \<longrightarrow> fd_FD f = k))"

lemma fd_map_upd: "fd_map m \<Longrightarrow> fd_FD f = k \<Longrightarrow> fd_map (m(k \<mapsto> f))"
  by (auto simp: fd_map_def)

lemma fd_map_open_files: "fd_map (open_files_map files)"
proof -
  have "fd_map m \<Longrightarrow> fd_map (fold open_file files m)" for m
    by (induction files arbitrary: m) (simp_all add: open_file_def fd_map_upd del: fun_upd_apply)
  moreover have "fd_map Map.empty" by (simp add: fd_map_def)
  ultimately show ?thesis by (simp add: open_files_map_def)
qed

lemma fd_map_entry: "fd_map m \<Longrightarrow> fd_map (fd_entry w dir e m)"
  by (auto simp: fd_entry_def intro!: fd_map_upd split: prod.splits option.splits sum.splits)

lemma fd_entry_keeps: "m \<subseteq>\<^sub>m fd_entry w dir e m"
  by (auto simp: fd_entry_def map_le_def split: prod.splits option.splits sum.splits)

lemma fd_entries:
  "fd_map m \<Longrightarrow> fd_map (fold (fd_entry w dir) es m) \<and> m \<subseteq>\<^sub>m fold (fd_entry w dir) es m"
proof (induction es arbitrary: m)
  case (Cons e es)
  from Cons.IH [OF fd_map_entry [OF Cons.prems]] fd_entry_keeps [of m w dir e] show ?case
    by (auto intro: map_le_trans)
qed simp

lemma open_files_map_file:
  assumes "k \<in> fst ` set files"
  shows "\<exists>f. open_files_map files k = Some f \<and> fd_Type f = ''file''"
proof -
  have "k \<in> fst ` set files \<or> (\<exists>f. m k = Some f \<and> fd_Type f = ''file'') \<Longrightarrow>
      \<exists>f. fold open_file files m k = Some f \<and> fd_Type f = ''file''" for m
  proof (induction files arbitrary: m)
    case (Cons a files)
    have "k \<in> fst ` set files \<or> (\<exists>f. open_file a m k = Some f \<and> fd_Type f = ''file'')"
      using Cons.prems by (auto simp: open_file_def)
    from Cons.IH [of "open_file a m", OF this] show ?case by simp
  qed simp
  with assms show ?thesis by (simp add: open_files_map_def)
qed

text \<open>
  The file descriptors of a process are listed in strictly ascending order of their
  numbers, each once, whatever order the map is ranged over in and whatever \<open>sort.Slice\<close>
  does with equal keys; the count is their number, and a file the process library knows is
  listed as a file even when /proc has a link for it.
\<close>

theorem process_fds_ascending:
  assumes "ranges enum" "sorts_slices srt" "newProcess pid = Inr (name, files)"
  shows "\<exists>out. GatherProcessFDs enum srt w newProcess pid = (Some out, None) \<and>
           sorted_wrt (<) (map fd_FD (fds_FDs out)) \<and> fds_Count out = length (fds_FDs out) \<and>
           (\<forall>k \<in> fst ` set files. \<exists>f \<in> set (fds_FDs out). fd_FD f = k \<and> fd_Type f = ''file'')"
proof -
  let ?dir = "''/proc/'' @ show_int pid @ ''/fd''" and ?m0 = "open_files_map files"
  define m where "m = (case w_readdir w ?dir of Inl _ \<Rightarrow> ?m0 | Inr es \<Rightarrow> fold (fd_entry w ?dir) es ?m0)"
  define r where "r = srt (\<lambda>a b. fd_FD a < fd_FD b) (map (\<lambda>k. the (m k)) (enum m))"
  have "fd_map m \<and> ?m0 \<subseteq>\<^sub>m m"
    unfolding m_def
    using fd_map_open_files fd_entries by (auto split: sum.splits)
  then have fm: "fd_map m" and le: "?m0 \<subseteq>\<^sub>m m" by blast+
  then have enum: "distinct (enum m)" "set (enum m) = dom m" using assms(1) by (auto simp: ranges_def fd_map_def)
  have keys: "map (\<lambda>k. fd_FD (the (m k))) (enum m) = enum m"
    using fm enum(2) by (intro map_idI) (auto simp: fd_map_def)
  note srt = sort_key_asc [OF assms(2), of fd_FD "map (\<lambda>k. the (m k)) (enum m)", folded r_def]
  have "mset (map fd_FD r) = mset (enum m)" using arg_cong [OF srt(1), of "image_mset fd_FD"] keys by (simp add: mset_map [symmetric] comp_def del: mset_map)
  then have "distinct (map fd_FD r)" using enum(1) by (metis mset_eq_imp_distinct_iff)
  then have "sorted_wrt (<) (map fd_FD r)" using srt(2) by (simp add: strict_sorted_iff)
  moreover have setr: "set r = (\<lambda>k. the (m k)) ` dom m" using srt(1) enum(2) by (metis image_set set_mset_mset)
  have "\<exists>f \<in> set r. fd_FD f = k \<and> fd_Type f = ''file''" if k: "k \<in> fst ` set files" for k
  proof -
    obtain f where f: "?m0 k = Some f" "fd_Type f = ''file''" using open_files_map_file [OF k] by blast
    then have mk: "m k = Some f" using le by (metis domI map_le_def)
    then have "f \<in> set r" unfolding setr by (intro image_eqI [where x = k]) auto
    moreover have "fd_FD f = k" using fm mk by (simp add: fd_map_def)
    ultimately show ?thesis using f(2) by blast
  qed
  moreover have "GatherProcessFDs enum srt w newProcess pid =
      (Some \<lparr>Errors = [], fds_PID = pid, fds_Name = name, fds_Count = length r, fds_FDs = r\<rparr>, None)"
    by (simp only: GatherProcessFDs_def assms(3) Let_def sum.case prod.case m_def r_def)
  ultimately show ?thesis by auto
qed

theorem process_fds_ascending_witness:
  "\<exists>out. GatherProcessFDs (\<lambda>m. sorted_list_of_set (dom m)) insertion_sort broken_world
           (\<lambda>_. Inr (''sh'', [(3, ''/etc/passwd''), (1, ''/dev/null'')])) 9 = (Some out, None) \<and>
     sorted_wrt (<) (map fd_FD (fds_FDs out)) \<and> fds_Count out = length (fds_FDs out) \<and>
     (\<forall>k \<in> fst ` set [(3 :: uint64, ''/etc/passwd''), (1, ''/dev/null'')].
        \<exists>f \<in> set (fds_FDs out). fd_FD f = k \<and> fd_Type f = ''file'')"
  by (rule process_fds_ascending [OF sorted_ranges insertion_sort_sorts]) simp

text \<open>
  C33. The process list is the top of a ranking: with a key without NaN (memory for
  "memory", CPU for any other order but "both") the output has as many processes as there
  are up to the limit, each a process of the system, none ranks above one listed before it,
  and none that is left out ranks above a listed one.
\<close>

theorem process_list_top:
  assumes "sorts_slices srt" "sortBy \<noteq> ''both''"
    "key = (if sortBy = ''memory'' then ps_MemoryPercent else ps_CPUPercent)"
    "\<And>p. p \<in> set procs \<Longrightarrow> key (process_stat w p) \<noteq> NaN"
  shows "\<exists>out rest. GatherProcessInfo srt w (Inr procs) sortBy limit = (Some out, None) \<and>
           mset (Processes out) + mset rest = mset (map (process_stat w) procs) \<and>
           length (Processes out) = min limit (length procs) \<and>
           sorted_wrt (\<lambda>a b. \<not> f64_less (key a) (key b)) (Processes out) \<and>
           (\<forall>a \<in> set (Processes out). \<forall>b \<in> set rest. \<not> f64_less (key a) (key b))"
proof -
  let ?xs = "map (process_stat w) procs" and ?lt = "\<lambda>a b. f64_less (key b) (key a)"
  have lt: "(if (if sortBy = [] then ''cpu'' else sortBy) = ''memory'' then by_memory else by_cpu) = ?lt"
    using assms(3) by (auto simp: by_memory_def by_cpu_def fun_eq_iff)
  have sw: "strict_weak (set ?xs) ?lt" using assms(4) by (intro strict_weak_f64) auto
  note srt = slice_sorter.srt_ordered [OF slice_sorter.intro [OF assms(1)] sw]
    slice_sorter.srt_top [OF slice_sorter.intro [OF assms(1)] sw, where k = limit]
  have "limit_to limit (srt ?lt ?xs) = take limit (srt ?lt ?xs)" by (simp add: limit_to_def)
  moreover have "(if sortBy = [] then ''cpu'' else sortBy) \<noteq> ''both''" using assms(2) by simp
  ultimately have "GatherProcessInfo srt w (Inr procs) sortBy limit =
      (Some \<lparr>Errors = [], Processes = take limit (srt ?lt ?xs), ByCPU = [], ByMemory = []\<rparr>, None)"
    unfolding GatherProcessInfo_def Let_def sum.case lt by simp
  moreover have "length (take limit (srt ?lt ?xs)) = min limit (length procs)"
    using srt(2) by simp
  moreover have "sorted_wrt (\<lambda>a b. \<not> f64_less (key a) (key b)) (take limit (srt ?lt ?xs))"
    using srt(1) by (rule sorted_wrt_take)
  ultimately show ?thesis
    using srt(4) [symmetric] srt(5)
    by (intro exI [of _ "\<lparr>Errors = [], Processes = take limit (srt ?lt ?xs), ByCPU = [], ByMemory = []\<rparr>"]
        exI [of _ "drop limit (srt ?lt ?xs)"]) (simp only: ProcessInfoOutput.simps simp_thms, blast)
qed

theorem process_list_top_witness:
  "\<exists>out rest. GatherProcessInfo insertion_sort broken_world
       (Inr [\<lparr>gp_Pid = 4, gp_Name = ''x'', gp_CPUPercent = Fin 1, gp_MemoryPercent = Fin 2, gp_Status = [''S''], gp_MemoryMaps = Inr []\<rparr>])
       ''cpu'' 10 = (Some out, None) \<and>
     mset (Processes out) + mset rest = mset (map (process_stat broken_world)
       [\<lparr>gp_Pid = 4, gp_Name = ''x'', gp_CPUPercent = Fin 1, gp_MemoryPercent = Fin 2, gp_Status = [''S''], gp_MemoryMaps = Inr []\<rparr>]) \<and>
     length (Processes out) = min 10 (length
       [\<lparr>gp_Pid = 4, gp_Name = ''x'', gp_CPUPercent = Fin 1, gp_MemoryPercent = Fin 2, gp_Status = [''S''], gp_MemoryMaps = Inr []\<rparr>]) \<and>
     sorted_wrt (\<lambda>a b. \<not> f64_less (ps_CPUPercent a) (ps_CPUPercent b)) (Processes out) \<and>
     (\<forall>a \<in> set (Processes out). \<forall>b \<in> set rest. \<not> f64_less (ps_CPUPercent a) (ps_CPUPercent b))"
  by (rule process_list_top [OF insertion_sort_sorts]) (auto simp: process_stat_def Let_def)

end
