(* ===== verification/Packages.thy ===== *)
theory Packages
  imports Handler
begin

text \<open>
  Packages (tools/packages.go): which package manager is there, the parsers of the listings of
  pacman, dpkg, apk, rpm and apt, and what the exit codes of the managers mean. The regular
  expression of apk is the search for its longest first group; its listing is read back.
\<close>

section \<open>Data\<close>

record InstalledPackage =
  pkg_Name :: string
  pkg_Version :: string

record InstalledPackagesOutput = OutputErrors +
  Packages :: "InstalledPackage list"
  pkgs_Total :: nat

record AvailableUpdate =
  upd_Name :: string
  upd_Current :: string
  upd_New :: string

record AvailableUpdatesOutput = OutputErrors +
  Updates :: "AvailableUpdate list"
  upds_Total :: nat

definition installed :: "InstalledPackage list \<Rightarrow> InstalledPackagesOutput" where
  "installed pkgs = \<lparr>Errors = [], Packages = pkgs, pkgs_Total = length pkgs\<rparr>"

definition updates_of :: "AvailableUpdate list \<Rightarrow> AvailableUpdatesOutput" where
  "updates_of upds = \<lparr>Errors = [], Updates = upds, upds_Total = length upds\<rparr>"

section \<open>Package managers\<close>

definition hasAnyBinary :: "world \<Rightarrow> string list \<Rightarrow> bool" where
  "hasAnyBinary w names = list_ex (\<lambda>n. w_look w n = None) names"

definition detectPkgManager :: "world \<Rightarrow> string" where
  "detectPkgManager w =
     (if w_look w ''pacman'' = None then ''pacman''
      else if w_look w ''dpkg'' = None then ''dpkg''
      else if hasAnyBinary w [''rpm'', ''dnf'', ''yum''] then ''rpm''
      else if hasAnyBinary w [''apk''] then ''apk''
      else [])"

section \<open>Listings of installed packages\<close>

definition pacman_line :: "string \<Rightarrow> InstalledPackage option" where
  "pacman_line raw =
     (if raw = [] \<or> HasPrefix raw '' '' then None
      else
        let line = TrimSpace raw;
            line = (case Index line ''/'' of Some idx \<Rightarrow> drop (Suc idx) line | None \<Rightarrow> line);
            parts = Fields line
        in if length parts \<ge> 2 then Some \<lparr>pkg_Name = parts ! 0, pkg_Version = parts ! 1\<rparr> else None)"

definition parsePacmanQOutput :: "string \<Rightarrow> InstalledPackagesOutput" where
  "parsePacmanQOutput output = installed (List.map_filter pacman_line (lines_of output))"

definition dpkg_line :: "string \<Rightarrow> InstalledPackage option" where
  "dpkg_line line =
     (if length line < 4 \<or> take 2 line \<noteq> ''ii'' then None
      else
        let fields = Fields (drop 3 line)
        in if length fields \<ge> 2 then Some \<lparr>pkg_Name = fields ! 0, pkg_Version = fields ! 1\<rparr> else None)"

definition parseDpkgLOutput :: "string \<Rightarrow> InstalledPackagesOutput" where
  "parseDpkgLOutput output = installed (List.map_filter dpkg_line (lines_of (TrimSpace output)))"

text \<open>
  \<open>^(.+)-(\d[^-]*(?:-r\d+)?)$\<close>: the second group is a version, the first is not empty and has
  no newline, and being greedy it ends at the last dash for which that holds.
\<close>

definition all_digits :: "string \<Rightarrow> bool" where
  "all_digits s = (s \<noteq> [] \<and> list_all is_digit s)"

definition apk_version :: "string \<Rightarrow> bool" where
  "apk_version v =
     (v \<noteq> [] \<and> is_digit (hd v) \<and>
      (CHR ''-'' \<notin> set v \<or>
       (case Index v ''-'' of
          None \<Rightarrow> False
        | Some i \<Rightarrow> HasPrefix (drop i v) ''-r'' \<and> all_digits (drop (i + 2) v))))"

definition splitApkNameVersion :: "string \<Rightarrow> string \<times> string \<times> bool" where
  "splitApkNameVersion tok =
     (case find (\<lambda>i. 0 < i \<and> tok ! i = CHR ''-'' \<and> nl \<notin> set (take i tok) \<and> apk_version (drop (Suc i) tok))
             (rev [0..<length tok]) of
        None \<Rightarrow> ([], [], False)
      | Some i \<Rightarrow> (take i tok, drop (Suc i) tok, True))"

definition apk_line :: "string \<Rightarrow> InstalledPackage option" where
  "apk_line line =
     (let fields = Fields line in
      if fields = [] then None
      else
        (case splitApkNameVersion (fields ! 0) of
           (pkgName, version, ok) \<Rightarrow>
             if ok then Some \<lparr>pkg_Name = pkgName, pkg_Version = version\<rparr> else None))"

definition parseApkListOutput :: "string \<Rightarrow> InstalledPackagesOutput" where
  "parseApkListOutput output = installed (List.map_filter apk_line (lines_of (TrimSpace output)))"

definition rpm_line :: "string \<Rightarrow> InstalledPackage option" where
  "rpm_line line =
     (let fields = Fields line in
      if length fields < 2 then None
      else Some \<lparr>pkg_Name = fields ! 0, pkg_Version = fields ! 1\<rparr>)"

definition parseRpmQOutput :: "string \<Rightarrow> InstalledPackagesOutput" where
  "parseRpmQOutput output = installed (List.map_filter rpm_line (lines_of (TrimSpace output)))"

definition rpmQueryFormat :: string where
  "rpmQueryFormat = ''%{NAME} %{VERSION}-%{RELEASE}'' @ [nl]"

text \<open>A listing command: its error is the result's, its output is parsed.\<close>

definition listing :: "world \<Rightarrow> ctx \<Rightarrow> string \<Rightarrow> string list \<Rightarrow> (string \<Rightarrow> 'o) \<Rightarrow> 'o result" where
  "listing w c bin args parse =
     (case execOutput w c bin args of
        (_, Some e) \<Rightarrow> (None, Some e)
      | (out, None) \<Rightarrow> (Some (parse out), None))"

definition gatherPacmanPackages :: "world \<Rightarrow> ctx \<Rightarrow> string \<Rightarrow> InstalledPackagesOutput result" where
  "gatherPacmanPackages w c name =
     listing w c ''pacman'' (if name = [] then [''-Q''] else [''-Qs'', name]) parsePacmanQOutput"

definition gatherDpkgPackages :: "world \<Rightarrow> ctx \<Rightarrow> string \<Rightarrow> InstalledPackagesOutput result" where
  "gatherDpkgPackages w c name =
     listing w c ''dpkg'' (if name \<noteq> [] then [''-l'', name] else [''-l'']) parseDpkgLOutput"

definition gatherRpmPackages :: "world \<Rightarrow> ctx \<Rightarrow> string \<Rightarrow> InstalledPackagesOutput result" where
  "gatherRpmPackages w c name =
     listing w c ''rpm''
       ([''-qa'', ''--qf'', rpmQueryFormat] @
        (if name \<noteq> [] then [''name='' @ [CHR 0x22] @ name @ ''*'' @ [CHR 0x22]] else []))
       parseRpmQOutput"

definition gatherApkPackages :: "world \<Rightarrow> ctx \<Rightarrow> string \<Rightarrow> InstalledPackagesOutput result" where
  "gatherApkPackages w c name =
     listing w c ''apk'' ([''list'', ''--installed''] @ (if name \<noteq> [] then [name @ ''*''] else []))
       parseApkListOutput"

definition exec_not_found :: goerr where
  "exec_not_found = ErrExecNotFound []"

definition GatherInstalledPackages :: "world \<Rightarrow> ctx \<Rightarrow> string \<Rightarrow> InstalledPackagesOutput result" where
  "GatherInstalledPackages w c name =
     (let pm = detectPkgManager w in
      if pm = ''pacman'' then gatherPacmanPackages w c name
      else if pm = ''dpkg'' then gatherDpkgPackages w c name
      else if pm = ''rpm'' then gatherRpmPackages w c name
      else if pm = ''apk'' then gatherApkPackages w c name
      else (None, Some exec_not_found))"

section \<open>Available updates\<close>

definition apk_update_line :: "string \<Rightarrow> AvailableUpdate option" where
  "apk_update_line raw =
     (let line = TrimSpace raw in
      if line = [] \<or> HasPrefix line ''WARNING:'' then None
      else
        (case Cut line ''<'' of
           (before, after, ok) \<Rightarrow>
             if \<not> ok then None
             else (case splitApkNameVersion (TrimSpace before) of
                     (pkgName, cur, ok') \<Rightarrow>
                       if \<not> ok' then None
                       else Some \<lparr>upd_Name = pkgName, upd_Current = cur, upd_New = TrimSpace after\<rparr>)))"

definition parseApkVersionOutput :: "string \<Rightarrow> AvailableUpdatesOutput" where
  "parseApkVersionOutput output = updates_of (List.map_filter apk_update_line (lines_of (TrimSpace output)))"

definition pacman_update_line :: "string \<Rightarrow> AvailableUpdate option" where
  "pacman_update_line raw =
     (let line = TrimSpace raw in
      if line = [] then None
      else
        (case Cut line '' -> '' of
           (before, after, ok) \<Rightarrow>
             if ok then
               let fields = Fields before
               in if length fields \<ge> 2
                  then Some \<lparr>upd_Name = fields ! 0, upd_Current = fields ! 1, upd_New = TrimSpace after\<rparr>
                  else None
             else
               let fields = Fields line
               in if length fields \<ge> 2
                  then Some \<lparr>upd_Name = fields ! 0, upd_Current = [], upd_New = fields ! 1\<rparr>
                  else None))"

definition parsePacmanQuOutput :: "string \<Rightarrow> AvailableUpdatesOutput" where
  "parsePacmanQuOutput output = updates_of (List.map_filter pacman_update_line (lines_of (TrimSpace output)))"

text \<open>The loop over \<open>fields[2:]\<close>: the field after the first \<open>from:\<close> that is not the last one.\<close>

fun apt_current :: "string list \<Rightarrow> string" where
  "apt_current (f # g # fs) = (if f = ''from:'' then TrimRight_char (CHR '']'') g else apt_current (g # fs))"
| "apt_current fs = []"

definition apt_line :: "string \<Rightarrow> AvailableUpdate option" where
  "apt_line raw =
     (let line = TrimSpace raw in
      if line = [] \<or> HasPrefix line ''Listing...'' \<or> HasPrefix line ''WARNING:'' then None
      else
        (case Cut line ''/'' of
           (before, after, ok) \<Rightarrow>
             if ok then
               let fields = Fields after
               in if length fields \<ge> 2
                  then Some \<lparr>upd_Name = before, upd_Current = apt_current (drop 2 fields), upd_New = fields ! 1\<rparr>
                  else None
             else None))"

definition parseAptListOutput :: "string \<Rightarrow> AvailableUpdatesOutput" where
  "parseAptListOutput output = updates_of (List.map_filter apt_line (lines_of (TrimSpace output)))"

definition rpmArches :: "string list" where
  "rpmArches =
     [''noarch'', ''x86_64'', ''x86'', ''i386'', ''i486'', ''i586'', ''i686'', ''aarch64'',
      ''armv7hl'', ''armv6hl'', ''ppc64'', ''ppc64le'', ''s390x'', ''riscv64'', ''src'']"

definition stripRPMArch :: "string \<Rightarrow> string" where
  "stripRPMArch name =
     (case LastIndex name ''.'' of
        None \<Rightarrow> name
      | Some idx \<Rightarrow> if drop (Suc idx) name \<in> set rpmArches then take idx name else name)"

definition dnf_line :: "string \<Rightarrow> AvailableUpdate option" where
  "dnf_line raw =
     (let line = TrimSpace raw in
      if line = [] \<or> HasPrefix line ''Last metadata expiration'' \<or> HasPrefix line ''Obsoleting Packages''
      then None
      else
        let fields = Fields line
        in if length fields < 2 then None
           else Some \<lparr>upd_Name = stripRPMArch (fields ! 0), upd_Current = [], upd_New = fields ! 1\<rparr>)"

definition parseDnfCheckUpdateOutput :: "string \<Rightarrow> AvailableUpdatesOutput" where
  "parseDnfCheckUpdateOutput output = updates_of (List.map_filter dnf_line (lines_of (TrimSpace output)))"

definition dnfUpdatesExit :: int where
  "dnfUpdatesExit = 100"

definition gatherApkUpdates :: "world \<Rightarrow> ctx \<Rightarrow> AvailableUpdatesOutput result" where
  "gatherApkUpdates w c = listing w c ''apk'' [''version'', ''-l'', ''<''] parseApkVersionOutput"

definition gatherPacmanUpdates :: "world \<Rightarrow> ctx \<Rightarrow> AvailableUpdatesOutput result" where
  "gatherPacmanUpdates w c =
     (case execOutput w c ''pacman'' [''-Qu''] of
        (out, err) \<Rightarrow>
          if err \<noteq> None \<and> out = [] then (Some \<lparr>Errors = [], Updates = [], upds_Total = 0\<rparr>, None)
          else (Some (parsePacmanQuOutput out), None))"

definition gatherAptUpdates :: "world \<Rightarrow> ctx \<Rightarrow> AvailableUpdatesOutput result" where
  "gatherAptUpdates w c =
     (case execOutput w c ''apt'' [''list'', ''--upgradable''] of
        (out, err) \<Rightarrow>
          if err \<noteq> None \<and> out = [] then (None, err) else (Some (parseAptListOutput out), None))"

definition gatherRpmUpdates :: "world \<Rightarrow> ctx \<Rightarrow> AvailableUpdatesOutput result" where
  "gatherRpmUpdates w c =
     (let bin = (if hasAnyBinary w [''dnf''] then ''dnf''
                 else if hasAnyBinary w [''yum''] then ''yum'' else [])
      in if bin = [] then (None, Some exec_not_found)
         else
           (case execOutput w c bin [''check-update''] of
              (out, None) \<Rightarrow> (Some (parseDnfCheckUpdateOutput out), None)
            | (out, Some e) \<Rightarrow>
                if exit_code e \<noteq> Some dnfUpdatesExit then (None, Some e)
                else (Some (parseDnfCheckUpdateOutput out), None)))"

definition GatherAvailableUpdates :: "world \<Rightarrow> ctx \<Rightarrow> AvailableUpdatesOutput result" where
  "GatherAvailableUpdates w c =
     (let pm = detectPkgManager w in
      if pm = ''pacman'' then gatherPacmanUpdates w c
      else if pm = ''dpkg'' then gatherAptUpdates w c
      else if pm = ''rpm'' then gatherRpmUpdates w c
      else if pm = ''apk'' then gatherApkUpdates w c
      else (None, Some exec_not_found))"

section \<open>Handlers\<close>

definition HandleGetInstalledPackages ::
  "(nat \<Rightarrow> nat \<Rightarrow> nat \<Rightarrow> nat) \<Rightarrow> cfg_state \<Rightarrow> int \<Rightarrow> int \<Rightarrow> ctx \<Rightarrow> world \<Rightarrow> string \<Rightarrow>
   InstalledPackagesOutput result \<times> log_event list" where
  "HandleGetInstalledPackages fr s now dur c w name =
     run_tool fr s now dur c ToolNameGetInstalledPackages 0 (\<lambda>ct. GatherInstalledPackages w ct name)"

definition HandleGetAvailableUpdates ::
  "(nat \<Rightarrow> nat \<Rightarrow> nat \<Rightarrow> nat) \<Rightarrow> cfg_state \<Rightarrow> int \<Rightarrow> int \<Rightarrow> ctx \<Rightarrow> world \<Rightarrow>
   AvailableUpdatesOutput result \<times> log_event list" where
  "HandleGetAvailableUpdates fr s now dur c w =
     run_tool fr s now dur c ToolNameGetAvailableUpdates 0 (GatherAvailableUpdates w)"

section \<open>Names and versions\<close>

text \<open>The only dash of a version is followed by the letter r, so no shorter version starts inside it.\<close>

lemma no_later_version:
  assumes v: "apk_version (a @ CHR ''-'' # b)"
  shows "\<not> apk_version b"
proof
  assume "apk_version b"
  then have b: "b \<noteq> []" "is_digit (hd b)" by (auto simp: apk_version_def)
  obtain i where i: "Index (a @ CHR ''-'' # b) ''-'' = Some i"
    and r: "HasPrefix (drop i (a @ CHR ''-'' # b)) ''-r''" and d: "all_digits (drop (i + 2) (a @ CHR ''-'' # b))"
    using v by (auto simp: apk_version_def split: option.splits)
  have no: "\<not> is_digit (CHR ''-'')" "\<not> is_digit (CHR ''r'')" by code_simp+
  obtain x y where xy: "a @ CHR ''-'' # b = x @ CHR ''-'' # y" "CHR ''-'' \<notin> set x" "i = length x"
    using i by (auto simp: Index_char_Some)
  consider "a = x" "b = y" | z where "a = x @ CHR ''-'' # z"
  proof -
    assume x: "a = x \<Longrightarrow> b = y \<Longrightarrow> thesis" and z: "\<And>z. a = x @ CHR ''-'' # z \<Longrightarrow> thesis"
    obtain us where "a = x @ us \<and> us @ CHR ''-'' # b = CHR ''-'' # y \<or> a @ us = x \<and> CHR ''-'' # b = us @ CHR ''-'' # y"
      using xy(1) by (auto simp: append_eq_append_conv2)
    then show thesis using x z xy(2) by (cases us) auto
  qed
  then show False
  proof cases
    case 1
    with r xy(3) b no show False by (cases y) auto
  next
    case 2
    with r xy(3) obtain z' where z: "z @ CHR ''-'' # b = CHR ''r'' # z'" by (auto simp: prefix_def)
    then have "drop (i + 2) (a @ CHR ''-'' # b) = z'" using 2 xy(3) by simp
    moreover have "CHR ''-'' \<in> set z'" using z by (cases z) auto
    ultimately show False using d no by (auto simp: all_digits_def list_all_iff)
  qed
qed

lemma find_rev_upt:
  "find P (rev [0..<n]) = Some i \<longleftrightarrow> i < n \<and> P i \<and> (\<forall>j < n. i < j \<longrightarrow> \<not> P j)"
proof (induction n)
  case (Suc n)
  then show ?case by (auto simp: less_Suc_eq)
qed simp

lemma split_name_version:
  "splitApkNameVersion tok = (name, v, True) \<longleftrightarrow>
     tok = name @ ''-'' @ v \<and> name \<noteq> [] \<and> nl \<notin> set name \<and> apk_version v"
proof -
  let ?P = "\<lambda>i. 0 < i \<and> tok ! i = CHR ''-'' \<and> nl \<notin> set (take i tok) \<and> apk_version (drop (Suc i) tok)"
  have only: "\<not> ?P j" if "?P i" "i < j" "j < length tok" for i j
  proof
    assume j: "?P j"
    have "drop (Suc i) tok = take (j - Suc i) (drop (Suc i) tok) @ CHR ''-'' # drop (Suc j) tok"
      using id_take_nth_drop [of "j - Suc i" "drop (Suc i) tok"] that(2,3) j by (simp add: Suc_diff_Suc)
    with no_later_version that(1) j show False by metis
  qed
  show ?thesis
  proof
    assume "splitApkNameVersion tok = (name, v, True)"
    then obtain i where f: "find ?P (rev [0..<length tok]) = Some i" "name = take i tok" "v = drop (Suc i) tok"
      by (auto simp: splitApkNameVersion_def split: option.splits)
    then have i: "i < length tok" "?P i" unfolding find_rev_upt by blast+
    then have "tok = take i tok @ CHR ''-'' # drop (Suc i) tok" using id_take_nth_drop [OF i(1)] by simp
    with f(2,3) i show "tok = name @ ''-'' @ v \<and> name \<noteq> [] \<and> nl \<notin> set name \<and> apk_version v" by auto
  next
    assume nv: "tok = name @ ''-'' @ v \<and> name \<noteq> [] \<and> nl \<notin> set name \<and> apk_version v"
    then have i: "length name < length tok" "?P (length name)" by auto
    with only have "find ?P (rev [0..<length tok]) = Some (length name)" unfolding find_rev_upt by blast
    with nv show "splitApkNameVersion tok = (name, v, True)" by (simp add: splitApkNameVersion_def)
  qed
qed

section \<open>The listing of apk\<close>

text \<open>
  The lines of \<open>apk list --installed\<close>: name, dash and version, the architecture, the source
  package in braces, the license in parentheses and the status in brackets, or a warning.
\<close>

record apk_row =
  ar_Package :: InstalledPackage
  ar_Arch :: string
  ar_Origin :: string
  ar_License :: string
  ar_Status :: string

datatype apk_item = Listed apk_row | Warned string

fun print_apk :: "apk_item \<Rightarrow> string" where
  "print_apk (Listed r) =
     pkg_Name (ar_Package r) @ ''-'' @ pkg_Version (ar_Package r) @ '' '' @ ar_Arch r @ '' {'' @ ar_Origin r @
     ''} ('' @ ar_License r @ '') ['' @ ar_Status r @ '']''"
| "print_apk (Warned s) = ''WARNING: '' @ s"

fun apk_package :: "apk_item \<Rightarrow> InstalledPackage option" where
  "apk_package (Listed r) = Some (ar_Package r)"
| "apk_package (Warned _) = None"

definition one_line :: "string \<Rightarrow> bool" where
  "one_line s = list_all (\<lambda>x. byte x < 0x80 \<and> x \<noteq> nl) s"

fun apk_ok :: "apk_item \<Rightarrow> bool" where
  "apk_ok (Listed r) =
     (token (pkg_Name (ar_Package r)) \<and> token (pkg_Version (ar_Package r)) \<and> apk_version (pkg_Version (ar_Package r)) \<and>
      list_all one_line [ar_Arch r, ar_Origin r, ar_License r, ar_Status r])"
| "apk_ok (Warned s) = (is_trimmed s \<and> one_line s)"

lemma one_line_no_nl: "one_line s \<Longrightarrow> nl \<notin> set s"
  by (auto simp: one_line_def list_all_iff)

lemma print_apk_line:
  assumes "apk_ok x"
  shows "is_trimmed (print_apk x)" "nl \<notin> set (print_apk x)"
proof -
  show "is_trimmed (print_apk x)" using assms
    by (cases x) (auto simp: is_trimmed_def one_line_def token_def printable_def byte_def list_all_iff hd_append)
  show "nl \<notin> set (print_apk x)" using assms by (cases x) (auto simp: one_line_no_nl token_no_blank)
qed

lemma apk_line_printed:
  assumes "apk_ok x"
  shows "apk_line (print_apk x) = apk_package x"
proof (cases x)
  case (Listed r)
  let ?p = "ar_Package r"
  have t: "token (pkg_Name ?p @ ''-'' @ pkg_Version ?p)"
    using assms Listed by (auto simp: token_def printable_def byte_def)
  have "splitApkNameVersion (pkg_Name ?p @ ''-'' @ pkg_Version ?p) = (pkg_Name ?p, pkg_Version ?p, True)"
    using assms Listed token_no_blank [of "pkg_Name ?p"] unfolding split_name_version by (auto simp: token_def)
  with Listed Fields_token_blank [OF t] show ?thesis by (simp add: apk_line_def)
next
  case (Warned s)
  have "token ''WARNING:''" by (simp add: token_def printable_def byte_def)
  moreover have "\<not> snd (snd (splitApkNameVersion ''WARNING:''))" by code_simp
  ultimately show ?thesis
    using Warned Fields_token_blank [of "''WARNING:''"] by (auto simp: apk_line_def split: prod.splits)
qed

lemma parse_apk:
  assumes "\<And>x. x \<in> set xs \<Longrightarrow> apk_ok x"
  shows "parseApkListOutput (TrimSpace (text_of print_apk xs)) = installed (List.map_filter apk_package xs)"
proof (cases "xs = []")
  case False
  have t: "is_trimmed (Join [nl] (map print_apk xs))"
    using assms False by (intro Join_lines_trimmed) (auto intro: print_apk_line)
  have "lines_of (Join [nl] (map print_apk xs)) = map print_apk xs"
    using assms False by (intro split_char_Join) (auto simp: print_apk_line)
  moreover have "List.map_filter apk_line (map print_apk xs) = List.map_filter apk_package xs"
    using assms by (induction xs) (simp_all add: apk_line_printed split: option.split)
  ultimately show ?thesis
    using assms t by (simp add: parseApkListOutput_def TrimSpace_text_of print_apk_line TrimSpace_trimmed)
qed (simp add: parseApkListOutput_def text_of_def apk_line_def)

section \<open>Properties\<close>

text \<open>
  C29. The search for the last dash finds the one way to read the text as a name, a dash and a
  version: \<open>splitApkNameVersion\<close> succeeds with a name and a version exactly when the text is
  theirs, the name is not empty and the version has the shape of one. So a name that itself
  contains a dash and digits is not cut short.
\<close>

theorem splitApkNameVersion_iff:
  "splitApkNameVersion tok = (name, v, True) \<longleftrightarrow>
     tok = name @ ''-'' @ v \<and> name \<noteq> [] \<and> nl \<notin> set name \<and> apk_version v"
  by (rule split_name_version)

text \<open>
  C38. What is installed under apk is read exactly: where apk is the package manager found and
  \<open>apk list --installed\<close>, with the pattern of the name asked for, prints any packages in its
  format, \<open>name-version arch {origin} (license) [status]\<close>, and any warnings, one a line, the
  answer holds exactly these packages with the name and the version of each, in order and each once, their number
  is the total, and there is no error. The names may hold dashes and digits themselves.
\<close>

theorem apk_listing_roundtrip:
  assumes "detectPkgManager w = ''apk''"
    "w_exec w c ''apk'' ([''list'', ''--installed''] @ (if name = [] then [] else [name @ ''*''])) =
       (text_of print_apk items, None)"
    "\<And>x. x \<in> set items \<Longrightarrow> apk_ok x"
  shows "GatherInstalledPackages w c name =
           (let pkgs = List.map_filter apk_package items
            in (Some \<lparr>Errors = [], Packages = pkgs, pkgs_Total = length pkgs\<rparr>, None))"
  using assms(1,2) parse_apk [of items, OF assms(3)]
  by (auto simp: GatherInstalledPackages_def gatherApkPackages_def listing_def execOutput_def installed_def Let_def)

theorem apk_listing_roundtrip_witness:
  "\<exists>w c. GatherInstalledPackages w c ''xf86'' =
     (Some \<lparr>Errors = [], Packages = [\<lparr>pkg_Name = ''xf86-video-r128'', pkg_Version = ''6.13.0-r0''\<rparr>], pkgs_Total = 1\<rparr>, None)"
proof (intro exI)
  let ?items = "[Warned ''opening cache: No such file'',
     Listed \<lparr>ar_Package = \<lparr>pkg_Name = ''xf86-video-r128'', pkg_Version = ''6.13.0-r0''\<rparr>, ar_Arch = ''x86_64'',
       ar_Origin = ''xf86-video'', ar_License = ''MIT'', ar_Status = ''installed''\<rparr>]"
  let ?w = "broken_world\<lparr>w_look := \<lambda>n. if n = ''apk'' then None else Some (ErrExecNotFound []),
     w_exec := \<lambda>_ _ _. (text_of print_apk ?items, None)\<rparr>"
  have v: "apk_version ''6.13.0-r0''" by code_simp
  have ok: "apk_ok x" if "x \<in> set ?items" for x
    using that v by (auto simp: is_trimmed_def one_line_def token_def printable_def byte_def)
  show "GatherInstalledPackages ?w \<lparr>deadline = None\<rparr> ''xf86'' =
     (Some \<lparr>Errors = [], Packages = [\<lparr>pkg_Name = ''xf86-video-r128'', pkg_Version = ''6.13.0-r0''\<rparr>], pkgs_Total = 1\<rparr>, None)"
    using apk_listing_roundtrip [of ?w "\<lparr>deadline = None\<rparr>" "''xf86''" ?items, OF _ _ ok]
    by (simp add: detectPkgManager_def hasAnyBinary_def Let_def)
qed

text \<open>
  A dnf or yum run with exit code 100 is an answer and no error: the updates it printed are
  returned; without an error they are returned too, and every other failure, a killed command
  included, is passed on and no update is reported.
\<close>

theorem dnf_exit_codes:
  assumes "hasAnyBinary w [''dnf'']" "w_exec w c ''dnf'' [''check-update''] = (out, err)"
  shows "gatherRpmUpdates w c =
           (case err of
              None \<Rightarrow> (Some (parseDnfCheckUpdateOutput (TrimSpace out)), None)
            | Some e \<Rightarrow> if exit_code e = Some 100 then (Some (parseDnfCheckUpdateOutput (TrimSpace out)), None)
                        else (None, Some e))"
  using assms by (cases err) (simp_all add: gatherRpmUpdates_def execOutput_def dnfUpdatesExit_def)

theorem dnf_exit_codes_witness:
  "gatherRpmUpdates (broken_world\<lparr>w_exec := \<lambda>_ _ _. (''vim.x86_64 9.1 updates'', Some (ErrExit 100 []))\<rparr>) \<lparr>deadline = None\<rparr> =
     (case Some (ErrExit 100 []) of
        None \<Rightarrow> (Some (parseDnfCheckUpdateOutput (TrimSpace ''vim.x86_64 9.1 updates'')), None)
      | Some e \<Rightarrow> if exit_code e = Some 100 then (Some (parseDnfCheckUpdateOutput (TrimSpace ''vim.x86_64 9.1 updates'')), None)
                  else (None, Some e))"
  by (rule dnf_exit_codes) (simp_all add: hasAnyBinary_def broken_world_def)

text \<open>With pacman a failed command without output is reported as no updates, whatever failed.\<close>

lemma pacman_failure_hidden:
  assumes "w_exec w c ''pacman'' [''-Qu''] = ([], Some e)"
  shows "gatherPacmanUpdates w c = (Some \<lparr>Errors = [], Updates = [], upds_Total = 0\<rparr>, None)"
  using assms by (simp add: gatherPacmanUpdates_def execOutput_def)

end
