(* ===== verification/Security.thy ===== *)
theory Security
  imports Handler
begin

text \<open>
  Failed logins, logged-in users and the audit log (tools/security.go), and the security audit
  (tools/security_audit.go): the sshd configuration with its includes, the firewall, file
  modes and the score. Reading a configuration has fuel for the depth of its includes, and
  running out of it is \<open>None\<close>; \<open>settings_read\<close> is the order in which settings are read.
\<close>

section \<open>Failed logins\<close>

record FailedLoginEntry =
  fl_Username :: string
  fl_Terminal :: string
  fl_Source :: string
  fl_Timestamp :: string

record FailedLoginsSummary =
  TotalAttempts :: nat
  UniqueUsernames :: nat
  UniqueSources :: nat

record FailedLoginsOutput = OutputErrors +
  fl_Entries :: "FailedLoginEntry list"
  fl_Summary :: FailedLoginsSummary

definition no_summary :: FailedLoginsSummary where
  "no_summary = \<lparr>TotalAttempts = 0, UniqueUsernames = 0, UniqueSources = 0\<rparr>"

definition isBootEntry :: "string list \<Rightarrow> bool" where
  "isBootEntry fs =
     (if length fs < 2 then False else fs ! 0 = ''reboot'' \<or> fs ! 1 = ''Boot'')"

definition lastb_line :: "string \<Rightarrow> FailedLoginEntry option" where
  "lastb_line line =
     (if line = [] \<or> HasPrefix line ''btmp begins'' then None
      else
        let fields = Fields line in
        if length fields < 3 then None
        else if isBootEntry fields then None
        else Some \<lparr>fl_Username = fields ! 0, fl_Terminal = fields ! 1, fl_Source = fields ! 2,
                   fl_Timestamp = Join '' '' (drop 3 fields)\<rparr>)"

definition ParseLastbOutput :: "string \<Rightarrow> FailedLoginEntry list" where
  "ParseLastbOutput output = List.map_filter lastb_line (lines_of (TrimSpace output))"

definition journal_login_line :: "string \<Rightarrow> FailedLoginEntry option" where
  "journal_login_line line =
     (if line = [] \<or> HasPrefix line ''-- '' then None
      else
        let parts = splitn_char 3 (CHR '' '') line in
        if length parts < 3 then None
        else Some \<lparr>fl_Username = parts ! 2, fl_Terminal = parts ! 1, fl_Source = [],
                   fl_Timestamp = parts ! 0\<rparr>)"

definition ParseJournalctlFailedLogins :: "string \<Rightarrow> FailedLoginEntry list" where
  "ParseJournalctlFailedLogins output = List.map_filter journal_login_line (lines_of (TrimSpace output))"

definition GatherFailedLoginsJournalctl :: "world \<Rightarrow> ctx \<Rightarrow> int \<Rightarrow> FailedLoginsOutput result" where
  "GatherFailedLoginsJournalctl w c n =
     (case execOutput w c ''journalctl''
             [''-u'', ''sshd'', ''-u'', ''systemd-logind'',
              ''--grep'', ''Failed password|authentication failure|Failed login'',
              ''--no-pager'', ''-o'', ''short-iso'', ''-n'', show_int n] of
        (out, err) \<Rightarrow>
          let entries = ParseJournalctlFailedLogins out in
          if (case err of None \<Rightarrow> False | Some e \<Rightarrow> is_exec_not_found e) then (None, err)
          else (Some \<lparr>Errors = [], fl_Entries = entries, fl_Summary = no_summary\<rparr>, None))"

definition computeFailedLoginsSummary :: "FailedLoginEntry list \<Rightarrow> FailedLoginsSummary" where
  "computeFailedLoginsSummary entries =
     \<lparr>TotalAttempts = length entries,
      UniqueUsernames = length (remdups (map fl_Username entries)),
      UniqueSources = length (remdups (map fl_Source (filter (\<lambda>e. fl_Source e \<noteq> []) entries)))\<rparr>"

definition with_summary :: "FailedLoginEntry list \<Rightarrow> FailedLoginsOutput" where
  "with_summary entries =
     \<lparr>Errors = [], fl_Entries = entries, fl_Summary = computeFailedLoginsSummary entries\<rparr>"

definition GatherFailedLogins :: "world \<Rightarrow> ctx \<Rightarrow> int \<Rightarrow> FailedLoginsOutput result" where
  "GatherFailedLogins w c n =
     (case execOutput w c ''lastb'' [''-n'', show_int n] of
        (out, None) \<Rightarrow> (Some (with_summary (ParseLastbOutput out)), None)
      | (out, Some lastbErr) \<Rightarrow>
          let entries = ParseLastbOutput out in
          if \<not> is_exec_not_found lastbErr \<and> entries \<noteq> [] then (Some (with_summary entries), None)
          else
            (case GatherFailedLoginsJournalctl w c n of
               (jOut, Some jErr) \<Rightarrow> (jOut, Some (ErrJoin lastbErr jErr))
             | (jOut, None) \<Rightarrow>
                 (map_option (\<lambda>o1. o1\<lparr>fl_Summary := computeFailedLoginsSummary (fl_Entries o1)\<rparr>) jOut,
                  if \<not> is_exec_not_found lastbErr then Some lastbErr else None)))"

definition HandleGetFailedLogins ::
  "(nat \<Rightarrow> nat \<Rightarrow> nat \<Rightarrow> nat) \<Rightarrow> cfg_state \<Rightarrow> int \<Rightarrow> int \<Rightarrow> ctx \<Rightarrow> world \<Rightarrow> int \<Rightarrow>
   FailedLoginsOutput result \<times> log_event list" where
  "HandleGetFailedLogins fr s now dur c w n =
     run_tool fr s now dur c ToolNameGetFailedLogins 0
       (\<lambda>ct. GatherFailedLogins w ct (if n \<le> 0 then 20 else n))"

section \<open>Logged-in users\<close>

record LoggedInUser =
  lu_Username :: string
  lu_Terminal :: string
  lu_From :: string
  lu_LoginTime :: string

record LoggedInUsersOutput = OutputErrors +
  lu_Users :: "LoggedInUser list"

definition who_line :: "string \<Rightarrow> LoggedInUser option" where
  "who_line line =
     (let fields = Fields line in
      if length fields < 4 then None
      else Some \<lparr>lu_Username = fields ! 0, lu_Terminal = fields ! 1,
                 lu_From = (if length fields > 5 then fields ! 5 else []),
                 lu_LoginTime = Join '' '' [fields ! 2, fields ! 3]\<rparr>)"

definition GatherLoggedInUsers :: "world \<Rightarrow> ctx \<Rightarrow> LoggedInUsersOutput result" where
  "GatherLoggedInUsers w c =
     (case execLines w c ''who'' [''-u''] of
        Inl e \<Rightarrow> (None, Some e)
      | Inr ls \<Rightarrow> (Some \<lparr>Errors = [], lu_Users = List.map_filter who_line ls\<rparr>, None))"

definition HandleGetLoggedInUsers ::
  "(nat \<Rightarrow> nat \<Rightarrow> nat \<Rightarrow> nat) \<Rightarrow> cfg_state \<Rightarrow> int \<Rightarrow> int \<Rightarrow> ctx \<Rightarrow> world \<Rightarrow>
   LoggedInUsersOutput result \<times> log_event list" where
  "HandleGetLoggedInUsers fr s now dur c w =
     run_tool fr s now dur c ToolNameGetLoggedInUsers 0 (GatherLoggedInUsers w)"

section \<open>The audit log\<close>

record AuditLogEntry =
  au_Timestamp :: string
  au_Type :: string
  au_Message :: string

record AuditLogsOutput = OutputErrors +
  au_Entries :: "AuditLogEntry list"

text \<open>A slice expression: out of range, it panics.\<close>

definition slice :: "'a list \<Rightarrow> nat \<Rightarrow> nat \<Rightarrow> 'a list option" where
  "slice s i j = (if i \<le> j \<and> j \<le> length s then Some (drop i (take j s)) else None)"

definition parseAuditdLine :: "string \<Rightarrow> AuditLogEntry option" where
  "parseAuditdLine line =
     (let unknown = \<lparr>au_Timestamp = [], au_Type = ''unknown'', au_Message = line\<rparr> in
      case Index line ''): '' of
        None \<Rightarrow> Some unknown
      | Some parenIdx \<Rightarrow>
          (case (slice line 0 (parenIdx + 1), slice line (parenIdx + 3) (length line)) of
             (Some header, Some msg) \<Rightarrow>
               (case Index header ''type='' of
                  None \<Rightarrow> Some unknown
                | Some typeStart \<Rightarrow>
                    (case Index (drop typeStart header) '' '' of
                       None \<Rightarrow> Some unknown
                     | Some typeEnd \<Rightarrow>
                         if typeEnd \<le> 5 then Some unknown
                         else
                           (case slice header (typeStart + 5) (typeStart + typeEnd) of
                              None \<Rightarrow> None
                            | Some msgType \<Rightarrow>
                                (case (Index header ''audit('', LastIndex header '')'') of
                                   (Some tsStart, Some tsEnd) \<Rightarrow>
                                     if tsEnd > tsStart then
                                       map_option (\<lambda>ts. \<lparr>au_Timestamp = ts, au_Type = msgType, au_Message = msg\<rparr>)
                                         (slice header (tsStart + 6) tsEnd)
                                     else Some \<lparr>au_Timestamp = [], au_Type = msgType, au_Message = msg\<rparr>
                                 | _ \<Rightarrow> Some \<lparr>au_Timestamp = [], au_Type = msgType, au_Message = msg\<rparr>))))
           | _ \<Rightarrow> None))"

fun audit_entries :: "string list \<Rightarrow> AuditLogEntry list option" where
  "audit_entries [] = Some []"
| "audit_entries (raw # rest) =
     (let line = TrimSpace raw in
      if line = [] then audit_entries rest
      else (case parseAuditdLine line of
              None \<Rightarrow> None
            | Some e \<Rightarrow> map_option (\<lambda>es. e # es) (audit_entries rest)))"

definition gatherFromAuditLog :: "world \<Rightarrow> int \<Rightarrow> AuditLogsOutput result option" where
  "gatherFromAuditLog w n =
     (case w_read w ''/var/log/audit/audit.log'' of
        Inl e \<Rightarrow> Some (None, Some (ErrWrap ''cannot open audit log'' e))
      | Inr data \<Rightarrow>
          (case scan_lines data of
             (_, Some e) \<Rightarrow> Some (None, Some (ErrWrap ''cannot read audit log'' e))
           | (allLines, None) \<Rightarrow>
               let start = nat (max (int (length allLines) - n) 0) in
               map_option (\<lambda>es. (Some \<lparr>Errors = [], au_Entries = es\<rparr>, None))
                 (audit_entries (drop start allLines))))"

definition GatherAuditLogs :: "world \<Rightarrow> int \<Rightarrow> AuditLogsOutput result option" where
  "GatherAuditLogs w n = gatherFromAuditLog w (if n \<le> 0 then 50 else n)"

definition HandleGetAuditLogs ::
  "(nat \<Rightarrow> nat \<Rightarrow> nat \<Rightarrow> nat) \<Rightarrow> cfg_state \<Rightarrow> int \<Rightarrow> int \<Rightarrow> ctx \<Rightarrow> world \<Rightarrow> int \<Rightarrow>
   (AuditLogsOutput result \<times> log_event list) option" where
  "HandleGetAuditLogs fr s now dur c w n =
     run_partial fr s now dur c ToolNameGetAuditLogs 0
       (\<lambda>_. GatherAuditLogs w (if n \<le> 0 then 50 else n))"

section \<open>The security audit: data\<close>

record FirewallInfo =
  IptablesOutput :: string
  NftablesOutput :: string
  UFWStatus :: string
  fw_Active :: bool

record SSHHardeningInfo =
  PermitRootLogin :: string
  PasswordAuthentication :: string
  PubkeyAuthentication :: string
  X11Forwarding :: string
  MaxAuthTries :: string
  ssh_Protocol :: string
  ConfigPresent :: bool

record PasswordPolicyInfo =
  PassMaxDays :: string
  PassMinDays :: string
  PassWarnAge :: string

record SecurityAuditOutput = OutputErrors +
  Firewall :: FirewallInfo
  SSHHardening :: SSHHardeningInfo
  SUIDBinaries :: "string list"
  WorldWritable :: "string list"
  Umask :: string
  PasswordPolicy :: PasswordPolicyInfo
  Score :: int

section \<open>Configuration files\<close>

type_synonym settings = "string \<rightharpoonup> string"

text \<open>
  The loops of \<open>parseSSHDConfig\<close>. A nil map is \<open>Some None\<close>. The recursive call is the first
  argument of the inner loops.
\<close>

fun copy_includes ::
  "(string \<Rightarrow> settings option option) \<Rightarrow> string list \<Rightarrow> settings \<Rightarrow> settings option" where
  "copy_includes sub [] m = Some m"
| "copy_includes sub (f # fs) m =
     (case sub f of
        None \<Rightarrow> None
      | Some None \<Rightarrow> copy_includes sub fs m
      | Some (Some m') \<Rightarrow> copy_includes sub fs (m ++ m'))"

fun sshd_lines ::
  "(string \<Rightarrow> settings option option) \<Rightarrow> world \<Rightarrow> string list \<Rightarrow> settings \<Rightarrow> settings option" where
  "sshd_lines sub w [] m = Some m"
| "sshd_lines sub w (raw # rest) m =
     (let line = TrimSpace raw in
      if line = [] \<or> HasPrefix line ''#'' then sshd_lines sub w rest m
      else
        let parts = splitn_char 2 (CHR '' '') line in
        if length parts \<noteq> 2 then sshd_lines sub w rest m
        else
          let key = ToLower (w_lower w) (parts ! 0); val = TrimSpace (parts ! 1) in
          if key = ''include'' then
            (case copy_includes sub (w_glob w (TrimSpace val)) m of
               None \<Rightarrow> None
             | Some m' \<Rightarrow> sshd_lines sub w rest m')
          else sshd_lines sub w rest (m(key \<mapsto> val)))"

fun parseSSHDConfig :: "nat \<Rightarrow> world \<Rightarrow> string \<Rightarrow> settings option option" where
  "parseSSHDConfig 0 w path = None"
| "parseSSHDConfig (Suc fuel) w path =
     (case w_read w path of
        Inl _ \<Rightarrow> Some None
      | Inr data \<Rightarrow> map_option Some (sshd_lines (parseSSHDConfig fuel w) w (lines_of data) Map.empty))"

definition login_defs_line :: "string \<Rightarrow> settings \<Rightarrow> settings" where
  "login_defs_line raw m =
     (let line = TrimSpace raw in
      if line = [] \<or> HasPrefix line ''#'' then m
      else
        let parts = Fields line
        in if length parts \<ge> 2 then m(parts ! 0 \<mapsto> parts ! 1) else m)"

definition parseLoginDefs :: "world \<Rightarrow> string \<Rightarrow> settings option" where
  "parseLoginDefs w path =
     (case w_read w path of
        Inl _ \<Rightarrow> None
      | Inr data \<Rightarrow> Some (fold login_defs_line (lines_of data) Map.empty))"

text \<open>Reading a key that is not in a map of strings gives the empty string.\<close>

definition setting :: "settings \<Rightarrow> string \<Rightarrow> string" where
  "setting m k = (case m k of None \<Rightarrow> [] | Some v \<Rightarrow> v)"

section \<open>The parts of the audit\<close>

definition gatherFirewall :: "world \<Rightarrow> ctx \<Rightarrow> FirewallInfo" where
  "gatherFirewall w c =
     (let info = \<lparr>IptablesOutput = [], NftablesOutput = [], UFWStatus = [], fw_Active = False\<rparr>;
          info = (case execOutput w c ''iptables'' [''-L'', ''-n'', ''--line-numbers''] of
                    (out, None) \<Rightarrow> if out \<noteq> [] then info\<lparr>IptablesOutput := out, fw_Active := True\<rparr> else info
                  | (_, Some _) \<Rightarrow> info);
          info = (case execOutput w c ''nft'' [''list'', ''ruleset''] of
                    (out, None) \<Rightarrow> if out \<noteq> [] then info\<lparr>NftablesOutput := out, fw_Active := True\<rparr> else info
                  | (_, Some _) \<Rightarrow> info)
      in (case execOutput w c ''ufw'' [''status''] of
            (out, None) \<Rightarrow>
              if out \<noteq> [] then
                let info = info\<lparr>UFWStatus := out\<rparr>
                in if Contains (ToLower (w_lower w) out) ''active'' then info\<lparr>fw_Active := True\<rparr> else info
              else info
          | (_, Some _) \<Rightarrow> info))"

definition no_ssh :: SSHHardeningInfo where
  "no_ssh = \<lparr>PermitRootLogin = [], PasswordAuthentication = [], PubkeyAuthentication = [],
             X11Forwarding = [], MaxAuthTries = [], ssh_Protocol = [], ConfigPresent = False\<rparr>"

definition gatherSSHHardening :: "nat \<Rightarrow> world \<Rightarrow> SSHHardeningInfo option" where
  "gatherSSHHardening fuel w =
     map_option
       (\<lambda>vals. case vals of
          None \<Rightarrow> no_ssh
        | Some v \<Rightarrow>
            \<lparr>PermitRootLogin = setting v ''permitrootlogin'',
             PasswordAuthentication = setting v ''passwordauthentication'',
             PubkeyAuthentication = setting v ''pubkeyauthentication'',
             X11Forwarding = setting v ''x11forwarding'',
             MaxAuthTries = setting v ''maxauthtries'',
             ssh_Protocol = setting v ''protocol'', ConfigPresent = True\<rparr>)
       (parseSSHDConfig fuel w ''/etc/ssh/sshd_config'')"

definition found_files :: "world \<Rightarrow> ctx \<Rightarrow> string list \<Rightarrow> string list" where
  "found_files w c args =
     (case execOutput w c ''find'' args of
        (out, err) \<Rightarrow>
          if err \<noteq> None \<and> out = [] then []
          else filter (\<lambda>l. l \<noteq> []) (map TrimSpace (lines_of out)))"

definition gatherSUIDBinaries :: "world \<Rightarrow> ctx \<Rightarrow> string list" where
  "gatherSUIDBinaries w c =
     found_files w c [''/'', ''-perm'', ''-4000'', ''-type'', ''f'', ''-maxdepth'', ''4'']"

definition gatherWorldWritable :: "world \<Rightarrow> ctx \<Rightarrow> string list" where
  "gatherWorldWritable w c =
     found_files w c [''/etc'', ''/usr'', ''/var'', ''-perm'', ''-0002'', ''-type'', ''f'', ''-maxdepth'', ''4'']"

fun show_oct :: "nat \<Rightarrow> string" where
  "show_oct n = (if n < 8 then [digit_char n] else show_oct (n div 8) @ [digit_char (n mod 8)])"

declare show_oct.simps [simp del]

text \<open>\<open>%04o\<close>; the msk of the process is a parameter.\<close>

definition gatherUmask :: "nat \<Rightarrow> string" where
  "gatherUmask msk = (let s = show_oct msk in replicate (4 - length s) (CHR ''0'') @ s)"

definition gatherPasswordPolicy :: "world \<Rightarrow> PasswordPolicyInfo" where
  "gatherPasswordPolicy w =
     (case parseLoginDefs w ''/etc/login.defs'' of
        None \<Rightarrow> \<lparr>PassMaxDays = [], PassMinDays = [], PassWarnAge = []\<rparr>
      | Some d \<Rightarrow> \<lparr>PassMaxDays = setting d ''PASS_MAX_DAYS'', PassMinDays = setting d ''PASS_MIN_DAYS'',
                   PassWarnAge = setting d ''PASS_WARN_AGE''\<rparr>)"

definition computeSecurityScore :: "(string \<Rightarrow> string) \<Rightarrow> 'a SecurityAuditOutput_scheme \<Rightarrow> int" where
  "computeSecurityScore um out =
     (let score = 100;
          score = (if \<not> fw_Active (Firewall out) then score - 15 else score);
          root = ToLower um (PermitRootLogin (SSHHardening out));
          score = (if root = ''yes'' \<or> root = [] \<and> ConfigPresent (SSHHardening out) then score - 20 else score);
          pwd = ToLower um (PasswordAuthentication (SSHHardening out));
          score = (if pwd = ''yes'' then score - 10 else score);
          score = (if length (SUIDBinaries out) > 10 then score - 10 else score);
          score = (if length (WorldWritable out) > 0 then score - 10 else score);
          umask = TrimSpace (Umask out);
          score = (if umask \<noteq> ''0027'' \<and> umask \<noteq> ''027'' \<and> umask \<noteq> ''0077'' \<and> umask \<noteq> ''077''
                   then score - 5 else score);
          score = (if PassMaxDays (PasswordPolicy out) \<noteq> [] then
                     (case Atoi (PassMaxDays (PasswordPolicy out)) of
                        (days, err) \<Rightarrow> if err \<noteq> None \<or> days > 90 then score - 5 else score)
                   else score - 5)
      in if score < 0 then 0 else score)"

definition GatherSecurityAudit :: "nat \<Rightarrow> nat \<Rightarrow> world \<Rightarrow> ctx \<Rightarrow> SecurityAuditOutput result option" where
  "GatherSecurityAudit fuel msk w c =
     map_option
       (\<lambda>ssh.
          let out = \<lparr>Errors = [], Firewall = gatherFirewall w c, SSHHardening = ssh,
                     SUIDBinaries = gatherSUIDBinaries w c, WorldWritable = gatherWorldWritable w c,
                     Umask = gatherUmask msk, PasswordPolicy = gatherPasswordPolicy w, Score = 0\<rparr>
          in (Some (out\<lparr>Score := computeSecurityScore (w_lower w) out\<rparr>), None))
       (gatherSSHHardening fuel w)"

definition HandleGetSecurityAudit ::
  "(nat \<Rightarrow> nat \<Rightarrow> nat \<Rightarrow> nat) \<Rightarrow> cfg_state \<Rightarrow> int \<Rightarrow> int \<Rightarrow> ctx \<Rightarrow> nat \<Rightarrow> nat \<Rightarrow> world \<Rightarrow>
   (SecurityAuditOutput result \<times> log_event list) option" where
  "HandleGetSecurityAudit fr s now dur c fuel msk w =
     run_partial fr s now dur c ToolNameGetSecurityAudit 0 (GatherSecurityAudit fuel msk w)"

section \<open>Lemmas\<close>

lemma slice_append [simp]: "slice (a @ b @ c) (length a) (length a + length b) = Some b"
  by (simp add: slice_def)

text \<open>What one line does: the files it includes, and the setting it makes.\<close>

definition include_target :: "world \<Rightarrow> string \<Rightarrow> string list" where
  "include_target w raw =
     (let line = TrimSpace raw; parts = splitn_char 2 (CHR '' '') line in
      if line = [] \<or> HasPrefix line ''#'' \<or> length parts \<noteq> 2 then []
      else if ToLower (w_lower w) (parts ! 0) = ''include'' then w_glob w (TrimSpace (TrimSpace (parts ! 1)))
      else [])"

definition line_setting :: "world \<Rightarrow> string \<Rightarrow> (string \<times> string) option" where
  "line_setting w raw =
     (let line = TrimSpace raw; parts = splitn_char 2 (CHR '' '') line in
      if line = [] \<or> HasPrefix line ''#'' \<or> length parts \<noteq> 2 then None
      else if ToLower (w_lower w) (parts ! 0) = ''include'' then None
      else Some (ToLower (w_lower w) (parts ! 0), TrimSpace (parts ! 1)))"

lemma sshd_lines_Cons:
  "sshd_lines sub w (l # ls) m =
     (case copy_includes sub (include_target w l) m of
        None \<Rightarrow> None
      | Some m' \<Rightarrow> sshd_lines sub w ls (case line_setting w l of None \<Rightarrow> m' | Some (k, v) \<Rightarrow> m'(k \<mapsto> v)))"
  unfolding sshd_lines.simps include_target_def line_setting_def Let_def by (simp split: option.split)

declare sshd_lines.simps(2) [simp del]

lemma sshd_lines_append:
  "sshd_lines sub w (a @ b) m =
     (case sshd_lines sub w a m of None \<Rightarrow> None | Some m' \<Rightarrow> sshd_lines sub w b m')"
  by (induction a arbitrary: m) (auto simp: sshd_lines_Cons split: option.splits)

text \<open>A file whose includes can all be read can be read; one that includes an endless file cannot.\<close>

lemma copy_includes_None: "p \<in> set ps \<Longrightarrow> sub p = None \<Longrightarrow> copy_includes sub ps m = None"
  by (induction ps arbitrary: m) (auto split: option.splits)

lemma copy_includes_total: "(\<And>p. p \<in> set ps \<Longrightarrow> sub p \<noteq> None) \<Longrightarrow> copy_includes sub ps m \<noteq> None"
  by (induction ps arbitrary: m) (fastforce split: option.splits)+

lemma sshd_lines_total:
  "(\<And>l p. l \<in> set ls \<Longrightarrow> p \<in> set (include_target w l) \<Longrightarrow> sub p \<noteq> None) \<Longrightarrow> sshd_lines sub w ls m \<noteq> None"
proof (induction ls arbitrary: m)
  case (Cons l ls)
  have "copy_includes sub (include_target w l) m \<noteq> None"
    using Cons.prems [of l] by (intro copy_includes_total) simp
  moreover have "sshd_lines sub w ls m' \<noteq> None" for m' by (intro Cons.IH Cons.prems list.set_intros(2))
  ultimately show ?case by (auto simp: sshd_lines_Cons split: option.splits)
qed simp

lemma sshd_lines_include:
  assumes "l \<in> set ls" "q \<in> set (include_target w l)" "sub q = None"
  shows "sshd_lines sub w ls m = None"
  using assms(1)
proof (induction ls arbitrary: m)
  case (Cons a ls)
  then show ?case
    using copy_includes_None [of q "include_target w a" sub] assms(2,3)
    by (cases "l = a") (auto simp: sshd_lines_Cons split: option.splits)
qed simp

text \<open>The files a configuration file includes.\<close>

definition sshd_includes :: "world \<Rightarrow> (string \<times> string) set" where
  "sshd_includes w =
     {(p, q). \<exists>data. w_read w p = Inr data \<and> (\<exists>l \<in> set (lines_of data). q \<in> set (include_target w l))}"

lemma parseSSHDConfig_rank:
  assumes "\<And>p q. (p, q) \<in> sshd_includes w \<Longrightarrow> rank q < (rank p :: nat)" "rank p < n"
  shows "parseSSHDConfig n w p \<noteq> None"
  using assms(2)
proof (induction n arbitrary: p)
  case (Suc n)
  have "sshd_lines (parseSSHDConfig n w) w (lines_of data) Map.empty \<noteq> None" if d: "w_read w p = Inr data" for data
  proof (rule sshd_lines_total)
    fix l q assume "l \<in> set (lines_of data)" "q \<in> set (include_target w l)"
    then have "(p, q) \<in> sshd_includes w" using d by (auto simp: sshd_includes_def)
    with assms(1) [of p q] Suc show "parseSSHDConfig n w q \<noteq> None" by simp
  qed
  then show ?case by (auto split: sum.splits)
qed simp

lemma parseSSHDConfig_cycle:
  assumes "(path, path) \<in> (sshd_includes w)\<^sup>+" "(path, p) \<in> (sshd_includes w)\<^sup>*" "(p, path) \<in> (sshd_includes w)\<^sup>*"
  shows "parseSSHDConfig n w p = None"
  using assms(2,3)
proof (induction n arbitrary: p)
  case (Suc n)
  have "(p, path) \<in> (sshd_includes w)\<^sup>+" using Suc.prems(2) assms(1) by (rule rtrancl_trancl_trancl)
  from tranclD [OF this] obtain q
    where q: "(p, q) \<in> sshd_includes w" "(q, path) \<in> (sshd_includes w)\<^sup>*" by blast
  then have none: "parseSSHDConfig n w q = None"
    by (intro Suc.IH rtrancl.rtrancl_into_rtrancl [OF Suc.prems(1)])
  obtain data l where d: "w_read w p = Inr data" "l \<in> set (lines_of data)" "q \<in> set (include_target w l)"
    using q(1) by (auto simp: sshd_includes_def)
  have "sshd_lines (parseSSHDConfig n w) w (lines_of data) Map.empty = None"
    using d(2,3) none by (rule sshd_lines_include)
  with d(1) show ?case by simp
qed simp







section \<open>Properties\<close>

text \<open>
  C22. Reading the sshd configuration ends exactly as deep as its includes go: if every chain of
  includes that starts at a file has at most n files, fuel n is enough for that file; and a file
  that includes itself, directly or through others, is never read to an end, whatever the fuel.
\<close>

theorem sshd_config_terminates_iff_acyclic:
  "(\<forall>rank :: string \<Rightarrow> nat. (\<forall>p q. (p, q) \<in> sshd_includes w \<longrightarrow> rank q < rank p) \<longrightarrow>
      parseSSHDConfig (Suc (rank path)) w path \<noteq> None) \<and>
   ((path, path) \<in> (sshd_includes w)\<^sup>+ \<longrightarrow> parseSSHDConfig fuel w path = None)"
proof (intro conjI allI impI)
  fix rank :: "string \<Rightarrow> nat"
  assume "\<forall>p q. (p, q) \<in> sshd_includes w \<longrightarrow> rank q < rank p"
  then have r: "\<And>p q. (p, q) \<in> sshd_includes w \<Longrightarrow> rank q < rank p" by blast
  show "parseSSHDConfig (Suc (rank path)) w path \<noteq> None" using r lessI by (rule parseSSHDConfig_rank)
next
  assume "(path, path) \<in> (sshd_includes w)\<^sup>+"
  then show "parseSSHDConfig fuel w path = None" by (rule parseSSHDConfig_cycle) simp_all
qed

theorem sshd_config_terminates_iff_acyclic_witness:
  "parseSSHDConfig 9 (broken_world\<lparr>w_read := \<lambda>_. Inr ''Include x'', w_glob := \<lambda>_. [''x'']\<rparr>) ''x'' = None"
proof -
  let ?w = "broken_world\<lparr>w_read := \<lambda>_. Inr ''Include x'', w_glob := \<lambda>_. [''x'']\<rparr>"
  have "include_target ?w ''Include x'' = [''x'']" by code_simp
  then have "(''x'', ''x'') \<in> sshd_includes ?w" by (simp add: sshd_includes_def)
  then show ?thesis using sshd_config_terminates_iff_acyclic [of ?w "''x''" 9] by blast
qed



text \<open>
  C32. The security score lies between 25 and 100, and it is 100 exactly when the firewall counts
  as active, root login is set to something but yes (or there is no sshd configuration),
  password authentication is not yes, at most ten SUID binaries and no world-writable file are
  found, the umask is 027 or 077, and passwords expire within 90 days.
\<close>

theorem security_score_meaning:
  "25 \<le> computeSecurityScore um out \<and> computeSecurityScore um out \<le> 100 \<and>
   (computeSecurityScore um out = 100 \<longleftrightarrow>
      fw_Active (Firewall out) \<and>
      ToLower um (PermitRootLogin (SSHHardening out)) \<noteq> ''yes'' \<and>
      \<not> (ToLower um (PermitRootLogin (SSHHardening out)) = [] \<and> ConfigPresent (SSHHardening out)) \<and>
      ToLower um (PasswordAuthentication (SSHHardening out)) \<noteq> ''yes'' \<and>
      length (SUIDBinaries out) \<le> 10 \<and> WorldWritable out = [] \<and>
      TrimSpace (Umask out) \<in> {''0027'', ''027'', ''0077'', ''077''} \<and>
      PassMaxDays (PasswordPolicy out) \<noteq> [] \<and>
      snd (Atoi (PassMaxDays (PasswordPolicy out))) = None \<and> fst (Atoi (PassMaxDays (PasswordPolicy out))) \<le> 90)"
proof -
  define a where "a = fw_Active (Firewall out)"
  define b where "b = (ToLower um (PermitRootLogin (SSHHardening out)) = ''yes'' \<or>
      ToLower um (PermitRootLogin (SSHHardening out)) = [] \<and> ConfigPresent (SSHHardening out))"
  define c where "c = (ToLower um (PasswordAuthentication (SSHHardening out)) = ''yes'')"
  define d where "d = (length (SUIDBinaries out) > 10)"
  define e where "e = (length (WorldWritable out) > 0)"
  define f where "f = (TrimSpace (Umask out) \<in> {''0027'', ''027'', ''0077'', ''077''})"
  define g where "g = (PassMaxDays (PasswordPolicy out) \<noteq> [] \<and>
      snd (Atoi (PassMaxDays (PasswordPolicy out))) = None \<and> fst (Atoi (PassMaxDays (PasswordPolicy out))) \<le> 90)"
  have "computeSecurityScore um out =
      100 - (if a then 0 else 15) - (if b then 20 else 0) - (if c then 10 else 0) - (if d then 10 else 0) -
      (if e then 10 else 0) - (if f then 0 else 5) - (if g then 0 else 5)"
    unfolding computeSecurityScore_def Let_def a_def [symmetric] b_def [symmetric] c_def [symmetric]
      d_def [symmetric] e_def [symmetric]
    by (auto simp: f_def g_def split: prod.splits)
  then have "25 \<le> computeSecurityScore um out \<and> computeSecurityScore um out \<le> 100 \<and>
      (computeSecurityScore um out = 100 \<longleftrightarrow> a \<and> \<not> b \<and> \<not> c \<and> \<not> d \<and> \<not> e \<and> f \<and> g)"
    by simp
  then show ?thesis unfolding a_def b_def c_def d_def e_def f_def g_def by auto
qed

text \<open>
  A firewall that is switched off counts as active: when the only tool that answers is ufw
  and it prints "Status: inactive", the audit reports an active firewall, because the text
  contains "active".
\<close>

theorem inactive_ufw_counts_as_active:
  assumes "snd (w_exec w c ''iptables'' [''-L'', ''-n'', ''--line-numbers'']) \<noteq> None"
    "snd (w_exec w c ''nft'' [''list'', ''ruleset'']) \<noteq> None"
    "w_exec w c ''ufw'' [''status''] = (''Status: inactive'', None)"
  shows "fw_Active (gatherFirewall w c)"
proof -
  have "TrimSpace ''Status: inactive'' = ''Status: inactive''" by code_simp
  moreover have "ToLower (w_lower w) ''Status: inactive'' = ''status: inactive''"
  proof -
    have "is_ascii ''Status: inactive''" "map ascii_lower ''Status: inactive'' = ''status: inactive''" by code_simp+
    then show ?thesis by (simp add: ToLower_def)
  qed
  moreover have "Contains ''status: inactive'' ''active''" by code_simp
  ultimately show ?thesis
    using assms by (auto simp: gatherFirewall_def execOutput_def Let_def split: prod.splits option.splits)
qed

theorem inactive_ufw_counts_as_active_witness:
  "fw_Active (gatherFirewall (broken_world\<lparr>w_exec := \<lambda>_ bin _. if bin = ''ufw'' then (''Status: inactive'', None)
      else ([], Some (ErrExecNotFound bin))\<rparr>) \<lparr>deadline = None\<rparr>)"
  by (rule inactive_ufw_counts_as_active) simp_all

text \<open>
  An audit record in the daemon's format is read back into its parts: the type, the text
  inside the parentheses as the timestamp, and everything after them as the message.
\<close>

theorem auditd_record_roundtrip:
  assumes "ty \<noteq> []" "CHR '' '' \<notin> set ty" "CHR ''('' \<notin> set ty" "CHR '')'' \<notin> set ty" "CHR '')'' \<notin> set ts"
  shows "parseAuditdLine (''type='' @ ty @ '' msg=audit('' @ ts @ ''): '' @ msg) =
           Some \<lparr>au_Timestamp = ts, au_Type = ty, au_Message = msg\<rparr>"
proof -
  let ?head = "''type='' @ ty @ '' msg=''" and ?pre = "''type='' @ ty @ '' msg=audit('' @ ts"
  let ?line = "(?pre) @ ''): '' @ msg" and ?header = "?pre @ '')''"
  have paren: "Index ?line ''): '' = Some (length ?pre)"
    using Index_start [of "CHR '')''" ?pre "'': ''" msg] assms(4,5) by simp
  have slices: "slice (pre @ ''): '' @ msg) 0 (length pre + 1) = Some (pre @ '')'')"
    "slice (pre @ ''): '' @ msg) (length pre + 3) (length (pre @ ''): '' @ msg)) = Some msg" for pre
    by (simp_all add: slice_def)
  have header: "slice ?line 0 (length ?pre + 1) = Some ?header"
    and msg: "slice ?line (length ?pre + 3) (length ?line) = Some msg"
    by (rule slices)+
  have ty0: "Index ?header ''type='' = Some 0" by simp
  have ty1: "Index (drop 0 ?header) '' '' = Some (5 + length ty)"
    using Index_char_at [of "CHR '' ''" "''type='' @ ty" "''msg=audit('' @ ts @ '')''"] assms(2) by simp
  have ty2: "slice ?header (0 + 5) (0 + (5 + length ty)) = Some ty"
    using slice_append [of "''type=''" ty "'' msg=audit('' @ ts @ '')''"]
    by (simp add: eval_nat_numeral del: slice_append)
  have ts0: "Index ?header ''audit('' = Some (length ?head)"
    using Index_end [of "CHR ''(''" ?head "''audit''" "ts @ '')''"] assms(3) by simp
  have ts1: "LastIndex ?header '')'' = Some (length ?pre)" by (rule LastIndex_char_at) simp
  have ts2: "slice ?header (length ?head + 6) (length ?pre) = Some ts"
    using slice_append [of "?head @ ''audit(''" ts "'')''"]
    by (simp add: eval_nat_numeral del: slice_append)
  have ne: "\<not> 5 + length ty \<le> 5" using assms(1) by simp
  have lt: "length ?pre > length ?head" by simp
  have "parseAuditdLine ?line = Some \<lparr>au_Timestamp = ts, au_Type = ty, au_Message = msg\<rparr>"
    unfolding parseAuditdLine_def Let_def paren option.case header msg prod.case ty0 ty1 if_not_P [OF ne] ty2
      ts0 ts1 if_P [OF lt] ts2 by simp
  then show ?thesis by simp
qed

theorem auditd_record_roundtrip_witness:
  "parseAuditdLine (''type='' @ ''AVC'' @ '' msg=audit('' @ ''1700000000.123:456'' @ ''): '' @ ''avc: denied { read }'') =
     Some \<lparr>au_Timestamp = ''1700000000.123:456'', au_Type = ''AVC'', au_Message = ''avc: denied { read }''\<rparr>"
  by (rule auditd_record_roundtrip) simp_all

end
