(* ===== verification/Network.thy ===== *)
theory Network
  imports Handler
begin

text \<open>
  The network (tools/network.go): interface counters, listening ports, connections with their
  grouping by process, name lookups, address information and the routing table. The network
  library, the resolver and the HTTP service are parameters.
\<close>

section \<open>Interfaces\<close>

record InterfaceStats =
  if_Name :: string
  if_BytesSent :: uint64
  if_BytesRecv :: uint64
  if_PacketsSent :: uint64
  if_PacketsRecv :: uint64
  if_ErrorsIn :: uint64
  if_ErrorsOut :: uint64
  if_DropsIn :: uint64
  if_DropsOut :: uint64

record NetworkInfoOutput = OutputErrors +
  Interfaces :: "InterfaceStats list"

text \<open>A counter record of the library.\<close>

record io_counters =
  ioc_Name :: string
  ioc_BytesSent :: uint64
  ioc_BytesRecv :: uint64
  ioc_PacketsSent :: uint64
  ioc_PacketsRecv :: uint64
  ioc_Errin :: uint64
  ioc_Errout :: uint64
  ioc_Dropin :: uint64
  ioc_Dropout :: uint64

definition GatherNetworkInfo :: "goerr + io_counters list \<Rightarrow> NetworkInfoOutput result" where
  "GatherNetworkInfo counters =
     (case counters of
        Inl e \<Rightarrow> (None, Some e)
      | Inr cs \<Rightarrow>
          (Some \<lparr>Errors = [],
                 Interfaces =
                   map (\<lambda>x. \<lparr>if_Name = ioc_Name x, if_BytesSent = ioc_BytesSent x, if_BytesRecv = ioc_BytesRecv x,
                             if_PacketsSent = ioc_PacketsSent x, if_PacketsRecv = ioc_PacketsRecv x,
                             if_ErrorsIn = ioc_Errin x, if_ErrorsOut = ioc_Errout x,
                             if_DropsIn = ioc_Dropin x, if_DropsOut = ioc_Dropout x\<rparr>) cs\<rparr>, None))"

definition HandleGetNetworkInfo ::
  "(nat \<Rightarrow> nat \<Rightarrow> nat \<Rightarrow> nat) \<Rightarrow> cfg_state \<Rightarrow> int \<Rightarrow> int \<Rightarrow> ctx \<Rightarrow> goerr + io_counters list \<Rightarrow>
   NetworkInfoOutput result \<times> log_event list" where
  "HandleGetNetworkInfo fr s now dur c counters =
     run_tool fr s now dur c ToolNameGetNetworkInfo 0 (\<lambda>_. GatherNetworkInfo counters)"

section \<open>Listening ports\<close>

record ListeningPort =
  lp_Protocol :: string
  lp_Address :: string
  lp_Port :: string
  lp_Process :: string

record ListeningPortsOutput = OutputErrors +
  Ports :: "ListeningPort list"

definition listening_line :: "string \<Rightarrow> string \<Rightarrow> ListeningPort option" where
  "listening_line protocol line =
     (let fields = Fields line in
      if length fields < 5 \<or> fields ! 0 = ''Netid'' then None
      else
        let netid = fields ! 0 in
        if protocol \<noteq> [] \<and> netid \<noteq> protocol then None
        else
          (case SplitHostPort (fields ! 4) of
             (addr, port, _) \<Rightarrow>
               Some \<lparr>lp_Protocol = netid, lp_Address = addr, lp_Port = port,
                     lp_Process = (if length fields \<ge> 7 then ParseProcessField (fields ! 6) else [])\<rparr>))"

definition GatherListeningPorts :: "world \<Rightarrow> ctx \<Rightarrow> string \<Rightarrow> ListeningPortsOutput result" where
  "GatherListeningPorts w c protocol =
     (case execLines w c ''ss'' [''-tulnp''] of
        Inl e \<Rightarrow> (None, Some e)
      | Inr ls \<Rightarrow> (Some \<lparr>Errors = [], Ports = List.map_filter (listening_line protocol) ls\<rparr>, None))"

section \<open>Name lookups\<close>

record ResolveDNSOutput = OutputErrors +
  dns_Hostname :: string
  dns_Addresses :: "string list"

definition GatherDNSResolve :: "(string \<Rightarrow> goerr + string list) \<Rightarrow> string \<Rightarrow> ResolveDNSOutput result" where
  "GatherDNSResolve lookup_host hostname =
     (case lookup_host hostname of
        Inl e \<Rightarrow> (Some \<lparr>Errors = [], dns_Hostname = hostname, dns_Addresses = []\<rparr>, Some e)
      | Inr addrs \<Rightarrow> (Some \<lparr>Errors = [], dns_Hostname = hostname, dns_Addresses = addrs\<rparr>, None))"

definition HandleResolveDNS ::
  "(nat \<Rightarrow> nat \<Rightarrow> nat \<Rightarrow> nat) \<Rightarrow> cfg_state \<Rightarrow> int \<Rightarrow> int \<Rightarrow> ctx \<Rightarrow> (string \<Rightarrow> goerr + string list) \<Rightarrow> string \<Rightarrow>
   ResolveDNSOutput result \<times> log_event list" where
  "HandleResolveDNS fr s now dur c lookup_host hostname =
     (case requireField hostname ''hostname'' of
        Some e \<Rightarrow> ((None, Some e), [])
      | None \<Rightarrow> run_tool fr s now dur c ToolNameResolveDNS 0 (\<lambda>_. GatherDNSResolve lookup_host hostname))"

section \<open>Connections\<close>

type_synonym uint32 = "32 word"

record NetworkConnection =
  nc_FD :: uint32
  nc_Family :: string
  nc_Type :: string
  nc_LocalAddr :: string
  nc_LocalPort :: uint32
  nc_RemoteAddr :: string
  nc_RemotePort :: uint32
  nc_Status :: string
  nc_PID :: int
  nc_ProcessName :: string
  nc_RemoteHostname :: string

record ConnectionGroup =
  cg_PID :: int
  cg_ProcessName :: string
  cg_Connections :: "NetworkConnection list"

record NetworkConnectionsOutput = OutputErrors +
  Connections :: "NetworkConnection list"
  Groups :: "ConnectionGroup list"

text \<open>A connection record of the library.\<close>

record conn_stat =
  cs_Fd :: uint32
  cs_Family :: uint32
  cs_Type :: uint32
  cs_LIP :: string
  cs_LPort :: uint32
  cs_RIP :: string
  cs_RPort :: uint32
  cs_Status :: string
  cs_Pid :: int

definition SOCK_STREAM :: uint32 where "SOCK_STREAM = 1"
definition SOCK_DGRAM :: uint32 where "SOCK_DGRAM = 2"
definition AF_INET :: uint32 where "AF_INET = 2"
definition AF_INET6 :: uint32 where "AF_INET6 = 10"
definition maxNetworkConnections :: int where "maxNetworkConnections = 200"

definition conn_entry :: "string \<Rightarrow> uint32 \<Rightarrow> conn_stat \<Rightarrow> NetworkConnection option" where
  "conn_entry status filterType x =
     (if status \<noteq> [] \<and> cs_Status x \<noteq> status then None
      else if filterType \<noteq> 0 \<and> cs_Type x \<noteq> filterType then None
      else Some
        \<lparr>nc_FD = cs_Fd x,
         nc_Family = (if cs_Family x = AF_INET then ''ipv4'' else if cs_Family x = AF_INET6 then ''ipv6'' else ''unknown''),
         nc_Type = (if cs_Type x = SOCK_STREAM then ''tcp'' else if cs_Type x = SOCK_DGRAM then ''udp'' else ''unknown''),
         nc_LocalAddr = cs_LIP x, nc_LocalPort = cs_LPort x, nc_RemoteAddr = cs_RIP x, nc_RemotePort = cs_RPort x,
         nc_Status = cs_Status x, nc_PID = cs_Pid x, nc_ProcessName = [], nc_RemoteHostname = []\<rparr>)"

definition resolveProcessNames :: "world \<Rightarrow> int list \<Rightarrow> (int \<rightharpoonup> string)" where
  "resolveProcessNames w pids =
     fold (\<lambda>pid names.
             if pid \<le> 0 then names
             else (case w_read w (''/proc/'' @ show_int pid @ ''/comm'') of
                     Inl _ \<Rightarrow> names
                   | Inr data \<Rightarrow> names(pid \<mapsto> TrimSpace data)))
       pids Map.empty"

definition resolveRemoteHostnames ::
  "(string \<Rightarrow> goerr + string list) \<Rightarrow> string list \<Rightarrow> (string \<rightharpoonup> string)" where
  "resolveRemoteHostnames lookup_addr addrs =
     fold (\<lambda>addr names.
             case lookup_addr addr of
               Inr (h # _) \<Rightarrow> names(addr \<mapsto> TrimRight_char (CHR ''.'') h)
             | _ \<Rightarrow> names)
       addrs Map.empty"

definition set_process :: "(int \<rightharpoonup> string) \<Rightarrow> NetworkConnection \<Rightarrow> NetworkConnection" where
  "set_process names x = (case names (nc_PID x) of None \<Rightarrow> x | Some n \<Rightarrow> x\<lparr>nc_ProcessName := n\<rparr>)"

definition set_hostname :: "(string \<rightharpoonup> string) \<Rightarrow> NetworkConnection \<Rightarrow> NetworkConnection" where
  "set_hostname names x = (case names (nc_RemoteAddr x) of None \<Rightarrow> x | Some n \<Rightarrow> x\<lparr>nc_RemoteHostname := n\<rparr>)"

definition add_to_group :: "NetworkConnection \<Rightarrow> (int \<rightharpoonup> NetworkConnection list) \<Rightarrow> (int \<rightharpoonup> NetworkConnection list)" where
  "add_to_group x m =
     m(nc_PID x \<mapsto> (case m (nc_PID x) of None \<Rightarrow> [x] | Some xs \<Rightarrow> xs @ [x]))"

definition group_connections ::
  "((int \<rightharpoonup> NetworkConnection list) \<Rightarrow> int list) \<Rightarrow> ConnectionGroup sorter \<Rightarrow> (int \<rightharpoonup> string) \<Rightarrow>
   NetworkConnection list \<Rightarrow> ConnectionGroup list" where
  "group_connections enum srt names xs =
     (let m = fold add_to_group xs Map.empty in
      srt (\<lambda>a b. cg_PID a < cg_PID b)
        (map (\<lambda>pid. \<lparr>cg_PID = pid, cg_ProcessName = (case names pid of None \<Rightarrow> [] | Some n \<Rightarrow> n),
                      cg_Connections = the (m pid)\<rparr>) (enum m)))"

definition limit_connections :: "int \<Rightarrow> NetworkConnection list \<Rightarrow> NetworkConnection list" where
  "limit_connections maxConnections xs =
     (if maxConnections > 0 \<and> int (length xs) > maxConnections then take (nat maxConnections) xs else xs)"

text \<open>
  The sets of process numbers and addresses are iterated over in the order of their first
  occurrence; each entry is looked up on its own, so no order gives another map.
\<close>

definition GatherNetworkConnections ::
  "((int \<rightharpoonup> NetworkConnection list) \<Rightarrow> int list) \<Rightarrow> ConnectionGroup sorter \<Rightarrow> world \<Rightarrow>
   (string \<Rightarrow> goerr + string list) \<Rightarrow> goerr + conn_stat list \<Rightarrow> string \<Rightarrow> string \<Rightarrow> bool \<Rightarrow> bool \<Rightarrow> int \<Rightarrow>
   NetworkConnectionsOutput result" where
  "GatherNetworkConnections enum srt w lookup_addr connections status connType resolve grouped maxConnections =
     (case connections of
        Inl e \<Rightarrow> (None, Some e)
      | Inr conns \<Rightarrow>
          let filterType = (if connType = ''tcp'' then SOCK_STREAM else if connType = ''udp'' then SOCK_DGRAM else 0);
              result = List.map_filter (conn_entry status filterType) conns;
              procNames = resolveProcessNames w (remdups (map nc_PID result));
              result = map (set_process procNames) result;
              result = (if resolve then
                          let addrs = remdups (filter (\<lambda>ra. ra \<noteq> [] \<and> ra \<noteq> ''0.0.0.0'' \<and> ra \<noteq> ''::'') (map nc_RemoteAddr result))
                          in map (set_hostname (resolveRemoteHostnames lookup_addr addrs)) result
                        else result);
              result = limit_connections maxConnections result;
              groups = (if grouped then group_connections enum srt procNames result else [])
          in (Some \<lparr>Errors = [], Connections = result, Groups = groups\<rparr>, None))"

definition HandleGetNetworkConnections ::
  "(nat \<Rightarrow> nat \<Rightarrow> nat \<Rightarrow> nat) \<Rightarrow> cfg_state \<Rightarrow> int \<Rightarrow> int \<Rightarrow> ctx \<Rightarrow>
   ((int \<rightharpoonup> NetworkConnection list) \<Rightarrow> int list) \<Rightarrow> ConnectionGroup sorter \<Rightarrow> world \<Rightarrow>
   (string \<Rightarrow> goerr + string list) \<Rightarrow> goerr + conn_stat list \<Rightarrow> string \<Rightarrow> string \<Rightarrow> bool \<Rightarrow> bool \<Rightarrow> int \<Rightarrow>
   NetworkConnectionsOutput result \<times> log_event list" where
  "HandleGetNetworkConnections fr s now dur c enum srt w lookup_addr connections status connType resolve grouped maxc =
     run_tool fr s now dur c ToolNameGetNetworkConnections 0
       (\<lambda>_. GatherNetworkConnections enum srt w lookup_addr connections status connType resolve grouped
              (clampVal maxc 0 maxNetworkConnections))"

section \<open>Address information\<close>

record IPInfoOutput = OutputErrors +
  ip_IP :: string
  ip_ASN :: string
  ip_Org :: string
  ip_Country :: string
  ip_City :: string
  ip_Region :: string
  ip_ServiceTags :: "string list"

record ipAPIResponse =
  api_Status :: string
  api_Country :: string
  api_City :: string
  api_Region :: string
  api_ISP :: string
  api_Org :: string
  api_AS :: string
  api_Query :: string

definition serviceTagPatterns :: "(string list \<times> string) list" where
  "serviceTagPatterns =
     [([''AMAZON-02'', ''AMAZON-08'', ''AMAZON-09'', ''AMAZON '', ''AWS'', ''AMAZOW''], ''AWS''),
      ([''GOOGLE'', ''GOOGLE-FIBER'', ''GCP''], ''Google Cloud''),
      ([''CLOUDFLARE''], ''Cloudflare''),
      ([''GITHUB''], ''GitHub''),
      ([''MICROSOFT'', ''AZURE''], ''Azure''),
      ([''DIGITALOCEAN''], ''DigitalOcean''),
      ([''LINODE''], ''Linode''),
      ([''OVH''], ''OVH''),
      ([''HETZNER''], ''Hetzner''),
      ([''ORACLE-'', ''ORACLE''], ''Oracle Cloud''),
      ([''FASTLY''], ''Fastly'')]"

definition detectServiceTags :: "(string \<Rightarrow> string) \<Rightarrow> string \<Rightarrow> string \<Rightarrow> string \<Rightarrow> string list" where
  "detectServiceTags um isp org asn =
     (let combined = ToUpper um (isp @ '' '' @ org @ '' '' @ asn) in
      foldl (\<lambda>tags (patterns, tag).
               if list_ex (\<lambda>p. Contains combined p) patterns \<and> tag \<notin> set tags then tags @ [tag] else tags)
        [] serviceTagPatterns)"

definition parseASN :: "string \<Rightarrow> string" where
  "parseASN asField = (if asField = [] then [] else splitn_char 2 (CHR '' '') asField ! 0)"

definition ipAPIURL :: string where
  "ipAPIURL = ''https://ip-api.com/json/''"

definition no_ip_info :: "string \<Rightarrow> IPInfoOutput" where
  "no_ip_info ip = \<lparr>Errors = [], ip_IP = ip, ip_ASN = [], ip_Org = [], ip_Country = [], ip_City = [],
                    ip_Region = [], ip_ServiceTags = []\<rparr>"

definition GatherIPInfo ::
  "world \<Rightarrow> (string \<Rightarrow> bool) \<Rightarrow> (ctx \<Rightarrow> string \<Rightarrow> goerr + ipAPIResponse) \<Rightarrow> ctx \<Rightarrow> string \<Rightarrow> IPInfoOutput result" where
  "GatherIPInfo w valid_ip fetch c ip =
     (if ip \<noteq> [] \<and> \<not> valid_ip ip then (Some (no_ip_info ip), Some (ErrText ''invalid IP address''))
      else
        (case fetch c (ipAPIURL @ ip) of
           Inl e \<Rightarrow> (None, Some e)
         | Inr r \<Rightarrow>
             if api_Status r \<noteq> ''success'' then (Some (no_ip_info (api_Query r)), None)
             else
               (Some \<lparr>Errors = [], ip_IP = api_Query r, ip_ASN = parseASN (api_AS r), ip_Org = api_Org r,
                      ip_Country = api_Country r, ip_City = api_City r, ip_Region = api_Region r,
                      ip_ServiceTags = detectServiceTags (w_upper w) (api_ISP r) (api_Org r) (api_AS r)\<rparr>, None)))"

definition HandleGetIPInfo ::
  "(nat \<Rightarrow> nat \<Rightarrow> nat \<Rightarrow> nat) \<Rightarrow> cfg_state \<Rightarrow> int \<Rightarrow> int \<Rightarrow> ctx \<Rightarrow> world \<Rightarrow> (string \<Rightarrow> bool) \<Rightarrow>
   (ctx \<Rightarrow> string \<Rightarrow> goerr + ipAPIResponse) \<Rightarrow> string \<Rightarrow> IPInfoOutput result \<times> log_event list" where
  "HandleGetIPInfo fr s now dur c w valid_ip fetch ip =
     run_tool fr s now dur c ToolNameGetIPInfo 0 (\<lambda>ct. GatherIPInfo w valid_ip fetch ct ip)"

section \<open>The routing table\<close>

record RouteEntry =
  rt_Destination :: string
  rt_Gateway :: string
  rt_Interface :: string
  rt_Proto :: string
  rt_Scope :: string
  rt_Type :: string
  rt_Metric :: int
  rt_MTU :: int

record RoutingTableOutput = OutputErrors +
  Routes :: "RouteEntry list"
  rt_Total :: nat

definition route_types :: "string list" where
  "route_types =
     [''kernel'', ''connected'', ''static'', ''broadcast'', ''local'', ''multicast'', ''unreachable'',
      ''prohibit'', ''blackhole'']"

text \<open>What a keyword does with the field after it; \<open>None\<close> for a field that is no such keyword.\<close>

definition route_key :: "string \<Rightarrow> (string \<Rightarrow> RouteEntry \<Rightarrow> RouteEntry) option" where
  "route_key k =
     (if k = ''via'' then Some (\<lambda>v e. e\<lparr>rt_Gateway := v\<rparr>)
      else if k = ''dev'' then Some (\<lambda>v e. e\<lparr>rt_Interface := v\<rparr>)
      else if k = ''proto'' then Some (\<lambda>v e. e\<lparr>rt_Proto := v\<rparr>)
      else if k = ''scope'' then Some (\<lambda>v e. e\<lparr>rt_Scope := v\<rparr>)
      else if k = ''metric'' then Some (\<lambda>v e. e\<lparr>rt_Metric := fst (Atoi v)\<rparr>)
      else if k = ''mtu'' then Some (\<lambda>v e. e\<lparr>rt_MTU := fst (Atoi v)\<rparr>)
      else None)"

fun route_fields :: "string list \<Rightarrow> RouteEntry \<Rightarrow> RouteEntry" where
  "route_fields [] e = e"
| "route_fields (f # fs) e =
     (case route_key f of
        Some upd \<Rightarrow> (case fs of [] \<Rightarrow> e | v # fs' \<Rightarrow> route_fields fs' (upd v e))
      | None \<Rightarrow> route_fields fs (if f \<in> set route_types then e\<lparr>rt_Type := f\<rparr> else e))"

definition empty_route :: "string \<Rightarrow> RouteEntry" where
  "empty_route d = \<lparr>rt_Destination = d, rt_Gateway = [], rt_Interface = [], rt_Proto = [], rt_Scope = [],
                    rt_Type = [], rt_Metric = 0, rt_MTU = 0\<rparr>"

definition route_line :: "string \<Rightarrow> RouteEntry option" where
  "route_line line =
     (let fields = Fields line in
      if length fields < 2 then None
      else Some (route_fields (tl fields) (empty_route (fields ! 0))))"

definition GatherRoutingTable :: "world \<Rightarrow> ctx \<Rightarrow> RoutingTableOutput result" where
  "GatherRoutingTable w c =
     (case execLines w c ''ip'' [''route'', ''show''] of
        Inl e \<Rightarrow> (None, Some e)
      | Inr ls \<Rightarrow>
          let routes = List.map_filter route_line ls
          in (Some \<lparr>Errors = [], Routes = routes, rt_Total = length routes\<rparr>, None))"

definition HandleGetRoutingTable ::
  "(nat \<Rightarrow> nat \<Rightarrow> nat \<Rightarrow> nat) \<Rightarrow> cfg_state \<Rightarrow> int \<Rightarrow> int \<Rightarrow> ctx \<Rightarrow> world \<Rightarrow> RoutingTableOutput result \<times> log_event list" where
  "HandleGetRoutingTable fr s now dur c w =
     run_tool fr s now dur c ToolNameGetRoutingTable 0 (GatherRoutingTable w)"

section \<open>Groups\<close>

lemma groups_map:
  "fold add_to_group xs m p =
     (if filter (\<lambda>x. nc_PID x = p) xs = [] then m p
      else Some ((case m p of None \<Rightarrow> [] | Some ys \<Rightarrow> ys) @ filter (\<lambda>x. nc_PID x = p) xs))"
  by (induction xs arbitrary: m) (auto simp: add_to_group_def split: option.splits)

lemma groups_map_empty:
  "fold add_to_group xs Map.empty p =
     (if p \<in> nc_PID ` set xs then Some (filter (\<lambda>x. nc_PID x = p) xs) else None)"
  by (auto simp: groups_map filter_empty_conv image_iff)

lemma mset_concat_map: "mset xs = mset ys \<Longrightarrow> mset (concat (map f xs)) = mset (concat (map f ys))"
proof -
  have "mset (concat (map f zs)) = sum_mset (image_mset (\<lambda>z. mset (f z)) (mset zs))" for zs
    by (induction zs) auto
  then show "mset xs = mset ys \<Longrightarrow> ?thesis" by simp
qed

lemma mset_filter_keys:
  assumes "distinct ks" "f ` set xs \<subseteq> set ks"
  shows "mset (concat (map (\<lambda>k. filter (\<lambda>x. f x = k) xs) ks)) = mset xs"
  using assms
proof (induction ks arbitrary: xs)
  case (Cons k ks)
  let ?ys = "filter (\<lambda>x. f x \<noteq> k) xs"
  have "filter (\<lambda>x. f x = k') xs = filter (\<lambda>x. f x = k') ?ys" if "k' \<in> set ks" for k'
    using Cons.prems(1) that by (auto intro!: filter_cong)
  then have "concat (map (\<lambda>k. filter (\<lambda>x. f x = k) xs) ks) = concat (map (\<lambda>k. filter (\<lambda>x. f x = k) ?ys) ks)"
    by (metis (no_types, lifting) map_cong)
  moreover have "mset (concat (map (\<lambda>k. filter (\<lambda>x. f x = k) ?ys) ks)) = mset ?ys"
    using Cons.prems by (intro Cons.IH) auto
  ultimately show ?case
    using multiset_partition [of "mset xs" "\<lambda>x. f x = k"] by (simp add: mset_filter [symmetric] del: mset_filter)
qed simp

text \<open>One group for each process of the list, with the connections of the process in their order.\<close>

lemma group_connections_exact:
  assumes "ranges enum" "sorts_slices srt"
  defines "gs \<equiv> \<lambda>names xs. group_connections enum srt names xs"
  shows "sorted_wrt (<) (map cg_PID (gs names xs))"
    and "cg_PID ` set (gs names xs) = nc_PID ` set xs"
    and "g \<in> set (gs names xs) \<Longrightarrow>
           cg_Connections g = filter (\<lambda>x. nc_PID x = cg_PID g) xs \<and>
           cg_ProcessName g = (case names (cg_PID g) of None \<Rightarrow> [] | Some n \<Rightarrow> n)"
    and "mset (concat (map cg_Connections (gs names xs))) = mset xs"
proof -
  define m where "m = fold add_to_group xs Map.empty"
  define h where "h = (\<lambda>pid. \<lparr>cg_PID = pid, cg_ProcessName = (case names pid of None \<Rightarrow> [] | Some n \<Rightarrow> n),
      cg_Connections = the (m pid)\<rparr>)"
  have dom: "dom m = nc_PID ` set xs"
    by (auto simp: m_def groups_map_empty split: if_splits)
  then have enum: "distinct (enum m)" "set (enum m) = nc_PID ` set xs"
    using assms(1) by (auto simp: ranges_def)
  have conns: "cg_Connections (h p) = filter (\<lambda>x. nc_PID x = p) xs" if "p \<in> set (enum m)" for p
    using that enum(2) by (simp add: h_def m_def groups_map_empty)
  have "gs names xs = srt (\<lambda>a b. cg_PID a < cg_PID b) (map h (enum m))"
    by (simp add: gs_def group_connections_def Let_def m_def h_def)
  with sort_key_asc [OF assms(2), of cg_PID "map h (enum m)"]
  have ms: "mset (gs names xs) = mset (map h (enum m))" and srt: "sorted (map cg_PID (gs names xs))" by simp_all
  have pids: "map cg_PID (map h (enum m)) = enum m" by (simp add: h_def comp_def)
  have "mset (map cg_PID (gs names xs)) = mset (enum m)" using ms pids by (metis mset_map)
  then have "distinct (map cg_PID (gs names xs))" using enum(1) by (metis mset_eq_imp_distinct_iff)
  then show "sorted_wrt (<) (map cg_PID (gs names xs))" using srt by (simp add: strict_sorted_iff)
  have set: "set (gs names xs) = h ` set (enum m)" using ms by (metis image_set set_mset_mset)
  then show "cg_PID ` set (gs names xs) = nc_PID ` set xs" by (simp add: enum(2) image_image h_def)
  show "cg_Connections g = filter (\<lambda>x. nc_PID x = cg_PID g) xs \<and>
      cg_ProcessName g = (case names (cg_PID g) of None \<Rightarrow> [] | Some n \<Rightarrow> n)" if "g \<in> set (gs names xs)"
    using that conns set by (auto simp: h_def)
  have "mset (concat (map cg_Connections (gs names xs))) = mset (concat (map cg_Connections (map h (enum m))))"
    using ms by (rule mset_concat_map)
  also have "map cg_Connections (map h (enum m)) = map (\<lambda>p. filter (\<lambda>x. nc_PID x = p) xs) (enum m)"
    using conns by simp
  also have "mset (concat \<dots>) = mset xs" using enum by (intro mset_filter_keys) auto
  finally show "mset (concat (map cg_Connections (gs names xs))) = mset xs" .
qed

text \<open>The list before the limit, and what the names found change of it.\<close>

definition named_connections ::
  "world \<Rightarrow> (string \<Rightarrow> goerr + string list) \<Rightarrow> bool \<Rightarrow> NetworkConnection list \<Rightarrow> NetworkConnection list" where
  "named_connections w lookup_addr resolve xs =
     (let named = map (set_process (resolveProcessNames w (remdups (map nc_PID xs)))) xs
      in if resolve then
           let addrs = remdups (filter (\<lambda>ra. ra \<noteq> [] \<and> ra \<noteq> ''0.0.0.0'' \<and> ra \<noteq> ''::'') (map nc_RemoteAddr named))
           in map (set_hostname (resolveRemoteHostnames lookup_addr addrs)) named
         else named)"

definition unnamed :: "NetworkConnection \<Rightarrow> NetworkConnection" where
  "unnamed x = x\<lparr>nc_ProcessName := [], nc_RemoteHostname := []\<rparr>"

lemma unnamed_names [simp]: "unnamed (set_process m x) = unnamed x" "unnamed (set_hostname m' x) = unnamed x"
  by (simp_all add: unnamed_def set_process_def set_hostname_def split: option.split)

lemma unnamed_entries: "map unnamed (List.map_filter (conn_entry st ft) conns) = List.map_filter (conn_entry st ft) conns"
  by (induction conns) (auto simp: conn_entry_def unnamed_def)

lemma named_unnamed: "map unnamed (named_connections w lookup_addr resolve xs) = map unnamed xs"
  by (simp add: named_connections_def Let_def)

lemma conn_entry_name: "conn_entry st ft c = Some y \<Longrightarrow> nc_ProcessName y = []"
  unfolding conn_entry_def by (cases "st \<noteq> [] \<and> cs_Status c \<noteq> st"; cases "ft \<noteq> 0 \<and> cs_Type c \<noteq> ft") auto

lemma named_process:
  assumes "x \<in> set (named_connections w lookup_addr resolve (List.map_filter (conn_entry st ft) conns))"
  shows "nc_ProcessName x =
    (case resolveProcessNames w (remdups (map nc_PID (List.map_filter (conn_entry st ft) conns))) (nc_PID x) of
       None \<Rightarrow> [] | Some n \<Rightarrow> n)"
proof -
  have none: "nc_ProcessName y = []" if "y \<in> set (List.map_filter (conn_entry st ft) conns)" for y
    using that unfolding set_map_filter_Some by (auto dest: conn_entry_name)
  have "nc_PID (set_process m y) = nc_PID y" "nc_PID (set_hostname m' y) = nc_PID y"
    "nc_ProcessName (set_hostname m' y) = nc_ProcessName y" for m m' y
    by (simp_all add: set_process_def set_hostname_def split: option.split)
  with assms none show ?thesis
    by (auto simp: named_connections_def Let_def set_process_def split: if_splits option.splits)
qed

section \<open>Properties\<close>

text \<open>
  C31. The limit and the grouping lose and invent nothing. The call without groups and without
  a limit lists, in order, the connections of the system with the status and type asked for, and
  adds nothing but the process names and host names found. A grouped call with a limit lists the
  first so many of the same connections; its groups, for every order in which the map of groups
  is ranged over, come in strictly ascending order of their process numbers, one for each process
  of the list, and hold exactly the listed connections of the process, in order, and its name.
\<close>

theorem groups_partition:
  assumes "ranges enum" "sorts_slices srt"
    "GatherNetworkConnections enum srt w lookup (Inr conns) status connType resolve True maxc = (Some out, err)"
    "GatherNetworkConnections enum' srt' w lookup (Inr conns) status connType resolve False 0 = (Some full, err0)"
  shows "map unnamed (Connections full) =
           List.map_filter (conn_entry status (if connType = ''tcp'' then SOCK_STREAM
                                               else if connType = ''udp'' then SOCK_DGRAM else 0)) conns \<and>
         Connections out = (if maxc > 0 then take (nat maxc) (Connections full) else Connections full) \<and>
         sorted_wrt (<) (map cg_PID (Groups out)) \<and>
         cg_PID ` set (Groups out) = nc_PID ` set (Connections out) \<and>
         (\<forall>g \<in> set (Groups out).
            cg_Connections g = filter (\<lambda>x. nc_PID x = cg_PID g) (Connections out) \<and>
            (\<forall>x \<in> set (cg_Connections g). nc_ProcessName x = cg_ProcessName g)) \<and>
         mset (concat (map cg_Connections (Groups out))) = mset (Connections out)"
proof -
  define ft where "ft = (if connType = ''tcp'' then SOCK_STREAM else if connType = ''udp'' then SOCK_DGRAM else 0)"
  define es where "es = List.map_filter (conn_entry status ft) conns"
  define names where "names = resolveProcessNames w (remdups (map nc_PID es))"
  define all_conns where "all_conns = named_connections w lookup resolve es"
  note gather = GatherNetworkConnections_def Let_def sum.case ft_def [symmetric] es_def [symmetric] names_def [symmetric]
  have full: "Connections full = all_conns"
    using assms(4) unfolding gather all_conns_def named_connections_def limit_connections_def by auto
  have outs: "Connections out = limit_connections maxc all_conns" "Groups out = group_connections enum srt names (Connections out)"
    using assms(3) unfolding gather all_conns_def named_connections_def by auto
  have lim: "Connections out = (if maxc > 0 then take (nat maxc) all_conns else all_conns)"
    unfolding outs by (auto simp: limit_connections_def)
  then have sub: "set (Connections out) \<subseteq> set all_conns" using set_take_subset [of _ all_conns] by simp
  note g = group_connections_exact [OF assms(1,2), where names = names and xs = "Connections out", folded outs(2)]
  have "nc_ProcessName x = cg_ProcessName y" if y: "y \<in> set (Groups out)" and x: "x \<in> set (cg_Connections y)" for x y
  proof -
    have "x \<in> set all_conns" "nc_PID x = cg_PID y" using g(3) [OF y] x sub by auto
    then show ?thesis
      using named_process [of x w lookup resolve status ft conns] g(3) [OF y] by (simp add: all_conns_def es_def names_def)
  qed
  moreover have "map unnamed (Connections full) = es" by (simp add: full all_conns_def es_def named_unnamed unnamed_entries)
  ultimately show ?thesis using full lim g(1,2,4) g(3) unfolding ft_def [symmetric] es_def [symmetric] by simp
qed

theorem groups_partition_witness:
  "Connections (the (fst (GatherNetworkConnections (\<lambda>m. sorted_list_of_set (dom m)) insertion_sort broken_world
     (\<lambda>_. Inr [])
     (Inr (map (\<lambda>(fd, pid). \<lparr>cs_Fd = fd, cs_Family = 2, cs_Type = 1, cs_LIP = ''127.0.0.1'', cs_LPort = 80, cs_RIP = [],
                             cs_RPort = 0, cs_Status = ''LISTEN'', cs_Pid = pid\<rparr>) [(3, 9), (4, 7), (5, 9), (6, 8)]))
     ''LISTEN'' ''tcp'' False True 3))) =
   take 3 (Connections (the (fst (GatherNetworkConnections (\<lambda>m. sorted_list_of_set (dom m)) insertion_sort broken_world
     (\<lambda>_. Inr [])
     (Inr (map (\<lambda>(fd, pid). \<lparr>cs_Fd = fd, cs_Family = 2, cs_Type = 1, cs_LIP = ''127.0.0.1'', cs_LPort = 80, cs_RIP = [],
                             cs_RPort = 0, cs_Status = ''LISTEN'', cs_Pid = pid\<rparr>) [(3, 9), (4, 7), (5, 9), (6, 8)]))
     ''LISTEN'' ''tcp'' False False 0))))"
  (is "Connections (the (fst (GatherNetworkConnections ?en ?so ?w ?lk (Inr ?cs) ?st ?ty _ _ _))) = _")
proof -
  have "\<exists>a. GatherNetworkConnections ?en ?so ?w ?lk (Inr ?cs) ?st ?ty False gr m = (Some a, None)" for gr m
    by (simp add: GatherNetworkConnections_def Let_def)
  then obtain a b where a: "GatherNetworkConnections ?en ?so ?w ?lk (Inr ?cs) ?st ?ty False True 3 = (Some a, None)"
    and b: "GatherNetworkConnections ?en ?so ?w ?lk (Inr ?cs) ?st ?ty False False 0 = (Some b, None)" by metis
  show ?thesis using groups_partition [OF sorted_ranges insertion_sort_sorts a b] unfolding a b by simp
qed

text \<open>The format of the kernel for a route with every column.\<close>

definition print_route :: "RouteEntry \<Rightarrow> string" where
  "print_route r =
     Join '' '' ([rt_Destination r, ''via'', rt_Gateway r, ''dev'', rt_Interface r, ''proto'', rt_Proto r,
                  ''scope'', rt_Scope r, ''metric'', show_int (rt_Metric r), ''mtu'', show_int (rt_MTU r)])"

text \<open>
  A route that the kernel prints reads back, whatever its words are: the word after a
  keyword is its value even when it is a keyword itself, so no interface or gateway name can
  change another column.
\<close>

theorem route_roundtrip:
  assumes "\<And>t. t \<in> {rt_Destination r, rt_Gateway r, rt_Interface r, rt_Proto r, rt_Scope r} \<Longrightarrow> token t"
    "- (2 ^ 63) \<le> rt_Metric r" "rt_Metric r < 2 ^ 63" "- (2 ^ 63) \<le> rt_MTU r" "rt_MTU r < 2 ^ 63" "rt_Type r = []"
  shows "route_line (print_route r) = Some r"
proof -
  let ?ts = "[rt_Destination r, ''via'', rt_Gateway r, ''dev'', rt_Interface r, ''proto'', rt_Proto r,
                  ''scope'', rt_Scope r, ''metric'', show_int (rt_Metric r), ''mtu'', show_int (rt_MTU r)]"
  have kw: "token ''via''" "token ''dev''" "token ''proto''" "token ''scope''" "token ''metric''" "token ''mtu''"
    by (simp_all add: token_def printable_def byte_def)
  have r: "token (rt_Destination r)" "token (rt_Gateway r)" "token (rt_Interface r)" "token (rt_Proto r)" "token (rt_Scope r)"
    by (rule assms(1), blast)+
  have t: "token t" if "t \<in> set ?ts" for t using that r kw by auto
  have f: "Fields (print_route r) = ?ts" unfolding print_route_def using t by (rule Fields_Join)
  have "Atoi (show_int (rt_Metric r)) = (rt_Metric r, None)" "Atoi (show_int (rt_MTU r)) = (rt_MTU r, None)"
    using assms(2-5) by (simp_all add: Atoi_def)
  then show ?thesis using assms(6) unfolding route_line_def f by (simp add: route_key_def empty_route_def)
qed

theorem route_roundtrip_witness:
  "route_line (print_route \<lparr>rt_Destination = ''default'', rt_Gateway = ''10.0.0.1'', rt_Interface = ''via'', rt_Proto = ''dhcp'',
       rt_Scope = ''link'', rt_Type = [], rt_Metric = 100, rt_MTU = 1500\<rparr>) =
     Some \<lparr>rt_Destination = ''default'', rt_Gateway = ''10.0.0.1'', rt_Interface = ''via'', rt_Proto = ''dhcp'',
       rt_Scope = ''link'', rt_Type = [], rt_Metric = 100, rt_MTU = 1500\<rparr>"
  by (rule route_roundtrip) (auto simp: token_def printable_def byte_def)

text \<open>A route that starts with its type has the type for a destination.\<close>

lemma typed_route_destination:
  "route_line ''unreachable 10.0.0.0/8 metric 1024'' =
     Some \<lparr>rt_Destination = ''unreachable'', rt_Gateway = [], rt_Interface = [], rt_Proto = [], rt_Scope = [],
           rt_Type = [], rt_Metric = 1024, rt_MTU = 0\<rparr>"
  by code_simp

end
