(* ===== verification/Services.thy ===== *)
theory Services
  imports Handler GoFloat
begin

text \<open>
  Services and units (tools/service.go), ping (tools/ping.go), manual pages (tools/man.go) and
  the journal (tools/journal.go). The decoder of JSON, the formatting of a time and the
  recognition of an address are parameters.
\<close>

section \<open>Services\<close>

record ServiceStatusOutput = OutputErrors +
  svc_Name :: string
  svc_Loaded :: string
  svc_Active :: string
  svc_PID :: string
  svc_Output :: string

fun extract_lines :: "string \<Rightarrow> string list \<Rightarrow> string" where
  "extract_lines p [] = []"
| "extract_lines p (line # rest) =
     (case CutPrefix (TrimSpace line) p of Some after \<Rightarrow> TrimSpace after | None \<Rightarrow> extract_lines p rest)"

definition ExtractField :: "string \<Rightarrow> string \<Rightarrow> string" where
  "ExtractField output p = extract_lines p (lines_of output)"

text \<open>The combined output of a command and its error are a parameter beside the world.\<close>

type_synonym combined = "ctx \<Rightarrow> string \<Rightarrow> string list \<Rightarrow> string \<times> goerr option"

definition GatherServiceStatus :: "combined \<Rightarrow> ctx \<Rightarrow> string \<Rightarrow> bool \<Rightarrow> ServiceStatusOutput result" where
  "GatherServiceStatus comb c name user =
     (let args = [''status'', name, ''--no-pager'', ''-l''];
          args = (if user then ''--user'' # args else args)
      in case comb c ''systemctl'' args of
           (raw, err) \<Rightarrow>
             let output = TrimSpace raw in
             (Some \<lparr>Errors = [], svc_Name = name,
                    svc_Loaded = TrimSpace (ExtractField output ''Loaded:''),
                    svc_Active = TrimSpace (ExtractField output ''Active:''),
                    svc_PID = TrimSpace (ExtractField output ''Main PID:''),
                    svc_Output = output\<rparr>, err))"

definition name_char :: "char \<Rightarrow> bool" where
  "name_char ch =
     (let b = byte ch in (97 \<le> b \<and> b \<le> 122) \<or> (65 \<le> b \<and> b \<le> 90) \<or> (48 \<le> b \<and> b \<le> 57))"

text \<open>\<open>^[a-zA-Z0-9][a-zA-Z0-9_.-]*$\<close>, for services and for manual pages.\<close>

definition validServiceName :: "string \<Rightarrow> bool" where
  "validServiceName s =
     (s \<noteq> [] \<and> name_char (hd s) \<and>
      list_all (\<lambda>ch. name_char ch \<or> ch = CHR ''_'' \<or> ch = CHR ''.'' \<or> ch = CHR ''-'') (tl s))"

definition validManName :: "string \<Rightarrow> bool" where
  "validManName s =
     (s \<noteq> [] \<and> name_char (hd s) \<and>
      list_all (\<lambda>ch. name_char ch \<or> ch = CHR ''_'' \<or> ch = CHR ''.'' \<or> ch = CHR ''-'') (tl s))"

definition HandleGetServiceStatus ::
  "(nat \<Rightarrow> nat \<Rightarrow> nat \<Rightarrow> nat) \<Rightarrow> cfg_state \<Rightarrow> int \<Rightarrow> int \<Rightarrow> ctx \<Rightarrow> combined \<Rightarrow> string \<Rightarrow> bool \<Rightarrow>
   ServiceStatusOutput result \<times> log_event list" where
  "HandleGetServiceStatus fr s now dur c comb name user =
     (case requireField name ''name'' of
        Some e \<Rightarrow> ((None, Some e), [])
      | None \<Rightarrow>
          if \<not> validServiceName name then ((None, Some (ErrQuoted ''invalid service name:'' name)), [])
          else run_tool fr s now dur c ToolNameGetServiceStatus 0
                 (\<lambda>ct. GatherServiceStatus comb ct name user))"

record SystemdUnit =
  su_Unit :: string
  su_Load :: string
  su_Active :: string
  su_Sub :: string
  su_Description :: string

record SystemdUnitsOutput = OutputErrors +
  Units :: "SystemdUnit list"

definition unit_line :: "string \<Rightarrow> string \<Rightarrow> SystemdUnit option" where
  "unit_line state line =
     (let fields = Fields line in
      if length fields < 4 then None
      else if state \<noteq> [] \<and> fields ! 2 \<noteq> state then None
      else Some \<lparr>su_Unit = fields ! 0, su_Load = fields ! 1, su_Active = fields ! 2, su_Sub = fields ! 3,
                 su_Description = (if length fields > 4 then Join '' '' (drop 4 fields) else [])\<rparr>)"

definition GatherSystemdUnits :: "world \<Rightarrow> ctx \<Rightarrow> string \<Rightarrow> SystemdUnitsOutput result" where
  "GatherSystemdUnits w c state =
     (case execLines w c ''systemctl'' [''list-units'', ''--all'', ''--no-pager'', ''--no-legend''] of
        Inl e \<Rightarrow> (None, Some e)
      | Inr ls \<Rightarrow> (Some \<lparr>Errors = [], Units = List.map_filter (unit_line state) ls\<rparr>, None))"

definition HandleGetSystemdUnits ::
  "(nat \<Rightarrow> nat \<Rightarrow> nat \<Rightarrow> nat) \<Rightarrow> cfg_state \<Rightarrow> int \<Rightarrow> int \<Rightarrow> ctx \<Rightarrow> world \<Rightarrow> string \<Rightarrow>
   SystemdUnitsOutput result \<times> log_event list" where
  "HandleGetSystemdUnits fr s now dur c w state =
     run_tool fr s now dur c ToolNameGetSystemdUnits 0 (\<lambda>ct. GatherSystemdUnits w ct state)"

section \<open>Ping\<close>

definition isASCIIHostChar :: "char \<Rightarrow> bool" where
  "isASCIIHostChar r = (name_char r \<or> r = CHR ''.'' \<or> r = CHR ''-'')"

definition valid_label :: "string \<Rightarrow> bool" where
  "valid_label label =
     (label \<noteq> [] \<and> length label \<le> 63 \<and> hd label \<noteq> CHR ''-'' \<and> last label \<noteq> CHR ''-'')"

definition validHost :: "(string \<Rightarrow> bool) \<Rightarrow> string \<Rightarrow> bool" where
  "validHost is_ip host =
     (if host = [] \<or> length host > 253 then False
      else if is_ip host then True
      else list_all isASCIIHostChar host \<and> list_all valid_label (split_char (CHR ''.'') host))"

record PingOutput = OutputErrors +
  Host :: string
  PacketsTransmitted :: int
  PacketsReceived :: int
  PacketLossPercent :: f64
  MinLatencyMs :: f64
  AvgLatencyMs :: f64
  MaxLatencyMs :: f64

definition ping_format :: "scan_item list" where
  "ping_format =
     [ScanInt, ScanBlank, ScanText ''packets'', ScanBlank, ScanText ''transmitted,'', ScanBlank,
      ScanInt, ScanBlank, ScanText ''received,'', ScanBlank, ScanFloat, ScanText ''%'', ScanBlank,
      ScanText ''packet'', ScanBlank, ScanText ''loss'']"

definition scan_packets :: "string \<Rightarrow> PingOutput \<Rightarrow> PingOutput" where
  "scan_packets line p =
     (case Sscanf ping_format line of
        [IntVal t] \<Rightarrow> p\<lparr>PacketsTransmitted := t\<rparr>
      | [IntVal t, IntVal r] \<Rightarrow> p\<lparr>PacketsTransmitted := t, PacketsReceived := r\<rparr>
      | [IntVal t, IntVal r, FloatVal l] \<Rightarrow>
          p\<lparr>PacketsTransmitted := t, PacketsReceived := r, PacketLossPercent := l\<rparr>
      | _ \<Rightarrow> p)"

definition scan_rtt :: "string \<Rightarrow> PingOutput \<Rightarrow> PingOutput" where
  "scan_rtt line p =
     (case Cut line ''= '' of
        (_, after, ok) \<Rightarrow>
          let parts = split_char (CHR ''/'') (TrimSpace after) in
          if ok \<and> length parts \<ge> 3 then
            let p = p\<lparr>MinLatencyMs := scanned_float (parts ! 0) (MinLatencyMs p)\<rparr>;
                p = p\<lparr>AvgLatencyMs := scanned_float (parts ! 1) (AvgLatencyMs p)\<rparr>
            in (case Fields (parts ! 2) of
                  [] \<Rightarrow> p
                | f # _ \<Rightarrow> p\<lparr>MaxLatencyMs := scanned_float f (MaxLatencyMs p)\<rparr>)
          else p)"

definition ping_line :: "string \<Rightarrow> PingOutput \<Rightarrow> PingOutput" where
  "ping_line line p =
     (let p = (if Contains line ''packets transmitted'' then scan_packets line p else p)
      in if Contains line ''rtt min/avg/max/mdev'' then scan_rtt line p else p)"

definition no_ping :: "string \<Rightarrow> PingOutput" where
  "no_ping host = \<lparr>Errors = [], Host = host, PacketsTransmitted = 0, PacketsReceived = 0,
                   PacketLossPercent = Fin 0, MinLatencyMs = Fin 0, AvgLatencyMs = Fin 0, MaxLatencyMs = Fin 0\<rparr>"

definition GatherPing :: "world \<Rightarrow> ctx \<Rightarrow> string \<Rightarrow> int \<Rightarrow> int \<Rightarrow> PingOutput result" where
  "GatherPing w c host cnt timeout =
     (case execOutput w c ''ping'' [''-c'', show_int cnt, ''-w'', show_int timeout, host] of
        (output, err) \<Rightarrow>
          let r = fold ping_line (lines_of output) (no_ping host)
          in if err \<noteq> None \<and> output = [] then (Some (Add ''ping'' err r), None) else (Some r, None))"

definition errInvalidHost :: goerr where
  "errInvalidHost = ErrText ''invalid host: must be a valid hostname or IP address''"

definition HandlePingHost ::
  "(nat \<Rightarrow> nat \<Rightarrow> nat \<Rightarrow> nat) \<Rightarrow> cfg_state \<Rightarrow> int \<Rightarrow> int \<Rightarrow> ctx \<Rightarrow> (string \<Rightarrow> bool) \<Rightarrow> world \<Rightarrow> string \<Rightarrow>
   int \<Rightarrow> int \<Rightarrow> PingOutput result \<times> log_event list" where
  "HandlePingHost fr s now dur c is_ip w host cnt timeout =
     (if \<not> validHost is_ip host then ((None, Some errInvalidHost), [])
      else
        let cnt = (if cnt \<le> 0 then 4 else cnt); timeout = (if timeout \<le> 0 then 10 else timeout)
        in run_tool fr s now dur c ToolNamePingHost 0 (\<lambda>ct. GatherPing w ct host cnt timeout))"

section \<open>Manual pages\<close>

text \<open>
  \<open>cleanManOutput\<close>: a backspace that is not the first byte removes the last byte of the buffer
  (kept in reverse); on an empty buffer \<open>Truncate(-1)\<close> panics (\<open>None\<close>).
\<close>

definition backspace :: char where
  "backspace = CHR 0x08"

fun clean_loop :: "bool \<Rightarrow> string \<Rightarrow> string \<Rightarrow> string option" where
  "clean_loop first buf [] = Some (rev buf)"
| "clean_loop first buf (b # rest) =
     (if b = backspace \<and> \<not> first then
        (case buf of [] \<Rightarrow> None | _ # buf' \<Rightarrow> clean_loop False buf' rest)
      else clean_loop False (b # buf) rest)"

definition cleanManOutput :: "string \<Rightarrow> string option" where
  "cleanManOutput raw = clean_loop True [] raw"

text \<open>The search: the lines that match, the flags around each of them, the flagged lines.\<close>

definition mark_range :: "int \<Rightarrow> int \<Rightarrow> bool list \<Rightarrow> bool list" where
  "mark_range start stop include =
     map (\<lambda>j. include ! j \<or> (start \<le> int j \<and> int j < stop)) [0..<length include]"

definition context_flags :: "int \<Rightarrow> bool list \<Rightarrow> bool list" where
  "context_flags contextLines matched =
     fold (\<lambda>i include.
             if matched ! i then
               mark_range (max (wrap_int (int i - contextLines)) 0)
               (min (wrap_int (int i + contextLines + 1)) (int (length matched))) include
             else include)
       [0..<length matched] (replicate (length matched) False)"

definition search_lines :: "(string \<Rightarrow> string) \<Rightarrow> string \<Rightarrow> int \<Rightarrow> string list \<Rightarrow> string list" where
  "search_lines um search contextLines ls =
     (let matched = map (\<lambda>line. Contains (ToLower um line) (ToLower um search)) ls;
          include = context_flags contextLines matched
      in map (\<lambda>i. ls ! i) (filter (\<lambda>i. include ! i) [0..<length ls]))"

record ManPageOutput = OutputErrors +
  man_Command :: string
  man_Content :: string
  man_Truncated :: bool

text \<open>From the text of the page to the answer.\<close>

definition man_window :: "int \<Rightarrow> int \<Rightarrow> string list \<Rightarrow> string list \<times> bool" where
  "man_window offset maxLines ls =
     (let ls = (if offset > 0 \<and> offset < int (length ls) then drop (nat offset) ls else ls)
      in if maxLines > 0 \<and> int (length ls) > maxLines then (take (nat maxLines) ls, True) else (ls, False))"

definition man_answer :: "world \<Rightarrow> string \<Rightarrow> int \<Rightarrow> string \<Rightarrow> int \<Rightarrow> int \<Rightarrow> string \<Rightarrow> ManPageOutput" where
  "man_answer w command maxLines search contextLines offset content =
     (let ls = lines_of content;
          ls = (if search \<noteq> [] then search_lines (w_lower w) search contextLines ls else ls)
      in case man_window offset maxLines ls of
           (ls, truncated) \<Rightarrow>
             \<lparr>Errors = [], man_Command = command, man_Content = Join [nl] ls, man_Truncated = truncated\<rparr>)"

definition man_error :: "string \<Rightarrow> string \<Rightarrow> goerr \<Rightarrow> goerr" where
  "man_error command out e =
     (case e of
        ErrExit n stderr \<Rightarrow>
          let msg = TrimSpace stderr; msg = (if msg = [] then out else msg)
          in if Contains msg ''No manual entry'' \<or> Contains out ''No manual entry''
             then ErrText (''No manual page found for '' @ [CHR 0x27] @ command @ [CHR 0x27])
             else e
      | _ \<Rightarrow> e)"

definition GatherManPage ::
  "world \<Rightarrow> ctx \<Rightarrow> string \<Rightarrow> int \<Rightarrow> bool \<Rightarrow> string \<Rightarrow> int \<Rightarrow> int \<Rightarrow> ManPageOutput result option" where
  "GatherManPage w c command maxLines clean search contextLines offset =
     (if w_look w ''man'' \<noteq> None then Some (None, Some (ErrText ''man command not found''))
      else
        (case execOutput w c ''man'' [''-P'', ''cat'', command] of
           (out, Some e) \<Rightarrow> Some (None, Some (man_error command out e))
         | (out, None) \<Rightarrow>
             map_option (\<lambda>content. (Some (man_answer w command maxLines search contextLines offset content), None))
               (if clean then cleanManOutput out else Some out)))"

definition HandleGetManPage ::
  "(nat \<Rightarrow> nat \<Rightarrow> nat \<Rightarrow> nat) \<Rightarrow> cfg_state \<Rightarrow> int \<Rightarrow> int \<Rightarrow> ctx \<Rightarrow> world \<Rightarrow> string \<Rightarrow> int \<Rightarrow> string \<Rightarrow>
   int \<Rightarrow> int \<Rightarrow> (ManPageOutput result \<times> log_event list) option" where
  "HandleGetManPage fr s now dur c w command maxLines search contextLines offset =
     (case requireField command ''command'' of
        Some e \<Rightarrow> Some ((None, Some e), [])
      | None \<Rightarrow>
          if \<not> validManName command then Some ((None, Some (ErrQuoted ''invalid command name:'' command)), [])
          else
            let maxl = clampZero maxLines 500 10000;
                cl = (if search \<noteq> [] \<and> contextLines \<le> 0 then 2 else contextLines)
            in run_partial fr s now dur c ToolNameGetManPage 0
                 (\<lambda>ct. GatherManPage w ct command maxl True search cl offset))"

section \<open>The journal\<close>

text \<open>A JSON value as the decoder gives it.\<close>

datatype jval = JStr string | JNum f64 | JList "jval list" | JOther

type_synonym json_decoder = "string \<Rightarrow> (string \<rightharpoonup> jval) option"

record JournalLogEntry =
  jl_Timestamp :: string
  jl_Message :: string
  jl_Priority :: string
  jl_Unit :: string
  jl_PID :: int

record JournalLogsOutput = OutputErrors +
  jl_Entries :: "JournalLogEntry list"

definition journalPriorityNames :: "int \<rightharpoonup> string" where
  "journalPriorityNames =
     map_of [(0, ''emerg''), (1, ''alert''), (2, ''crit''), (3, ''err''), (4, ''warning''), (5, ''notice''),
             (6, ''info''), (7, ''debug'')]"

fun journal_bytes :: "jval list \<Rightarrow> string option" where
  "journal_bytes [] = Some []"
| "journal_bytes (JNum (Fin n) # rest) =
     (if n < 0 \<or> n > 255 then None
      else map_option (\<lambda>s. char_of (nat \<lfloor>n\<rfloor>) # s) (journal_bytes rest))"
| "journal_bytes (_ # rest) = None"

definition journalMessage :: "(string \<rightharpoonup> jval) \<Rightarrow> string" where
  "journalMessage raw =
     (case raw ''MESSAGE'' of
        Some (JStr v) \<Rightarrow> v
      | Some (JList v) \<Rightarrow> (case journal_bytes v of None \<Rightarrow> [] | Some s \<Rightarrow> s)
      | _ \<Rightarrow> [])"

definition journal_string :: "jval option \<Rightarrow> string" where
  "journal_string v = (case v of Some (JStr s) \<Rightarrow> s | _ \<Rightarrow> [])"

definition journal_entry :: "(int \<Rightarrow> string) \<Rightarrow> (string \<rightharpoonup> jval) \<Rightarrow> JournalLogEntry" where
  "journal_entry rfc3339 raw =
     \<lparr>jl_Timestamp =
        (case raw ''__REALTIME_TIMESTAMP'' of
           Some (JStr s) \<Rightarrow> (case ParseInt 64 s of (micro, None) \<Rightarrow> rfc3339 micro | (_, Some _) \<Rightarrow> [])
         | _ \<Rightarrow> []),
      jl_Message = journalMessage raw,
      jl_Priority =
        (case raw ''PRIORITY'' of
           Some (JStr s) \<Rightarrow>
             (case ParseInt 64 s of
                (p, None) \<Rightarrow> (case journalPriorityNames p of None \<Rightarrow> [] | Some name \<Rightarrow> name)
              | (_, Some _) \<Rightarrow> [])
         | _ \<Rightarrow> []),
      jl_Unit =
        (if raw ''_SYSTEMD_UNIT'' \<noteq> None then journal_string (raw ''_SYSTEMD_UNIT'')
         else journal_string (raw ''UNIT'')),
      jl_PID =
        (case raw ''_PID'' of
           Some (JStr s) \<Rightarrow> (case Atoi s of (p, None) \<Rightarrow> p | (_, Some _) \<Rightarrow> 0)
         | _ \<Rightarrow> 0)\<rparr>"

definition journal_line :: "json_decoder \<Rightarrow> (int \<Rightarrow> string) \<Rightarrow> string \<Rightarrow> JournalLogEntry option" where
  "journal_line dec rfc3339 line =
     (if line = [] then None else map_option (journal_entry rfc3339) (dec line))"

definition journal_args :: "int \<Rightarrow> bool \<Rightarrow> string \<Rightarrow> string \<Rightarrow> string \<Rightarrow> string \<Rightarrow> string list" where
  "journal_args n user unit priority since until =
     [''--no-pager'', ''-n'', show_int n, ''-o'', ''json''] @
     (if user then [''--user''] else []) @
     (if unit \<noteq> [] then [''-u'', unit] else []) @
     (if priority \<noteq> [] then [''-p'', priority] else []) @
     (if since \<noteq> [] then [''--since'', since] else []) @
     (if until \<noteq> [] then [''--until'', until] else [])"

definition GatherJournalLogs ::
  "world \<Rightarrow> json_decoder \<Rightarrow> (int \<Rightarrow> string) \<Rightarrow> ctx \<Rightarrow> string \<Rightarrow> string \<Rightarrow> string \<Rightarrow> string \<Rightarrow> int \<Rightarrow> bool \<Rightarrow>
   JournalLogsOutput result" where
  "GatherJournalLogs w dec rfc3339 c unit priority since until n user =
     (case execOutput w c ''journalctl'' (journal_args n user unit priority since until) of
        (_, Some e) \<Rightarrow> (None, Some e)
      | (out, None) \<Rightarrow>
          (Some \<lparr>Errors = [], jl_Entries = List.map_filter (journal_line dec rfc3339) (lines_of out)\<rparr>, None))"

definition isValidUnitName :: "string \<Rightarrow> bool" where
  "isValidUnitName unit =
     list_all (\<lambda>ch. name_char ch \<or> ch \<in> set ''_.@-'') unit"

definition HandleGetJournalLogs ::
  "(nat \<Rightarrow> nat \<Rightarrow> nat \<Rightarrow> nat) \<Rightarrow> cfg_state \<Rightarrow> int \<Rightarrow> int \<Rightarrow> ctx \<Rightarrow> world \<Rightarrow> json_decoder \<Rightarrow> (int \<Rightarrow> string) \<Rightarrow>
   string \<Rightarrow> string \<Rightarrow> string \<Rightarrow> string \<Rightarrow> int \<Rightarrow> bool \<Rightarrow> JournalLogsOutput result \<times> log_event list" where
  "HandleGetJournalLogs fr s now dur c w dec rfc3339 unit priority since until n user =
     (if \<not> isValidUnitName unit then ((None, Some (ErrQuoted ''invalid unit name:'' unit)), [])
      else run_tool fr s now dur c ToolNameGetJournalLogs 0
             (\<lambda>ct. GatherJournalLogs w dec rfc3339 ct unit priority since until (if n \<le> 0 then 50 else n) user))"

interpretation journal: line_parser "\<lambda>out. List.map_filter (journal_line dec rfc3339) (lines_of out)"
  "journal_line dec rfc3339"
  by unfold_locales simp

section \<open>Manual pages: lemmas\<close>

lemma context_flags_spec:
  assumes "j < length matched" "0 \<le> k" "k + int (length matched) < 2 ^ 63"
  shows "context_flags k matched ! j \<longleftrightarrow>
           (\<exists>i < length matched. matched ! i \<and> int i - k \<le> int j \<and> int j \<le> int i + k)"
proof -
  let ?step = "\<lambda>i include. if matched ! i
      then mark_range (max (wrap_int (int i - k)) 0)
             (min (wrap_int (int i + k + 1)) (int (length matched))) include else include"
  have len: "length (fold ?step is inc) = length inc" for "is" inc
    by (induction "is" arbitrary: inc) (auto simp: mark_range_def)
  have step: "?step i inc ! j \<longleftrightarrow> inc ! j \<or> (matched ! i \<and> int i - k \<le> int j \<and> int j \<le> int i + k)"
    if "i < length matched" "length inc = length matched" for i inc
  proof -
    have "wrap_int (int i - k) = int i - k" "wrap_int (int i + k + 1) = int i + k + 1"
      using that assms by simp_all
    then show ?thesis using that assms by (auto simp: mark_range_def)
  qed
  have "length inc = length matched \<Longrightarrow> list_all (\<lambda>i. i < length matched) is \<Longrightarrow> fold ?step is inc ! j \<longleftrightarrow>
      inc ! j \<or> (\<exists>i \<in> set is. matched ! i \<and> int i - k \<le> int j \<and> int j \<le> int i + k)" for "is" inc
  proof (induction "is" arbitrary: inc)
    case (Cons i "is")
    have "length (?step i inc) = length matched" using Cons.prems by (simp add: mark_range_def)
    note IH = Cons.IH [OF this]
    have "?step i inc ! j \<longleftrightarrow> inc ! j \<or> (matched ! i \<and> int i - k \<le> int j \<and> int j \<le> int i + k)"
      using Cons.prems by (intro step) simp_all
    with IH Cons.prems show ?case by (auto simp del: if_split)
  qed simp
  from this [of "replicate (length matched) False" "[0..<length matched]"] show ?thesis
    using assms by (auto simp: context_flags_def list_all_iff)
qed

lemma clean_loop_append:
  assumes "backspace \<notin> set a"
  shows "clean_loop False buf (a @ b) = clean_loop False (rev a @ buf) b"
  using assms by (induction a arbitrary: buf) auto

text \<open>A nroff text: characters that are plain, bold (struck twice) or underlined.\<close>

datatype style = Plain | Bold | Underlined

fun strike :: "style \<times> char \<Rightarrow> string" where
  "strike (Plain, c) = [c]"
| "strike (Bold, c) = [c, backspace, c]"
| "strike (Underlined, c) = [CHR ''_'', backspace, c]"

lemma clean_strike:
  "backspace \<notin> snd ` set xs \<Longrightarrow> clean_loop False buf (concat (map strike xs)) = Some (rev buf @ map snd xs)"
proof (induction xs arbitrary: buf)
  case (Cons x xs)
  obtain st c where x: "x = (st, c)" by (cases x)
  have c: "c \<noteq> backspace" "CHR ''_'' \<noteq> backspace" using Cons.prems x by (auto simp: backspace_def)
  have "backspace \<notin> snd ` set xs" using Cons.prems by auto
  note IH = Cons.IH [OF this, of "c # buf"]
  show ?case using IH c unfolding x by (cases st) simp_all
qed simp

lemma clean_first:
  "s = [] \<or> hd s \<noteq> backspace \<Longrightarrow> clean_loop True buf s = clean_loop False buf s"
  by (cases s) auto

text \<open>A second backspace with nothing before it makes \<open>Truncate(-1)\<close> panic.\<close>

lemma clean_panics: "cleanManOutput [CHR ''x'', backspace, backspace] = None"
  by (simp add: cleanManOutput_def backspace_def)

text \<open>A bold character of two bytes loses only its last byte to the backspace.\<close>

lemma clean_cuts_bytes:
  "cleanManOutput [CHR 0xC3, CHR 0xA9, backspace, CHR 0xC3, CHR 0xA9] = Some [CHR 0xC3, CHR 0xC3, CHR 0xA9]"
  by (simp add: cleanManOutput_def backspace_def)

text \<open>The largest \<open>int\<close> as the number of context lines wraps, and every match is lost.\<close>

lemma context_overflow: "context_flags (2 ^ 63 - 1) [True, True] = [False, False]"
  by (simp add: context_flags_def mark_range_def wrap_int_def upt_rec)

lemma offset_past_end_ignored: "int (length ls) \<le> offset \<Longrightarrow> man_window offset n ls = man_window 0 n ls"
  by (simp add: man_window_def)

section \<open>Hosts: lemmas\<close>

lemma validHost_no_dash:
  assumes "\<And>h. is_ip h \<Longrightarrow> h \<noteq> [] \<and> hd h \<noteq> CHR ''-''" "validHost is_ip host"
  shows "host \<noteq> [] \<and> hd host \<noteq> CHR ''-''"
proof (cases "is_ip host")
  case False
  with assms(2) have ne: "host \<noteq> []" and lab: "list_all valid_label (split_char (CHR ''.'') host)"
    by (auto simp: validHost_def split: if_splits)
  obtain l ls where split: "split_char (CHR ''.'') host = l # ls"
    by (metis neq_Nil_conv split_char_ne)
  with lab have l: "l \<noteq> []" "hd l \<noteq> CHR ''-''" by (auto simp: valid_label_def)
  have "host = Join ''.'' (l # ls)" using Join_split_char [of "CHR ''.''" host] split by simp
  then have "hd host = hd l" using l by (cases ls) (auto simp: Join_Cons)
  with ne l show ?thesis by simp
qed (use assms(1) in blast)

section \<open>The summary of ping\<close>

lemma ParseFloat_4: "ParseFloat ''+4'' = (Fin 4, None)"
proof -
  have a: "float_special ''+4'' = None" by code_simp
  have b: "takeWhile is_digit ''4'' = ''4''" "dropWhile is_digit ''4'' = []" by code_simp+
  have c: "dec_value 0 ''4'' = 4" by code_simp
  have d: "float_exponent [] = Some 0" by code_simp
  have r: "f64_round 4 = Fin 4" using f64_round_int [of 4] by simp
  have e: "is_digit (CHR ''4'')" "the (digit_val (CHR ''4'')) = 4" by code_simp+
  show ?thesis by (simp add: ParseFloat_def a b c d r e)
qed
lemma scan_errors: "scan_float ''+4 errors, 100% packet loss'' = Some (Fin 4, '' errors, 100% packet loss'')"
proof -
  have "float_token (skip_blanks ''+4 errors, 100% packet loss'') = (''+4'', '' errors, 100% packet loss'')" by code_simp
  then show ?thesis by (simp add: scan_float_def ParseFloat_4)
qed
lemma scan_counts: "scan_int ''4 packets transmitted, 0 received, +4 errors, 100% packet loss'' = Some (4, '' packets transmitted, 0 received, +4 errors, 100% packet loss'')"
 "scan_int ''0 received, +4 errors, 100% packet loss'' = Some (0, '' received, +4 errors, 100% packet loss'')" by code_simp+
text \<open>With errors in the summary, the loss that is reported is the number of errors.\<close>

lemma ping_errors_as_loss:
  "scan_packets ''4 packets transmitted, 0 received, +4 errors, 100% packet loss'' (no_ping h) =
     (no_ping h)\<lparr>PacketsTransmitted := 4, PacketsReceived := 0, PacketLossPercent := Fin 4\<rparr>"
 by (simp add: scan_packets_def ping_format_def scan_counts scan_errors skip_blanks_def CutPrefix_def byte_def)

section \<open>Properties\<close>

text \<open>
  C8. The search of a manual page returns, in order, exactly the lines at a distance of at most
  \<open>contextLines\<close> from a line that contains the searched text, case aside: the flags, which
  overlap when matches are close, list no line twice and lose none.
\<close>

theorem man_search_exact:
  assumes "0 \<le> k" "k + int (length ls) < 2 ^ 63"
  shows "search_lines um search k ls =
           map (nth ls) (filter (\<lambda>j. \<exists>i < length ls. Contains (ToLower um (ls ! i)) (ToLower um search)
                                     \<and> \<bar>int i - int j\<bar> \<le> k) [0..<length ls])"
proof -
  define m where "m = map (\<lambda>line. Contains (ToLower um line) (ToLower um search)) ls"
  have "context_flags k m ! j \<longleftrightarrow> (\<exists>i < length ls. m ! i \<and> \<bar>int i - int j\<bar> \<le> k)" if "j < length ls" for j
  proof -
    have "(int i - k \<le> int j \<and> int j \<le> int i + k) = (\<bar>int i - int j\<bar> \<le> k)" for i by linarith
    then show ?thesis using context_flags_spec [of j m k] that assms by (simp add: m_def)
  qed
  then have "filter (\<lambda>j. context_flags k m ! j) [0..<length ls] =
             filter (\<lambda>j. \<exists>i < length ls. m ! i \<and> \<bar>int i - int j\<bar> \<le> k) [0..<length ls]"
    by (intro filter_cong) auto
  also have "\<dots> = filter (\<lambda>j. \<exists>i < length ls. Contains (ToLower um (ls ! i)) (ToLower um search)
                                     \<and> \<bar>int i - int j\<bar> \<le> k) [0..<length ls]"
    by (intro filter_cong refl ex_cong1) (auto simp: m_def)
  finally show ?thesis unfolding search_lines_def Let_def m_def by simp
qed

theorem man_search_exact_witness:
  "search_lines id ''b'' 1 [''a'', ''b'', ''c'', ''d''] =
     map (nth [''a'', ''b'', ''c'', ''d''])
       (filter (\<lambda>j. \<exists>i < length [''a'', ''b'', ''c'', ''d''].
             Contains (ToLower id ([''a'', ''b'', ''c'', ''d''] ! i)) (ToLower id ''b'')
             \<and> \<bar>int i - int j\<bar> \<le> 1) [0..<length [''a'', ''b'', ''c'', ''d'']])"
  by (rule man_search_exact) simp_all

text \<open>
  Cleaning undoes the overstriking of nroff: a text of plain, bold and underlined
  characters comes back as the plain characters, provided none of them is a backspace.
\<close>

theorem overstrike_roundtrip:
  assumes "backspace \<notin> snd ` set xs"
  shows "cleanManOutput (concat (map strike xs)) = Some (map snd xs)"
proof -
  have "concat (map strike xs) = [] \<or> hd (concat (map strike xs)) \<noteq> backspace"
  proof (cases xs)
    case (Cons x ys)
    then show ?thesis using assms by (cases x rule: strike.cases) (auto simp: backspace_def)
  qed simp
  then show ?thesis by (simp add: cleanManOutput_def clean_first clean_strike [OF assms])
qed

theorem overstrike_roundtrip_witness:
  "cleanManOutput (concat (map strike [(Bold, CHR ''l''), (Underlined, CHR ''s''), (Plain, CHR '' '')])) =
     Some (map snd [(Bold, CHR ''l''), (Underlined, CHR ''s''), (Plain, CHR '' '')])"
  by (rule overstrike_roundtrip) (simp add: backspace_def)

text \<open>
  C21. The host cannot smuggle an option into the ping command: the answer of the ping tool
  depends only on how ping answers command lines of five words whose last, the host, does not
  start with a dash. Relied on: \<open>net.ParseIP\<close> accepts no text that is empty or starts with one.
\<close>

theorem ping_no_option:
  assumes "\<And>h. is_ip h \<Longrightarrow> h \<noteq> [] \<and> hd h \<noteq> CHR ''-''"
    "\<And>c a b d e h. h \<noteq> [] \<Longrightarrow> hd h \<noteq> CHR ''-'' \<Longrightarrow>
       execOutput w c ''ping'' [a, b, d, e, h] = execOutput w' c ''ping'' [a, b, d, e, h]"
  shows "HandlePingHost fr s now dur c is_ip w host cnt timeout =
         HandlePingHost fr s now dur c is_ip w' host cnt timeout"
proof (cases "validHost is_ip host")
  case True
  with validHost_no_dash [OF assms(1)] have "host \<noteq> []" "hd host \<noteq> CHR ''-''" by auto
  then have "GatherPing w ct host n t = GatherPing w' ct host n t" for ct n t
    by (simp add: GatherPing_def assms(2))
  then show ?thesis by (simp add: HandlePingHost_def)
qed (simp add: HandlePingHost_def)

theorem ping_no_option_witness:
  "HandlePingHost exact_fraction init_state 0 0 \<lparr>deadline = None\<rparr> (\<lambda>h. h = ''::1'') broken_world ''-f'' 0 0 =
   HandlePingHost exact_fraction init_state 0 0 \<lparr>deadline = None\<rparr> (\<lambda>h. h = ''::1'')
     (broken_world\<lparr>w_exec := \<lambda>c b args. if last args = ''-f'' then (''flood'', None)
                                        else w_exec broken_world c b args\<rparr>) ''-f'' 0 0"
  by (rule ping_no_option) (auto simp: execOutput_def)

end
