(* ===== verification/Accounts.thy ===== *)
theory Accounts
  imports Handler "HOL-Library.Char_ord" "HOL-Library.List_Lexorder"
begin

text \<open>
  Accounts and groups (tools/users.go), file locks (tools/locks.go) and System V shared memory
  (tools/sysvipc.go). The order in which the groups are visited, a range over a map, is a
  parameter.
\<close>

section \<open>Accounts\<close>

record UserInfo =
  ui_Username :: string
  ui_UID :: int
  ui_GID :: int
  ui_HomeDir :: string
  ui_Shell :: string
  ui_Groups :: "string list"

record GetUserInfoOutput = OutputErrors +
  ui_Users :: "UserInfo list"

definition skipped_line :: "string \<Rightarrow> bool" where
  "skipped_line line = (line = [] \<or> HasPrefix line ''#'')"

definition passwd_line :: "string \<Rightarrow> UserInfo option" where
  "passwd_line text =
     (let line = TrimSpace text; parts = splitn_char 7 (CHR '':'') line in
      if skipped_line line \<or> length parts < 7 then None
      else Some \<lparr>ui_Username = parts ! 0, ui_UID = fst (Atoi (parts ! 2)), ui_GID = fst (Atoi (parts ! 3)),
                 ui_HomeDir = parts ! 5, ui_Shell = parts ! 6, ui_Groups = []\<rparr>)"

definition parsePasswd :: "world \<Rightarrow> UserInfo list \<times> goerr option" where
  "parsePasswd w =
     (case w_read w ''/etc/passwd'' of
        Inl e \<Rightarrow> ([], Some e)
      | Inr text \<Rightarrow> (case scan_lines text of (ls, err) \<Rightarrow> (List.map_filter passwd_line ls, err)))"

definition group_line :: "string \<Rightarrow> (int \<rightharpoonup> string) \<times> (string \<rightharpoonup> string list) \<Rightarrow>
    (int \<rightharpoonup> string) \<times> (string \<rightharpoonup> string list)" where
  "group_line text maps =
     (let line = TrimSpace text; parts = splitn_char 4 (CHR '':'') line in
      if skipped_line line \<or> length parts < 3 then maps
      else
        ((fst maps)(fst (Atoi (parts ! 2)) \<mapsto> parts ! 0),
         if length parts = 4 \<and> parts ! 3 \<noteq> []
         then (snd maps)(parts ! 0 \<mapsto> split_char (CHR '','') (parts ! 3)) else snd maps))"

text \<open>Both maps, or none (two nil maps) when the file cannot be read to its end.\<close>

definition parseGroup :: "world \<Rightarrow> ((int \<rightharpoonup> string) \<times> (string \<rightharpoonup> string list)) option" where
  "parseGroup w =
     (case w_read w ''/etc/group'' of
        Inl _ \<Rightarrow> None
      | Inr text \<Rightarrow>
          (case scan_lines text of
             (ls, err) \<Rightarrow> if err \<noteq> None then None else Some (fold group_line ls (Map.empty, Map.empty))))"

text \<open>One turn of the range over the members, with the groups and the names seen so far.\<close>

definition membership_step ::
  "(string \<rightharpoonup> string list) \<Rightarrow> string \<Rightarrow> string \<Rightarrow> string list \<times> string set \<Rightarrow> string list \<times> string set" where
  "membership_step members username gname gs =
     (case gs of
        (groups, seen) \<Rightarrow>
          if gname \<in> seen then gs
          else if username \<in> set (case members gname of None \<Rightarrow> [] | Some ms \<Rightarrow> ms)
          then (groups @ [gname], insert gname seen) else gs)"

definition buildGroupMembership ::
  "((string \<rightharpoonup> string list) \<Rightarrow> string list) \<Rightarrow> (int \<rightharpoonup> string) \<Rightarrow> (string \<rightharpoonup> string list) \<Rightarrow> string \<Rightarrow> int \<Rightarrow> string list" where
  "buildGroupMembership enum names members username gid =
     fst (fold (membership_step members username) (enum members)
            (case names gid of None \<Rightarrow> ([], {}) | Some n \<Rightarrow> ([n], {n})))"

definition user_entry ::
  "((string \<rightharpoonup> string list) \<Rightarrow> string list) \<Rightarrow> ((int \<rightharpoonup> string) \<times> (string \<rightharpoonup> string list)) option \<Rightarrow>
   UserInfo \<Rightarrow> UserInfo" where
  "user_entry enum maps u =
     (case maps of
        None \<Rightarrow> u
      | Some (names, members) \<Rightarrow>
          u\<lparr>ui_Groups := buildGroupMembership enum names members (ui_Username u) (ui_GID u)\<rparr>)"

definition GatherUserInfo :: "((string \<rightharpoonup> string list) \<Rightarrow> string list) \<Rightarrow> world \<Rightarrow> string \<Rightarrow> GetUserInfoOutput result" where
  "GatherUserInfo enum w search =
     (case parsePasswd w of
        (_, Some e) \<Rightarrow>
          let errs = appendErr [] ''passwd'' (Some e)
          in (Some \<lparr>Errors = errs, ui_Users = []\<rparr>, joinErrs errs)
      | (users, None) \<Rightarrow>
          let found = filter (\<lambda>u. search = [] \<or> Contains (ToLower (w_lower w) (ui_Username u)) (ToLower (w_lower w) search)) users;
              out = \<lparr>Errors = [], ui_Users = map (user_entry enum (parseGroup w)) found\<rparr>
          in (Some out, Err out))"

definition HandleGetUserInfo ::
  "(nat \<Rightarrow> nat \<Rightarrow> nat \<Rightarrow> nat) \<Rightarrow> cfg_state \<Rightarrow> int \<Rightarrow> int \<Rightarrow> ctx \<Rightarrow> ((string \<rightharpoonup> string list) \<Rightarrow> string list) \<Rightarrow> world \<Rightarrow>
   string \<Rightarrow> GetUserInfoOutput result \<times> log_event list" where
  "HandleGetUserInfo fr s now dur c enum w search =
     run_tool fr s now dur c ToolNameGetUserInfo 0 (\<lambda>_. GatherUserInfo enum w search)"

section \<open>File locks\<close>

record FileLock =
  LockType :: string
  Access :: string
  lock_PID :: int
  lock_Start :: int
  lock_End :: int
  lock_Path :: string

record FileLocksOutput = OutputErrors +
  Locks :: "FileLock list"

definition parseLockLine :: "string \<Rightarrow> goerr + FileLock" where
  "parseLockLine line =
     (let fields = Fields line in
      if length fields < 8 then Inl (ErrText (''insufficient fields in lock line: '' @ line))
      else
        case ParseInt 32 (fields ! 4) of
          (_, Some k) \<Rightarrow> Inl (ErrWrap (''invalid PID '' @ fields ! 4) (ErrNum ''ParseInt'' k (fields ! 4)))
        | (pid, None) \<Rightarrow>
            let lock = (\<lambda>start end path.
                  Inr \<lparr>LockType = fields ! 1, Access = fields ! 2 @ '' '' @ fields ! 3, lock_PID = pid,
                       lock_Start = start, lock_End = end, lock_Path = path\<rparr>)
            in if fields ! 7 = ''EOF'' then lock (-1) (-1) []
               else
                 case ParseInt 64 (fields ! 7) of
                   (_, Some k) \<Rightarrow> Inl (ErrWrap (''invalid start '' @ fields ! 7) (ErrNum ''ParseInt'' k (fields ! 7)))
                 | (start, None) \<Rightarrow>
                     if length fields \<ge> 9 then
                       (case ParseInt 64 (fields ! 8) of
                          (end, None) \<Rightarrow> lock start end (if length fields \<ge> 10 then Join '' '' (drop 9 fields) else [])
                        | (_, Some _) \<Rightarrow> lock start (-1) (Join '' '' (drop 8 fields)))
                     else lock start (-1) [])"

text \<open>The lines of a table: blank ones are skipped, one that cannot be parsed is an error.\<close>

definition lock_step :: "string \<Rightarrow> FileLocksOutput \<Rightarrow> FileLocksOutput" where
  "lock_step text out =
     (let line = TrimSpace text in
      if line = [] then out
      else case parseLockLine line of
        Inl e \<Rightarrow> Add ''parse'' (Some e) out
      | Inr lock \<Rightarrow> out\<lparr>Locks := Locks out @ [lock]\<rparr>)"

definition GatherFileLocks :: "world \<Rightarrow> FileLocksOutput result" where
  "GatherFileLocks w =
     (case w_read w ''/proc/locks'' of
        Inl _ \<Rightarrow> (Some \<lparr>Errors = [], Locks = []\<rparr>, None)
      | Inr text \<Rightarrow> (Some (fold lock_step (lines_of text) \<lparr>Errors = [], Locks = []\<rparr>), None))"

definition HandleGetFileLocks ::
  "(nat \<Rightarrow> nat \<Rightarrow> nat \<Rightarrow> nat) \<Rightarrow> cfg_state \<Rightarrow> int \<Rightarrow> int \<Rightarrow> ctx \<Rightarrow> world \<Rightarrow> FileLocksOutput result \<times> log_event list" where
  "HandleGetFileLocks fr s now dur c w =
     run_tool fr s now dur c ToolNameGetFileLocks 0 (\<lambda>_. GatherFileLocks w)"

section \<open>Shared memory\<close>

record ShmSegment =
  Key :: int
  shm_ID :: int
  Owner :: string
  Bytes :: int
  Nattch :: int
  CPID :: int
  LPID :: int
  AttachAt :: string
  DetachAt :: string
  CreatTime :: string

record SharedMemoryOutput = OutputErrors +
  Segments :: "ShmSegment list"

definition parseShmLine :: "string \<Rightarrow> goerr + ShmSegment" where
  "parseShmLine line =
     (let fields = Fields line; number = (\<lambda>bits i. fst (ParseInt bits (fields ! i))) in
      if length fields < 14 then Inl (ErrText (''insufficient fields in shm line: '' @ line))
      else Inr \<lparr>Key = number 64 0, shm_ID = number 64 1, Owner = fields ! 7, Bytes = number 64 3,
                Nattch = number 32 6, CPID = number 32 4, LPID = number 32 5, AttachAt = fields ! 11,
                DetachAt = fields ! 12, CreatTime = fields ! 13\<rparr>)"

definition shm_step :: "string \<Rightarrow> SharedMemoryOutput \<Rightarrow> SharedMemoryOutput" where
  "shm_step text out =
     (let line = TrimSpace text in
      if line = [] then out
      else case parseShmLine line of
        Inl e \<Rightarrow> Add ''parse'' (Some e) out
      | Inr seg \<Rightarrow> out\<lparr>Segments := Segments out @ [seg]\<rparr>)"

definition GatherSharedMemorySegments :: "world \<Rightarrow> SharedMemoryOutput result" where
  "GatherSharedMemorySegments w =
     (let none = \<lparr>Errors = [], Segments = []\<rparr> in
      case w_read w ''/proc/sysvipc/shm'' of
        Inl _ \<Rightarrow> (Some none, None)
      | Inr text \<Rightarrow>
          (let ls = lines_of text in
           if length ls < 2 then (Some none, None) else (Some (fold shm_step (tl ls) none), None)))"

definition HandleGetSharedMemorySegments ::
  "(nat \<Rightarrow> nat \<Rightarrow> nat \<Rightarrow> nat) \<Rightarrow> cfg_state \<Rightarrow> int \<Rightarrow> int \<Rightarrow> ctx \<Rightarrow> world \<Rightarrow> SharedMemoryOutput result \<times> log_event list" where
  "HandleGetSharedMemorySegments fr s now dur c w =
     run_tool fr s now dur c ToolNameGetSharedMemorySegments 0 (\<lambda>_. GatherSharedMemorySegments w)"

section \<open>Lemmas\<close>

lemma membership_fold:
  assumes "distinct ks" "set ks \<subseteq> dom members" "distinct gs" "set gs = seen"
  shows "distinct (fst (fold (membership_step members u) ks (gs, seen))) \<and>
         set (fst (fold (membership_step members u) ks (gs, seen))) =
           seen \<union> {g \<in> set ks. \<exists>ms. members g = Some ms \<and> u \<in> set ms} \<and>
         prefix gs (fst (fold (membership_step members u) ks (gs, seen)))"
  using assms
proof (induction ks arbitrary: gs seen)
  case (Cons k ks)
  obtain ms where ms: "members k = Some ms" using Cons.prems by auto
  show ?case
  proof (cases "k \<notin> seen \<and> u \<in> set ms")
    case True
    with Cons.IH [of "gs @ [k]" "insert k seen"] Cons.prems ms show ?thesis
      by (auto simp: membership_step_def dest: append_prefixD)
  next
    case False
    with Cons.IH [of gs seen] Cons.prems ms show ?thesis
      by (auto simp: membership_step_def)
  qed
qed simp

lemma groups_finite: "finite (dom (snd maps)) \<Longrightarrow> finite (dom (snd (fold group_line ls maps)))"
  by (induction ls arbitrary: maps) (simp_all add: group_line_def Let_def)

lemma parseGroup_finite: "parseGroup w = Some (names, members) \<Longrightarrow> finite (dom members)"
  using groups_finite [of "(Map.empty, Map.empty)"]
  by (auto simp: parseGroup_def split: sum.splits prod.splits if_splits) (metis dom_empty finite.emptyI snd_conv)

text \<open>
  The lines of the kernel: the device and the inode are one word, so the seventh field is the
  start and the eighth the end of the range, one field before the place the code takes each
  from. The end is reported as the start, and the end is always -1.
\<close>

definition kernel_lock :: "string \<Rightarrow> string \<Rightarrow> string \<Rightarrow> string \<Rightarrow> int \<Rightarrow> string \<Rightarrow> int \<Rightarrow> int \<Rightarrow> string" where
  "kernel_lock n kind adv acc pid dev start end =
     Join '' '' [n, kind, adv, acc, show_int pid, dev, show_int start, show_int end]"

lemma EOF_not_number: "show_int i \<noteq> ''EOF''"
proof
  assume "show_int i = ''EOF''"
  then have "hd (show_int i) = CHR ''E''" by simp
  moreover have "hd (show_nat n) \<noteq> CHR ''E''" for n
    using hd_show_nat [of n] by (auto simp: digit_val_def byte_def)
  ultimately show False by (auto simp: show_int_def split: if_splits)
qed

lemma kernel_lock_end_as_start:
  assumes "token n" "token kind" "token adv" "token acc" "token dev" "\<bar>pid\<bar> < 2 ^ 31" "\<bar>end\<bar> < 2 ^ 63"
  shows "parseLockLine (kernel_lock n kind adv acc pid dev start end) =
           Inr \<lparr>LockType = kind, Access = adv @ '' '' @ acc, lock_PID = pid, lock_Start = end, lock_End = -1,
                lock_Path = []\<rparr>"
proof -
  have "Fields (kernel_lock n kind adv acc pid dev start end) =
          [n, kind, adv, acc, show_int pid, dev, show_int start, show_int end]"
    unfolding kernel_lock_def using assms by (intro Fields_Join) auto
  moreover have "ParseInt 32 (show_int pid) = (pid, None)" "ParseInt 64 (show_int end) = (end, None)"
    using assms by (auto intro!: ParseInt_show_int)
  ultimately show ?thesis by (simp add: parseLockLine_def EOF_not_number)
qed

section \<open>Properties\<close>

text \<open>
  C23. The groups of every account in the answer, whatever the order the map is visited in:
  each group once, exactly the primary group and the groups that name the account as a
  member, and the primary group first.
\<close>

theorem account_groups_exact:
  assumes "ranges enum" "GatherUserInfo enum w search = (Some out, None)" "u \<in> set (ui_Users out)"
    "parseGroup w = Some (names, members)"
  shows "distinct (ui_Groups u) \<and>
         set (ui_Groups u) = set_option (names (ui_GID u)) \<union>
           {g. \<exists>ms. members g = Some ms \<and> ui_Username u \<in> set ms} \<and>
         (\<forall>n \<in> set_option (names (ui_GID u)). hd (ui_Groups u) = n)"
proof -
  obtain v where u: "u = user_entry enum (Some (names, members)) v"
    using assms(2-4) by (auto simp: GatherUserInfo_def joinErrs_def appendErr_def Let_def split: prod.splits option.splits)
  have dom: "distinct (enum members)" "set (enum members) = dom members"
    using assms(1) parseGroup_finite [OF assms(4)] by (auto simp: ranges_def)
  note fold = membership_fold [OF dom(1) equalityD1 [OF dom(2)], where u = "ui_Username v"]
  show ?thesis
  proof (cases "names (ui_GID v)")
    case None
    with fold [of "[]" "{}"] dom(2) show ?thesis
      by (auto simp: u user_entry_def buildGroupMembership_def)
  next
    case (Some n)
    have "prefix [n] gs \<Longrightarrow> hd gs = n" for gs :: "string list" by (cases gs) auto
    with Some fold [of "[n]" "{n}"] dom(2) show ?thesis
      by (auto simp: u user_entry_def buildGroupMembership_def)
  qed
qed

definition accounts_world :: world where
  "accounts_world = broken_world\<lparr>w_read := \<lambda>p.
     Inr (if p = ''/etc/passwd'' then ''u:x:1:5:::'' else ''adm:x:5:'' @ [nl] @ ''wheel:x:6:v,u'')\<rparr>"

lemma accounts_group: "parseGroup accounts_world = Some ([5 \<mapsto> ''adm'', 6 \<mapsto> ''wheel''], [''wheel'' \<mapsto> [''v'', ''u'']])"
proof -
  have "scan_lines (''adm:x:5:'' @ [nl] @ ''wheel:x:6:v,u'') = ([''adm:x:5:'', ''wheel:x:6:v,u''], None)"
    by code_simp
  moreover have "group_line ''adm:x:5:'' m = ((fst m)(5 \<mapsto> ''adm''), snd m)" for m
  proof -
    have "TrimSpace ''adm:x:5:'' = ''adm:x:5:''" "splitn_char 4 (CHR '':'') ''adm:x:5:'' = [''adm'', ''x'', ''5'', []]"
      "Atoi ''5'' = (5, None)" by code_simp+
    then show ?thesis by (simp add: group_line_def skipped_line_def)
  qed
  moreover have "group_line ''wheel:x:6:v,u'' m = ((fst m)(6 \<mapsto> ''wheel''), (snd m)(''wheel'' \<mapsto> [''v'', ''u'']))" for m
  proof -
    have "TrimSpace ''wheel:x:6:v,u'' = ''wheel:x:6:v,u''" "Atoi ''6'' = (6, None)"
      "splitn_char 4 (CHR '':'') ''wheel:x:6:v,u'' = [''wheel'', ''x'', ''6'', ''v,u'']"
      "split_char (CHR '','') ''v,u'' = [''v'', ''u'']" by code_simp+
    then show ?thesis by (simp add: group_line_def skipped_line_def)
  qed
  ultimately show ?thesis by (simp add: parseGroup_def accounts_world_def)
qed

theorem account_groups_exact_witness:
  "set [''adm'', ''wheel''] = set_option ([5 \<mapsto> ''adm'', 6 \<mapsto> ''wheel''] (5::int)) \<union>
     {g. \<exists>ms. [''wheel'' \<mapsto> [''v'', ''u'']] g = Some ms \<and> ''u'' \<in> set ms}"
proof -
  let ?enum = "\<lambda>m. sorted_list_of_set (dom m)"
  let ?u = "\<lparr>ui_Username = ''u'', ui_UID = 1, ui_GID = 5, ui_HomeDir = [], ui_Shell = [],
             ui_Groups = [''adm'', ''wheel'']\<rparr>"
  have p: "scan_lines ''u:x:1:5:::'' = ([''u:x:1:5:::''], None)"
    "List.map_filter passwd_line [''u:x:1:5:::''] = [?u\<lparr>ui_Groups := []\<rparr>]" by code_simp+
  have g: "buildGroupMembership ?enum [5 \<mapsto> ''adm'', 6 \<mapsto> ''wheel''] [''wheel'' \<mapsto> [''v'', ''u'']] ''u'' 5 =
      [''adm'', ''wheel'']"
    by (simp add: buildGroupMembership_def membership_step_def)
  have "GatherUserInfo ?enum accounts_world [] = (Some \<lparr>Errors = [], ui_Users = [?u]\<rparr>, None)"
    using p g accounts_group
    by (simp add: GatherUserInfo_def parsePasswd_def accounts_world_def user_entry_def Err_def joinErrs_def)
  from account_groups_exact [OF sorted_ranges this _ accounts_group] show ?thesis by simp
qed

end
