(* ===== verification/Host.thy ===== *)
theory Host
  imports Handler GoFloat
begin

text \<open>
  Processor, temperature, memory and disk (tools/cpu.go, tools/memory.go, tools/disk.go) and the
  load average (tools/system.go). What gopsutil answers is a parameter: an error or its value.
\<close>

section \<open>Processor\<close>

record CPUDetails =
  cpu_ModelName :: string
  cpu_CoreCount :: int32
  cpu_MHz :: f64

record CPUInfoOutput = OutputErrors +
  UsagePercent :: f64
  PhysicalCoreCount :: int32
  Cores :: "CPUDetails list"

record cpu_stat =
  cs_ModelName :: string
  cs_Cores :: int32
  cs_Mhz :: f64

text \<open>The conversion of an \<open>int\<close> to \<open>int32\<close>.\<close>

definition to_int32 :: "int \<Rightarrow> int32" where
  "to_int32 i = (i + 2 ^ 31) mod 2 ^ 32 - 2 ^ 31"

definition cpu_details :: "cpu_stat \<Rightarrow> CPUDetails" where
  "cpu_details s = \<lparr>cpu_ModelName = cs_ModelName s, cpu_CoreCount = cs_Cores s, cpu_MHz = cs_Mhz s\<rparr>"

definition GatherCPUInfo ::
  "goerr + cpu_stat list \<Rightarrow> goerr + f64 list \<Rightarrow> (bool \<Rightarrow> goerr + int) \<Rightarrow> CPUInfoOutput result" where
  "GatherCPUInfo info percent counts =
     (case info of
        Inl e \<Rightarrow> (None, Some e)
      | Inr stats \<Rightarrow>
          (case percent of
             Inl e \<Rightarrow> (None, Some e)
           | Inr ps \<Rightarrow>
               (case counts True of
                  Inl e \<Rightarrow> (None, Some e)
                | Inr phys \<Rightarrow>
                    (Some \<lparr>Errors = [],
                           UsagePercent = (case ps of [] \<Rightarrow> Fin 0 | p # _ \<Rightarrow> p),
                           PhysicalCoreCount = to_int32 phys,
                           Cores = map cpu_details stats\<rparr>, None))))"

definition HandleGetCPUInfo ::
  "(nat \<Rightarrow> nat \<Rightarrow> nat \<Rightarrow> nat) \<Rightarrow> cfg_state \<Rightarrow> int \<Rightarrow> int \<Rightarrow> ctx \<Rightarrow> goerr + cpu_stat list \<Rightarrow> goerr + f64 list \<Rightarrow>
   (bool \<Rightarrow> goerr + int) \<Rightarrow> CPUInfoOutput result \<times> log_event list" where
  "HandleGetCPUInfo fr s now dur c info percent counts =
     run_tool fr s now dur c ToolNameGetCPUInfo 0 (\<lambda>_. GatherCPUInfo info percent counts)"

record TemperatureStat =
  SensorKey :: string
  Temperature :: f64

record CPUTemperatureOutput = OutputErrors +
  Temperatures :: "TemperatureStat list"
  temp_Message :: string

text \<open>The sensors come with an error that may be a warning: both can be there.\<close>

definition GatherCPUTemperature :: "TemperatureStat list \<times> goerr option \<Rightarrow> CPUTemperatureOutput result" where
  "GatherCPUTemperature sensors =
     (case sensors of
        (temps, err) \<Rightarrow>
          if temps = [] then
            (Some \<lparr>Errors = [], Temperatures = [],
                   temp_Message = (case err of None \<Rightarrow> ''No temperature sensors available'' | Some e \<Rightarrow> err_text e)\<rparr>, err)
          else (Some \<lparr>Errors = [], Temperatures = temps, temp_Message = []\<rparr>, err))"

definition HandleGetCPUTemperature ::
  "(nat \<Rightarrow> nat \<Rightarrow> nat \<Rightarrow> nat) \<Rightarrow> cfg_state \<Rightarrow> int \<Rightarrow> int \<Rightarrow> ctx \<Rightarrow> TemperatureStat list \<times> goerr option \<Rightarrow>
   CPUTemperatureOutput result \<times> log_event list" where
  "HandleGetCPUTemperature fr s now dur c sensors =
     run_tool fr s now dur c ToolNameGetCPUTemperature 0 (\<lambda>_. GatherCPUTemperature sensors)"

section \<open>Memory\<close>

record MemoryInfoOutput = OutputErrors +
  mem_Total :: uint64
  mem_Used :: uint64
  mem_Free :: uint64
  mem_UsedPercent :: f64
  SwapTotal :: uint64
  SwapUsed :: uint64
  SwapFree :: uint64
  SwapUsedPercent :: f64

text \<open>The part of the two answers of the library that is used: total, used, free and percentage.\<close>

type_synonym usage_numbers = "uint64 \<times> uint64 \<times> uint64 \<times> f64"

definition GatherMemoryInfo :: "goerr + usage_numbers \<Rightarrow> goerr + usage_numbers \<Rightarrow> MemoryInfoOutput result" where
  "GatherMemoryInfo virtual swap =
     (case virtual of
        Inl e \<Rightarrow> (None, Some e)
      | Inr (vt, vu, vf, vp) \<Rightarrow>
          (case swap of
             Inl e \<Rightarrow> (None, Some e)
           | Inr (st, su, sf, sp) \<Rightarrow>
               (Some \<lparr>Errors = [], mem_Total = vt, mem_Used = vu, mem_Free = vf, mem_UsedPercent = vp,
                      SwapTotal = st, SwapUsed = su, SwapFree = sf, SwapUsedPercent = sp\<rparr>, None)))"

definition HandleGetMemoryInfo ::
  "(nat \<Rightarrow> nat \<Rightarrow> nat \<Rightarrow> nat) \<Rightarrow> cfg_state \<Rightarrow> int \<Rightarrow> int \<Rightarrow> ctx \<Rightarrow> goerr + usage_numbers \<Rightarrow> goerr + usage_numbers \<Rightarrow>
   MemoryInfoOutput result \<times> log_event list" where
  "HandleGetMemoryInfo fr s now dur c virtual swap =
     run_tool fr s now dur c ToolNameGetMemoryInfo 0 (\<lambda>_. GatherMemoryInfo virtual swap)"

section \<open>Disks\<close>

record DiskUsageStat =
  du_MountPoint :: string
  du_Filesystem :: string
  du_Device :: string
  du_Total :: uint64
  du_Used :: uint64
  du_Free :: uint64
  du_UsedPercent :: f64

record DiskInfoOutput = OutputErrors +
  Partitions :: "DiskUsageStat list"

record partition_stat =
  pt_Device :: string
  pt_Mountpoint :: string
  pt_Fstype :: string

definition disk_usage ::
  "(string \<Rightarrow> goerr + usage_numbers) \<Rightarrow> string \<Rightarrow> f64 \<Rightarrow> partition_stat \<Rightarrow> DiskUsageStat option" where
  "disk_usage usage mountPoint threshold p =
     (if mountPoint \<noteq> [] \<and> pt_Mountpoint p \<noteq> mountPoint then None
      else case usage (pt_Mountpoint p) of
        Inl _ \<Rightarrow> None
      | Inr (tot, used, free, percent) \<Rightarrow>
          if f64_less (Fin 0) threshold \<and> f64_less percent threshold then None
          else Some \<lparr>du_MountPoint = pt_Mountpoint p, du_Filesystem = pt_Fstype p, du_Device = pt_Device p,
                     du_Total = tot, du_Used = used, du_Free = free, du_UsedPercent = percent\<rparr>)"

definition GatherDiskInfo ::
  "goerr + partition_stat list \<Rightarrow> (string \<Rightarrow> goerr + usage_numbers) \<Rightarrow> string \<Rightarrow> f64 \<Rightarrow> DiskInfoOutput result" where
  "GatherDiskInfo partitions usage mountPoint threshold =
     (case partitions of
        Inl e \<Rightarrow> (None, Some e)
      | Inr ps \<Rightarrow>
          (Some \<lparr>Errors = [], Partitions = List.map_filter (disk_usage usage mountPoint threshold) ps\<rparr>, None))"

definition HandleGetDiskInfo ::
  "(nat \<Rightarrow> nat \<Rightarrow> nat \<Rightarrow> nat) \<Rightarrow> cfg_state \<Rightarrow> int \<Rightarrow> int \<Rightarrow> ctx \<Rightarrow> goerr + partition_stat list \<Rightarrow>
   (string \<Rightarrow> goerr + usage_numbers) \<Rightarrow> string \<Rightarrow> f64 \<Rightarrow> DiskInfoOutput result \<times> log_event list" where
  "HandleGetDiskInfo fr s now dur c partitions usage mountPoint threshold =
     (if mountPoint \<noteq> [] \<and> \<not> HasPrefix mountPoint ''/''
      then ((None, Some (ErrText ''invalid mount point: must start with /'')), [])
      else run_tool fr s now dur c ToolNameGetDiskInfo 0
             (\<lambda>_. GatherDiskInfo partitions usage mountPoint threshold))"

record InodeUsageStat =
  in_Filesystem :: string
  in_Inodes :: uint64
  in_IUsed :: uint64
  in_IFree :: uint64
  in_IUsePercent :: string
  in_MountedOn :: string

record InodeUsageOutput = OutputErrors +
  in_Mounts :: "InodeUsageStat list"

definition inode_line :: "string \<Rightarrow> string \<Rightarrow> InodeUsageStat option" where
  "inode_line mountPoint line =
     (let fields = Fields line in
      if length fields < 6 \<or> fields ! 0 = ''Filesystem'' then None
      else if mountPoint \<noteq> [] \<and> fields ! 5 \<noteq> mountPoint then None
      else Some \<lparr>in_Filesystem = fields ! 0, in_Inodes = uint_or_zero (fields ! 1),
                 in_IUsed = uint_or_zero (fields ! 2), in_IFree = uint_or_zero (fields ! 3),
                 in_IUsePercent = fields ! 4, in_MountedOn = fields ! 5\<rparr>)"

definition GatherInodeUsage :: "world \<Rightarrow> ctx \<Rightarrow> string \<Rightarrow> InodeUsageOutput result" where
  "GatherInodeUsage w c mountPoint =
     (case execLines w c ''df'' [''-i''] of
        Inl e \<Rightarrow> (None, Some e)
      | Inr ls \<Rightarrow> (Some \<lparr>Errors = [], in_Mounts = List.map_filter (inode_line mountPoint) ls\<rparr>, None))"

definition HandleGetInodeUsage ::
  "(nat \<Rightarrow> nat \<Rightarrow> nat \<Rightarrow> nat) \<Rightarrow> cfg_state \<Rightarrow> int \<Rightarrow> int \<Rightarrow> ctx \<Rightarrow> world \<Rightarrow> string \<Rightarrow> InodeUsageOutput result \<times> log_event list" where
  "HandleGetInodeUsage fr s now dur c w mountPoint =
     run_tool fr s now dur c ToolNameGetInodeUsage 0 (\<lambda>ct. GatherInodeUsage w ct mountPoint)"

section \<open>Largest files\<close>

record LargestFileEntry =
  lf_Name :: string
  SizeBytes :: int64
  SizeHuman :: string
  IsDir :: bool

record LargestFilesOutput = OutputErrors +
  lf_Path :: string
  lf_Entries :: "LargestFileEntry list"

text \<open>
  \<open>done i\<close> is what the context says when the loop is at the \<open>i\<close>th directory entry, \<open>size_of\<close> what
  \<open>Info\<close> says of an entry. The loop returns the entries so far with the context's error, if any.
\<close>

fun file_loop ::
  "(nat \<Rightarrow> goerr option) \<Rightarrow> (dirent \<Rightarrow> goerr + int64) \<Rightarrow> nat \<Rightarrow> LargestFileEntry list \<Rightarrow> dirent list \<Rightarrow>
   LargestFileEntry list \<times> goerr option" where
  "file_loop stopped size_of i entries [] = (entries, None)"
| "file_loop stopped size_of i entries (de # rest) =
     (case stopped i of
        Some e \<Rightarrow> (entries, Some e)
      | None \<Rightarrow>
          (case size_of de of
             Inl _ \<Rightarrow> file_loop stopped size_of (Suc i) entries rest
           | Inr n \<Rightarrow>
               file_loop stopped size_of (Suc i)
                 (entries @ [\<lparr>lf_Name = de_name de, SizeBytes = n, SizeHuman = the (HumanSize n), IsDir = de_isdir de\<rparr>])
                 rest))"

definition by_size :: "LargestFileEntry \<Rightarrow> LargestFileEntry \<Rightarrow> bool" where
  "by_size a b = (sint (SizeBytes b) < sint (SizeBytes a))"

definition GatherLargestFiles ::
  "LargestFileEntry sorter \<Rightarrow> world \<Rightarrow> (nat \<Rightarrow> goerr option) \<Rightarrow> (dirent \<Rightarrow> goerr + int64) \<Rightarrow> string \<Rightarrow> int \<Rightarrow>
   LargestFilesOutput result" where
  "GatherLargestFiles srt w stopped size_of path0 limit =
     (let path = filepath_Clean (if path0 = [] then ''.'' else path0);
          answer = (\<lambda>entries. Some \<lparr>Errors = [], lf_Path = path, lf_Entries = entries\<rparr>)
      in case w_readdir w path of
           Inl _ \<Rightarrow> (answer [], None)
         | Inr dirEntries \<Rightarrow>
             (case file_loop stopped size_of 0 [] dirEntries of
                (entries, Some e) \<Rightarrow> (answer entries, Some e)
              | (entries, None) \<Rightarrow>
                  let sorted_entries = srt by_size entries
                  in (answer (if limit > 0 \<and> int (length sorted_entries) > limit
                              then take (nat limit) sorted_entries else sorted_entries), None)))"

definition HandleGetLargestFiles ::
  "(nat \<Rightarrow> nat \<Rightarrow> nat \<Rightarrow> nat) \<Rightarrow> cfg_state \<Rightarrow> int \<Rightarrow> int \<Rightarrow> ctx \<Rightarrow> LargestFileEntry sorter \<Rightarrow> world \<Rightarrow>
   (ctx \<Rightarrow> nat \<Rightarrow> goerr option) \<Rightarrow> (dirent \<Rightarrow> goerr + int64) \<Rightarrow> string \<Rightarrow> int \<Rightarrow> LargestFilesOutput result \<times> log_event list" where
  "HandleGetLargestFiles fr s now dur c srt w stopped size_of path limit =
     run_tool fr s now dur c ToolNameGetLargestFiles 0
       (\<lambda>ct. GatherLargestFiles srt w (stopped ct) size_of path (clampZero limit 10 100))"

section \<open>Mounts\<close>

record MountEntry =
  mnt_Source :: string
  mnt_Target :: string
  mnt_FSType :: string
  mnt_Options :: "string list"

record MountOptionsOutput = OutputErrors +
  Mounts :: "MountEntry list"

definition mount_line :: "string \<Rightarrow> string \<Rightarrow> MountEntry option" where
  "mount_line mountPoint line =
     (let fields = Fields line in
      if length fields < 4 \<or> (mountPoint \<noteq> [] \<and> fields ! 1 \<noteq> mountPoint) then None
      else Some \<lparr>mnt_Source = fields ! 0, mnt_Target = fields ! 1, mnt_FSType = fields ! 2,
                 mnt_Options = split_char (CHR '','') (fields ! 3)\<rparr>)"

definition GatherMountOptions :: "world \<Rightarrow> ctx \<Rightarrow> string \<Rightarrow> MountOptionsOutput result" where
  "GatherMountOptions w c mountPoint =
     (case execLines w c ''findmnt'' [''--noheadings'', ''-o'', ''SOURCE,TARGET,FSTYPE,OPTIONS''] of
        Inl e \<Rightarrow> (None, Some e)
      | Inr ls \<Rightarrow> (Some \<lparr>Errors = [], Mounts = List.map_filter (mount_line mountPoint) ls\<rparr>, None))"

definition HandleGetMountOptions ::
  "(nat \<Rightarrow> nat \<Rightarrow> nat \<Rightarrow> nat) \<Rightarrow> cfg_state \<Rightarrow> int \<Rightarrow> int \<Rightarrow> ctx \<Rightarrow> world \<Rightarrow> string \<Rightarrow> MountOptionsOutput result \<times> log_event list" where
  "HandleGetMountOptions fr s now dur c w mountPoint =
     run_tool fr s now dur c ToolNameGetMountOptions 0 (\<lambda>ct. GatherMountOptions w ct mountPoint)"

section \<open>Load average\<close>

record LoadAverageOutput = OutputErrors +
  Load1 :: f64
  Load5 :: f64
  Load15 :: f64

definition GatherLoadAverage :: "world \<Rightarrow> LoadAverageOutput result" where
  "GatherLoadAverage w =
     (case w_read w ''/proc/loadavg'' of
        Inl e \<Rightarrow> (None, Some e)
      | Inr data \<Rightarrow>
          let fields = Fields data in
          if length fields < 3 then (Some \<lparr>Errors = [], Load1 = Fin 0, Load5 = Fin 0, Load15 = Fin 0\<rparr>, None)
          else (Some \<lparr>Errors = [], Load1 = fst (ParseFloat (fields ! 0)), Load5 = fst (ParseFloat (fields ! 1)),
                      Load15 = fst (ParseFloat (fields ! 2))\<rparr>, None))"

definition HandleGetLoadAverage ::
  "(nat \<Rightarrow> nat \<Rightarrow> nat \<Rightarrow> nat) \<Rightarrow> cfg_state \<Rightarrow> int \<Rightarrow> int \<Rightarrow> ctx \<Rightarrow> world \<Rightarrow> LoadAverageOutput result \<times> log_event list" where
  "HandleGetLoadAverage fr s now dur c w =
     run_tool fr s now dur c ToolNameGetLoadAverage 0 (\<lambda>_. GatherLoadAverage w)"

section \<open>Lemmas\<close>

text \<open>No gather function of this theory returns neither an output nor an error.\<close>

lemma answers_something:
  "fst (GatherMemoryInfo v sw) \<noteq> None \<or> snd (GatherMemoryInfo v sw) \<noteq> None"
  "fst (GatherDiskInfo ps u m t) \<noteq> None \<or> snd (GatherDiskInfo ps u m t) \<noteq> None"
  "fst (GatherCPUInfo i p n) \<noteq> None \<or> snd (GatherCPUInfo i p n) \<noteq> None"
  "fst (GatherLoadAverage w) \<noteq> None \<or> snd (GatherLoadAverage w) \<noteq> None"
  by (auto simp: GatherMemoryInfo_def GatherDiskInfo_def GatherCPUInfo_def GatherLoadAverage_def Let_def
      split: sum.splits prod.splits)

text \<open>The count reported as the physical cores is the library's count of logical ones.\<close>

lemma logical_cores_reported:
  "GatherCPUInfo info percent counts = (Some out, None) \<Longrightarrow>
     \<exists>n. counts True = Inr n \<and> PhysicalCoreCount out = to_int32 n"
  by (auto simp: GatherCPUInfo_def split: sum.splits)

lemma file_loop_all:
  assumes "\<And>i. stopped i = None"
  shows "file_loop stopped size_of i entries ds =
           (entries @ List.map_filter (\<lambda>de. case size_of de of Inl _ \<Rightarrow> None | Inr n \<Rightarrow>
              Some \<lparr>lf_Name = de_name de, SizeBytes = n, SizeHuman = the (HumanSize n), IsDir = de_isdir de\<rparr>) ds, None)"
  by (induction ds arbitrary: i entries) (simp_all add: assms split: sum.split)

lemma by_size_order [simp]: "strict_weak A by_size"
  unfolding by_size_def by simp

text \<open>
  A directory that is read to its end: the answer holds the largest files, in descending order,
  and whatever it leaves out is no larger than any it lists.
\<close>

lemma largest_files_top:
  fixes size_of :: "dirent \<Rightarrow> goerr + int64"
  assumes "sorts_slices srt" "w_readdir w (filepath_Clean (if path = [] then ''.'' else path)) = Inr ds"
    "\<And>i. stopped i = None"
  defines "entries \<equiv> fst (file_loop stopped size_of 0 [] ds)"
  shows "\<exists>out rest. GatherLargestFiles srt w stopped size_of path limit = (Some out, None) \<and>
           mset (lf_Entries out @ rest) = mset entries \<and>
           sorted_wrt (\<lambda>a b. sint (SizeBytes b) \<le> sint (SizeBytes a)) (lf_Entries out @ rest) \<and>
           (limit > 0 \<longrightarrow> int (length (lf_Entries out)) \<le> limit)"
proof -
  let ?xs = "srt by_size entries"
  have sl: "slice_sorter srt" using assms(1) by (rule slice_sorter.intro)
  have ms: "mset ?xs = mset entries" by (rule slice_sorter.srt_mset [OF sl]) simp
  have ord: "sorted_wrt (\<lambda>a b. sint (SizeBytes b) \<le> sint (SizeBytes a)) ?xs"
    using slice_sorter.srt_ordered [OF sl, of entries by_size] by (simp add: by_size_def not_less)
  let ?n = "if limit > 0 \<and> int (length ?xs) > limit then nat limit else length ?xs"
  let ?out = "\<lparr>Errors = [], lf_Path = filepath_Clean (if path = [] then ''.'' else path), lf_Entries = take ?n ?xs\<rparr>"
  have "snd (file_loop stopped size_of 0 [] ds) = None" using assms(3) by (simp add: file_loop_all)
  then have "file_loop stopped size_of 0 [] ds = (entries, None)" by (simp add: entries_def prod_eq_iff)
  then have "GatherLargestFiles srt w stopped size_of path limit = (Some ?out, None)"
    using assms(2) by (simp add: GatherLargestFiles_def Let_def)
  moreover have "lf_Entries ?out @ drop ?n ?xs = ?xs" by simp
  moreover have "limit > 0 \<longrightarrow> int (length (lf_Entries ?out)) \<le> limit" by auto
  ultimately show ?thesis using ms ord by metis
qed

end
