(* ===== verification/Storage.thy ===== *)
theory Storage
  imports Host Services
begin

text \<open>
  tools/storage.go: block devices, the mandatory access control status, time synchronisation,
  software RAID, logrotate, cron jobs, and the health check, which composes the gather functions
  of memory, disk, processor, load and services.
\<close>

section \<open>Block devices\<close>

record BlockDevice =
  bd_Name :: string
  bd_MajorMinor :: string
  bd_Size :: string
  bd_Type :: string
  bd_FSType :: string
  bd_MountPoint :: string
  bd_Model :: string
  bd_Vendor :: string
  bd_RO :: bool

record BlockDevicesOutput = OutputErrors +
  bd_Devices :: "BlockDevice list"

definition sysfsBlock :: string where "sysfsBlock = ''/sys/block''"

definition readBlockAttr :: "world \<Rightarrow> string \<Rightarrow> string \<Rightarrow> string" where
  "readBlockAttr w dev attr =
     (case readSysfsFile w (filepath_Join [sysfsBlock, dev, attr]) of Inl _ \<Rightarrow> [] | Inr s \<Rightarrow> s)"

definition readPartitionAttr :: "world \<Rightarrow> string \<Rightarrow> string \<Rightarrow> string \<Rightarrow> string" where
  "readPartitionAttr w partsDir pname attr =
     (case readSysfsFile w (filepath_Join [partsDir, pname, attr]) of Inl _ \<Rightarrow> [] | Inr s \<Rightarrow> s)"

text \<open>The size: sectors of 512 bytes, multiplied in \<open>int64\<close>.\<close>

definition sector_size :: "string \<Rightarrow> string" where
  "sector_size raw =
     (case scan_int raw of None \<Rightarrow> [] | Some (n, _) \<Rightarrow> the (HumanSize (word_of_int n * 512)))"

definition blank_device :: "string \<Rightarrow> BlockDevice" where
  "blank_device name =
     \<lparr>bd_Name = name, bd_MajorMinor = [], bd_Size = [], bd_Type = [], bd_FSType = [], bd_MountPoint = [],
      bd_Model = [], bd_Vendor = [], bd_RO = False\<rparr>"

text \<open>
  The whole device. The value behind \<open>info.Sys()\<close> is a \<open>*syscall.Stat_t\<close>, which has no method
  \<open>Dev\<close>, so the type assertion fails and \<open>MajorMinor\<close> stays empty.
\<close>

definition whole_device :: "world \<Rightarrow> string \<Rightarrow> BlockDevice" where
  "whole_device w name =
     (blank_device name)
       \<lparr>bd_RO := (readBlockAttr w name ''ro'' = ''1''),
        bd_Size := sector_size (readBlockAttr w name ''size''),
        bd_Model := readBlockAttr w name ''device/model'',
        bd_Vendor := readBlockAttr w name ''device/vendor''\<rparr>"

definition partition_device :: "world \<Rightarrow> string \<Rightarrow> string \<Rightarrow> dirent \<Rightarrow> BlockDevice option" where
  "partition_device w name partsDir pe =
     (let pname = de_name pe in
      if \<not> HasPrefix pname name then None
      else if (case w_stat w (filepath_Join [partsDir, pname, ''partition'']) of
                 None \<Rightarrow> False | Some e \<Rightarrow> is_not_exist e) then None
      else Some ((blank_device pname)
        \<lparr>bd_RO := (readPartitionAttr w partsDir pname ''ro'' = ''1''),
         bd_Size := sector_size (readPartitionAttr w partsDir pname ''size''),
         bd_Type := (if readPartitionAttr w partsDir pname ''queue/rotational'' = ''0'' then ''ssd'' else [])\<rparr>))"

definition block_step :: "world \<Rightarrow> dirent \<Rightarrow> BlockDevice list \<times> string list \<Rightarrow> BlockDevice list \<times> string list" where
  "block_step w e acc =
     (let name = de_name e; partsDir = filepath_Join [sysfsBlock, name] in
      if HasPrefix name ''loop'' \<or> HasPrefix name ''ram'' \<or> name = ''zram0'' then acc
      else case w_readdir w partsDir of
        Inl err \<Rightarrow> (fst acc, appendErr (snd acc) name (Some err))
      | Inr pentries \<Rightarrow>
          (fst acc @ List.map_filter (partition_device w name partsDir) pentries @ [whole_device w name], snd acc))"

text \<open>\<open>filepath.Base\<close>.\<close>

definition filepath_Base :: "string \<Rightarrow> string" where
  "filepath_Base p =
     (let s = rev (dropWhile (\<lambda>c. c = CHR ''/'') (rev p))
      in if p = [] then ''.'' else if s = [] then ''/'' else last (split_char (CHR ''/'') s))"

text \<open>A line of /proc/mounts sets the mount point of every device with its name.\<close>

definition mount_step :: "string \<Rightarrow> BlockDevice list \<Rightarrow> BlockDevice list" where
  "mount_step line devices =
     (let fields = Fields line in
      if length fields < 3 then devices
      else map (\<lambda>d. if bd_Name d = filepath_Base (fields ! 0)
                    then d\<lparr>bd_MountPoint := fields ! 1,
                           bd_FSType := (if bd_FSType d = [] then fields ! 2 else bd_FSType d)\<rparr>
                    else d) devices)"

definition GatherBlockDevices :: "world \<Rightarrow> BlockDevicesOutput result" where
  "GatherBlockDevices w =
     (case w_readdir w sysfsBlock of
        Inl e \<Rightarrow> (None, Some e)
      | Inr entries \<Rightarrow>
          (case fold (block_step w) entries ([], []) of
             (devices, errs) \<Rightarrow>
               let (devices, errs) =
                     (case w_read w ''/proc/mounts'' of
                        Inl e \<Rightarrow> (devices, appendErr errs ''mounts'' (Some e))
                      | Inr text \<Rightarrow>
                          (case scan_lines text of
                             (ls, err) \<Rightarrow> (fold mount_step ls devices, appendErr errs ''mounts'' err)));
                   out = \<lparr>Errors = errs, bd_Devices = devices\<rparr>
               in (Some out, Err out)))"

definition HandleGetBlockDevices ::
  "(nat \<Rightarrow> nat \<Rightarrow> nat \<Rightarrow> nat) \<Rightarrow> cfg_state \<Rightarrow> int \<Rightarrow> int \<Rightarrow> ctx \<Rightarrow> world \<Rightarrow> BlockDevicesOutput result \<times> log_event list" where
  "HandleGetBlockDevices fr s now dur c w =
     run_tool fr s now dur c ToolNameGetBlockDevices 0 (\<lambda>_. GatherBlockDevices w)"

section \<open>SELinux and AppArmor\<close>

record SELinuxAppArmorOutput = OutputErrors +
  SELinux :: string
  AppArmor :: string

definition GatherSELinuxAppArmorStatus :: "world \<Rightarrow> ctx \<Rightarrow> SELinuxAppArmorOutput result" where
  "GatherSELinuxAppArmorStatus w c =
     (let se = (case execOutput w c ''getenforce'' [] of (out, None) \<Rightarrow> out | (_, Some _) \<Rightarrow> ''not_enabled'');
          aa = (if readSysfsFile w ''/sys/module/apparmor/parameters/enabled'' = Inr ''Y'' then ''enabled''
                else case execOutput w c ''aa-status'' [] of
                  (out, None) \<Rightarrow> if out \<noteq> [] then ''enabled'' else ''not_enabled''
                | (_, Some _) \<Rightarrow> ''not_enabled'')
      in (Some \<lparr>Errors = [], SELinux = se, AppArmor = aa\<rparr>, None))"

definition HandleGetSELinuxAppArmorStatus ::
  "(nat \<Rightarrow> nat \<Rightarrow> nat \<Rightarrow> nat) \<Rightarrow> cfg_state \<Rightarrow> int \<Rightarrow> int \<Rightarrow> ctx \<Rightarrow> world \<Rightarrow> SELinuxAppArmorOutput result \<times> log_event list" where
  "HandleGetSELinuxAppArmorStatus fr s now dur c w =
     run_tool fr s now dur c ToolNameGetSELinuxAppArmorStatus 0 (\<lambda>ct. GatherSELinuxAppArmorStatus w ct)"

section \<open>Time synchronisation\<close>

record TimeSyncStatusOutput = OutputErrors +
  NTPService :: string
  SyncStatus :: string
  NTPEnabled :: bool
  SystemClock :: string
  RTCTime :: string
  TimeServer :: string
  Stratum :: int
  LastSyncMs :: int
  ChronyPresent :: bool
  NTPDatePresent :: bool

definition timedatectl_line :: "string \<Rightarrow> TimeSyncStatusOutput \<Rightarrow> TimeSyncStatusOutput" where
  "timedatectl_line line out =
     (case Cut line ''='' of
        (_, _, False) \<Rightarrow> out
      | (key, val, True) \<Rightarrow>
          if key = ''NTP'' then out\<lparr>NTPEnabled := (val = ''yes'')\<rparr>
          else if key = ''NTPSynchronized'' then out\<lparr>SyncStatus := val\<rparr>
          else if key = ''TimeUSec'' then out\<lparr>SystemClock := val\<rparr>
          else if key = ''RTCTimeUSec'' then out\<lparr>RTCTime := val\<rparr>
          else if key = ''NTPService'' then out\<lparr>NTPService := val\<rparr> else out)"

definition chrony_line :: "string \<Rightarrow> TimeSyncStatusOutput \<Rightarrow> TimeSyncStatusOutput" where
  "chrony_line line out =
     (case Cut line '':'' of
        (_, _, False) \<Rightarrow> out
      | (k, v, True) \<Rightarrow>
          let key = TrimSpace k; val = TrimSpace v in
          if key = ''Reference ID'' then out\<lparr>TimeServer := val\<rparr>
          else if key = ''Stratum'' then out\<lparr>Stratum := scanned_int val (Stratum out)\<rparr>
          else if key = ''Last offset''
          then out\<lparr>LastSyncMs := f64_to_int (f64_mul (scanned_float val (Fin 0)) (Fin 1000))\<rparr> else out)"

definition timedatectl_args :: "string list" where
  "timedatectl_args =
     [''show'', ''--property=NTP'', ''--property=NTPSynchronized'', ''--property=TimeUSec'',
      ''--property=RTCTimeUSec'', ''--property=NTPService'']"

definition no_time_sync :: TimeSyncStatusOutput where
  "no_time_sync =
     \<lparr>Errors = [], NTPService = [], SyncStatus = [], NTPEnabled = False, SystemClock = [], RTCTime = [],
      TimeServer = [], Stratum = 0, LastSyncMs = 0, ChronyPresent = False, NTPDatePresent = False\<rparr>"

definition GatherTimeSyncStatus :: "world \<Rightarrow> ctx \<Rightarrow> TimeSyncStatusOutput result" where
  "GatherTimeSyncStatus w c =
     (let (out, errs) =
            (case execOutput w c ''timedatectl'' timedatectl_args of
               (td, None) \<Rightarrow> (fold timedatectl_line (lines_of td) no_time_sync, [])
             | (_, Some e) \<Rightarrow> (no_time_sync, appendErr [] ''timedatectl'' (Some e)));
          out = (case execOutput w c ''chronyc'' [''tracking''] of
                   (chrony, None) \<Rightarrow> fold chrony_line (lines_of chrony) (out\<lparr>ChronyPresent := True\<rparr>)
                 | (_, Some _) \<Rightarrow> out);
          out = out\<lparr>Errors := errs\<rparr>
      in (Some out, Err out))"

definition HandleGetTimeSyncStatus ::
  "(nat \<Rightarrow> nat \<Rightarrow> nat \<Rightarrow> nat) \<Rightarrow> cfg_state \<Rightarrow> int \<Rightarrow> int \<Rightarrow> ctx \<Rightarrow> world \<Rightarrow> TimeSyncStatusOutput result \<times> log_event list" where
  "HandleGetTimeSyncStatus fr s now dur c w =
     run_tool fr s now dur c ToolNameGetTimeSyncStatus 0 (\<lambda>ct. GatherTimeSyncStatus w ct)"

section \<open>Software RAID\<close>

record RAIDDevice =
  rd_Name :: string
  rd_Level :: string
  rd_ArraySize :: string
  rd_Status :: string
  rd_ActiveDevs :: int
  rd_TotalDevs :: int
  rd_Devices :: string

record RAIDStatusOutput = OutputErrors +
  RaidDevices :: "RAIDDevice list"

definition md_status :: "RAIDDevice \<Rightarrow> RAIDDevice" where
  "md_status d =
     d\<lparr>rd_Status :=
         (if rd_ActiveDevs d = rd_TotalDevs d then ''active''
          else if rd_ActiveDevs d > 0 \<and> rd_TotalDevs d > 0 then ''degraded'' else ''inactive'')\<rparr>"

type_synonym md_state = "RAIDDevice option \<times> RAIDDevice list"

definition md_flush :: "md_state \<Rightarrow> md_state" where
  "md_flush st = (case st of (None, out) \<Rightarrow> st | (Some d, out) \<Rightarrow> (None, out @ [md_status d]))"

definition md_word :: "string \<Rightarrow> RAIDDevice \<Rightarrow> RAIDDevice" where
  "md_word f d =
     (if f = ''active'' \<or> f = ''inactive'' \<or> f = ''readonly'' then d\<lparr>rd_Status := f\<rparr>
      else if HasPrefix f ''raid'' then d\<lparr>rd_Level := f\<rparr>
      else if HasPrefix f ''linear'' \<or> HasPrefix f ''multipath'' then d\<lparr>rd_Level := f\<rparr>
      else d)"

definition md_member :: "string \<Rightarrow> string option" where
  "md_member f =
     (case Index f ''['' of
        Some (Suc i) \<Rightarrow> if HasSuffix f '']'' then Some (take (Suc i) f) else None
      | _ \<Rightarrow> None)"

definition md_header :: "string list \<Rightarrow> RAIDDevice" where
  "md_header ws =
     (fold md_word (drop 2 ws)
        \<lparr>rd_Name = ws ! 0, rd_Level = [], rd_ArraySize = [], rd_Status = [], rd_ActiveDevs = 0,
         rd_TotalDevs = 0, rd_Devices = []\<rparr>)
       \<lparr>rd_Devices := Join '' '' (List.map_filter md_member (drop 2 ws))\<rparr>"

definition md_field :: "string list \<Rightarrow> nat \<Rightarrow> RAIDDevice \<Rightarrow> RAIDDevice" where
  "md_field ws i d =
     (let f = ws ! i;
          d = (if f = ''blocks'' \<and> i > 0 then d\<lparr>rd_ArraySize := ws ! (i - 1)\<rparr> else d)
      in case CutPrefix f ''['' of
           None \<Rightarrow> d
         | Some rest \<Rightarrow>
             (case CutSuffix rest '']'' of
                None \<Rightarrow> d
              | Some body \<Rightarrow>
                  if count_list body (CHR ''/'') = 1 then
                    (let parts = split_char (CHR ''/'') body;
                         d = d\<lparr>rd_ActiveDevs := scanned_int (parts ! 0) (rd_ActiveDevs d)\<rparr>
                     in d\<lparr>rd_TotalDevs := scanned_int (parts ! 1) (rd_TotalDevs d)\<rparr>)
                  else d))"

definition md_skipped :: "string \<Rightarrow> bool" where
  "md_skipped line = (line = [] \<or> HasPrefix line ''Personalities'' \<or> HasPrefix line ''unused'')"

definition md_is_header :: "string list \<Rightarrow> bool" where
  "md_is_header ws = (length ws \<ge> 3 \<and> ws ! 1 = '':'')"

definition md_line :: "string \<Rightarrow> md_state \<Rightarrow> md_state" where
  "md_line text st =
     (let line = TrimSpace text; fields = Fields line in
      if md_skipped line then st
      else case st of
        (None, out) \<Rightarrow> if md_is_header fields then (Some (md_header fields), snd (md_flush st)) else st
      | (Some d, out) \<Rightarrow> (Some (fold (md_field fields) [0..<length fields] d), out))"

definition parseMDStat :: "string \<Rightarrow> RAIDStatusOutput" where
  "parseMDStat data = \<lparr>Errors = [], RaidDevices = snd (md_flush (fold md_line (lines_of data) (None, [])))\<rparr>"

definition GatherRAIDStatus :: "world \<Rightarrow> RAIDStatusOutput result" where
  "GatherRAIDStatus w =
     (case w_read w ''/proc/mdstat'' of
        Inl _ \<Rightarrow> (Some \<lparr>Errors = [], RaidDevices = []\<rparr>, None)
      | Inr data \<Rightarrow> (Some (parseMDStat data), None))"

definition HandleGetRAIDStatus ::
  "(nat \<Rightarrow> nat \<Rightarrow> nat \<Rightarrow> nat) \<Rightarrow> cfg_state \<Rightarrow> int \<Rightarrow> int \<Rightarrow> ctx \<Rightarrow> world \<Rightarrow> RAIDStatusOutput result \<times> log_event list" where
  "HandleGetRAIDStatus fr s now dur c w =
     run_tool fr s now dur c ToolNameGetRAIDStatus 0 (\<lambda>_. GatherRAIDStatus w)"

section \<open>Logrotate\<close>

record LogrotateConfig =
  lr_Path :: string
  lr_Content :: string

record LogrotateStatusOutput = OutputErrors +
  Configs :: "LogrotateConfig list"
  StateFile :: string

definition logrotate_entry :: "string \<Rightarrow> dirent \<Rightarrow> LogrotateConfig option" where
  "logrotate_entry p e =
     (if \<not> de_isdir e \<and> (HasSuffix (de_name e) ''.conf'' \<or> \<not> Contains (de_name e) ''.'')
      then Some \<lparr>lr_Path = filepath_Join [p, de_name e], lr_Content = []\<rparr> else None)"

text \<open>\<open>isdir\<close> is what the file information says of a path that exists.\<close>

definition logrotate_step ::
  "world \<Rightarrow> (string \<Rightarrow> bool) \<Rightarrow> string \<Rightarrow> LogrotateConfig list \<times> string list \<Rightarrow> LogrotateConfig list \<times> string list" where
  "logrotate_step w isdir p acc =
     (if w_stat w p \<noteq> None then acc
      else if isdir p then
        (case w_readdir w p of
           Inl e \<Rightarrow> (fst acc, appendErr (snd acc) (''read '' @ p) (Some e))
         | Inr entries \<Rightarrow> (fst acc @ List.map_filter (logrotate_entry p) entries, snd acc))
      else (fst acc @ [\<lparr>lr_Path = p, lr_Content = []\<rparr>], snd acc))"

definition GatherLogrotateStatus :: "world \<Rightarrow> (string \<Rightarrow> bool) \<Rightarrow> LogrotateStatusOutput result" where
  "GatherLogrotateStatus w isdir =
     (let (configs, errs) = fold (logrotate_step w isdir) [''/etc/logrotate.conf'', ''/etc/logrotate.d''] ([], []);
          readable = filter (\<lambda>p. case w_read w p of Inl _ \<Rightarrow> False | Inr _ \<Rightarrow> True)
            [''/var/lib/logrotate/status'', ''/var/lib/logrotate/logrotate.status''];
          out = \<lparr>Errors = errs, Configs = configs, StateFile = (case readable of [] \<Rightarrow> [] | p # _ \<Rightarrow> p)\<rparr>
      in (Some out, Err out))"

definition HandleGetLogrotateStatus ::
  "(nat \<Rightarrow> nat \<Rightarrow> nat \<Rightarrow> nat) \<Rightarrow> cfg_state \<Rightarrow> int \<Rightarrow> int \<Rightarrow> ctx \<Rightarrow> world \<Rightarrow> (string \<Rightarrow> bool) \<Rightarrow>
   LogrotateStatusOutput result \<times> log_event list" where
  "HandleGetLogrotateStatus fr s now dur c w isdir =
     run_tool fr s now dur c ToolNameGetLogrotateStatus 0 (\<lambda>_. GatherLogrotateStatus w isdir)"

section \<open>Cron jobs\<close>

record CronEntry =
  ce_Schedule :: string
  ce_Command :: string

record CronJobsOutput = OutputErrors +
  SystemCrontab :: "CronEntry list"
  DailyJobs :: "string list"
  WeeklyJobs :: "string list"
  HourlyJobs :: "string list"

text \<open>The directories and the lists they fill; the order of the range is a parameter.\<close>

definition cron_dirs :: "string list" where
  "cron_dirs = [''/etc/cron.daily'', ''/etc/cron.weekly'', ''/etc/cron.hourly'']"

definition add_jobs :: "string \<Rightarrow> string list \<Rightarrow> CronJobsOutput \<Rightarrow> CronJobsOutput" where
  "add_jobs dir names out =
     (if dir = ''/etc/cron.daily'' then out\<lparr>DailyJobs := DailyJobs out @ names\<rparr>
      else if dir = ''/etc/cron.weekly'' then out\<lparr>WeeklyJobs := WeeklyJobs out @ names\<rparr>
      else if dir = ''/etc/cron.hourly'' then out\<lparr>HourlyJobs := HourlyJobs out @ names\<rparr> else out)"

definition cron_dir_step :: "world \<Rightarrow> string \<Rightarrow> CronJobsOutput \<Rightarrow> CronJobsOutput" where
  "cron_dir_step w dir out =
     (case w_readdir w dir of
        Inl e \<Rightarrow> out\<lparr>Errors := appendErr (Errors out) (''read '' @ dir) (Some e)\<rparr>
      | Inr entries \<Rightarrow> add_jobs dir (map de_name (filter (\<lambda>e. \<not> de_isdir e) entries)) out)"

definition crontab_line :: "string \<Rightarrow> CronEntry option" where
  "crontab_line text =
     (let line = TrimSpace text; parts = Fields line in
      if line = [] \<or> HasPrefix line ''#'' then None
      else if parts \<noteq> [] \<and> parts ! 0 = ''SHELL'' then None
      else if length parts > 5 then
        Some \<lparr>ce_Schedule = Join '' '' (take 5 parts), ce_Command = Join '' '' (drop 5 parts)\<rparr>
      else None)"

definition GatherCronJobs :: "string list \<Rightarrow> world \<Rightarrow> CronJobsOutput result" where
  "GatherCronJobs order w =
     (let out = fold (cron_dir_step w) order
            \<lparr>Errors = [], SystemCrontab = [], DailyJobs = [], WeeklyJobs = [], HourlyJobs = []\<rparr>;
          out = (case w_read w ''/etc/crontab'' of
                   Inl e \<Rightarrow> out\<lparr>Errors := appendErr (Errors out) ''/etc/crontab'' (Some e)\<rparr>
                 | Inr text \<Rightarrow> out\<lparr>SystemCrontab := List.map_filter crontab_line (lines_of text)\<rparr>)
      in (Some out, Err out))"

definition HandleGetCronJobs ::
  "(nat \<Rightarrow> nat \<Rightarrow> nat \<Rightarrow> nat) \<Rightarrow> cfg_state \<Rightarrow> int \<Rightarrow> int \<Rightarrow> ctx \<Rightarrow> string list \<Rightarrow> world \<Rightarrow> CronJobsOutput result \<times> log_event list" where
  "HandleGetCronJobs fr s now dur c order w =
     run_tool fr s now dur c ToolNameGetCronJobs 0 (\<lambda>_. GatherCronJobs order w)"

section \<open>The health check\<close>

record HealthCheckItem =
  Component :: string
  Status :: string
  Detail :: string

record SystemHealthCheckOutput = OutputErrors +
  Overall :: string
  Checks :: "HealthCheckItem list"

definition healthOK :: string where "healthOK = ''ok''"
definition healthWarning :: string where "healthWarning = ''warning''"
definition healthCritical :: string where "healthCritical = ''critical''"

text \<open>The local variables of the check.\<close>

record health =
  h_checks :: "HealthCheckItem list"
  h_errs :: "string list"
  hasWarning :: bool
  hasCritical :: bool

definition add_check :: "string \<Rightarrow> string \<Rightarrow> string \<Rightarrow> health \<Rightarrow> health" where
  "add_check name status detail h =
     h\<lparr>h_checks := h_checks h @ [\<lparr>Component = name, Status = status, Detail = detail\<rparr>],
       hasWarning := (hasWarning h \<or> status = healthWarning),
       hasCritical := (hasCritical h \<or> status = healthCritical)\<rparr>"

definition add_error :: "string \<Rightarrow> goerr \<Rightarrow> health \<Rightarrow> health" where
  "add_error tool e h = h\<lparr>h_errs := appendErr (h_errs h) tool (Some e)\<rparr>"

definition check_memory :: "MemoryInfoOutput result \<Rightarrow> health \<Rightarrow> health" where
  "check_memory r h =
     (case r of
        (_, Some e) \<Rightarrow> add_error ToolNameGetMemoryInfo e h
      | (mem, None) \<Rightarrow>
          let used = mem_UsedPercent (the mem)
          in add_check ''memory''
               (if f64_less (Fin 90) used then healthCritical
                else if f64_less (Fin 80) used then healthWarning else healthOK)
               (show_fixed 0 used @ ''% used'') h)"

definition check_partition :: "DiskUsageStat \<Rightarrow> health \<Rightarrow> health" where
  "check_partition p h =
     add_check (''disk:'' @ du_MountPoint p)
       (if f64_le (Fin 90) (du_UsedPercent p) then healthCritical else healthWarning)
       (show_fixed 0 (du_UsedPercent p) @ ''% used on '' @ du_MountPoint p) h"

definition check_disk :: "DiskInfoOutput result \<Rightarrow> health \<Rightarrow> health" where
  "check_disk r h =
     (case r of
        (_, Some e) \<Rightarrow> add_error ToolNameGetDiskInfo e h
      | (disk, None) \<Rightarrow>
          let ps = Partitions (the disk); h = fold check_partition ps h
          in if ps = [] then add_check ''disk'' healthOK ''no partitions above 80%'' h else h)"

text \<open>The load is checked when both the processor and the load average are there.\<close>

definition check_load :: "CPUInfoOutput result \<Rightarrow> LoadAverageOutput result \<Rightarrow> health \<Rightarrow> health" where
  "check_load cpu load h0 =
     (let h = (case snd cpu of None \<Rightarrow> h0 | Some e \<Rightarrow> add_error ToolNameGetCPUInfo e h0) in
      case load of
        (_, Some e) \<Rightarrow> add_error ToolNameGetLoadAverage e h
      | (l, None) \<Rightarrow>
          if snd cpu = None \<and> PhysicalCoreCount (the (fst cpu)) > 0 then
            (let cores = PhysicalCoreCount (the (fst cpu)); load15 = Load15 (the l);
                 ratio = f64_div load15 (Fin (of_int cores))
             in add_check ''load''
                  (if f64_less (Fin 2) ratio then healthCritical
                   else if f64_less (Fin 1) ratio then healthWarning else healthOK)
                  (''load15/core='' @ show_fixed 2 ratio @ '' (load='' @ show_fixed 1 load15 @ '' cores='' @
                   show_int cores @ '')'') h)
          else h)"

definition check_units :: "SystemdUnitsOutput result \<Rightarrow> health \<Rightarrow> health" where
  "check_units r h =
     (case r of
        (_, Some e) \<Rightarrow> add_error ToolNameGetSystemdUnits e h
      | (units, None) \<Rightarrow>
          if Units (the units) \<noteq> [] then
            add_check ''systemd_failed'' healthCritical (Join '', '' (map su_Unit (Units (the units)))) h
          else add_check ''systemd'' healthOK ''no failed units'' h)"

definition verdict :: "health \<Rightarrow> string" where
  "verdict h =
     (if hasCritical h then ''CRITICAL'' else if hasWarning h then ''WARNING''
      else if h_errs h \<noteq> [] then ''UNKNOWN'' else ''OK'')"

text \<open>What the library and the system answer to the five gather functions.\<close>

record probes =
  p_virtual :: "goerr + usage_numbers"
  p_swap :: "goerr + usage_numbers"
  p_partitions :: "goerr + partition_stat list"
  p_usage :: "string \<Rightarrow> goerr + usage_numbers"
  p_cpu :: "goerr + cpu_stat list"
  p_percent :: "goerr + f64 list"
  p_counts :: "bool \<Rightarrow> goerr + int"

definition GatherSystemHealthCheck :: "cfg_state \<Rightarrow> world \<Rightarrow> probes \<Rightarrow> ctx \<Rightarrow> SystemHealthCheckOutput result" where
  "GatherSystemHealthCheck s w p c =
     (let h = \<lparr>h_checks = [], h_errs = [], hasWarning = False, hasCritical = False\<rparr>;
          h = check_memory (gatherEnabled s c ToolNameGetMemoryInfo (\<lambda>_. GatherMemoryInfo (p_virtual p) (p_swap p))) h;
          h = check_disk (gatherEnabled s c ToolNameGetDiskInfo
                (\<lambda>_. GatherDiskInfo (p_partitions p) (p_usage p) [] (Fin 80))) h;
          h = check_load
                (gatherEnabled s c ToolNameGetCPUInfo (\<lambda>_. GatherCPUInfo (p_cpu p) (p_percent p) (p_counts p)))
                (gatherEnabled s c ToolNameGetLoadAverage (\<lambda>_. GatherLoadAverage w)) h;
          h = check_units (gatherEnabled s c ToolNameGetSystemdUnits (\<lambda>ct. GatherSystemdUnits w ct ''failed'')) h;
          out = \<lparr>Errors = h_errs h, Overall = verdict h, Checks = h_checks h\<rparr>
      in (Some out, Err out))"

definition HandleGetSystemHealthCheck ::
  "(nat \<Rightarrow> nat \<Rightarrow> nat \<Rightarrow> nat) \<Rightarrow> cfg_state \<Rightarrow> int \<Rightarrow> int \<Rightarrow> ctx \<Rightarrow> world \<Rightarrow> probes \<Rightarrow>
   SystemHealthCheckOutput result \<times> log_event list" where
  "HandleGetSystemHealthCheck fr s now dur c w p =
     run_tool fr s now dur c ToolNameGetSystemHealthCheck 0 (GatherSystemHealthCheck s w p)"

section \<open>Software RAID: lemmas\<close>

lemma md_field_name [simp]: "rd_Name (md_field ws i d) = rd_Name d"
  by (auto simp: md_field_def Let_def split: option.splits)

lemma md_fields_name [simp]: "rd_Name (fold (md_field ws) is d) = rd_Name d"
  by (induction "is" arbitrary: d) simp_all

lemma md_words_name [simp]: "rd_Name (fold md_word ws d) = rd_Name d"
  by (induction ws arbitrary: d) (simp_all add: md_word_def)

lemma md_header_name [simp]: "rd_Name (md_header ws) = ws ! 0"
  by (simp add: md_header_def)

lemma md_in_array: "\<exists>d'. fold md_line ls (Some d, out) = (Some d', out) \<and> rd_Name d' = rd_Name d"
proof (induction ls arbitrary: d)
  case (Cons l ls)
  have "\<exists>d'. md_line l (Some d, out) = (Some d', out) \<and> rd_Name d' = rd_Name d"
    by (auto simp: md_line_def Let_def)
  with Cons.IH show ?case by (metis (no_types, lifting) fold_simps(2))
qed simp

text \<open>The header lines of a text: the words of each line that starts an array.\<close>

definition md_headers :: "string \<Rightarrow> string list list" where
  "md_headers data =
     filter md_is_header (map Fields (filter (\<lambda>l. \<not> md_skipped l) (map TrimSpace (lines_of data))))"

lemma md_line_idle:
  "md_skipped (TrimSpace l) \<or> \<not> md_is_header (Fields (TrimSpace l)) \<Longrightarrow> md_line l (None, out) = (None, out)"
  by (auto simp: md_line_def Let_def)

lemma md_fold_none:
  "filter md_is_header (map Fields (filter (\<lambda>l. \<not> md_skipped l) (map TrimSpace ls))) = [] \<Longrightarrow>
     fold md_line ls (None, []) = (None, [])"
  by (induction ls) (auto simp: md_line_idle split: if_splits)

lemma md_fold_first:
  "filter md_is_header (map Fields (filter (\<lambda>l. \<not> md_skipped l) (map TrimSpace ls))) = h # hs \<Longrightarrow>
     \<exists>d. fold md_line ls (None, []) = (Some d, []) \<and> rd_Name d = h ! 0"
proof (induction ls)
  case (Cons l ls)
  show ?case
  proof (cases "\<not> md_skipped (TrimSpace l) \<and> md_is_header (Fields (TrimSpace l))")
    case True
    then have "md_line l (None, []) = (Some (md_header h), [])"
      using Cons.prems by (simp add: md_line_def md_flush_def)
    then show ?thesis using md_in_array [of ls "md_header h" "[]"] by auto
  next
    case False
    then have "md_line l (None, []) = (None, [])" by (intro md_line_idle) auto
    moreover have "filter md_is_header (map Fields (filter (\<lambda>l. \<not> md_skipped l) (map TrimSpace ls))) = h # hs"
      using False Cons.prems by (auto split: if_splits)
    ultimately show ?thesis using Cons.IH by simp
  qed
qed simp

text \<open>
  The kernel prints \<open>[n/m]\<close> with n the devices of the array and m those that work: the code
  takes them the other way round, and an array it cannot count is reported active.
\<close>

lemma md_counts_swapped:
  "map (\<lambda>d. (rd_ActiveDevs d, rd_TotalDevs d, rd_Status d))
     (RaidDevices (parseMDStat (''md0 : active raid1 sda1[0]'' @ [nl] @ ''9 blocks [2/1] [U_]''))) =
     [(2, 1, ''degraded'')]"
  by code_simp

lemma md_inactive_reported_active:
  "map (\<lambda>d. (rd_Status d, rd_Devices d)) (RaidDevices (parseMDStat ''md0 : inactive sda1[0](S)'')) =
     [(''active'', [])]"
  by code_simp

text \<open>A second array hides the first: its healthy counts replace the degraded ones.\<close>

lemma md_degraded_hidden:
  "map (\<lambda>d. (rd_Name d, rd_Status d))
     (RaidDevices (parseMDStat (''md0 : active raid1 sda1[0]'' @ [nl] @ ''9 blocks [2/1] [U_]'' @ [nl] @
        ''md1 : active raid1 sdb1[0] sdc1[1]'' @ [nl] @ ''9 blocks [2/2] [UU]''))) =
     [(''md0'', ''active'')]"
  by code_simp

section \<open>Cron jobs: lemmas\<close>

definition dir_jobs :: "world \<Rightarrow> string list \<Rightarrow> string \<Rightarrow> string list" where
  "dir_jobs w order dir =
     (if dir \<in> set order
      then (case w_readdir w dir of Inl _ \<Rightarrow> [] | Inr es \<Rightarrow> map de_name (filter (\<lambda>e. \<not> de_isdir e) es))
      else [])"

definition dir_error :: "world \<Rightarrow> string \<Rightarrow> string option" where
  "dir_error w dir =
     (case w_readdir w dir of Inl e \<Rightarrow> Some (''read '' @ dir @ '': '' @ err_text e) | Inr _ \<Rightarrow> None)"

lemma cron_fold:
  "distinct order \<Longrightarrow>
     DailyJobs (fold (cron_dir_step w) order out) = DailyJobs out @ dir_jobs w order ''/etc/cron.daily'' \<and>
     WeeklyJobs (fold (cron_dir_step w) order out) = WeeklyJobs out @ dir_jobs w order ''/etc/cron.weekly'' \<and>
     HourlyJobs (fold (cron_dir_step w) order out) = HourlyJobs out @ dir_jobs w order ''/etc/cron.hourly'' \<and>
     SystemCrontab (fold (cron_dir_step w) order out) = SystemCrontab out \<and>
     Errors (fold (cron_dir_step w) order out) = Errors out @ List.map_filter (dir_error w) order"
proof (induction order arbitrary: out)
  case (Cons d ds)
  then show ?case
    by (cases "w_readdir w d")
      (auto simp: cron_dir_step_def add_jobs_def dir_jobs_def dir_error_def appendErr_simps)
qed (simp add: dir_jobs_def)

lemma mset_map_filter: "mset xs = mset ys \<Longrightarrow> mset (List.map_filter f xs) = mset (List.map_filter f ys)"
  unfolding List.map_filter_def by (metis mset_filter mset_map)

section \<open>The health check: lemmas\<close>

text \<open>The two flags say exactly which statuses have been recorded.\<close>

definition flags_ok :: "health \<Rightarrow> bool" where
  "flags_ok h =
     ((hasCritical h \<longleftrightarrow> healthCritical \<in> set (map Status (h_checks h))) \<and>
      (hasWarning h \<longleftrightarrow> healthWarning \<in> set (map Status (h_checks h))))"

lemma flags_add [simp]: "flags_ok h \<Longrightarrow> flags_ok (add_check n st d h)"
  by (auto simp: flags_ok_def add_check_def)

lemma flags_error [simp]: "flags_ok h \<Longrightarrow> flags_ok (add_error t e h)"
  by (simp add: flags_ok_def add_error_def)

lemma flags_partitions [simp]: "flags_ok h \<Longrightarrow> flags_ok (fold check_partition ps h)"
  by (induction ps arbitrary: h) (simp_all add: check_partition_def)

lemma flags_checks [simp]:
  assumes "flags_ok h"
  shows "flags_ok (check_memory r h)" "flags_ok (check_disk rd h)" "flags_ok (check_load cpu l h)"
    "flags_ok (check_units u h)"
proof -
  show "flags_ok (check_memory r h)" using assms
    by (auto simp: check_memory_def Let_def split: prod.split option.split)
  show "flags_ok (check_disk rd h)" using assms
    by (auto simp: check_disk_def Let_def split: prod.split option.split)
  have "flags_ok (case snd cpu of None \<Rightarrow> h | Some e \<Rightarrow> add_error ToolNameGetCPUInfo e h)"
    using assms by (simp split: option.split)
  then show "flags_ok (check_load cpu l h)"
    unfolding check_load_def Let_def by (auto split: prod.split option.split)
  show "flags_ok (check_units u h)" using assms
    by (auto simp: check_units_def Let_def split: prod.split option.split)
qed

text \<open>What a check adds stays: the statuses recorded before are a prefix of those after.\<close>

definition later :: "health \<Rightarrow> health \<Rightarrow> bool" where
  "later h h' = (prefix (h_checks h) (h_checks h') \<and> prefix (h_errs h) (h_errs h'))"

lemma later_refl [simp]: "later h h" and later_trans: "later h h' \<Longrightarrow> later h' h'' \<Longrightarrow> later h h''"
  by (auto simp: later_def)

lemma later_add [simp]: "later h (add_check n st d h)" and later_error [simp]: "later h (add_error t e h)"
  by (simp_all add: later_def add_check_def add_error_def appendErr_simps)

lemma later_partitions: "later h (fold check_partition ps h)"
  by (induction ps arbitrary: h) (auto simp: check_partition_def intro: later_trans [OF later_add])

lemma later_checks:
  "later h (check_memory r h)" "later h (check_disk rd h)" "later h (check_load cpu l h)" "later h (check_units u h)"
proof -
  show "later h (check_memory r h)"
    by (auto simp: check_memory_def Let_def split: prod.split option.split)
  show "later h (check_disk rd h)"
    using later_partitions [of h "Partitions (the (fst rd))"]
    by (auto simp: check_disk_def Let_def split: prod.split option.split)
  have "later h (case snd cpu of None \<Rightarrow> h | Some e \<Rightarrow> add_error ToolNameGetCPUInfo e h)"
    by (simp split: option.split)
  then show "later h (check_load cpu l h)"
    unfolding check_load_def Let_def
    by (auto split: prod.split option.split intro: later_trans)
  show "later h (check_units u h)"
    by (auto simp: check_units_def Let_def split: prod.split option.split)
qed

text \<open>Nothing to report so far.\<close>

definition quiet :: "health \<Rightarrow> bool" where
  "quiet h = (h_errs h = [] \<and> set (map Status (h_checks h)) \<inter> {healthCritical, healthWarning} = {})"

lemma quiet_before: "later h h' \<Longrightarrow> quiet h' \<Longrightarrow> quiet h"
  by (auto simp: quiet_def later_def prefix_def)

lemma quiet_add [simp]:
  "quiet (add_check n st d h) \<longleftrightarrow> quiet h \<and> st \<noteq> healthCritical \<and> st \<noteq> healthWarning"
  by (auto simp: quiet_def add_check_def)

lemma quiet_error [simp]: "\<not> quiet (add_error t e h)"
  by (simp add: quiet_def add_error_def appendErr_simps)

lemma status_names [simp]:
  "healthOK \<noteq> healthCritical" "healthOK \<noteq> healthWarning" "healthWarning \<noteq> healthCritical"
  by (simp_all add: healthOK_def healthWarning_def healthCritical_def)

lemma quiet_memory:
  "quiet (check_memory r h) \<Longrightarrow> snd r = None \<and> \<not> f64_less (Fin 80) (mem_UsedPercent (the (fst r)))"
  by (auto simp: check_memory_def Let_def split: prod.splits option.splits if_splits)

lemma quiet_partitions: "quiet (fold check_partition ps h) \<Longrightarrow> ps = []"
proof (cases ps)
  case (Cons q qs)
  assume "quiet (fold check_partition ps h)"
  with quiet_before [OF later_partitions] Cons have "quiet (check_partition q h)" by simp
  then show ?thesis by (simp add: check_partition_def split: if_splits)
qed

lemma quiet_disk: "quiet (check_disk r h) \<Longrightarrow> snd r = None \<and> Partitions (the (fst r)) = []"
  using quiet_partitions by (auto simp: check_disk_def Let_def split: prod.splits option.splits if_splits)

lemma quiet_load:
  assumes "quiet (check_load cpu l h)"
  shows "snd cpu = None \<and> snd l = None \<and> (PhysicalCoreCount (the (fst cpu)) > 0 \<longrightarrow>
    \<not> f64_less (Fin 1) (f64_div (Load15 (the (fst l))) (Fin (of_int (PhysicalCoreCount (the (fst cpu)))))))"
proof (cases "snd cpu")
  case None
  with assms show ?thesis
    by (auto simp: check_load_def Let_def split: prod.splits option.splits if_splits)
next
  case (Some e)
  with assms show ?thesis by (auto simp: check_load_def Let_def split: prod.splits option.splits)
qed

lemma quiet_units: "quiet (check_units r h) \<Longrightarrow> snd r = None \<and> Units (the (fst r)) = []"
  by (auto simp: check_units_def Let_def split: prod.splits option.splits if_splits)

lemma verdict_quiet: "flags_ok h \<Longrightarrow> verdict h = ''OK'' \<longleftrightarrow> quiet h"
  by (auto simp: verdict_def quiet_def flags_ok_def)

lemma enabled_answer: "snd (gatherEnabled s c n g) = None \<Longrightarrow> \<not> IsDisabled s n \<and> gatherEnabled s c n g = g c"
  by (auto simp: gatherEnabled_def split: if_splits)

text \<open>
  systemctl puts a bullet before a failed unit, a word of its own: its state is then the fourth
  field, and the unit is not found.
\<close>

lemma failed_unit_missed:
  "unit_line ''failed'' ([CHR 0xE2, CHR 0x97, CHR 0x8F] @ '' a.service loaded failed failed A'') = None"
  "unit_line ''failed'' ''a.service loaded failed failed A'' \<noteq> None"
  by code_simp+

section \<open>Properties\<close>

text \<open>
  parseMDStat reports at most one array: none when the text has no header line, and
  otherwise one, with the name of the first header, however many arrays there are.
\<close>

theorem mdstat_first_array_only:
  "map rd_Name (RaidDevices (parseMDStat data)) = map hd (take 1 (md_headers data))"
proof (cases "md_headers data")
  case Nil
  then show ?thesis using md_fold_none by (simp add: md_headers_def parseMDStat_def md_flush_def)
next
  case (Cons h hs)
  then obtain d where "fold md_line (lines_of data) (None, []) = (Some d, [])" "rd_Name d = h ! 0"
    using md_fold_first unfolding md_headers_def by blast
  moreover have "h \<in> set (md_headers data)" using Cons by simp
  then have "md_is_header h" by (simp add: md_headers_def)
  ultimately show ?thesis using Cons
    by (cases h) (auto simp: parseMDStat_def md_flush_def md_status_def md_is_header_def)
qed

text \<open>
  The order in which the three cron directories are visited, a range over a map, does not
  matter: the jobs are the same, and so are the errors up to their order.
\<close>

theorem cron_order_irrelevant:
  assumes "mset order = mset cron_dirs" "mset order' = mset cron_dirs"
    "GatherCronJobs order w = (Some out, err)" "GatherCronJobs order' w = (Some out', err')"
  shows "DailyJobs out = DailyJobs out' \<and> WeeklyJobs out = WeeklyJobs out' \<and> HourlyJobs out = HourlyJobs out' \<and>
         SystemCrontab out = SystemCrontab out' \<and> mset (Errors out) = mset (Errors out')"
proof -
  have "distinct cron_dirs" by (simp add: cron_dirs_def)
  then have d: "distinct order" "distinct order'" using assms(1,2) by (metis mset_eq_imp_distinct_iff)+
  have "set order = set order'" using assms(1,2) by (metis mset_eq_setD)
  then have j: "dir_jobs w order = dir_jobs w order'" by (simp add: dir_jobs_def fun_eq_iff)
  have "mset (List.map_filter (dir_error w) order) = mset (List.map_filter (dir_error w) order')"
    using assms(1,2) by (intro mset_map_filter) simp
  with assms(3,4) cron_fold [OF d(1), of w] cron_fold [OF d(2), of w] j show ?thesis
    by (auto simp: GatherCronJobs_def Let_def appendErr_simps split: sum.splits)
qed

theorem cron_order_irrelevant_witness:
  "mset (Errors (the (fst (GatherCronJobs cron_dirs (broken_world\<lparr>w_readdir := \<lambda>_. Inl (ErrText ''x'')\<rparr>))))) =
   mset (Errors (the (fst (GatherCronJobs (rev cron_dirs) (broken_world\<lparr>w_readdir := \<lambda>_. Inl (ErrText ''x'')\<rparr>)))))"
  using cron_order_irrelevant [of cron_dirs "rev cron_dirs" "broken_world\<lparr>w_readdir := \<lambda>_. Inl (ErrText ''x'')\<rparr>"]
  by (simp add: GatherCronJobs_def Let_def)

text \<open>
  C26. The verdict of the health check is the worst status among its checks: CRITICAL exactly
  when some check is critical, else WARNING exactly when some is a warning, else UNKNOWN when
  a source failed or is disabled, else OK.
\<close>

theorem health_verdict:
  "\<exists>out. GatherSystemHealthCheck s w p c = (Some out, Err out) \<and>
     Overall out =
       (if ''critical'' \<in> Status ` set (Checks out) then ''CRITICAL''
        else if ''warning'' \<in> Status ` set (Checks out) then ''WARNING''
        else if Errors out \<noteq> [] then ''UNKNOWN'' else ''OK'')"
proof -
  let ?h0 = "\<lparr>h_checks = [], h_errs = [], hasWarning = False, hasCritical = False\<rparr>"
  have "flags_ok ?h0" by (simp add: flags_ok_def)
  then have ok: "flags_ok (check_units u (check_load cpu l (check_disk d (check_memory m ?h0))))" for u cpu l d m
    by simp
  have v: "flags_ok h \<Longrightarrow> verdict h =
      (if ''critical'' \<in> Status ` set (h_checks h) then ''CRITICAL''
       else if ''warning'' \<in> Status ` set (h_checks h) then ''WARNING''
       else if h_errs h \<noteq> [] then ''UNKNOWN'' else ''OK'')" for h
    by (auto simp: verdict_def flags_ok_def healthCritical_def healthWarning_def)
  obtain h where "flags_ok h" and g: "GatherSystemHealthCheck s w p c =
      (Some \<lparr>Errors = h_errs h, Overall = verdict h, Checks = h_checks h\<rparr>,
       Err \<lparr>Errors = h_errs h, Overall = verdict h, Checks = h_checks h\<rparr>)"
    unfolding GatherSystemHealthCheck_def Let_def using ok by blast
  then show ?thesis unfolding g by (auto simp: v)
qed

text \<open>
  C2. The verdict OK is sound: all five sources are enabled and answered, the memory is at most
  80 percent used, no partition reaches 80 percent, no unit was listed as failed, and the load of
  15 minutes per core is at most 1 wherever a core count is known.
\<close>

theorem health_ok_sound:
  assumes "GatherSystemHealthCheck s w p c = (Some out, err)" "Overall out = ''OK''"
  shows "(\<exists>mem. GatherMemoryInfo (p_virtual p) (p_swap p) = (Some mem, None) \<and> \<not> f64_less (Fin 80) (mem_UsedPercent mem)) \<and>
         (\<exists>disk. GatherDiskInfo (p_partitions p) (p_usage p) [] (Fin 80) = (Some disk, None) \<and> Partitions disk = []) \<and>
         (\<exists>cpu load. GatherCPUInfo (p_cpu p) (p_percent p) (p_counts p) = (Some cpu, None) \<and>
            GatherLoadAverage w = (Some load, None) \<and>
            (PhysicalCoreCount cpu \<le> 0 \<or>
             \<not> f64_less (Fin 1) (f64_div (Load15 load) (Fin (of_int (PhysicalCoreCount cpu)))))) \<and>
         (\<exists>units. GatherSystemdUnits w c ''failed'' = (Some units, None) \<and> Units units = []) \<and>
         list_all (\<lambda>t. \<not> IsDisabled s t)
           [ToolNameGetMemoryInfo, ToolNameGetDiskInfo, ToolNameGetCPUInfo, ToolNameGetLoadAverage, ToolNameGetSystemdUnits]"
proof -
  define m where "m = gatherEnabled s c ToolNameGetMemoryInfo (\<lambda>_. GatherMemoryInfo (p_virtual p) (p_swap p))"
  define d where "d = gatherEnabled s c ToolNameGetDiskInfo (\<lambda>_. GatherDiskInfo (p_partitions p) (p_usage p) [] (Fin 80))"
  define cp where "cp = gatherEnabled s c ToolNameGetCPUInfo (\<lambda>_. GatherCPUInfo (p_cpu p) (p_percent p) (p_counts p))"
  define l where "l = gatherEnabled s c ToolNameGetLoadAverage (\<lambda>_. GatherLoadAverage w)"
  define u where "u = gatherEnabled s c ToolNameGetSystemdUnits (\<lambda>ct. GatherSystemdUnits w ct ''failed'')"
  define h1 where "h1 = check_memory m \<lparr>h_checks = [], h_errs = [], hasWarning = False, hasCritical = False\<rparr>"
  define h2 where "h2 = check_disk d h1"
  define h3 where "h3 = check_load cp l h2"
  define h4 where "h4 = check_units u h3"
  have "flags_ok h4" by (simp add: h4_def h3_def h2_def h1_def flags_ok_def [of "\<lparr>h_checks = _, h_errs = _, hasWarning = _, hasCritical = _\<rparr>"])
  moreover have "verdict h4 = ''OK''"
    using assms by (auto simp: GatherSystemHealthCheck_def Let_def h4_def h3_def h2_def h1_def m_def d_def cp_def l_def u_def)
  ultimately have q4: "quiet h4" by (simp add: verdict_quiet)
  then have q3: "quiet h3" unfolding h4_def by (rule quiet_before [OF later_checks(4)])
  then have q2: "quiet h2" unfolding h3_def by (rule quiet_before [OF later_checks(3)])
  then have q1: "quiet h1" unfolding h2_def by (rule quiet_before [OF later_checks(2)])
  note q = quiet_memory [OF q1 [unfolded h1_def]] quiet_disk [OF q2 [unfolded h2_def]]
    quiet_load [OF q3 [unfolded h3_def]] quiet_units [OF q4 [unfolded h4_def]]
  have e: "\<not> IsDisabled s ToolNameGetMemoryInfo \<and> m = GatherMemoryInfo (p_virtual p) (p_swap p)"
    "\<not> IsDisabled s ToolNameGetDiskInfo \<and> d = GatherDiskInfo (p_partitions p) (p_usage p) [] (Fin 80)"
    "\<not> IsDisabled s ToolNameGetCPUInfo \<and> cp = GatherCPUInfo (p_cpu p) (p_percent p) (p_counts p)"
    "\<not> IsDisabled s ToolNameGetLoadAverage \<and> l = GatherLoadAverage w"
    "\<not> IsDisabled s ToolNameGetSystemdUnits \<and> u = GatherSystemdUnits w c ''failed''"
    using q enabled_answer unfolding m_def d_def cp_def l_def u_def by blast+
  have "fst u \<noteq> None" using q(4) e(5) by (auto simp: GatherSystemdUnits_def split: sum.splits)
  moreover have "fst m \<noteq> None" "fst d \<noteq> None" "fst cp \<noteq> None" "fst l \<noteq> None"
    using q e answers_something by metis+
  ultimately have r: "m = (Some (the (fst m)), None)" "d = (Some (the (fst d)), None)"
    "cp = (Some (the (fst cp)), None)" "l = (Some (the (fst l)), None)" "u = (Some (the (fst u)), None)"
    using q by (simp_all add: prod_eq_iff)
  have "GatherMemoryInfo (p_virtual p) (p_swap p) = (Some (the (fst m)), None)" using e(1) r(1) by simp
  moreover have "GatherDiskInfo (p_partitions p) (p_usage p) [] (Fin 80) = (Some (the (fst d)), None)" using e(2) r(2) by simp
  moreover have "GatherCPUInfo (p_cpu p) (p_percent p) (p_counts p) = (Some (the (fst cp)), None)" using e(3) r(3) by simp
  moreover have "GatherLoadAverage w = (Some (the (fst l)), None)" using e(4) r(4) by simp
  moreover have "GatherSystemdUnits w c ''failed'' = (Some (the (fst u)), None)" using e(5) r(5) by simp
  moreover have "PhysicalCoreCount (the (fst cp)) \<le> 0 \<or> \<not> f64_less (Fin 1)
      (f64_div (Load15 (the (fst l))) (Fin (of_int (PhysicalCoreCount (the (fst cp))))))" using q(3) by linarith
  moreover have "list_all (\<lambda>t. \<not> IsDisabled s t)
      [ToolNameGetMemoryInfo, ToolNameGetDiskInfo, ToolNameGetCPUInfo, ToolNameGetLoadAverage, ToolNameGetSystemdUnits]"
    using e by (simp only: list.pred_inject simp_thms)
  ultimately show ?thesis using q(1,2,4) by blast
qed

text \<open>A host with nothing wrong, and no core count.\<close>

definition calm_world :: world where
  "calm_world = broken_world\<lparr>w_read := \<lambda>p. Inr [], w_exec := \<lambda>c b args. ([], None)\<rparr>"

definition calm_probes :: probes where
  "calm_probes =
     \<lparr>p_virtual = Inr (0, 0, 0, Fin 10), p_swap = Inr (0, 0, 0, Fin 0), p_partitions = Inr [],
      p_usage = (\<lambda>_. Inr (0, 0, 0, Fin 0)), p_cpu = Inr [], p_percent = Inr [], p_counts = (\<lambda>_. Inr 0)\<rparr>"

lemma calm_check:
  "\<exists>out. GatherSystemHealthCheck init_state calm_world calm_probes c = (Some out, None) \<and> Overall out = ''OK''"
  by (simp add: GatherSystemHealthCheck_def gatherEnabled_def IsDisabled_def Get_def init_state_def defaultConfig_def
      GatherMemoryInfo_def GatherDiskInfo_def GatherCPUInfo_def GatherLoadAverage_def GatherSystemdUnits_def
      execLines_def execOutput_def calm_world_def calm_probes_def check_memory_def check_disk_def check_load_def
      check_units_def add_check_def verdict_def Err_def joinErrs_def to_int32_def healthOK_def healthWarning_def
      healthCritical_def map_filter_simps)

theorem health_ok_sound_witness:
  "\<exists>mem. GatherMemoryInfo (p_virtual calm_probes) (p_swap calm_probes) = (Some mem, None) \<and>
     \<not> f64_less (Fin 80) (mem_UsedPercent mem)"
  using calm_check [of "\<lparr>deadline = None\<rparr>"] health_ok_sound by blast

end
