(* ===== verification/System.thy ===== *)
theory System
  imports Handler "HOL-Library.Char_ord" "HOL-Library.List_Lexorder"
begin

text \<open>
  tools/system.go: the host, environment variables, devices on the PCI and USB buses, cron jobs
  and timers of the user, the desktop session and kernel modules. What gopsutil says of the host
  and the decoder of the JSON that systemctl prints are parameters. The load average is in Host,
  the snapshot in Snapshot.
\<close>

section \<open>The host\<close>

record SystemInfoOutput = OutputErrors +
  Hostname :: string
  OSName :: string
  OSVersion :: string
  KernelVersion :: string
  Architecture :: string
  UptimeSeconds :: uint64
  Platform :: string
  PlatformFamily :: string
  BootTime :: uint64
  Procs :: uint64
  VirtualizationSystem :: string
  VirtualizationRole :: string
  HostID :: string
  Manufacturer :: string
  ProductName :: string
  ProductVersion :: string
  BIOSVersion :: string
  BIOSDate :: string
  TPMVersion :: string

record host_info =
  hi_Hostname :: string
  hi_OS :: string
  hi_PlatformVersion :: string
  hi_KernelVersion :: string
  hi_KernelArch :: string
  hi_Uptime :: uint64
  hi_Platform :: string
  hi_PlatformFamily :: string
  hi_BootTime :: uint64
  hi_Procs :: uint64
  hi_VirtualizationSystem :: string
  hi_VirtualizationRole :: string
  hi_HostID :: string

definition readDMIField :: "world \<Rightarrow> string \<Rightarrow> string" where
  "readDMIField w path = (case readSysfsFile w path of Inl _ \<Rightarrow> [] | Inr s \<Rightarrow> s)"

definition readTPMVersion :: "world \<Rightarrow> string" where
  "readTPMVersion w =
     (case w_read w ''/sys/class/tpm/tpm0/tpm_version_str'' of Inl _ \<Rightarrow> [] | Inr data \<Rightarrow> TrimSpace data)"

definition GatherSystemInfo :: "goerr + host_info \<Rightarrow> world \<Rightarrow> SystemInfoOutput result" where
  "GatherSystemInfo info w =
     (case info of
        Inl e \<Rightarrow> (None, Some e)
      | Inr i \<Rightarrow>
          (Some \<lparr>Errors = [], Hostname = hi_Hostname i, OSName = hi_OS i, OSVersion = hi_PlatformVersion i,
                 KernelVersion = hi_KernelVersion i, Architecture = hi_KernelArch i, UptimeSeconds = hi_Uptime i,
                 Platform = hi_Platform i, PlatformFamily = hi_PlatformFamily i, BootTime = hi_BootTime i,
                 Procs = hi_Procs i, VirtualizationSystem = hi_VirtualizationSystem i,
                 VirtualizationRole = hi_VirtualizationRole i, HostID = hi_HostID i,
                 Manufacturer = readDMIField w ''/sys/devices/virtual/dmi/id/sys_vendor'',
                 ProductName = readDMIField w ''/sys/devices/virtual/dmi/id/product_name'',
                 ProductVersion = readDMIField w ''/sys/devices/virtual/dmi/id/product_version'',
                 BIOSVersion = readDMIField w ''/sys/devices/virtual/dmi/id/bios_version'',
                 BIOSDate = readDMIField w ''/sys/devices/virtual/dmi/id/bios_date'',
                 TPMVersion = readTPMVersion w\<rparr>, None))"

definition HandleGetSystemInfo ::
  "(nat \<Rightarrow> nat \<Rightarrow> nat \<Rightarrow> nat) \<Rightarrow> cfg_state \<Rightarrow> int \<Rightarrow> int \<Rightarrow> ctx \<Rightarrow> goerr + host_info \<Rightarrow> world \<Rightarrow>
   SystemInfoOutput result \<times> log_event list" where
  "HandleGetSystemInfo fr s now dur c info w =
     run_tool fr s now dur c ToolNameGetSystemInfo 0 (\<lambda>_. GatherSystemInfo info w)"

section \<open>Environment variables\<close>

record EnvironmentVariable =
  ev_Name :: string
  ev_Value :: string

record EnvironmentVariablesOutput = OutputErrors +
  Variables :: "EnvironmentVariable list"
  ev_Count :: int

definition name_matches :: "world \<Rightarrow> string \<Rightarrow> string \<Rightarrow> bool" where
  "name_matches w search name =
     (let s = ToLower (w_lower w) search; lower = ToLower (w_lower w) name
      in HasPrefix lower s \<or> Contains lower s)"

text \<open>
  The loop over the bytes of an entry, the bytes before the position in the first argument: at an
  equals sign the bytes before it are taken as the name; when they do not match the search the
  loop goes on to the next equals sign.
\<close>

fun env_scan :: "world \<Rightarrow> string \<Rightarrow> string \<Rightarrow> string \<Rightarrow> EnvironmentVariable option" where
  "env_scan w search pre [] = None"
| "env_scan w search pre (ch # rest) =
     (if ch \<noteq> CHR ''='' then env_scan w search (pre @ [ch]) rest
      else if search \<noteq> [] \<and> \<not> name_matches w search pre then env_scan w search (pre @ [ch]) rest
      else Some \<lparr>ev_Name = pre, ev_Value = (if isSensitiveEnvVar w pre then ''***'' else rest)\<rparr>)"

definition by_name :: "EnvironmentVariable \<Rightarrow> EnvironmentVariable \<Rightarrow> bool" where
  "by_name a b = (ev_Name a < ev_Name b)"

definition GatherEnvironmentVariables ::
  "EnvironmentVariable sorter \<Rightarrow> world \<Rightarrow> string \<Rightarrow> EnvironmentVariablesOutput result" where
  "GatherEnvironmentVariables srt w search =
     (let variables = srt by_name (List.map_filter (env_scan w search []) (w_environ w))
      in (Some \<lparr>Errors = [], Variables = variables, ev_Count = int (length variables)\<rparr>, None))"

definition HandleGetEnvironmentVariables ::
  "(nat \<Rightarrow> nat \<Rightarrow> nat \<Rightarrow> nat) \<Rightarrow> cfg_state \<Rightarrow> int \<Rightarrow> int \<Rightarrow> ctx \<Rightarrow> EnvironmentVariable sorter \<Rightarrow> world \<Rightarrow> string \<Rightarrow>
   EnvironmentVariablesOutput result \<times> log_event list" where
  "HandleGetEnvironmentVariables fr s now dur c srt w search =
     run_tool fr s now dur c ToolNameGetEnvironmentVariables 0 (\<lambda>_. GatherEnvironmentVariables srt w search)"

section \<open>Devices on the buses\<close>

record BusDevice =
  bus_Bus :: string
  bus_Slot :: string
  bus_Class :: string
  bus_Vendor :: string
  bus_Device :: string

text \<open>A slice that may be nil is an option.\<close>

record HardwareBusInfoOutput = OutputErrors +
  PCIDevices :: "BusDevice list option"
  USBDevices :: "BusDevice list option"

definition pciSysfsPath :: string where "pciSysfsPath = ''/sys/bus/pci/devices''"
definition usbSysfsPath :: string where "usbSysfsPath = ''/sys/bus/usb/devices''"

definition pciBaseClasses :: "nat \<rightharpoonup> string" where
  "pciBaseClasses = map_of
     [(0x00, ''Unclassified device''), (0x01, ''Mass storage controller''), (0x02, ''Network controller''),
      (0x03, ''Display controller''), (0x04, ''Multimedia controller''), (0x05, ''Memory controller''),
      (0x06, ''Bridge''), (0x07, ''Communication controller''), (0x08, ''Base system peripheral''),
      (0x09, ''Input device controller''), (0x0a, ''Docking station''), (0x0b, ''Processor''),
      (0x0c, ''Serial bus controller''), (0x0d, ''Wireless controller''), (0x0e, ''Intelligent controller''),
      (0x0f, ''Satellite communication controller''), (0x10, ''Encryption controller''),
      (0x11, ''Signal processing controller''), (0x12, ''Processing accelerators''),
      (0x13, ''Non-Essential Instrumentation''), (0x14, ''Coprocessor'')]"

text \<open>\<open>strconv.ParseUint\<close> in base 16 on two bytes.\<close>

definition hex_val :: "char \<Rightarrow> nat option" where
  "hex_val ch =
     (let b = byte ch in
      if 48 \<le> b \<and> b \<le> 57 then Some (b - 48)
      else if 97 \<le> b \<and> b \<le> 102 then Some (b - 87)
      else if 65 \<le> b \<and> b \<le> 70 then Some (b - 55) else None)"

definition class_name :: "string \<Rightarrow> string" where
  "class_name classHex =
     (if length classHex \<ge> 4 then
        (case (hex_val (classHex ! 2), hex_val (classHex ! 3)) of
           (Some a, Some b) \<Rightarrow> (case pciBaseClasses (16 * a + b) of None \<Rightarrow> [] | Some n \<Rightarrow> n)
         | _ \<Rightarrow> [])
      else [])"

definition sysfs_or_empty :: "world \<Rightarrow> string \<Rightarrow> string \<Rightarrow> string" where
  "sysfs_or_empty w base attr = (case readSysfsFile w (filepath_Join [base, attr]) of Inl _ \<Rightarrow> [] | Inr s \<Rightarrow> s)"

definition pci_entry :: "world \<Rightarrow> dirent \<Rightarrow> BusDevice option" where
  "pci_entry w entry =
     (if \<not> de_isdir entry then None
      else
        let base = filepath_Join [pciSysfsPath, de_name entry]
        in Some \<lparr>bus_Bus = ''pci'', bus_Slot = de_name entry, bus_Class = class_name (sysfs_or_empty w base ''class''),
                 bus_Vendor = sysfs_or_empty w base ''vendor'', bus_Device = sysfs_or_empty w base ''device''\<rparr>)"

definition parsePCIDevicesSysfs :: "world \<Rightarrow> goerr + BusDevice list" where
  "parsePCIDevicesSysfs w =
     (case w_readdir w pciSysfsPath of
        Inl e \<Rightarrow> Inl (ErrWrap (''reading '' @ pciSysfsPath) e)
      | Inr entries \<Rightarrow> Inr (List.map_filter (pci_entry w) entries))"

definition usb_entry :: "world \<Rightarrow> dirent \<Rightarrow> BusDevice option" where
  "usb_entry w entry =
     (if \<not> de_isdir entry then None
      else
        let base = filepath_Join [usbSysfsPath, de_name entry] in
        case readSysfsFile w (filepath_Join [base, ''idVendor'']) of
          Inl _ \<Rightarrow> None
        | Inr vendor \<Rightarrow>
            let desc = sysfs_or_empty w base ''product''
            in Some \<lparr>bus_Bus = sysfs_or_empty w base ''busnum'', bus_Slot = sysfs_or_empty w base ''devnum'',
                     bus_Class = [], bus_Vendor = vendor,
                     bus_Device = (if desc = [] then vendor @ '':'' @ sysfs_or_empty w base ''idProduct'' else desc)\<rparr>)"

definition parseUSBDevicesSysfs :: "world \<Rightarrow> goerr + BusDevice list" where
  "parseUSBDevicesSysfs w =
     (case w_readdir w usbSysfsPath of
        Inl e \<Rightarrow> Inl (ErrWrap (''reading '' @ usbSysfsPath) e)
      | Inr entries \<Rightarrow> Inr (List.map_filter (usb_entry w) entries))"

definition lspci_line :: "string \<Rightarrow> BusDevice option" where
  "lspci_line line =
     (case Cut (TrimSpace line) '' '' of
        (_, _, False) \<Rightarrow> None
      | (slot, rest, True) \<Rightarrow>
          (case Cut rest '': '' of
             (cls, desc, _) \<Rightarrow>
               Some \<lparr>bus_Bus = ''pci'', bus_Slot = slot, bus_Class = TrimSpace cls, bus_Vendor = [],
                     bus_Device = TrimSpace desc\<rparr>))"

definition parseLspciOutput :: "world \<Rightarrow> ctx \<Rightarrow> goerr + BusDevice list" where
  "parseLspciOutput w c =
     (case execLines w c ''lspci'' [] of Inl e \<Rightarrow> Inl e | Inr ls \<Rightarrow> Inr (List.map_filter lspci_line ls))"

definition lsusb_line :: "string \<Rightarrow> BusDevice option" where
  "lsusb_line line =
     (let parts = Fields (TrimSpace line) in
      if length parts < 6 then None
      else
        let vendor = TrimRight_char (CHR '':'') (parts ! 5); desc = Join '' '' (drop 6 parts)
        in Some (if desc = []
                 then \<lparr>bus_Bus = parts ! 0, bus_Slot = parts ! 3, bus_Class = [], bus_Vendor = [], bus_Device = vendor\<rparr>
                 else \<lparr>bus_Bus = parts ! 0, bus_Slot = parts ! 3, bus_Class = [], bus_Vendor = vendor, bus_Device = desc\<rparr>))"

definition parseLsusbOutput :: "world \<Rightarrow> ctx \<Rightarrow> goerr + BusDevice list" where
  "parseLsusbOutput w c =
     (case execLines w c ''lsusb'' [] of Inl e \<Rightarrow> Inl e | Inr ls \<Rightarrow> Inr (List.map_filter lsusb_line ls))"

definition deviceMatches :: "world \<Rightarrow> BusDevice \<Rightarrow> string \<Rightarrow> bool" where
  "deviceMatches w d search0 =
     (if search0 = [] then True
      else
        let search = ToLower (w_lower w) search0; has = (\<lambda>t. Contains (ToLower (w_lower w) t) search)
        in has (bus_Bus d) \<or> has (bus_Slot d) \<or> has (bus_Class d) \<or> has (bus_Vendor d) \<or> has (bus_Device d))"

definition filterDevices :: "world \<Rightarrow> BusDevice list \<Rightarrow> string \<Rightarrow> BusDevice list" where
  "filterDevices w devices search =
     (if search = [] then devices else filter (\<lambda>d. deviceMatches w d search) devices)"

text \<open>The command first, the files of sysfs when it fails; the error of the second attempt is kept.\<close>

definition bus_devices ::
  "goerr + BusDevice list \<Rightarrow> goerr + BusDevice list \<Rightarrow> string \<Rightarrow> string list \<Rightarrow> BusDevice list option \<times> string list" where
  "bus_devices command sysfs name errs =
     (case command of
        Inr ds \<Rightarrow> (Some ds, errs)
      | Inl _ \<Rightarrow> (case sysfs of Inr ds \<Rightarrow> (Some ds, errs) | Inl e \<Rightarrow> (None, appendErr errs name (Some e))))"

definition GatherHardwareBusInfo :: "world \<Rightarrow> ctx \<Rightarrow> string \<Rightarrow> HardwareBusInfoOutput result" where
  "GatherHardwareBusInfo w c search =
     (let (pci, errs) = bus_devices (parseLspciOutput w c) (parsePCIDevicesSysfs w) ''pci'' [];
          (usb, errs) = bus_devices (parseLsusbOutput w c) (parseUSBDevicesSysfs w) ''usb'' errs;
          out = \<lparr>Errors = errs, PCIDevices = map_option (\<lambda>ds. filterDevices w ds search) pci,
                 USBDevices = map_option (\<lambda>ds. filterDevices w ds search) usb\<rparr>
      in (Some out, Err out))"

definition HandleGetHardwareBusInfo ::
  "(nat \<Rightarrow> nat \<Rightarrow> nat \<Rightarrow> nat) \<Rightarrow> cfg_state \<Rightarrow> int \<Rightarrow> int \<Rightarrow> ctx \<Rightarrow> world \<Rightarrow> string \<Rightarrow>
   HardwareBusInfoOutput result \<times> log_event list" where
  "HandleGetHardwareBusInfo fr s now dur c w search =
     run_tool fr s now dur c ToolNameGetHardwareBusInfo 0 (\<lambda>ct. GatherHardwareBusInfo w ct search)"

section \<open>Cron jobs and timers of the user\<close>

record CronJob =
  cj_Schedule :: string
  cj_Command :: string

record SystemdTimer =
  tm_Unit :: string
  tm_Activates :: string
  tm_Next :: string
  tm_Last :: string

record UserAutomationOutput = OutputErrors +
  CronJobs :: "CronJob list"
  SystemdTimers :: "SystemdTimer list"

definition user_cron_line :: "string \<Rightarrow> CronJob option" where
  "user_cron_line text =
     (let line = TrimSpace text; parts = Fields line in
      if line = [] \<or> HasPrefix line ''#'' \<or> length parts < 6 then None
      else Some \<lparr>cj_Schedule = Join '' '' (take 5 parts), cj_Command = Join '' '' (drop 5 parts)\<rparr>)"

definition GatherUserAutomation ::
  "(string \<Rightarrow> goerr + SystemdTimer list) \<Rightarrow> world \<Rightarrow> ctx \<Rightarrow> UserAutomationOutput result" where
  "GatherUserAutomation decode w c =
     (let (jobs, errs) =
            (case execOutput w c ''crontab'' [''-l''] of
               (crontab, None) \<Rightarrow> (List.map_filter user_cron_line (lines_of crontab), [])
             | (_, Some e) \<Rightarrow> ([], appendErr [] ''crontab'' (Some (ErrWrap ''crontab -l'' e))));
          (timers, errs) =
            (case execOutput w c ''systemctl'' [''--user'', ''list-timers'', ''--output=json''] of
               (text, None) \<Rightarrow>
                 (case decode text of
                    Inr ts \<Rightarrow> (ts, errs)
                  | Inl e \<Rightarrow> ([], appendErr errs ''systemd-timers'' (Some (ErrWrap ''parse json'' e))))
             | (_, Some e) \<Rightarrow>
                 ([], appendErr errs ''systemd-timers'' (Some (ErrWrap ''systemctl --user list-timers'' e))));
          out = \<lparr>Errors = errs, CronJobs = jobs, SystemdTimers = timers\<rparr>
      in (Some out, Err out))"

definition HandleGetUserAutomation ::
  "(nat \<Rightarrow> nat \<Rightarrow> nat \<Rightarrow> nat) \<Rightarrow> cfg_state \<Rightarrow> int \<Rightarrow> int \<Rightarrow> ctx \<Rightarrow> (string \<Rightarrow> goerr + SystemdTimer list) \<Rightarrow> world \<Rightarrow>
   UserAutomationOutput result \<times> log_event list" where
  "HandleGetUserAutomation fr s now dur c decode w =
     run_tool fr s now dur c ToolNameGetUserAutomation 0 (\<lambda>ct. GatherUserAutomation decode w ct)"

section \<open>The desktop session\<close>

record DesktopSessionOutput = OutputErrors +
  SessionType :: string
  CurrentDesktop :: string
  RuntimeDir :: string
  Display :: string
  WaylandDisplay :: string

definition GatherDesktopSessionInfo :: "world \<Rightarrow> DesktopSessionOutput result" where
  "GatherDesktopSessionInfo w =
     (let env = Getenv (w_environ w)
      in (Some \<lparr>Errors = [], SessionType = env ''XDG_SESSION_TYPE'', CurrentDesktop = env ''XDG_CURRENT_DESKTOP'',
                RuntimeDir = env ''XDG_RUNTIME_DIR'', Display = env ''DISPLAY'',
                WaylandDisplay = env ''WAYLAND_DISPLAY''\<rparr>, None))"

definition HandleGetDesktopSessionInfo ::
  "(nat \<Rightarrow> nat \<Rightarrow> nat \<Rightarrow> nat) \<Rightarrow> cfg_state \<Rightarrow> int \<Rightarrow> int \<Rightarrow> ctx \<Rightarrow> world \<Rightarrow> DesktopSessionOutput result \<times> log_event list" where
  "HandleGetDesktopSessionInfo fr s now dur c w =
     run_tool fr s now dur c ToolNameGetDesktopSessionInfo 0 (\<lambda>_. GatherDesktopSessionInfo w)"

section \<open>Kernel modules\<close>

record KernelModule =
  km_Name :: string
  km_Size :: int
  UsedBy :: int
  RefCount :: int
  Deps :: "string list"

record KernelModulesOutput = OutputErrors +
  Modules :: "KernelModule list"
  km_Total :: int

definition module_line :: "string \<Rightarrow> KernelModule option" where
  "module_line text =
     (let line = TrimSpace text; fields = Fields line;
          deps = (if length fields \<ge> 4 \<and> fields ! 3 \<noteq> ''-''
                  then filter (\<lambda>d. d \<noteq> []) (map TrimSpace (split_char (CHR '','') (fields ! 3))) else [])
      in if line = [] \<or> length fields < 3 then None
         else Some \<lparr>km_Name = fields ! 0, km_Size = fst (ParseInt 64 (fields ! 1)), UsedBy = int (length deps),
                    RefCount = fst (Atoi (fields ! 2)), Deps = deps\<rparr>)"

definition GatherKernelModules :: "world \<Rightarrow> KernelModulesOutput result" where
  "GatherKernelModules w =
     (case w_read w ''/proc/modules'' of
        Inl e \<Rightarrow> (None, Some e)
      | Inr data \<Rightarrow>
          let modules = List.map_filter module_line (lines_of data)
          in (Some \<lparr>Errors = [], Modules = modules, km_Total = int (length modules)\<rparr>, None))"

definition HandleGetKernelModules ::
  "(nat \<Rightarrow> nat \<Rightarrow> nat \<Rightarrow> nat) \<Rightarrow> cfg_state \<Rightarrow> int \<Rightarrow> int \<Rightarrow> ctx \<Rightarrow> world \<Rightarrow> KernelModulesOutput result \<times> log_event list" where
  "HandleGetKernelModules fr s now dur c w =
     run_tool fr s now dur c ToolNameGetKernelModules 0 (\<lambda>_. GatherKernelModules w)"

interpretation modules: line_parser "\<lambda>data. List.map_filter module_line (lines_of data)" module_line
  by unfold_locales simp

section \<open>Environment variables: lemmas\<close>

lemma env_scan_skip:
  "CHR ''='' \<notin> set n \<Longrightarrow> env_scan w search pre (n @ rest) = env_scan w search (pre @ n) rest"
  by (induction n arbitrary: pre) auto

lemma env_scan_None: "CHR ''='' \<notin> set v \<Longrightarrow> env_scan w search pre v = None"
  by (induction v arbitrary: pre) auto

lemma env_scan_at:
  "CHR ''='' \<notin> set n \<Longrightarrow> env_scan w search [] (n @ CHR ''='' # v) =
     (if search \<noteq> [] \<and> \<not> name_matches w search n then env_scan w search (n @ ''='') v
      else Some \<lparr>ev_Name = n, ev_Value = (if isSensitiveEnvVar w n then ''***'' else v)\<rparr>)"
  by (subst env_scan_skip) simp_all

lemma env_scan_world [simp]: "env_scan (w\<lparr>w_environ := es\<rparr>) search pre e = env_scan w search pre e"
  by (induction e arbitrary: pre) (simp_all add: name_matches_def isSensitiveEnvVar_def)

text \<open>
  When the name of a variable does not match the search, the loop takes the text up to a later
  equals sign as the name. A value such as a base64 text is then searched, and shown as part of
  a name, which is never redacted.
\<close>

lemma env_search_reveals:
  assumes "CHR ''='' \<notin> set n" "CHR ''='' \<notin> set a" "search \<noteq> []"
    "\<not> name_matches w search n" "name_matches w search (n @ ''='' @ a)"
  shows "\<exists>v. env_scan w search [] (n @ ''='' @ a @ ''='' @ b) = Some \<lparr>ev_Name = n @ ''='' @ a, ev_Value = v\<rparr>"
  using assms by (simp add: env_scan_at env_scan_skip)

text \<open>
  Two entries that only differ in the value of a sensitive variable, and whose values cannot be
  mistaken for a name: there is no search, or the name matches it, or they have no equals sign.
\<close>

definition same_public :: "world \<Rightarrow> string \<Rightarrow> string \<Rightarrow> string \<Rightarrow> bool" where
  "same_public w search e e' =
     (e = e' \<or>
      (\<exists>n v v'. e = n @ ''='' @ v \<and> e' = n @ ''='' @ v' \<and> CHR ''='' \<notin> set n \<and> isSensitiveEnvVar w n \<and>
        (search = [] \<or> name_matches w search n \<or> CHR ''='' \<notin> set v \<union> set v')))"

lemma same_public_scan: "same_public w search e e' \<Longrightarrow> env_scan w search [] e = env_scan w search [] e'"
  by (auto simp: same_public_def env_scan_at env_scan_None)

lemma map_filter_all2: "list_all2 (\<lambda>x y. f x = f y) xs ys \<Longrightarrow> List.map_filter f xs = List.map_filter f ys"
  by (induction rule: list_all2_induct) (simp_all split: option.split)

section \<open>Kernel modules: lemmas\<close>

text \<open>A line of /proc/modules.\<close>

definition print_module :: "KernelModule \<Rightarrow> string" where
  "print_module m =
     Join '' '' [km_Name m, show_int (km_Size m), show_int (RefCount m),
                 (if Deps m = [] then ''-'' else Join '','' (Deps m @ [[]])), ''Live'', ''0x0000000000000000'']"

definition dep_name :: "string \<Rightarrow> bool" where
  "dep_name d = (token d \<and> CHR '','' \<notin> set d)"

definition real_module :: "KernelModule \<Rightarrow> bool" where
  "real_module m =
     (token (km_Name m) \<and> list_all dep_name (Deps m) \<and> UsedBy m = int (length (Deps m)) \<and>
      0 \<le> km_Size m \<and> km_Size m < 2 ^ 63 \<and> 0 \<le> RefCount m \<and> RefCount m < 2 ^ 63)"

lemma token_comma: "token '',''" by (simp add: token_def printable_def byte_def)

lemma deps_token: "ds \<noteq> [] \<Longrightarrow> list_all dep_name ds \<Longrightarrow> token (Join '','' (ds @ [[]]))"
proof (induction ds)
  case (Cons d ds)
  have d: "token d" using Cons.prems by (simp add: dep_name_def)
  have "token (Join '','' (ds @ [[]])) \<or> ds = []" using Cons by auto
  then show ?case using d token_comma by (cases ds) (auto simp: token_def)
qed simp

lemma deps_split:
  "list_all dep_name ds \<Longrightarrow> filter (\<lambda>d. d \<noteq> []) (map TrimSpace (split_char (CHR '','') (Join '','' (ds @ [[]])))) = ds"
proof -
  assume ok: "list_all dep_name ds"
  then have "split_char (CHR '','') (Join '','' (ds @ [[]])) = ds @ [[]]"
    by (intro split_char_Join) (auto simp: list_all_iff dep_name_def)
  moreover have "map TrimSpace ds = ds" "filter (\<lambda>d. d \<noteq> []) ds = ds"
    using ok by (induction ds) (auto simp: dep_name_def)
  ultimately show ?thesis by simp
qed

lemma deps_not_dash: "ds \<noteq> [] \<Longrightarrow> list_all dep_name ds \<Longrightarrow> Join '','' (ds @ [[]]) \<noteq> ''-''"
proof
  assume ne: "ds \<noteq> []" and "Join '','' (ds @ [[]]) = ''-''"
  moreover have "CHR '','' \<in> set (Join '','' (ds @ [[]]))" using ne by (subst Join_append) simp_all
  ultimately show False by simp
qed

lemma module_words:
  "real_module m \<Longrightarrow> Fields (print_module m) =
     [km_Name m, show_int (km_Size m), show_int (RefCount m),
      (if Deps m = [] then ''-'' else Join '','' (Deps m @ [[]])), ''Live'', ''0x0000000000000000'']"
proof -
  assume ok: "real_module m"
  have "token ''-''" "token ''Live''" "token ''0x0000000000000000''"
    by (simp_all add: token_def printable_def byte_def)
  with ok deps_token [of "Deps m"] show ?thesis
    unfolding print_module_def by (intro Fields_Join) (auto simp: real_module_def)
qed

interpretation modules_text: line_printer "\<lambda>data. List.map_filter module_line (lines_of data)" module_line
  print_module real_module
proof unfold_locales
  fix m assume ok: "real_module m"
  have tok: "token ''-''" "token ''Live''" "token ''0x0000000000000000''"
    by (simp_all add: token_def printable_def byte_def)
  have ts: "token t" if "t \<in> set [km_Name m, show_int (km_Size m), show_int (RefCount m),
      (if Deps m = [] then ''-'' else Join '','' (Deps m @ [[]])), ''Live'', ''0x0000000000000000'']" for t
    using that ok tok deps_token [of "Deps m"] by (auto simp: real_module_def)
  have trim: "TrimSpace (print_module m) = print_module m"
    unfolding print_module_def by (rule TrimSpace_Join) (use ts in auto)
  show "nl \<notin> set (print_module m)"
    unfolding print_module_def by (rule Join_tokens_no_nl) (use ts in auto)
  have ne: "print_module m \<noteq> []" using module_words [OF ok] by auto
  show "module_line (print_module m) = Some m"
  proof (cases "Deps m = []")
    case True
    then show ?thesis using ok ne
      by (simp add: module_line_def trim module_words [OF ok] Atoi_def real_module_def)
  next
    case False
    then show ?thesis using ok ne deps_not_dash [of "Deps m"] deps_split [of "Deps m"]
      by (simp add: module_line_def trim module_words [OF ok] Atoi_def real_module_def Let_def)
  qed
qed

section \<open>Properties\<close>

text \<open>
  C9. The values of sensitive variables do not leak: two environments that differ only in them
  get the same answer, for any sort, when there is no search, or the names match it, or the
  values have no equals sign.
\<close>

theorem environment_noninterference:
  assumes "list_all2 (same_public w search) (w_environ w) es"
  shows "GatherEnvironmentVariables srt w search = GatherEnvironmentVariables srt (w\<lparr>w_environ := es\<rparr>) search"
proof -
  have "list_all2 (\<lambda>e e'. env_scan w search [] e = env_scan w search [] e') (w_environ w) es"
    using assms by (rule list_all2_mono) (rule same_public_scan)
  then have "List.map_filter (env_scan w search []) (w_environ w) = List.map_filter (env_scan w search []) es"
    by (rule map_filter_all2)
  moreover have "env_scan (w\<lparr>w_environ := es\<rparr>) search [] = env_scan w search []" by (simp add: fun_eq_iff)
  ultimately show ?thesis by (simp add: GatherEnvironmentVariables_def)
qed

theorem environment_noninterference_witness:
  "GatherEnvironmentVariables insertion_sort (broken_world\<lparr>w_environ := [''A=1'', ''MY_TOKEN=abc'']\<rparr>) [] =
   GatherEnvironmentVariables insertion_sort
     (broken_world\<lparr>w_environ := [''A=1'', ''MY_TOKEN=abc'']\<rparr>\<lparr>w_environ := [''A=1'', ''MY_TOKEN=z=z'']\<rparr>) []"
proof (rule environment_noninterference)
  let ?w = "broken_world\<lparr>w_environ := [''A=1'', ''MY_TOKEN=abc'']\<rparr>"
  have "isSensitiveEnvVar ?w ''MY_TOKEN''" by code_simp
  then have "same_public ?w [] ''MY_TOKEN=abc'' ''MY_TOKEN=z=z''"
    unfolding same_public_def
    by (intro disjI2 exI [of _ "''MY_TOKEN''"] exI [of _ "''abc''"] exI [of _ "''z=z''"]) simp
  moreover have "same_public ?w [] ''A=1'' ''A=1''" by (simp add: same_public_def)
  ultimately show "list_all2 (same_public ?w []) (w_environ ?w) [''A=1'', ''MY_TOKEN=z=z'']" by simp
qed

text \<open>
  The modules of a text in the format of /proc/modules are read back exactly: names, sizes,
  reference counts and the modules that use each.
\<close>

theorem kernel_modules_roundtrip:
  assumes "ms \<noteq> []" "\<And>m. m \<in> set ms \<Longrightarrow> real_module m"
    "w_read w ''/proc/modules'' = Inr (Join [nl] (map print_module ms))"
  shows "GatherKernelModules w = (Some \<lparr>Errors = [], Modules = ms, km_Total = int (length ms)\<rparr>, None)"
  using modules_text.parse_print [OF assms(1,2)] assms(3) by (simp add: GatherKernelModules_def)

theorem kernel_modules_roundtrip_witness:
  "GatherKernelModules (broken_world\<lparr>w_read := \<lambda>_. Inr (Join [nl] (map print_module
      [\<lparr>km_Name = ''nf'', km_Size = 5, UsedBy = 1, RefCount = 2, Deps = [''ip'']\<rparr>]))\<rparr>) =
   (Some \<lparr>Errors = [], Modules = [\<lparr>km_Name = ''nf'', km_Size = 5, UsedBy = 1, RefCount = 2, Deps = [''ip'']\<rparr>],
          km_Total = int (length [\<lparr>km_Name = ''nf'', km_Size = 5, UsedBy = 1, RefCount = 2, Deps = [''ip'']\<rparr>])\<rparr>, None)"
  by (rule kernel_modules_roundtrip)
    (simp_all add: real_module_def dep_name_def token_def printable_def byte_def)

end
