(* ===== verification/Docker.thy ===== *)
theory Docker
  imports Handler GoFloat
begin

text \<open>
  tools/docker.go. The daemon is a parameter: the record \<open>docker\<close> holds what each call of the
  client answers, the record types of the answers hold the fields the code reads. A map is a
  partial function; where the code ranges over a map to build a list the order is a parameter.
  The statistics of several containers, which the code gathers concurrently, are in DockerStats.
\<close>

section \<open>The daemon\<close>

type_synonym labels = "(string \<rightharpoonup> string) option"

record container_summary =
  sm_ID :: string
  sm_Names :: "string list"
  sm_Image :: string
  sm_Status :: string

record image_summary =
  is_ID :: string
  is_RepoTags :: "string list"
  is_Size :: int64

text \<open>
  A value of type \<open>any\<close>. \<open>DNamed\<close> is a value of a named string type, which is not a \<open>string\<close>
  for a type assertion; which of the two the status of a container is, the library declares.
\<close>

datatype dyn = DString string | DNamed string | DBool bool | DInt int

record container_state =
  cst_Status :: dyn
  cst_Running :: bool
  cst_Paused :: bool
  cst_Restarting :: bool
  cst_ExitCode :: int
  cst_StartedAt :: string
  cst_FinishedAt :: string

text \<open>Addresses and ports as their \<open>String\<close> methods print them.\<close>

record endpoint =
  ep_IPAddress :: string
  ep_IPPrefixLen :: int
  ep_Gateway :: string
  ep_MacAddress :: string

record DockerContainerMount =
  dm_Type :: string
  dm_Source :: string
  dm_Destination :: string
  dm_Mode :: string
  dm_RW :: bool

record container_inspect =
  ci_ID :: string
  ci_Name :: string
  ci_Image :: string
  ci_Created :: string
  ci_Path :: string
  ci_Args :: "string list"
  ci_State :: "container_state option"
  ci_Networks :: "((string \<rightharpoonup> endpoint) \<times> (string \<rightharpoonup> (string \<times> string) list)) option"
  ci_Mounts :: "DockerContainerMount list"
  ci_Env :: "string list option option"

text \<open>The part of the statistics the code decodes.\<close>

record stats_body =
  sb_TotalUsage :: uint64
  sb_SystemUsage :: uint64
  sb_OnlineCPUs :: "32 word"
  sb_PreTotalUsage :: uint64
  sb_PreSystemUsage :: uint64
  sb_MemUsage :: uint64
  sb_MemLimit :: uint64
  sb_PidsCurrent :: uint64
  sb_Blkio :: "(string \<times> uint64) list"
  sb_Networks :: "string \<rightharpoonup> uint64 \<times> uint64 \<times> uint64 \<times> uint64"

record history_item =
  hs_ID :: string
  hs_Created :: int64
  hs_CreatedBy :: string
  hs_Size :: int64
  hs_Tags :: "string list"
  hs_Comment :: string

record image_inspect =
  ii_ID :: string
  ii_RepoTags :: "string list option"
  ii_RepoDigests :: "string list option"
  ii_Created :: string
  ii_Author :: string
  ii_Architecture :: string
  ii_Os :: string
  ii_Size :: int64
  ii_Config :: "(string list option \<times> string list \<times> string list \<times> string \<times> labels) option"
  ii_Layers :: "string list"

record network_summary =
  nw_ID :: string
  nw_Name :: string
  nw_Driver :: string
  nw_Scope :: string
  nw_Attachable :: bool
  nw_Internal :: bool
  nw_Ingress :: bool
  nw_EnableIPv6 :: bool
  nw_Labels :: labels

record volume_summary =
  vo_Name :: string
  vo_Driver :: string
  vo_Mountpoint :: string
  vo_Scope :: string
  vo_CreatedAt :: string
  vo_UsageSize :: "int64 option"
  vo_Labels :: labels

record daemon_info =
  di_ID :: string
  di_ServerVersion :: string
  di_Architecture :: string
  di_OSType :: string
  di_OperatingSystem :: string
  di_KernelVersion :: string
  di_NCPU :: int
  di_MemTotal :: int64
  di_Driver :: string
  di_LoggingDriver :: string
  di_CgroupDriver :: string
  di_CgroupVersion :: string
  di_DefaultRuntime :: string
  di_Runtimes :: "string \<rightharpoonup> unit"
  di_Containers :: int
  di_ContainersRunning :: int
  di_ContainersPaused :: int
  di_ContainersStopped :: int
  di_Images :: int
  di_DockerRootDir :: string
  di_SecurityOptions :: "string list"
  di_NodeID :: string
  di_ControlAvailable :: bool
  di_LocalNodeState :: dyn

record usage_part =
  up_Active :: int64
  up_Total :: int64
  up_Reclaimable :: int64
  up_Size :: int64

record docker =
  dk_new :: "goerr option"
  dk_containers :: "bool \<Rightarrow> goerr + container_summary list"
  dk_images :: "goerr + image_summary list"
  dk_inspect :: "string \<Rightarrow> goerr + container_inspect"
  dk_logs :: "string \<Rightarrow> bool \<Rightarrow> string \<Rightarrow> goerr + string"
  dk_stats :: "string \<Rightarrow> goerr + string"
  dk_decode :: "string \<Rightarrow> goerr + stats_body"
  dk_top :: "string \<Rightarrow> string list \<Rightarrow> goerr + string list option \<times> string list list option"
  dk_diff :: "string \<Rightarrow> goerr + (nat \<times> string) list"
  dk_history :: "string \<Rightarrow> goerr + history_item list"
  dk_image :: "string \<Rightarrow> goerr + image_inspect"
  dk_networks :: "goerr + network_summary list"
  dk_volumes :: "goerr + volume_summary list"
  dk_info :: "goerr + daemon_info"
  dk_usage :: "goerr + usage_part \<times> usage_part \<times> usage_part \<times> usage_part"

definition withDockerClient :: "docker \<Rightarrow> (docker \<Rightarrow> goerr + 'a) \<Rightarrow> goerr + 'a" where
  "withDockerClient d fn = (case dk_new d of Some e \<Rightarrow> Inl e | None \<Rightarrow> fn d)"

text \<open>A pointer with an error, as the gather functions return it.\<close>

definition pointer :: "goerr + 'a \<Rightarrow> 'a result" where
  "pointer r = (case r of Inl e \<Rightarrow> (None, Some e) | Inr x \<Rightarrow> (Some x, None))"

definition human :: "int64 \<Rightarrow> string" where
  "human n = the (HumanSize n)"

section \<open>Containers and images\<close>

record DockerContainer =
  dc_ID :: string
  dc_Name :: string
  dc_Image :: string
  dc_Status :: string

record DockerImage =
  im_Repository :: string
  im_Tag :: string
  im_ID :: string
  im_Size :: string

record DockerInfoOutput = OutputErrors +
  dk_Containers :: "DockerContainer list"
  dk_Images :: "DockerImage list"

definition container_name :: "container_summary \<Rightarrow> string" where
  "container_name c = (case sm_Names c of [] \<Rightarrow> [] | n # _ \<Rightarrow> TrimPrefix n ''/'')"

definition ListDockerContainers :: "docker \<Rightarrow> goerr + DockerContainer list" where
  "ListDockerContainers d =
     withDockerClient d (\<lambda>cli.
       case dk_containers cli True of
         Inl e \<Rightarrow> Inl e
       | Inr items \<Rightarrow>
           Inr (map (\<lambda>c. \<lparr>dc_ID = shortID (sm_ID c), dc_Name = container_name c, dc_Image = sm_Image c,
                          dc_Status = sm_Status c\<rparr>) items))"

definition repo_tag :: "string list \<Rightarrow> string \<times> string" where
  "repo_tag tags =
     (case tags of
        [] \<Rightarrow> (''<none>'', ''<none>'')
      | t # _ \<Rightarrow>
          (case LastIndex t '':'' of None \<Rightarrow> (t, ''<none>'') | Some i \<Rightarrow> (take i t, drop (Suc i) t)))"

definition ListDockerImages :: "docker \<Rightarrow> goerr + DockerImage list" where
  "ListDockerImages d =
     withDockerClient d (\<lambda>cli.
       case dk_images cli of
         Inl e \<Rightarrow> Inl e
       | Inr items \<Rightarrow>
           Inr (map (\<lambda>img. case repo_tag (is_RepoTags img) of
                        (repo, tag) \<Rightarrow> \<lparr>im_Repository = repo, im_Tag = tag, im_ID = shortID (is_ID img),
                                        im_Size = human (is_Size img)\<rparr>) items))"

definition GatherDockerInfo :: "docker \<Rightarrow> DockerInfoOutput result" where
  "GatherDockerInfo d =
     (case ListDockerContainers d of
        Inl e \<Rightarrow> (None, Some e)
      | Inr containers \<Rightarrow>
          (case ListDockerImages d of
             Inl e \<Rightarrow> (None, Some e)
           | Inr images \<Rightarrow> (Some \<lparr>Errors = [], dk_Containers = containers, dk_Images = images\<rparr>, None)))"

definition HandleGetDockerInfo ::
  "(nat \<Rightarrow> nat \<Rightarrow> nat \<Rightarrow> nat) \<Rightarrow> cfg_state \<Rightarrow> int \<Rightarrow> int \<Rightarrow> ctx \<Rightarrow> docker \<Rightarrow> DockerInfoOutput result \<times> log_event list" where
  "HandleGetDockerInfo fr s now dur c d =
     run_tool fr s now dur c ToolNameGetDockerInfo 0 (\<lambda>_. GatherDockerInfo d)"

section \<open>One container\<close>

record DockerContainerDetail =
  cd_ID :: string
  cd_Name :: string
  cd_Image :: string
  cd_Created :: string
  cd_State :: "string \<rightharpoonup> dyn"
  cd_Status :: string
  cd_Path :: string
  cd_Args :: "string list"
  cd_Env :: "string list"
  cd_Mounts :: "DockerContainerMount list"
  cd_Network :: "string \<rightharpoonup> (string \<rightharpoonup> string)"
  cd_Ports :: "string \<rightharpoonup> string list option"

record DockerContainerDetailOutput = OutputErrors +
  Container :: DockerContainerDetail

definition state_map :: "container_state option \<Rightarrow> (string \<rightharpoonup> dyn)" where
  "state_map st =
     (case st of
        None \<Rightarrow> Map.empty
      | Some s \<Rightarrow>
          [''status'' \<mapsto> cst_Status s, ''running'' \<mapsto> DBool (cst_Running s), ''paused'' \<mapsto> DBool (cst_Paused s),
           ''restarting'' \<mapsto> DBool (cst_Restarting s), ''exit_code'' \<mapsto> DInt (cst_ExitCode s),
           ''started_at'' \<mapsto> DString (cst_StartedAt s), ''finished_at'' \<mapsto> DString (cst_FinishedAt s)])"

definition endpoint_map :: "endpoint \<Rightarrow> (string \<rightharpoonup> string)" where
  "endpoint_map ep =
     [''ip_address'' \<mapsto> ep_IPAddress ep, ''ip_prefix_len'' \<mapsto> show_int (ep_IPPrefixLen ep),
      ''gateway'' \<mapsto> ep_Gateway ep, ''mac_address'' \<mapsto> ep_MacAddress ep]"

text \<open>A port without bindings has a nil slice.\<close>

definition port_bindings :: "(string \<times> string) list \<Rightarrow> string list option" where
  "port_bindings bs = (if bs = [] then None else Some (map (\<lambda>(ip, port). ip @ '':'' @ port) bs))"

definition container_detail :: "container_inspect \<Rightarrow> DockerContainerDetail" where
  "container_detail c =
     (let state = state_map (ci_State c) in
      \<lparr>cd_ID = shortID (ci_ID c), cd_Name = TrimPrefix (ci_Name c) ''/'', cd_Image = ci_Image c,
       cd_Created = ci_Created c, cd_State = state,
       cd_Status = (case state ''status'' of Some (DString v) \<Rightarrow> v | _ \<Rightarrow> []),
       cd_Path = ''***'', cd_Args = [],
       cd_Env = redactSensitiveEnv (case ci_Env c of None \<Rightarrow> None | Some env \<Rightarrow> env),
       cd_Mounts = ci_Mounts c,
       cd_Network = (case ci_Networks c of None \<Rightarrow> Map.empty | Some (nets, _) \<Rightarrow> map_option endpoint_map \<circ> nets),
       cd_Ports = (case ci_Networks c of None \<Rightarrow> Map.empty | Some (_, ports) \<Rightarrow> map_option port_bindings \<circ> ports)\<rparr>)"

definition GatherContainerDetail :: "docker \<Rightarrow> string \<Rightarrow> DockerContainerDetailOutput result" where
  "GatherContainerDetail d containerID =
     pointer (withDockerClient d (\<lambda>cli.
       case dk_inspect cli containerID of
         Inl e \<Rightarrow> Inl e
       | Inr c \<Rightarrow> Inr \<lparr>Errors = [], Container = container_detail c\<rparr>))"

definition HandleGetContainerDetail ::
  "(nat \<Rightarrow> nat \<Rightarrow> nat \<Rightarrow> nat) \<Rightarrow> cfg_state \<Rightarrow> int \<Rightarrow> int \<Rightarrow> ctx \<Rightarrow> docker \<Rightarrow> string \<Rightarrow>
   DockerContainerDetailOutput result \<times> log_event list" where
  "HandleGetContainerDetail fr s now dur c d containerID =
     (case requireField containerID ''container_id'' of
        Some e \<Rightarrow> ((None, Some e), [])
      | None \<Rightarrow> run_tool fr s now dur c ToolNameGetDockerContainerDetails 0 (\<lambda>_. GatherContainerDetail d containerID))"

record DockerContainerLogsOutput = OutputErrors +
  Logs :: "string list"

definition GatherContainerLogs :: "docker \<Rightarrow> string \<Rightarrow> int \<Rightarrow> bool \<Rightarrow> DockerContainerLogsOutput result" where
  "GatherContainerLogs d containerID tail timestamps =
     pointer (withDockerClient d (\<lambda>cli.
       case dk_logs cli containerID timestamps (show_int tail) of
         Inl e \<Rightarrow> Inl e
       | Inr stream \<Rightarrow>
           (case scan_lines_max (2 ^ 20) stream of
              (_, Some e) \<Rightarrow> Inl e
            | (ls, None) \<Rightarrow> Inr \<lparr>Errors = [], Logs = ls\<rparr>)))"

definition HandleGetContainerLogs ::
  "(nat \<Rightarrow> nat \<Rightarrow> nat \<Rightarrow> nat) \<Rightarrow> cfg_state \<Rightarrow> int \<Rightarrow> int \<Rightarrow> ctx \<Rightarrow> docker \<Rightarrow> string \<Rightarrow> int \<Rightarrow> bool \<Rightarrow>
   DockerContainerLogsOutput result \<times> log_event list" where
  "HandleGetContainerLogs fr s now dur c d containerID tail timestamps =
     (case requireField containerID ''container_id'' of
        Some e \<Rightarrow> ((None, Some e), [])
      | None \<Rightarrow>
          run_tool fr s now dur c ToolNameGetDockerContainerLogs 0
            (\<lambda>_. GatherContainerLogs d containerID (clampZero tail 100 10000) timestamps))"

record DockerContainerTopOutput = OutputErrors +
  Titles :: "string list"
  TopProcesses :: "string list list"

definition GatherContainerTop :: "docker \<Rightarrow> string \<Rightarrow> string list \<Rightarrow> DockerContainerTopOutput result" where
  "GatherContainerTop d containerID ignored =
     pointer (withDockerClient d (\<lambda>cli.
       case dk_top cli containerID [''-eo'', ''pid,ppid,user,stat,comm''] of
         Inl e \<Rightarrow> Inl e
       | Inr (titles, procs) \<Rightarrow>
           Inr \<lparr>Errors = [], Titles = nilToEmpty titles, TopProcesses = nilToEmpty procs\<rparr>))"

definition HandleGetContainerTop ::
  "(nat \<Rightarrow> nat \<Rightarrow> nat \<Rightarrow> nat) \<Rightarrow> cfg_state \<Rightarrow> int \<Rightarrow> int \<Rightarrow> ctx \<Rightarrow> docker \<Rightarrow> string \<Rightarrow> string list \<Rightarrow>
   DockerContainerTopOutput result \<times> log_event list" where
  "HandleGetContainerTop fr s now dur c d containerID args =
     (case requireField containerID ''container_id'' of
        Some e \<Rightarrow> ((None, Some e), [])
      | None \<Rightarrow> run_tool fr s now dur c ToolNameGetDockerContainerTop 0 (\<lambda>_. GatherContainerTop d containerID args))"

record DockerFileChange =
  fc_Kind :: string
  fc_Path :: string

record DockerContainerDiffOutput = OutputErrors +
  Changes :: "DockerFileChange list"

definition tristateKind :: "nat \<Rightarrow> string" where
  "tristateKind kind =
     (if kind = 0 then ''modified'' else if kind = 1 then ''added'' else if kind = 2 then ''deleted''
      else ''unknown('' @ show_nat kind @ '')'')"

definition GatherContainerDiff :: "docker \<Rightarrow> string \<Rightarrow> DockerContainerDiffOutput result" where
  "GatherContainerDiff d containerID =
     pointer (withDockerClient d (\<lambda>cli.
       case dk_diff cli containerID of
         Inl e \<Rightarrow> Inl e
       | Inr changes \<Rightarrow>
           Inr \<lparr>Errors = [],
                Changes = map (\<lambda>(kind, path). \<lparr>fc_Kind = tristateKind (kind mod 256), fc_Path = path\<rparr>) changes\<rparr>))"

definition HandleGetContainerDiff ::
  "(nat \<Rightarrow> nat \<Rightarrow> nat \<Rightarrow> nat) \<Rightarrow> cfg_state \<Rightarrow> int \<Rightarrow> int \<Rightarrow> ctx \<Rightarrow> docker \<Rightarrow> string \<Rightarrow>
   DockerContainerDiffOutput result \<times> log_event list" where
  "HandleGetContainerDiff fr s now dur c d containerID =
     (case requireField containerID ''container_id'' of
        Some e \<Rightarrow> ((None, Some e), [])
      | None \<Rightarrow> run_tool fr s now dur c ToolNameGetDockerContainerDiff 0 (\<lambda>_. GatherContainerDiff d containerID))"

section \<open>An example\<close>

text \<open>A daemon with one container and one image, whose commands and environment are given.\<close>

definition one_container :: container_inspect where
  "one_container =
     \<lparr>ci_ID = ''0123456789abcdef'', ci_Name = ''/db'', ci_Image = ''db'', ci_Created = [], ci_Path = [], ci_Args = [],
      ci_State = None, ci_Networks = None, ci_Mounts = [], ci_Env = None\<rparr>"

definition one_image :: image_inspect where
  "one_image =
     \<lparr>ii_ID = [], ii_RepoTags = None, ii_RepoDigests = None, ii_Created = [], ii_Author = [], ii_Architecture = [],
      ii_Os = [], ii_Size = 0, ii_Config = None, ii_Layers = []\<rparr>"

definition one_daemon :: "string list \<Rightarrow> docker" where
  "one_daemon env =
     \<lparr>dk_new = None, dk_containers = (\<lambda>_. Inr []), dk_images = Inr [],
      dk_inspect = (\<lambda>_. Inr (one_container\<lparr>ci_Path := concat env, ci_Args := env, ci_Env := Some (Some env)\<rparr>)),
      dk_logs = (\<lambda>_ _ _. Inr []), dk_stats = (\<lambda>_. Inr []), dk_decode = (\<lambda>_. Inl (ErrText ''EOF'')),
      dk_top = (\<lambda>_ _. Inr (None, None)), dk_diff = (\<lambda>_. Inr []), dk_history = (\<lambda>_. Inr []),
      dk_image = (\<lambda>_. Inr (one_image\<lparr>ii_Config := Some (Some env, env, env, [], None)\<rparr>)),
      dk_networks = Inr [], dk_volumes = Inr [], dk_info = Inl (ErrText ''EOF''), dk_usage = Inl (ErrText ''EOF'')\<rparr>"

end
