(* ===== verification/DockerObjects.thy ===== *)
theory DockerObjects
  imports Docker
begin

text \<open>
  The rest of tools/docker.go on the daemon of Docker: image history and details, networks,
  volumes, the daemon's own information and its disk usage.
\<close>

section \<open>Images\<close>

record DockerImageLayer =
  ly_ID :: string
  ly_Created :: int64
  ly_CreatedBy :: string
  ly_Size :: string
  ly_Tags :: "string list"
  ly_Comment :: string

record DockerImageHistoryOutput = OutputErrors +
  Layers :: "DockerImageLayer list"

definition image_layer :: "history_item \<Rightarrow> DockerImageLayer" where
  "image_layer item =
     \<lparr>ly_ID = shortID (hs_ID item), ly_Created = hs_Created item, ly_CreatedBy = ''***'',
      ly_Size = human (hs_Size item), ly_Tags = hs_Tags item, ly_Comment = hs_Comment item\<rparr>"

definition GatherImageHistory :: "docker \<Rightarrow> string \<Rightarrow> DockerImageHistoryOutput result" where
  "GatherImageHistory d imageID =
     pointer (withDockerClient d (\<lambda>cli.
       case dk_history cli imageID of
         Inl e \<Rightarrow> Inl e
       | Inr items \<Rightarrow> Inr \<lparr>Errors = [], Layers = map image_layer items\<rparr>))"

definition HandleGetImageHistory ::
  "(nat \<Rightarrow> nat \<Rightarrow> nat \<Rightarrow> nat) \<Rightarrow> cfg_state \<Rightarrow> int \<Rightarrow> int \<Rightarrow> ctx \<Rightarrow> docker \<Rightarrow> string \<Rightarrow>
   DockerImageHistoryOutput result \<times> log_event list" where
  "HandleGetImageHistory fr s now dur c d imageID =
     (case requireField imageID ''image_id'' of
        Some e \<Rightarrow> ((None, Some e), [])
      | None \<Rightarrow> run_tool fr s now dur c ToolNameGetDockerImageHistory 0 (\<lambda>_. GatherImageHistory d imageID))"

record DockerImageDetail =
  id_ID :: string
  id_RepoTags :: "string list"
  id_RepoDigests :: "string list"
  id_Created :: string
  id_Author :: string
  id_Architecture :: string
  id_OS :: string
  id_Size :: string
  id_Entrypoint :: "string list"
  id_Cmd :: "string list"
  id_Env :: "string list"
  id_WorkingDir :: string
  id_Labels :: labels
  id_Layers :: "string list"

record DockerImageDetailOutput = OutputErrors +
  Image :: DockerImageDetail

text \<open>The configuration of an image: environment, entrypoint, command, working directory, labels.\<close>

definition image_detail :: "image_inspect \<Rightarrow> DockerImageDetail" where
  "image_detail r =
     (let (env, dir, lab) = (case ii_Config r of None \<Rightarrow> (None, [], None) | Some (e, _, _, wd, lb) \<Rightarrow> (e, wd, lb))
      in \<lparr>id_ID = shortID (ii_ID r), id_RepoTags = nilToEmpty (ii_RepoTags r),
          id_RepoDigests = nilToEmpty (ii_RepoDigests r), id_Created = ii_Created r, id_Author = ii_Author r,
          id_Architecture = ii_Architecture r, id_OS = ii_Os r, id_Size = human (ii_Size r),
          id_Entrypoint = [], id_Cmd = [], id_Env = redactSensitiveEnv env, id_WorkingDir = dir,
          id_Labels = lab, id_Layers = ii_Layers r\<rparr>)"

definition GatherImageDetail :: "docker \<Rightarrow> string \<Rightarrow> DockerImageDetailOutput result" where
  "GatherImageDetail d imageID =
     pointer (withDockerClient d (\<lambda>cli.
       case dk_image cli imageID of
         Inl e \<Rightarrow> Inl e
       | Inr r \<Rightarrow> Inr \<lparr>Errors = [], Image = image_detail r\<rparr>))"

definition HandleGetImageDetail ::
  "(nat \<Rightarrow> nat \<Rightarrow> nat \<Rightarrow> nat) \<Rightarrow> cfg_state \<Rightarrow> int \<Rightarrow> int \<Rightarrow> ctx \<Rightarrow> docker \<Rightarrow> string \<Rightarrow>
   DockerImageDetailOutput result \<times> log_event list" where
  "HandleGetImageDetail fr s now dur c d imageID =
     (case requireField imageID ''image_id'' of
        Some e \<Rightarrow> ((None, Some e), [])
      | None \<Rightarrow> run_tool fr s now dur c ToolNameGetDockerImageDetails 0 (\<lambda>_. GatherImageDetail d imageID))"

section \<open>Networks and volumes\<close>

record DockerNetworkSummary =
  dn_ID :: string
  dn_Name :: string
  dn_Driver :: string
  dn_Scope :: string
  dn_Attachable :: bool
  dn_Internal :: bool
  dn_Ingress :: bool
  dn_IPv6 :: bool
  dn_Labels :: labels

record DockerNetworksOutput = OutputErrors +
  dn_Networks :: "DockerNetworkSummary list"

definition docker_network :: "network_summary \<Rightarrow> DockerNetworkSummary" where
  "docker_network n =
     \<lparr>dn_ID = shortID (nw_ID n), dn_Name = nw_Name n, dn_Driver = nw_Driver n, dn_Scope = nw_Scope n,
      dn_Attachable = nw_Attachable n, dn_Internal = nw_Internal n, dn_Ingress = nw_Ingress n,
      dn_IPv6 = nw_EnableIPv6 n, dn_Labels = nw_Labels n\<rparr>"

definition GatherDockerNetworks :: "docker \<Rightarrow> DockerNetworksOutput result" where
  "GatherDockerNetworks d =
     pointer (withDockerClient d (\<lambda>cli.
       case dk_networks cli of
         Inl e \<Rightarrow> Inl e
       | Inr items \<Rightarrow> Inr \<lparr>Errors = [], dn_Networks = map docker_network items\<rparr>))"

definition HandleGetDockerNetworks ::
  "(nat \<Rightarrow> nat \<Rightarrow> nat \<Rightarrow> nat) \<Rightarrow> cfg_state \<Rightarrow> int \<Rightarrow> int \<Rightarrow> ctx \<Rightarrow> docker \<Rightarrow> DockerNetworksOutput result \<times> log_event list" where
  "HandleGetDockerNetworks fr s now dur c d =
     run_tool fr s now dur c ToolNameGetDockerNetworks 0 (\<lambda>_. GatherDockerNetworks d)"

record DockerVolumeSummary =
  dv_Name :: string
  dv_Driver :: string
  dv_Mountpoint :: string
  dv_Scope :: string
  dv_CreatedAt :: string
  dv_Size :: string
  dv_Labels :: labels

record DockerVolumesOutput = OutputErrors +
  Volumes :: "DockerVolumeSummary list"

definition docker_volume :: "volume_summary \<Rightarrow> DockerVolumeSummary" where
  "docker_volume v =
     \<lparr>dv_Name = vo_Name v, dv_Driver = vo_Driver v, dv_Mountpoint = vo_Mountpoint v, dv_Scope = vo_Scope v,
      dv_CreatedAt = vo_CreatedAt v, dv_Size = (case vo_UsageSize v of None \<Rightarrow> [] | Some n \<Rightarrow> human n),
      dv_Labels = vo_Labels v\<rparr>"

definition GatherDockerVolumes :: "docker \<Rightarrow> DockerVolumesOutput result" where
  "GatherDockerVolumes d =
     pointer (withDockerClient d (\<lambda>cli.
       case dk_volumes cli of
         Inl e \<Rightarrow> Inl e
       | Inr items \<Rightarrow> Inr \<lparr>Errors = [], Volumes = map docker_volume items\<rparr>))"

definition HandleGetDockerVolumes ::
  "(nat \<Rightarrow> nat \<Rightarrow> nat \<Rightarrow> nat) \<Rightarrow> cfg_state \<Rightarrow> int \<Rightarrow> int \<Rightarrow> ctx \<Rightarrow> docker \<Rightarrow> DockerVolumesOutput result \<times> log_event list" where
  "HandleGetDockerVolumes fr s now dur c d =
     run_tool fr s now dur c ToolNameGetDockerVolumes 0 (\<lambda>_. GatherDockerVolumes d)"

section \<open>The daemon itself\<close>

record DockerSystemInfoSummary =
  dsi_ID :: string
  dsi_ServerVersion :: string
  dsi_Architecture :: string
  dsi_OSType :: string
  dsi_OperatingSystem :: string
  dsi_KernelVersion :: string
  dsi_NCPU :: int
  dsi_MemTotal :: string
  dsi_Driver :: string
  dsi_LoggingDriver :: string
  dsi_CgroupDriver :: string
  dsi_CgroupVersion :: string
  dsi_DefaultRuntime :: string
  dsi_Runtimes :: "string list"
  dsi_ContainersTotal :: int
  dsi_ContainersRunning :: int
  dsi_ContainersPaused :: int
  dsi_ContainersStopped :: int
  dsi_ImagesTotal :: int
  dsi_DockerRootDir :: string
  dsi_SecurityOptions :: "string list"
  dsi_Swarm :: "string \<rightharpoonup> dyn"

record DockerSystemInfoOutput = OutputErrors +
  Info :: DockerSystemInfoSummary

definition daemon_summary :: "((string \<rightharpoonup> unit) \<Rightarrow> string list) \<Rightarrow> daemon_info \<Rightarrow> DockerSystemInfoSummary" where
  "daemon_summary enum i =
     \<lparr>dsi_ID = shortID (di_ID i), dsi_ServerVersion = di_ServerVersion i, dsi_Architecture = di_Architecture i,
      dsi_OSType = di_OSType i, dsi_OperatingSystem = di_OperatingSystem i, dsi_KernelVersion = di_KernelVersion i,
      dsi_NCPU = di_NCPU i, dsi_MemTotal = human (di_MemTotal i), dsi_Driver = di_Driver i,
      dsi_LoggingDriver = di_LoggingDriver i, dsi_CgroupDriver = di_CgroupDriver i,
      dsi_CgroupVersion = di_CgroupVersion i, dsi_DefaultRuntime = di_DefaultRuntime i,
      dsi_Runtimes = enum (di_Runtimes i), dsi_ContainersTotal = di_Containers i,
      dsi_ContainersRunning = di_ContainersRunning i, dsi_ContainersPaused = di_ContainersPaused i,
      dsi_ContainersStopped = di_ContainersStopped i, dsi_ImagesTotal = di_Images i,
      dsi_DockerRootDir = di_DockerRootDir i, dsi_SecurityOptions = di_SecurityOptions i,
      dsi_Swarm = [''node_id'' \<mapsto> DString (di_NodeID i), ''control_available'' \<mapsto> DBool (di_ControlAvailable i),
                   ''local_node_state'' \<mapsto> di_LocalNodeState i]\<rparr>"

definition GatherDockerSystemInfo :: "((string \<rightharpoonup> unit) \<Rightarrow> string list) \<Rightarrow> docker \<Rightarrow> DockerSystemInfoOutput result" where
  "GatherDockerSystemInfo enum d =
     pointer (withDockerClient d (\<lambda>cli.
       case dk_info cli of Inl e \<Rightarrow> Inl e | Inr i \<Rightarrow> Inr \<lparr>Errors = [], Info = daemon_summary enum i\<rparr>))"

definition HandleGetDockerSystemInfo ::
  "(nat \<Rightarrow> nat \<Rightarrow> nat \<Rightarrow> nat) \<Rightarrow> cfg_state \<Rightarrow> int \<Rightarrow> int \<Rightarrow> ctx \<Rightarrow> ((string \<rightharpoonup> unit) \<Rightarrow> string list) \<Rightarrow> docker \<Rightarrow>
   DockerSystemInfoOutput result \<times> log_event list" where
  "HandleGetDockerSystemInfo fr s now dur c enum d =
     run_tool fr s now dur c ToolNameGetDockerSystemInfo 0 (\<lambda>_. GatherDockerSystemInfo enum d)"

record DockerDiskUsageCategory =
  ActiveCount :: int64
  TotalCount :: int64
  Reclaimable :: string
  TotalSize :: string

record DockerDiskUsageOutput = OutputErrors +
  ug_Containers :: DockerDiskUsageCategory
  ug_Images :: DockerDiskUsageCategory
  ug_Volumes :: DockerDiskUsageCategory
  ug_BuildCache :: DockerDiskUsageCategory

definition usage_category :: "usage_part \<Rightarrow> DockerDiskUsageCategory" where
  "usage_category u =
     \<lparr>ActiveCount = up_Active u, TotalCount = up_Total u, Reclaimable = human (up_Reclaimable u),
      TotalSize = human (up_Size u)\<rparr>"

definition GatherDockerDiskUsage :: "docker \<Rightarrow> DockerDiskUsageOutput result" where
  "GatherDockerDiskUsage d =
     pointer (withDockerClient d (\<lambda>cli.
       case dk_usage cli of
         Inl e \<Rightarrow> Inl e
       | Inr (containers, images, volumes, cache) \<Rightarrow>
           Inr \<lparr>Errors = [], ug_Containers = usage_category containers, ug_Images = usage_category images,
                ug_Volumes = usage_category volumes, ug_BuildCache = usage_category cache\<rparr>))"

definition HandleGetDockerDiskUsage ::
  "(nat \<Rightarrow> nat \<Rightarrow> nat \<Rightarrow> nat) \<Rightarrow> cfg_state \<Rightarrow> int \<Rightarrow> int \<Rightarrow> ctx \<Rightarrow> docker \<Rightarrow> DockerDiskUsageOutput result \<times> log_event list" where
  "HandleGetDockerDiskUsage fr s now dur c d =
     run_tool fr s now dur c ToolNameGetDockerDiskUsage 0 (\<lambda>_. GatherDockerDiskUsage d)"

section \<open>Lemmas\<close>

text \<open>The identifier of an image begins with the name of its digest, which uses seven of the twelve bytes.\<close>

lemma shortID_digest: "length h > 5 \<Longrightarrow> shortID (''sha256:'' @ h) = ''sha256:'' @ take 5 h"
  by (simp add: shortID_def)

text \<open>Repository and tag are the two sides of the last colon, whatever the registry.\<close>

lemma repo_tag_join: "CHR '':'' \<notin> set tag \<Longrightarrow> repo_tag ((repo @ '':'' @ tag) # rest) = (repo, tag)"
  by (simp add: repo_tag_def)

text \<open>The log of a container without a terminal comes in frames, whose header stays in the line.\<close>

lemma log_frame_header:
  "scan_lines_max (2 ^ 20) ([CHR 0x01, CHR 0x00, CHR 0x00, CHR 0x00, CHR 0x00, CHR 0x00, CHR 0x00, CHR 0x03] @ ''hi'' @ [nl]) = ([[CHR 0x01, CHR 0x00, CHR 0x00, CHR 0x00, CHR 0x00, CHR 0x00, CHR 0x00, CHR 0x03] @ ''hi''], None)"
  by (simp add: scan_lines_max_def drop_cr_def byte_def)

section \<open>Properties\<close>

text \<open>
  C3. Nothing of the command line and of the values in the environment of a container or an image
  reaches the answer: the tools give the same answers on two daemons whose containers differ in
  path, arguments and environment values, and whose images differ in entrypoint, command and
  environment values.
\<close>

theorem docker_secrets_hidden:
  assumes "dk_new d = None" "dk_new d' = None"
    "dk_inspect d cid = Inr (ci\<lparr>ci_Path := p, ci_Args := a, ci_Env := Some (Some env)\<rparr>)"
    "dk_inspect d' cid = Inr (ci\<lparr>ci_Path := p', ci_Args := a', ci_Env := Some (Some env')\<rparr>)"
    "dk_image d iid = Inr (ii\<lparr>ii_Config := Some (Some ienv, entry, cmd, wd, lab)\<rparr>)"
    "dk_image d' iid = Inr (ii\<lparr>ii_Config := Some (Some ienv', entry', cmd', wd, lab)\<rparr>)"
    "map env_name env = map env_name env'" "map env_name ienv = map env_name ienv'"
  shows "HandleGetContainerDetail fr s now dur c d cid = HandleGetContainerDetail fr s now dur c d' cid \<and>
         HandleGetImageDetail fr s now dur c d iid = HandleGetImageDetail fr s now dur c d' iid"
proof -
  have "GatherContainerDetail d cid = GatherContainerDetail d' cid"
    using assms(1-4) redact_by_names [OF assms(7)]
    by (simp add: GatherContainerDetail_def withDockerClient_def container_detail_def)
  moreover have "GatherImageDetail d iid = GatherImageDetail d' iid"
    using assms(1,2,5,6) redact_by_names [OF assms(8)]
    by (simp add: GatherImageDetail_def withDockerClient_def image_detail_def)
  ultimately show ?thesis by (simp add: HandleGetContainerDetail_def HandleGetImageDetail_def split: option.split)
qed

lemma env_names: "env_name ''PW=a'' = Some ''PW''" "env_name ''PW=b'' = Some ''PW''"
  by code_simp+

theorem docker_secrets_hidden_witness:
  "HandleGetContainerDetail exact_fraction init_state 0 0 \<lparr>deadline = None\<rparr> (one_daemon [''PW=a'']) ''db'' =
   HandleGetContainerDetail exact_fraction init_state 0 0 \<lparr>deadline = None\<rparr> (one_daemon [''PW=b'']) ''db''"
  by (rule conjunct1 [OF docker_secrets_hidden [where iid = "''db''" and ci = one_container and ii = one_image
        and p = "''PW=a''" and a = "[''PW=a'']" and env = "[''PW=a'']" and p' = "''PW=b''" and a' = "[''PW=b'']"
        and env' = "[''PW=b'']" and ienv = "[''PW=a'']" and ienv' = "[''PW=b'']" and entry = "[''PW=a'']"
        and cmd = "[''PW=a'']" and entry' = "[''PW=b'']" and cmd' = "[''PW=b'']" and wd = "[]" and lab = None]])
    (simp_all add: one_daemon_def env_names)

end
