(* ===== verification/DockerStats.thy ===== *)
theory DockerStats
  imports Docker
begin

text \<open>
  The statistics tool of tools/docker.go: one container, and all running ones (or those that are
  named), whose statistics are gathered by one goroutine each and received over a channel. The
  function takes the order of arrival as a parameter; the step relation at the end models the
  goroutines, the channel and the receiver, and its runs are shown to be exactly what the function
  computes for some order.
\<close>

section \<open>One container\<close>

record DockerContainerStatEntry =
  se_ID :: string
  se_Name :: string
  se_CPUPercent :: f64
  se_MemoryUsage :: uint64
  se_MemoryLimit :: uint64
  se_MemoryPercent :: f64
  se_PIDs :: uint64
  se_Network :: "string \<rightharpoonup> (string \<rightharpoonup> uint64)"
  se_BlockRead :: uint64
  se_BlockWrite :: uint64
  se_Error :: string

record DockerContainerStatsOutput = OutputErrors +
  st_Containers :: "DockerContainerStatEntry list"

text \<open>\<open>float64\<close> of an unsigned integer.\<close>

definition f64_of_word :: "'a::len word \<Rightarrow> f64" where
  "f64_of_word x = f64_round (of_nat (unat x))"

text \<open>The differences are \<open>uint64\<close> and wrap around.\<close>

definition cpu_percent :: "stats_body \<Rightarrow> f64" where
  "cpu_percent b =
     (let cpuDelta = sb_TotalUsage b - sb_PreTotalUsage b; sysDelta = sb_SystemUsage b - sb_PreSystemUsage b
      in if sysDelta > 0 \<and> sb_OnlineCPUs b > 0
         then f64_mul (f64_mul (f64_div (f64_of_word cpuDelta) (f64_of_word sysDelta))
                               (f64_of_word (sb_OnlineCPUs b))) (Fin 100)
         else Fin 0)"

definition mem_percent :: "stats_body \<Rightarrow> f64" where
  "mem_percent b =
     (if sb_MemLimit b > 0
      then f64_mul (f64_div (f64_of_word (sb_MemUsage b)) (f64_of_word (sb_MemLimit b))) (Fin 100)
      else Fin 0)"

definition network_entry :: "uint64 \<times> uint64 \<times> uint64 \<times> uint64 \<Rightarrow> (string \<rightharpoonup> uint64)" where
  "network_entry n =
     (case n of (rb, tb, rp, tp) \<Rightarrow> [''rx_bytes'' \<mapsto> rb, ''tx_bytes'' \<mapsto> tb, ''rx_packets'' \<mapsto> rp, ''tx_packets'' \<mapsto> tp])"

definition blkio_step :: "string \<times> uint64 \<Rightarrow> uint64 \<times> uint64 \<Rightarrow> uint64 \<times> uint64" where
  "blkio_step op acc =
     (case (op, acc) of
        ((name, v), (r, w)) \<Rightarrow>
          if name = ''read'' then (r + v, w) else if name = ''write'' then (r, w + v) else (r, w))"

definition container_stat :: "string \<Rightarrow> stats_body \<Rightarrow> DockerContainerStatEntry" where
  "container_stat containerID b =
     (case fold blkio_step (sb_Blkio b) (0, 0) of
        (blkRead, blkWrite) \<Rightarrow>
          \<lparr>se_ID = shortID containerID, se_Name = [], se_CPUPercent = cpu_percent b, se_MemoryUsage = sb_MemUsage b,
           se_MemoryLimit = sb_MemLimit b, se_MemoryPercent = mem_percent b, se_PIDs = sb_PidsCurrent b,
           se_Network = map_option network_entry \<circ> sb_Networks b, se_BlockRead = blkRead, se_BlockWrite = blkWrite,
           se_Error = []\<rparr>)"

definition GatherContainerStats :: "docker \<Rightarrow> string \<Rightarrow> DockerContainerStatsOutput result" where
  "GatherContainerStats d containerID =
     pointer (withDockerClient d (\<lambda>cli.
       case dk_stats cli containerID of
         Inl e \<Rightarrow> Inl e
       | Inr body \<Rightarrow>
           (case dk_decode cli body of
              Inl e \<Rightarrow> Inl e
            | Inr b \<Rightarrow> Inr \<lparr>Errors = [], st_Containers = [container_stat containerID b]\<rparr>)))"

section \<open>All containers\<close>

text \<open>The output type has the fields of the one above, to which the code converts it.\<close>

type_synonym DockerStatsAllOutput = DockerContainerStatsOutput

record stats_target =
  tg_id :: string
  tg_name :: string

record statResult =
  sr_id :: string
  sr_name :: string
  sr_outcome :: "goerr + DockerContainerStatEntry"

definition stats_targets :: "string list \<Rightarrow> container_summary list \<Rightarrow> stats_target list" where
  "stats_targets containers items =
     List.map_filter
       (\<lambda>c. let name = container_name c; sid = shortID (sm_ID c)
            in if set containers \<noteq> {} \<and> sm_ID c \<notin> set containers \<and> sid \<notin> set containers \<and> name \<notin> set containers
               then None else Some \<lparr>tg_id = sm_ID c, tg_name = name\<rparr>)
       items"

text \<open>
  What a goroutine sends: nothing when its gather function returns no error and no container.
\<close>

definition stats_send :: "docker \<Rightarrow> stats_target \<Rightarrow> statResult option" where
  "stats_send d t =
     (case GatherContainerStats d (tg_id t) of
        (_, Some e) \<Rightarrow> Some \<lparr>sr_id = tg_id t, sr_name = tg_name t, sr_outcome = Inl e\<rparr>
      | (out, None) \<Rightarrow>
          (case st_Containers (the out) of
             [] \<Rightarrow> None
           | e # _ \<Rightarrow> Some \<lparr>sr_id = tg_id t, sr_name = tg_name t, sr_outcome = Inr e\<rparr>))"

text \<open>What the receiver appends for a result: an entry, and an error when there is one.\<close>

definition empty_entry :: "string \<Rightarrow> string \<Rightarrow> DockerContainerStatEntry" where
  "empty_entry sid name =
     \<lparr>se_ID = sid, se_Name = name, se_CPUPercent = Fin 0, se_MemoryUsage = 0, se_MemoryLimit = 0,
      se_MemoryPercent = Fin 0, se_PIDs = 0, se_Network = Map.empty, se_BlockRead = 0, se_BlockWrite = 0,
      se_Error = []\<rparr>"

definition receive_entry :: "statResult \<Rightarrow> DockerContainerStatEntry" where
  "receive_entry r =
     (let sid = shortID (sr_id r) in
      case sr_outcome r of
        Inl e \<Rightarrow> (empty_entry sid (sr_name r))\<lparr>se_Error := err_text e\<rparr>
      | Inr e \<Rightarrow> e\<lparr>se_ID := sid, se_Name := sr_name r, se_Error := []\<rparr>)"

definition receive_error :: "statResult \<Rightarrow> string list" where
  "receive_error r =
     (case sr_outcome r of
        Inl e \<Rightarrow> [sr_name r @ '' ('' @ shortID (sr_id r) @ ''): '' @ err_text e]
      | Inr _ \<Rightarrow> [])"

definition stats_answer :: "statResult list \<Rightarrow> DockerStatsAllOutput" where
  "stats_answer rs = \<lparr>Errors = concat (map receive_error rs), st_Containers = map receive_entry rs\<rparr>"

text \<open>
  The results in the order of their arrival, a parameter. The receiver waits for one result per
  target: \<open>None\<close> is waiting for ever.
\<close>

definition GatherDockerStatsAll ::
  "(statResult list \<Rightarrow> statResult list) \<Rightarrow> docker \<Rightarrow> string list \<Rightarrow> DockerStatsAllOutput result option" where
  "GatherDockerStatsAll arrive d containers =
     (case withDockerClient d (\<lambda>cli. dk_containers cli False) of
        Inl e \<Rightarrow> Some (None, Some e)
      | Inr items \<Rightarrow>
          (let sent = List.map_filter (stats_send d) (stats_targets containers items)
           in if length sent = length (stats_targets containers items)
              then Some (Some (stats_answer (arrive sent)), None) else None))"

definition HandleGetContainerStats ::
  "(nat \<Rightarrow> nat \<Rightarrow> nat \<Rightarrow> nat) \<Rightarrow> cfg_state \<Rightarrow> int \<Rightarrow> int \<Rightarrow> ctx \<Rightarrow> (statResult list \<Rightarrow> statResult list) \<Rightarrow> docker \<Rightarrow>
   string \<Rightarrow> (DockerContainerStatsOutput result \<times> log_event list) option" where
  "HandleGetContainerStats fr s now dur c arrive d containerIDs =
     (let run = run_partial fr s now dur c ToolNameGetDockerContainerStats 0 in
      case requireField containerIDs ''container_ids'' of
        Some e \<Rightarrow> Some ((None, Some e), [])
      | None \<Rightarrow>
          if containerIDs = ''all'' then run (\<lambda>_. GatherDockerStatsAll arrive d [])
          else
            (case map TrimSpace (split_char (CHR '','') containerIDs) of
               [cid] \<Rightarrow> run (\<lambda>_. Some (GatherContainerStats d cid))
             | ids \<Rightarrow> run (\<lambda>_. GatherDockerStatsAll arrive d ids)))"

section \<open>The goroutines\<close>

text \<open>
  The goroutines that have not sent yet, the channel, and what the receiver has taken. A goroutine
  sends while the channel, of capacity \<open>n\<close>, has room; the receiver takes the oldest result until
  it has \<open>n\<close>.
\<close>

record stats_run =
  run_pending :: "stats_target list"
  run_channel :: "statResult list"
  run_taken :: "statResult list"

inductive stats_step :: "(stats_target \<Rightarrow> statResult option) \<Rightarrow> nat \<Rightarrow> stats_run \<Rightarrow> stats_run \<Rightarrow> bool"
  for send :: "stats_target \<Rightarrow> statResult option" and n :: nat where
  Send: "send t = Some r \<Longrightarrow> length (run_channel st) < n \<Longrightarrow> run_pending st = before @ t # after \<Longrightarrow>
           stats_step send n st (st\<lparr>run_pending := before @ after, run_channel := run_channel st @ [r]\<rparr>)"
| Silent: "send t = None \<Longrightarrow> run_pending st = before @ t # after \<Longrightarrow>
           stats_step send n st (st\<lparr>run_pending := before @ after\<rparr>)"
| Receive: "run_channel st = r # rest \<Longrightarrow> length (run_taken st) < n \<Longrightarrow>
           stats_step send n st (st\<lparr>run_channel := rest, run_taken := run_taken st @ [r]\<rparr>)"

inductive stats_reach :: "(stats_target \<Rightarrow> statResult option) \<Rightarrow> stats_target list \<Rightarrow> nat \<Rightarrow> stats_run \<Rightarrow> bool"
  for send :: "stats_target \<Rightarrow> statResult option" and targets :: "stats_target list" where
  Start: "stats_reach send targets 0 \<lparr>run_pending = targets, run_channel = [], run_taken = []\<rparr>"
| Step: "stats_reach send targets k st \<Longrightarrow> stats_step send (length targets) st st' \<Longrightarrow>
           stats_reach send targets (Suc k) st'"

inductive_cases stats_stepE [elim]: "stats_step send n st st'"

section \<open>Lemmas\<close>

lemma stats_always_sent: "\<exists>r. stats_send d t = Some r"
  by (auto simp: stats_send_def GatherContainerStats_def withDockerClient_def pointer_def split: option.splits sum.splits)

lemma sent_all: "List.map_filter (stats_send d) ts = map (\<lambda>t. the (stats_send d t)) ts"
  using stats_always_sent [of d] by (induction ts) (auto split: option.split)

text \<open>Nothing is lost or made up on the way, and the work left goes down by one with every step.\<close>

definition work_left :: "stats_run \<Rightarrow> nat" where
  "work_left st = 2 * length (run_pending st) + length (run_channel st)"

lemma stats_invariant:
  assumes "stats_reach (stats_send d) targets k st"
  shows "mset (map (\<lambda>t. the (stats_send d t)) (run_pending st)) + mset (run_channel st) + mset (run_taken st) =
           mset (map (\<lambda>t. the (stats_send d t)) targets) \<and>
         k + work_left st = 2 * length targets"
  using assms
proof (induction rule: stats_reach.induct)
  case (Step k st st')
  have sent: "stats_send d t = None \<longleftrightarrow> False" for t using stats_always_sent [of d t] by auto
  from Step.hyps(2) Step.IH show ?case by (elim stats_stepE) (auto simp: work_left_def sent ac_simps)
qed (simp add: work_left_def)

lemma stats_lengths:
  assumes "stats_reach (stats_send d) targets k st"
  shows "length (run_pending st) + length (run_channel st) + length (run_taken st) = length targets"
proof -
  have "size (mset (map (\<lambda>t. the (stats_send d t)) (run_pending st)) + mset (run_channel st) + mset (run_taken st)) =
        size (mset (map (\<lambda>t. the (stats_send d t)) targets))"
    using stats_invariant [OF assms] by simp
  then show ?thesis by simp
qed

lemma mset_map_order:
  "mset ys = mset (map f xs) \<Longrightarrow> \<exists>xs'. mset xs' = mset xs \<and> map f xs' = ys"
proof (induction ys arbitrary: xs)
  case (Cons y ys)
  have "set (y # ys) = set (map f xs)" using Cons.prems by (rule mset_eq_setD)
  then have "y \<in> f ` set xs" by (metis list.set_intros(1) list.set_map)
  then obtain x where x: "y = f x" "x \<in> set xs" by blast
  then obtain a b where xs: "xs = a @ x # b" by (auto dest: split_list)
  have "mset ys = mset (map f (a @ b))" using Cons.prems x(1) by (simp add: xs)
  from Cons.IH [OF this] obtain xs' where ih: "mset xs' = mset (a @ b)" "map f xs' = ys" by blast
  show ?case by (rule exI [of _ "x # xs'"]) (simp add: ih(1) ih(2) xs x(1))
qed simp

text \<open>Every order of arrival has a run: each goroutine sends when it is its turn.\<close>

lemma stats_order_reached:
  assumes "stats_reach (stats_send d) targets k \<lparr>run_pending = p, run_channel = [], run_taken = tk\<rparr>"
    "mset p = mset ts"
  shows "\<exists>k'. stats_reach (stats_send d) targets k'
                \<lparr>run_pending = [], run_channel = [], run_taken = tk @ map (\<lambda>t. the (stats_send d t)) ts\<rparr>"
  using assms
proof (induction ts arbitrary: k p tk)
  case (Cons t ts)
  let ?r = "the (stats_send d t)"
  have r: "stats_send d t = Some ?r" using stats_always_sent [of d t] by auto
  have "t \<in> set p" using Cons.prems(2) by (metis list.set_intros(1) mset_eq_setD)
  then obtain a b where p: "p = a @ t # b" by (metis split_list)
  have n: "length tk < length targets" using stats_lengths [OF Cons.prems(1)] p by simp
  have "stats_step (stats_send d) (length targets) \<lparr>run_pending = p, run_channel = [], run_taken = tk\<rparr>
          \<lparr>run_pending = a @ b, run_channel = [?r], run_taken = tk\<rparr>"
    using stats_step.Send [where send = "stats_send d" and t = t and r = ?r and before = a and after = b
        and st = "\<lparr>run_pending = p, run_channel = [], run_taken = tk\<rparr>" and n = "length targets"] p n r
    by (cases targets) simp_all
  note s1 = stats_reach.Step [OF Cons.prems(1) this]
  have "stats_step (stats_send d) (length targets) \<lparr>run_pending = a @ b, run_channel = [?r], run_taken = tk\<rparr>
          \<lparr>run_pending = a @ b, run_channel = [], run_taken = tk @ [?r]\<rparr>"
    using stats_step.Receive [where r = ?r and rest = "[]" and send = "stats_send d" and n = "length targets"
        and st = "\<lparr>run_pending = a @ b, run_channel = [?r], run_taken = tk\<rparr>"] n
    by simp
  note s2 = stats_reach.Step [OF s1 this]
  have "mset (a @ b) = mset ts" using Cons.prems(2) p by simp
  from Cons.IH [OF s2 this] show ?case by simp
qed auto

text \<open>A counter that was reset since the last sample gives a difference near the largest integer.\<close>

lemma cpu_delta_wraps: "sb_TotalUsage b < sb_PreTotalUsage b \<Longrightarrow>
    uint (sb_TotalUsage b - sb_PreTotalUsage b) = 2 ^ 64 - (uint (sb_PreTotalUsage b) - uint (sb_TotalUsage b))"
  by (simp add: uint_sub_if' word_less_def)

lemma blkio_capitals: "fold blkio_step [(''Read'', v), (''Write'', u)] (0, 0) = (0, 0)"
  by (simp add: blkio_step_def)

section \<open>Properties\<close>

text \<open>
  C19. Gathering the statistics of several containers never blocks: in every interleaving some step
  is possible exactly as long as the receiver has not got a result from every goroutine; and after
  at most two steps per container all results are there.
\<close>

theorem stats_no_deadlock:
  assumes "stats_reach (stats_send d) targets k st"
  shows "(length (run_taken st) < length targets \<longleftrightarrow> (\<exists>st'. stats_step (stats_send d) (length targets) st st')) \<and>
         k \<le> 2 * length targets \<and> (k = 2 * length targets \<longrightarrow> length (run_taken st) = length targets)"
proof (intro conjI iffI impI)
  note inv = stats_invariant [OF assms] and len = stats_lengths [OF assms]
  show "k \<le> 2 * length targets" using inv by simp
  show "length (run_taken st) = length targets" if "k = 2 * length targets"
    using that inv len by (simp add: work_left_def)
  show "length (run_taken st) < length targets" if "\<exists>st'. stats_step (stats_send d) (length targets) st st'"
    using that len by (elim exE stats_stepE) simp_all
  assume n: "length (run_taken st) < length targets"
  show "\<exists>st'. stats_step (stats_send d) (length targets) st st'"
  proof (cases "run_channel st")
    case (Cons r rest)
    then show ?thesis using stats_step.Receive n by blast
  next
    case Nil
    then obtain t ts where p: "run_pending st = [] @ t # ts" using n len by (cases "run_pending st") auto
    obtain r where "stats_send d t = Some r" using stats_always_sent by blast
    moreover have "length (run_channel st) < length targets" using Nil n by (cases targets) simp_all
    ultimately show ?thesis using p by (blast intro: stats_step.Send)
  qed
qed

theorem stats_no_deadlock_witness:
  "\<exists>st'. stats_step (stats_send (one_daemon [])) (length [\<lparr>tg_id = ''a'', tg_name = ''b''\<rparr>])
     \<lparr>run_pending = [\<lparr>tg_id = ''a'', tg_name = ''b''\<rparr>], run_channel = [], run_taken = []\<rparr> st'"
  using stats_no_deadlock [OF stats_reach.Start [of "stats_send (one_daemon [])" "[\<lparr>tg_id = ''a'', tg_name = ''b''\<rparr>]"]] by simp

text \<open>
  C12. The answers of the concurrent statistics are exactly those of the function: whatever the
  goroutines and the receiver do, the final result is the one for some order of arrival, and every
  order has a run that gives it. So each container is listed exactly once.
\<close>

theorem stats_runs_refine:
  "{GatherDockerStatsAll arrive (d\<lparr>dk_new := None, dk_containers := \<lambda>_. Inr items\<rparr>) containers | arrive.
      \<forall>rs. mset (arrive rs) = mset rs} =
   {Some (Some (stats_answer (run_taken st)), None) | k st.
      stats_reach (stats_send (d\<lparr>dk_new := None, dk_containers := \<lambda>_. Inr items\<rparr>)) (stats_targets containers items) k st \<and>
      length (run_taken st) = length (stats_targets containers items)}" (is "?F = ?R")
proof
  let ?d = "d\<lparr>dk_new := None, dk_containers := \<lambda>_. Inr items\<rparr>"
  let ?ts = "stats_targets containers items"
  let ?sent = "map (\<lambda>t. the (stats_send ?d t)) ?ts"
  have G: "GatherDockerStatsAll arrive ?d containers = Some (Some (stats_answer (arrive ?sent)), None)" for arrive
    by (simp add: GatherDockerStatsAll_def withDockerClient_def sent_all)
  show "?F \<subseteq> ?R"
  proof
    fix x assume "x \<in> ?F"
    then obtain arrive where a: "\<forall>rs. mset (arrive rs) = mset rs" "x = Some (Some (stats_answer (arrive ?sent)), None)"
      using G by auto
    obtain ts' where ts': "mset ts' = mset ?ts" "map (\<lambda>t. the (stats_send ?d t)) ts' = arrive ?sent"
      using mset_map_order a(1) by blast
    obtain k where "stats_reach (stats_send ?d) ?ts k
        \<lparr>run_pending = [], run_channel = [], run_taken = [] @ map (\<lambda>t. the (stats_send ?d t)) ts'\<rparr>"
      using stats_order_reached [OF stats_reach.Start ts'(1) [symmetric]] by blast
    moreover have "length (arrive ?sent) = length ?ts" using a(1) by (metis length_map size_mset)
    ultimately show "x \<in> ?R" using a(2) ts'(2) by force
  qed
  show "?R \<subseteq> ?F"
  proof
    fix x assume "x \<in> ?R"
    then obtain k st where r: "stats_reach (stats_send ?d) ?ts k st" "length (run_taken st) = length ?ts"
      "x = Some (Some (stats_answer (run_taken st)), None)" by blast
    let ?arrive = "\<lambda>rs. if rs = ?sent then run_taken st else rs"
    have "mset (run_taken st) = mset ?sent"
      using stats_invariant [OF r(1)] stats_lengths [OF r(1)] r(2) by simp
    then have "\<forall>rs. mset (?arrive rs) = mset rs" by simp
    moreover have "x = GatherDockerStatsAll ?arrive ?d containers" using G [of ?arrive] r(3) by simp
    ultimately show "x \<in> ?F" by blast
  qed
qed

end
