(* ===== verification/Hardware.thy ===== *)
theory Hardware
  imports Handler GoFloat
begin

text \<open>
  Disk health and I/O counters (tools/smart.go), graphics cards (tools/gpu.go) and the power
  supply (tools/power.go). The decoder of the JSON that rocm-smi prints, the order of the range
  over its cards and the cancellation of the context are parameters.
\<close>

section \<open>SMART\<close>

record SMARTDeviceHealth =
  sd_Device :: string
  sd_Model :: string
  sd_Serial :: string
  HealthStatus :: string
  sd_Temperature :: int
  PowerOnHours :: int
  Attributes :: "(string \<rightharpoonup> string) option"
  RawOutput :: string

record SMARTHealthOutput = OutputErrors +
  sh_Devices :: "SMARTDeviceHealth list"

definition skipped_device :: "string \<Rightarrow> bool" where
  "skipped_device name = (HasPrefix name ''loop'' \<or> HasPrefix name ''ram'' \<or> HasPrefix name ''zram'')"

definition discoverBlockDevices :: "world \<Rightarrow> string list" where
  "discoverBlockDevices w =
     (case w_readdir w ''/sys/block'' of
        Inl _ \<Rightarrow> []
      | Inr entries \<Rightarrow> filter (\<lambda>n. \<not> skipped_device n) (map de_name entries))"

definition parseSMARTHealth :: "(string \<Rightarrow> string) \<Rightarrow> string \<Rightarrow> string" where
  "parseSMARTHealth um out =
     (let u = ToUpper um out in
      if Contains u ''PASSED'' \<or> Contains u ''OK'' then ''PASSED''
      else if Contains u ''FAILED'' then ''FAILED'' else ''unknown'')"

definition attribute_name :: "int \<Rightarrow> string \<Rightarrow> string" where
  "attribute_name n name =
     (if n = 194 then ''Temperature'' else if n = 5 then ''Reallocated_Sector_Ct''
      else if n = 197 then ''Current_Pending_Sector'' else if n = 198 then ''Offline_Uncorrectable''
      else if n = 9 then ''Power_On_Hours'' else if n = 177 then ''Wear_Leveling_Count''
      else if n = 12 then ''Percentage_Used'' else name)"

definition attribute_line :: "string \<Rightarrow> (string \<rightharpoonup> string) \<Rightarrow> (string \<rightharpoonup> string)" where
  "attribute_line text attrs =
     (let fields = Fields (TrimSpace text) in
      if length fields < 10 then attrs
      else case Atoi (fields ! 0) of
        (_, Some _) \<Rightarrow> attrs
      | (n, None) \<Rightarrow> attrs(attribute_name n (fields ! 1) \<mapsto> last fields))"

definition parseSMARTAttributes :: "string \<Rightarrow> (string \<rightharpoonup> string)" where
  "parseSMARTAttributes out = fold attribute_line (lines_of out) Map.empty"

definition int_attribute :: "(string \<rightharpoonup> string) option \<Rightarrow> string \<Rightarrow> int" where
  "int_attribute attrs name =
     (case (case attrs of None \<Rightarrow> None | Some m \<Rightarrow> m name) of
        None \<Rightarrow> 0
      | Some v \<Rightarrow> (case Atoi v of (n, None) \<Rightarrow> n | (_, Some _) \<Rightarrow> 0))"

definition info_line :: "string \<Rightarrow> string \<Rightarrow> SMARTDeviceHealth \<Rightarrow> SMARTDeviceHealth" where
  "info_line model_key text dev =
     (case Cut (TrimSpace text) '':'' of
        (_, _, False) \<Rightarrow> dev
      | (before, after, True) \<Rightarrow>
          let key = TrimSpace before; val = TrimSpace after in
          if key = model_key then dev\<lparr>sd_Model := val\<rparr>
          else if key = ''Serial Number'' then dev\<lparr>sd_Serial := val\<rparr> else dev)"

definition gatherSMARTDevice :: "world \<Rightarrow> ctx \<Rightarrow> string \<Rightarrow> SMARTDeviceHealth" where
  "gatherSMARTDevice w c device =
     (let dev = \<lparr>sd_Device = device, sd_Model = [], sd_Serial = [], HealthStatus = [], sd_Temperature = 0,
                 PowerOnHours = 0, Attributes = None, RawOutput = []\<rparr>;
          devPath = ''/dev/'' @ device in
      case execOutput w c ''smartctl'' [''-H'', devPath] of
        (_, Some e) \<Rightarrow> dev\<lparr>HealthStatus := ''unknown'', RawOutput := ''smartctl -H failed: '' @ err_text e\<rparr>
      | (healthOut, None) \<Rightarrow>
          let attrs = (case execOutput w c ''smartctl'' [''-A'', devPath] of
                         (out, None) \<Rightarrow> Some (parseSMARTAttributes out) | (_, Some _) \<Rightarrow> None);
              dev = dev\<lparr>HealthStatus := parseSMARTHealth (w_upper w) healthOut, RawOutput := healthOut,
                        Attributes := attrs, sd_Temperature := int_attribute attrs ''Temperature'',
                        PowerOnHours := int_attribute attrs ''Power_On_Hours''\<rparr>;
              key = (if HasPrefix device ''nvme'' then ''Model Number'' else ''Device Model'')
          in (case execOutput w c ''smartctl'' [''-i'', devPath] of
                (infoOut, None) \<Rightarrow> fold (info_line key) (lines_of infoOut) dev
              | (_, Some _) \<Rightarrow> dev))"

text \<open>\<open>stopped i\<close> is what the context says before the \<open>i\<close>th device.\<close>

fun smart_loop ::
  "(nat \<Rightarrow> goerr option) \<Rightarrow> world \<Rightarrow> ctx \<Rightarrow> nat \<Rightarrow> SMARTDeviceHealth list \<Rightarrow> string list \<Rightarrow> SMARTHealthOutput result" where
  "smart_loop stopped w c i acc [] = (Some \<lparr>Errors = [], sh_Devices = acc\<rparr>, None)"
| "smart_loop stopped w c i acc (d # ds) =
     (case stopped i of
        Some e \<Rightarrow> (Some \<lparr>Errors = [], sh_Devices = acc\<rparr>, Some e)
      | None \<Rightarrow> smart_loop stopped w c (Suc i) (acc @ [gatherSMARTDevice w c d]) ds)"

definition GatherSMARTHealth :: "(nat \<Rightarrow> goerr option) \<Rightarrow> world \<Rightarrow> ctx \<Rightarrow> string \<Rightarrow> SMARTHealthOutput result" where
  "GatherSMARTHealth stopped w c device =
     (case execOutput w c ''smartctl'' [''--version''] of
        (_, Some e) \<Rightarrow> (Some (Add ''smartctl'' (Some e) \<lparr>Errors = [], sh_Devices = []\<rparr>), None)
      | (_, None) \<Rightarrow> smart_loop stopped w c 0 [] (if device \<noteq> [] then [device] else discoverBlockDevices w))"

definition HandleGetSMARTHealth ::
  "(nat \<Rightarrow> nat \<Rightarrow> nat \<Rightarrow> nat) \<Rightarrow> cfg_state \<Rightarrow> int \<Rightarrow> int \<Rightarrow> ctx \<Rightarrow> (nat \<Rightarrow> goerr option) \<Rightarrow> world \<Rightarrow> string \<Rightarrow>
   SMARTHealthOutput result \<times> log_event list" where
  "HandleGetSMARTHealth fr s now dur c stopped w device =
     run_tool fr s now dur c ToolNameGetSMARTHealth 0 (\<lambda>ct. GatherSMARTHealth stopped w ct (TrimSpace device))"

section \<open>Disk counters\<close>

record DiskIOMetric =
  io_Device :: string
  io_ReadsCompleted :: uint64
  io_SectorsRead :: uint64
  io_WritesCompleted :: uint64
  io_SectorsWritten :: uint64
  io_IOsInProgress :: uint64
  io_ReadTimeMs :: uint64
  io_WriteTimeMs :: uint64

record DiskIOMetricsOutput = OutputErrors +
  Metrics :: "DiskIOMetric list"

definition metric_line :: "string \<Rightarrow> DiskIOMetric option" where
  "metric_line text =
     (let line = TrimSpace text; fields = Fields line in
      if line = [] \<or> length fields < 14 then None
      else if skipped_device (fields ! 2) then None
      else Some \<lparr>io_Device = fields ! 2, io_ReadsCompleted = uint_or_zero (fields ! 3),
                 io_SectorsRead = uint_or_zero (fields ! 5), io_WritesCompleted = uint_or_zero (fields ! 7),
                 io_SectorsWritten = uint_or_zero (fields ! 9), io_IOsInProgress = uint_or_zero (fields ! 11),
                 io_ReadTimeMs = uint_or_zero (fields ! 6), io_WriteTimeMs = uint_or_zero (fields ! 10)\<rparr>)"

definition GatherDiskIOMetrics :: "world \<Rightarrow> DiskIOMetricsOutput result" where
  "GatherDiskIOMetrics w =
     (case w_read w ''/proc/diskstats'' of
        Inl e \<Rightarrow> (None, Some e)
      | Inr data \<Rightarrow> (Some \<lparr>Errors = [], Metrics = List.map_filter metric_line (lines_of data)\<rparr>, None))"

definition HandleGetDiskIOMetrics ::
  "(nat \<Rightarrow> nat \<Rightarrow> nat \<Rightarrow> nat) \<Rightarrow> cfg_state \<Rightarrow> int \<Rightarrow> int \<Rightarrow> ctx \<Rightarrow> world \<Rightarrow> DiskIOMetricsOutput result \<times> log_event list" where
  "HandleGetDiskIOMetrics fr s now dur c w =
     run_tool fr s now dur c ToolNameGetDiskIOMetrics 0 (\<lambda>_. GatherDiskIOMetrics w)"

section \<open>Graphics cards\<close>

record GPUDevice =
  gd_Index :: int
  gd_Name :: string
  gd_UsagePercent :: f64
  MemoryUsedMB :: int
  MemoryTotalMB :: int
  TemperatureC :: int
  PowerDrawW :: f64

record GPUInfoOutput = OutputErrors +
  Vendor :: string
  GPUs :: "GPUDevice list"

definition nvidia_line :: "string \<Rightarrow> GPUDevice option" where
  "nvidia_line line =
     (let fields = split_sub '', '' line; number = (\<lambda>i. fst (ParseInt 64 (TrimSpace (fields ! i)))) in
      if length fields < 7 then None
      else Some \<lparr>gd_Index = fst (Atoi (fields ! 0)), gd_Name = fields ! 1,
                 gd_UsagePercent = fst (ParseFloat (fields ! 2)), MemoryUsedMB = number 3,
                 MemoryTotalMB = number 4, TemperatureC = number 5,
                 PowerDrawW = fst (ParseFloat (TrimSpace (fields ! 6)))\<rparr>)"

definition GatherNvidiaGPU :: "world \<Rightarrow> ctx \<Rightarrow> GPUInfoOutput result" where
  "GatherNvidiaGPU w c =
     (case execLines w c ''nvidia-smi''
             [''--query-gpu=index,name,utilization.gpu,memory.used,memory.total,temperature.gpu,power.draw'',
              ''--format=csv,noheader,nounits''] of
        Inl e \<Rightarrow> (None, Some e)
      | Inr ls \<Rightarrow>
          (case List.map_filter nvidia_line ls of
             [] \<Rightarrow> (None, Some (ErrText ''no NVIDIA GPUs found''))
           | gpus \<Rightarrow> (Some \<lparr>Errors = [], Vendor = ''nvidia'', GPUs = gpus\<rparr>, None)))"

text \<open>
  A decoded object: for every key the members that are strings, if the value is an object.
\<close>

type_synonym rocm_object = "string \<rightharpoonup> (string \<rightharpoonup> string) option"

definition amd_card :: "string \<Rightarrow> (string \<rightharpoonup> string) \<Rightarrow> GPUDevice" where
  "amd_card key dev =
     (let number = (\<lambda>k. case dev k of None \<Rightarrow> 0 | Some v \<Rightarrow> fst (ParseInt 64 (TrimSpace v))) in
      \<lparr>gd_Index = fst (Atoi (TrimPrefix key ''card'')), gd_Name = (case dev ''Name'' of None \<Rightarrow> [] | Some n \<Rightarrow> n),
       gd_UsagePercent = (case dev ''GPU use'' of None \<Rightarrow> Fin 0 | Some u \<Rightarrow> fst (ParseFloat (TrimSuffix u ''%''))),
       MemoryUsedMB = number ''VRAM Used Memory (MB)'', MemoryTotalMB = number ''VRAM Total Memory (MB)'',
       TemperatureC = number ''Temperature (Sensor) (C)'',
       PowerDrawW = (case dev ''Average Graphics Package Power (W)'' of
                       None \<Rightarrow> Fin 0 | Some p \<Rightarrow> fst (ParseFloat (TrimSpace p)))\<rparr>)"

definition GatherAMDGPU ::
  "(string \<Rightarrow> goerr + rocm_object) \<Rightarrow> (rocm_object \<Rightarrow> string list) \<Rightarrow> world \<Rightarrow> ctx \<Rightarrow> GPUInfoOutput result" where
  "GatherAMDGPU decode enum w c =
     (case execOutput w c ''rocm-smi'' [''--json''] of
        (_, Some e) \<Rightarrow> (None, Some e)
      | (out, None) \<Rightarrow>
          (case decode out of
             Inl e \<Rightarrow> (None, Some e)
           | Inr raw \<Rightarrow>
               (case List.map_filter (\<lambda>key. if \<not> HasPrefix key ''card'' then None
                                            else case raw key of Some (Some dev) \<Rightarrow> Some (amd_card key dev) | _ \<Rightarrow> None)
                       (enum raw) of
                  [] \<Rightarrow> (None, Some (ErrText ''no AMD GPUs found''))
                | gpus \<Rightarrow> (Some \<lparr>Errors = [], Vendor = ''amd'', GPUs = gpus\<rparr>, None))))"

definition intel_gpu :: GPUDevice where
  "intel_gpu =
     \<lparr>gd_Index = 0, gd_Name = ''Intel GPU (detected)'', gd_UsagePercent = Fin 0, MemoryUsedMB = 0,
      MemoryTotalMB = 0, TemperatureC = 0, PowerDrawW = Fin 0\<rparr>"

text \<open>The first tool that is there and answers.\<close>

definition GatherGPUInfo ::
  "(string \<Rightarrow> goerr + rocm_object) \<Rightarrow> (rocm_object \<Rightarrow> string list) \<Rightarrow> world \<Rightarrow> ctx \<Rightarrow> GPUInfoOutput result" where
  "GatherGPUInfo decode enum w c =
     (let nvidia = GatherNvidiaGPU w c; amd = GatherAMDGPU decode enum w c in
      if w_look w ''nvidia-smi'' = None \<and> snd nvidia = None then (fst nvidia, None)
      else if w_look w ''rocm-smi'' = None \<and> snd amd = None then (fst amd, None)
      else if w_look w ''intel_gpu_top'' = None then (Some \<lparr>Errors = [], Vendor = ''intel'', GPUs = [intel_gpu]\<rparr>, None)
      else (None, Some (ErrText ''no GPU tools found (tried nvidia-smi, rocm-smi, intel_gpu_top)'')))"

definition HandleGetGPUInfo ::
  "(nat \<Rightarrow> nat \<Rightarrow> nat \<Rightarrow> nat) \<Rightarrow> cfg_state \<Rightarrow> int \<Rightarrow> int \<Rightarrow> ctx \<Rightarrow> (string \<Rightarrow> goerr + rocm_object) \<Rightarrow>
   (rocm_object \<Rightarrow> string list) \<Rightarrow> world \<Rightarrow> GPUInfoOutput result \<times> log_event list" where
  "HandleGetGPUInfo fr s now dur c decode enum w =
     run_tool fr s now dur c ToolNameGetGPUInfo 0 (\<lambda>ct. GatherGPUInfo decode enum w ct)"

section \<open>Power\<close>

record PowerAnalyticsOutput = OutputErrors +
  ACOnline :: bool
  BatteryPercent :: f64
  DischargeRateWatts :: f64
  CapacityDegradation :: f64

record batteryInfo =
  bi_status :: string
  bi_capacity :: f64
  bi_powerNow :: f64
  bi_energyFull :: f64
  bi_energyFullDesign :: f64

definition battery_value :: "world \<Rightarrow> string \<Rightarrow> string \<Rightarrow> f64" where
  "battery_value w dir attr =
     (case readSysfsFile w (filepath_Join [dir, attr]) of
        Inl _ \<Rightarrow> Fin 0
      | Inr s \<Rightarrow> (case ParseFloat s of (v, None) \<Rightarrow> v | (_, Some _) \<Rightarrow> Fin 0))"

definition parseBatteryDir :: "world \<Rightarrow> string \<Rightarrow> goerr + batteryInfo" where
  "parseBatteryDir w dir =
     (case readSysfsFile w (filepath_Join [dir, ''status'']) of
        Inl e \<Rightarrow> Inl (ErrWrap ''reading status'' e)
      | Inr status \<Rightarrow>
          (case readSysfsFile w (filepath_Join [dir, ''capacity'']) of
             Inl e \<Rightarrow> Inl (ErrWrap ''reading capacity'' e)
           | Inr capacity \<Rightarrow>
               (case ParseFloat capacity of
                  (_, Some k) \<Rightarrow> Inl (ErrWrap ''parsing capacity'' (ErrNum ''ParseFloat'' k capacity))
                | (v, None) \<Rightarrow>
                    Inr \<lparr>bi_status = status, bi_capacity = v, bi_powerNow = battery_value w dir ''power_now'',
                         bi_energyFull = battery_value w dir ''energy_full'',
                         bi_energyFullDesign = battery_value w dir ''energy_full_design''\<rparr>)))"

definition battery_step :: "batteryInfo \<Rightarrow> PowerAnalyticsOutput \<Rightarrow> PowerAnalyticsOutput" where
  "battery_step b out0 =
     (let out = out0\<lparr>BatteryPercent := bi_capacity b\<rparr>;
          out = (if f64_less (Fin 0) (bi_powerNow b)
                 then out\<lparr>DischargeRateWatts := f64_div (bi_powerNow b) (Fin 1000000)\<rparr> else out)
      in if f64_less (Fin 0) (bi_energyFullDesign b) then
           (let full = (if f64_eq (bi_energyFull b) (Fin 0) then bi_energyFullDesign b else bi_energyFull b)
            in out\<lparr>CapacityDegradation :=
                     f64_mul (f64_sub (Fin 1) (f64_div full (bi_energyFullDesign b))) (Fin 100)\<rparr>)
         else out)"

definition supply_step :: "world \<Rightarrow> dirent \<Rightarrow> PowerAnalyticsOutput \<times> string list \<Rightarrow> PowerAnalyticsOutput \<times> string list" where
  "supply_step w entry st =
     (case st of
        (out, errs) \<Rightarrow>
          let dir = filepath_Join [''/sys/class/power_supply'', de_name entry] in
          case readSysfsFile w (filepath_Join [dir, ''uevent'']) of
            Inl _ \<Rightarrow> st
          | Inr uevent \<Rightarrow>
              if Contains uevent ''POWER_SUPPLY_TYPE=Mains'' then
                (case readSysfsFile w (filepath_Join [dir, ''online'']) of
                   Inl _ \<Rightarrow> st
                 | Inr online \<Rightarrow> (out\<lparr>ACOnline := (TrimSpace online = ''1'')\<rparr>, errs))
              else if Contains uevent ''POWER_SUPPLY_TYPE=Battery'' then
                (case parseBatteryDir w dir of
                   Inl e \<Rightarrow> (out, appendErr errs (de_name entry) (Some e))
                 | Inr b \<Rightarrow> (battery_step b out, errs))
              else st)"

definition no_power :: PowerAnalyticsOutput where
  "no_power =
     \<lparr>Errors = [], ACOnline = False, BatteryPercent = Fin 0, DischargeRateWatts = Fin 0, CapacityDegradation = Fin 0\<rparr>"

definition GatherPowerAnalytics :: "world \<Rightarrow> PowerAnalyticsOutput result" where
  "GatherPowerAnalytics w =
     (case w_readdir w ''/sys/class/power_supply'' of
        Inl e \<Rightarrow> (Some (AppendError (''reading power supply class: '' @ err_text e) no_power), None)
      | Inr batts \<Rightarrow>
          (case fold (supply_step w) batts (no_power, []) of
             (out, errs) \<Rightarrow> (Some (out\<lparr>Errors := errs\<rparr>), None)))"

definition HandleGetPowerAnalytics ::
  "(nat \<Rightarrow> nat \<Rightarrow> nat \<Rightarrow> nat) \<Rightarrow> cfg_state \<Rightarrow> int \<Rightarrow> int \<Rightarrow> ctx \<Rightarrow> world \<Rightarrow> PowerAnalyticsOutput result \<times> log_event list" where
  "HandleGetPowerAnalytics fr s now dur c w =
     run_tool fr s now dur c ToolNameGetPowerAnalytics 0 (\<lambda>_. GatherPowerAnalytics w)"

section \<open>Lemmas\<close>

text \<open>
  smartctl exits with a non-zero code when the disk is failing: the disk is then unknown, and
  \<open>FAILED\<close> is never reported for it.
\<close>

lemma failing_disk_unknown:
  "w_exec w c ''smartctl'' [''-H'', ''/dev/'' @ device] = (out, Some (ErrExit 8 se)) \<Longrightarrow>
     HealthStatus (gatherSMARTDevice w c device) = ''unknown''"
  by (simp add: gatherSMARTDevice_def execOutput_def)

text \<open>Attribute 12 counts power cycles; a temperature with its range keeps the end of the range only.\<close>

lemma power_cycles_renamed: "attribute_name 12 ''Power_Cycle_Count'' = ''Percentage_Used''"
  by (simp add: attribute_name_def)

lemma temperature_range_lost:
  "attribute_line ''194 Temperature_Celsius 0x22 64 51 0 Old_age Always - 36 (Min/Max 17/49)'' m =
     m(''Temperature'' \<mapsto> ''17/49)'')"
proof -
  have f: "Fields (TrimSpace ''194 Temperature_Celsius 0x22 64 51 0 Old_age Always - 36 (Min/Max 17/49)'') =
      [''194'', ''Temperature_Celsius'', ''0x22'', ''64'', ''51'', ''0'', ''Old_age'', ''Always'', ''-'', ''36'',
       ''(Min/Max'', ''17/49)'']" by code_simp
  have a: "Atoi ''194'' = (194, None)" by code_simp
  show ?thesis by (simp add: attribute_line_def f a attribute_name_def)
qed

lemma ok_hides_failed: "parseSMARTHealth id ''FAILED (see the book)'' = ''PASSED''"
  by code_simp

end
