(* ===== verification/Boot.thy ===== *)
theory Boot
  imports Services
begin

text \<open>
  The boot analysis of systemd-analyze (tools/analyze.go): time spans, the ranking of units
  (\<open>blame\<close>), the critical chain with its tree prefix, and the phases. Sums of seconds are
  rounded operation by operation. A tree prefix is counted in bytes, as the code does; what is read
  of a chain is stated for every line systemd-analyze prints.
\<close>

section \<open>Time spans\<close>

definition timespanUnits :: "string \<rightharpoonup> f64" where
  "timespanUnits =
     map_of (map (\<lambda>(u, v). (u, f64_round v))
       [(''ns'', 1 / 10 ^ 9), (''us'', 1 / 10 ^ 6), (''ms'', 1 / 10 ^ 3), (''s'', 1), (''min'', 60), (''h'', 3600),
        (''d'', 86400), (''w'', 7 * 86400), (''month'', 30 * 86400), (''y'', 365 * 86400)])"

definition span_char :: "char \<Rightarrow> bool" where
  "span_char ch = (ch = CHR ''.'' \<or> is_digit ch)"

definition span_token :: "string \<Rightarrow> string \<Rightarrow> goerr + f64" where
  "span_token s tok =
     (let num = takeWhile span_char tok; unit = dropWhile span_char tok in
      if num = [] then Inl (ErrQuoted ''invalid timespan'' s)
      else case ParseFloat num of
        (_, Some k) \<Rightarrow> Inl (ErrWrap (''invalid timespan '' @ go_quote s) (ErrNum ''ParseFloat'' k num))
      | (v, None) \<Rightarrow>
          (case timespanUnits unit of
             None \<Rightarrow> Inl (ErrText (''invalid timespan '' @ go_quote s @ '': unknown unit''))
           | Some factor \<Rightarrow> Inr (f64_mul v factor)))"

fun span_sum :: "string \<Rightarrow> f64 \<Rightarrow> string list \<Rightarrow> goerr + f64" where
  "span_sum s acc [] = Inr acc"
| "span_sum s acc (tok # toks) =
     (case span_token s tok of Inl e \<Rightarrow> Inl e | Inr v \<Rightarrow> span_sum s (f64_add acc v) toks)"

definition parseTimespan :: "string \<Rightarrow> goerr + f64" where
  "parseTimespan text =
     (let s = TrimSpace text in
      if s = [] then Inl (ErrText ''empty timespan'') else span_sum s (Fin 0) (Fields s))"

text \<open>The value of \<open>secs, _ = parseTimespan(s)\<close>: zero after an error.\<close>

definition span_or_zero :: "string \<Rightarrow> f64" where
  "span_or_zero s = (case parseTimespan s of Inl _ \<Rightarrow> Fin 0 | Inr v \<Rightarrow> v)"

section \<open>Blame\<close>

record BootBlameEntry =
  bb_Unit :: string
  bb_Time :: string
  bb_TimeSeconds :: f64

record BootBlameOutput = OutputErrors +
  bb_Entries :: "BootBlameEntry list"

definition blame_line :: "string \<Rightarrow> BootBlameEntry option" where
  "blame_line line =
     (let fs = Fields line in
      if length fs < 2 then None
      else let timeStr = Join '' '' (butlast fs) in
        case parseTimespan timeStr of
          Inl _ \<Rightarrow> None
        | Inr secs \<Rightarrow> Some \<lparr>bb_Unit = last fs, bb_Time = timeStr, bb_TimeSeconds = secs\<rparr>)"

definition parseBootBlame :: "string \<Rightarrow> BootBlameEntry list" where
  "parseBootBlame out = List.map_filter blame_line (lines_of out)"

definition GatherBootBlame :: "world \<Rightarrow> ctx \<Rightarrow> BootBlameOutput result" where
  "GatherBootBlame w c =
     (case execOutput w c ''systemd-analyze'' [''blame''] of
        (_, Some e) \<Rightarrow> (None, Some e)
      | (out, None) \<Rightarrow> (Some \<lparr>Errors = [], bb_Entries = parseBootBlame out\<rparr>, None))"

definition HandleGetBootBlame ::
  "(nat \<Rightarrow> nat \<Rightarrow> nat \<Rightarrow> nat) \<Rightarrow> cfg_state \<Rightarrow> int \<Rightarrow> int \<Rightarrow> ctx \<Rightarrow> world \<Rightarrow> BootBlameOutput result \<times> log_event list" where
  "HandleGetBootBlame fr s now dur c w =
     run_tool fr s now dur c ToolNameGetBootBlame 0 (\<lambda>ct. GatherBootBlame w ct)"

section \<open>The critical chain\<close>

record BootChainLink =
  bl_Unit :: string
  bl_Depth :: nat
  ActiveTime :: string
  ActiveSeconds :: f64
  bl_StartTime :: string
  bl_StartSeconds :: f64

record BootCriticalChainOutput = OutputErrors +
  bc_Target :: string
  Chain :: "BootChainLink list"

text \<open>
  \<open>^(\S+)(?: @(\S+))?(?: \+(\S+))?$\<close>: as \<open>\S\<close> matches no space, the groups are the words between
  single spaces; a group that takes no part is empty.
\<close>

definition solid :: "string \<Rightarrow> bool" where
  "solid s = (s \<noteq> [] \<and> list_all (\<lambda>ch. byte ch \<notin> {9, 10, 12, 13, 32}) s)"

definition marked :: "char \<Rightarrow> string \<Rightarrow> bool" where
  "marked m s = (s \<noteq> [] \<and> hd s = m \<and> solid (tl s))"

definition bootChainLineRe :: "string \<Rightarrow> (string \<times> string \<times> string) option" where
  "bootChainLineRe content =
     (case split_char (CHR '' '') content of
        [u] \<Rightarrow> if solid u then Some (u, [], []) else None
      | [u, v] \<Rightarrow>
          if solid u \<and> marked (CHR ''@'') v then Some (u, tl v, [])
          else if solid u \<and> marked (CHR ''+'') v then Some (u, [], tl v) else None
      | [u, v, x] \<Rightarrow>
          if solid u \<and> marked (CHR ''@'') v \<and> marked (CHR ''+'') x then Some (u, tl v, tl x) else None
      | _ \<Rightarrow> None)"

text \<open>The horizontal bar of the tree, U+2500 in UTF-8.\<close>

definition tree_bar :: string where
  "tree_bar = [CHR 0xE2, CHR 0x94, CHR 0x80]"

definition parseBootChainLine :: "string \<Rightarrow> BootChainLink option" where
  "parseBootChainLine line =
     (let (content, depth) =
            (case LastIndex line tree_bar of
               None \<Rightarrow> (line, 0)
             | Some idx \<Rightarrow> (drop (idx + length tree_bar) line, (idx - 1) div 2))
      in case bootChainLineRe content of
           None \<Rightarrow> None
         | Some (u, a, b) \<Rightarrow>
             Some \<lparr>bl_Unit = u, bl_Depth = depth,
                   ActiveTime = a, ActiveSeconds = (if a \<noteq> [] then span_or_zero a else Fin 0),
                   bl_StartTime = b, bl_StartSeconds = (if b \<noteq> [] then span_or_zero b else Fin 0)\<rparr>)"

definition chain_line :: "string \<Rightarrow> BootChainLink option" where
  "chain_line line =
     (if line = [] \<or> HasPrefix line ''The time when unit became active'' \<or>
         HasPrefix line ''The time the unit took to start'' then None
      else parseBootChainLine line)"

definition parseBootCriticalChain :: "string \<Rightarrow> BootChainLink list" where
  "parseBootCriticalChain out = List.map_filter chain_line (lines_of out)"

definition GatherBootCriticalChain :: "world \<Rightarrow> ctx \<Rightarrow> string \<Rightarrow> BootCriticalChainOutput result" where
  "GatherBootCriticalChain w c unit =
     (case execOutput w c ''systemd-analyze'' (''critical-chain'' # (if unit \<noteq> [] then [unit] else [])) of
        (_, Some e) \<Rightarrow> (None, Some e)
      | (out, None) \<Rightarrow>
          let chain = parseBootCriticalChain out in
          (Some \<lparr>Errors = [], bc_Target = (if chain \<noteq> [] then bl_Unit (hd chain) else []), Chain = chain\<rparr>, None))"

definition HandleGetBootCriticalChain ::
  "(nat \<Rightarrow> nat \<Rightarrow> nat \<Rightarrow> nat) \<Rightarrow> cfg_state \<Rightarrow> int \<Rightarrow> int \<Rightarrow> ctx \<Rightarrow> world \<Rightarrow> string \<Rightarrow>
   BootCriticalChainOutput result \<times> log_event list" where
  "HandleGetBootCriticalChain fr s now dur c w unit =
     (if unit \<noteq> [] \<and> \<not> validServiceName unit then ((None, Some (ErrQuoted ''invalid unit name:'' unit)), [])
      else run_tool fr s now dur c ToolNameGetBootCriticalChain 0 (\<lambda>ct. GatherBootCriticalChain w ct unit))"

section \<open>Phases\<close>

record BootPhase =
  bp_Name :: string
  bp_Time :: string
  bp_Seconds :: f64

record BootTimeOutput = OutputErrors +
  Phases :: "BootPhase list"
  bt_Total :: string
  bt_TotalSeconds :: f64
  bt_Target :: string
  TargetReachedTime :: string
  TargetReachedSeconds :: f64

definition boot_phase :: "string \<Rightarrow> BootPhase option" where
  "boot_phase phase =
     (let (name, timeStr) =
            (case LastIndex phase '' ('' of
               Some idx \<Rightarrow>
                 if HasSuffix phase '')'' then (take (length phase - 1 - (idx + 2)) (drop (idx + 2) phase), take idx phase)
                 else ([], phase)
             | None \<Rightarrow> ([], phase))
      in case parseTimespan timeStr of
           Inl _ \<Rightarrow> None
         | Inr secs \<Rightarrow> Some \<lparr>bp_Name = name, bp_Time = timeStr, bp_Seconds = secs\<rparr>)"

definition parseBootPhases :: "string \<Rightarrow> BootPhase list" where
  "parseBootPhases s = List.map_filter boot_phase (split_sub '' + '' s)"

definition boot_time_line :: "string \<Rightarrow> BootTimeOutput \<Rightarrow> BootTimeOutput" where
  "boot_time_line text r =
     (let line = TrimSpace text in
      if HasPrefix line ''Startup finished in '' then
        (let rest = TrimPrefix line ''Startup finished in '' in
         case Cut rest '' = '' of
           (before, after, True) \<Rightarrow>
             r\<lparr>bt_Total := after, bt_TotalSeconds := span_or_zero after, Phases := parseBootPhases before\<rparr>
         | (_, _, False) \<Rightarrow> r\<lparr>Phases := parseBootPhases rest\<rparr>)
      else if Contains line '' reached after '' \<and> Contains line '' in userspace'' then
        (let rest = TrimSuffix (TrimSuffix line ''.'') '' in userspace'' in
         case Cut rest '' reached after '' of
           (before, after, True) \<Rightarrow>
             (let ts = TrimSpace after in
              r\<lparr>bt_Target := before, TargetReachedTime := ts, TargetReachedSeconds := span_or_zero ts\<rparr>)
         | (_, _, False) \<Rightarrow> r)
      else r)"

definition parseBootTime :: "string \<Rightarrow> BootTimeOutput" where
  "parseBootTime out =
     fold boot_time_line (lines_of out)
       \<lparr>Errors = [], Phases = [], bt_Total = [], bt_TotalSeconds = Fin 0, bt_Target = [],
        TargetReachedTime = [], TargetReachedSeconds = Fin 0\<rparr>"

definition GatherBootTime :: "world \<Rightarrow> ctx \<Rightarrow> BootTimeOutput result" where
  "GatherBootTime w c =
     (case execOutput w c ''systemd-analyze'' [''time''] of
        (_, Some e) \<Rightarrow> (None, Some e)
      | (out, None) \<Rightarrow> (Some (parseBootTime out), None))"

definition HandleGetBootTime ::
  "(nat \<Rightarrow> nat \<Rightarrow> nat \<Rightarrow> nat) \<Rightarrow> cfg_state \<Rightarrow> int \<Rightarrow> int \<Rightarrow> ctx \<Rightarrow> world \<Rightarrow> BootTimeOutput result \<times> log_event list" where
  "HandleGetBootTime fr s now dur c w =
     run_tool fr s now dur c ToolNameGetBootTime 0 (\<lambda>ct. GatherBootTime w ct)"

section \<open>Lemmas\<close>

lemma split_char_two: "c \<notin> set a \<Longrightarrow> c \<notin> set b \<Longrightarrow> split_char c (a @ c # b) = [a, b]"
  by (simp add: split_char_at)

lemma LastIndex_notin: "x \<notin> set s \<Longrightarrow> LastIndex s (x # t) = None"
  by (induction s) auto

lemma LastIndex_at:
  assumes "x \<notin> set t" "x \<notin> set b"
  shows "LastIndex (a @ (x # t) @ b) (x # t) = Some (length a)"
proof (induction a)
  case Nil
  show ?case using assms LastIndex_notin [of x "t @ b" t] by simp
next
  case (Cons c a)
  then show ?case by simp
qed





definition tree_branch :: "bool \<Rightarrow> string" where
  "tree_branch at_end = [CHR 0xE2, CHR 0x94, if at_end then CHR 0x94 else CHR 0x9C] @ tree_bar"















text \<open>A time span as it is printed, with its value: words between single spaces.\<close>

definition span_text :: "string \<Rightarrow> f64 \<Rightarrow> bool" where
  "span_text s v = (list_all token (Fields s) \<and> Join '' '' (Fields s) = s \<and> parseTimespan s = Inr v)"

lemma unit_chars: "timespanUnits u = Some v \<Longrightarrow> set u \<subseteq> set ''nusmihdwotyh''"
  by (auto simp: timespanUnits_def split: if_splits)

lemma span_token_chars: "span_token s tok = Inr v \<Longrightarrow> CHR ''+'' \<notin> set tok \<and> CHR ''='' \<notin> set tok"
proof -
  assume ok: "span_token s tok = Inr v"
  then obtain w where "timespanUnits (dropWhile span_char tok) = Some w"
    by (auto simp: span_token_def Let_def split: if_splits prod.splits option.splits)
  then have "set (dropWhile span_char tok) \<subseteq> set ''nusmihdwotyh''" by (rule unit_chars)
  moreover have "c \<in> set (takeWhile span_char tok) \<Longrightarrow> span_char c" for c by (rule set_takeWhileD [THEN conjunct2])
  moreover have "\<not> span_char (CHR ''+'')" "\<not> span_char (CHR ''='')"
    by (simp_all add: span_char_def is_digit_def digit_val_def byte_def)
  moreover have "set tok = set (takeWhile span_char tok) \<union> set (dropWhile span_char tok)"
    by (metis set_append takeWhile_dropWhile_id)
  ultimately show ?thesis by auto
qed

lemma span_sum_chars:
  "span_sum s acc toks = Inr v \<Longrightarrow> tok \<in> set toks \<Longrightarrow> CHR ''+'' \<notin> set tok \<and> CHR ''='' \<notin> set tok"
proof (induction toks arbitrary: acc)
  case (Cons t toks)
  then obtain w where w: "span_token s t = Inr w" by (cases "span_token s t") auto
  with Cons show ?case using span_token_chars [OF w] by auto
qed simp

lemma span_text_words:
  assumes "span_text s v"
  shows "Fields s \<noteq> []" "t \<in> set (Fields s) \<Longrightarrow> token t" "s = Join '' '' (Fields s)" "is_trimmed s"
proof -
  show ne: "Fields s \<noteq> []"
  proof
    assume *: "Fields s = []"
    with assms have "s = []" by (simp add: span_text_def)
    with assms show False by (simp add: span_text_def parseTimespan_def)
  qed
  show eq: "s = Join '' '' (Fields s)" using assms by (simp add: span_text_def)
  show t: "t \<in> set (Fields s) \<Longrightarrow> token t" for t using assms by (simp add: span_text_def list_all_iff)
  show "is_trimmed s" by (subst eq, rule Join_trimmed [OF ne]) (rule t)
qed

lemma span_text_chars:
  assumes "span_text s v"
  shows "CHR ''+'' \<notin> set s" "CHR ''='' \<notin> set s" "nl \<notin> set s" "TrimSpace s = s"
proof -
  note w = span_text_words [OF assms]
  show trim: "TrimSpace s = s" by (rule TrimSpace_trimmed [OF w(4)])
  have "span_sum s (Fin 0) (Fields s) = Inr v"
    using assms trim by (auto simp: span_text_def parseTimespan_def Let_def split: if_splits)
  then have "t \<in> set (Fields s) \<Longrightarrow> CHR ''+'' \<notin> set t \<and> CHR ''='' \<notin> set t" for t by (rule span_sum_chars)
  then have "CHR ''+'' \<notin> set (Join '' '' (Fields s)) \<and> CHR ''='' \<notin> set (Join '' '' (Fields s))"
    using set_Join [of "'' ''" "Fields s"] by fastforce
  then show "CHR ''+'' \<notin> set s" "CHR ''='' \<notin> set s" using w(3) by auto
  show "nl \<notin> set s" by (subst w(3), rule Join_tokens_no_nl) (rule w(2))
qed

text \<open>Whole numbers of units from the second up: their sum is exact below 2^53.\<close>

definition whole_units :: "string \<rightharpoonup> nat" where
  "whole_units =
     map_of [(''s'', 1), (''min'', 60), (''h'', 3600), (''d'', 86400), (''w'', 7 * 86400), (''month'', 30 * 86400),
             (''y'', 365 * 86400)]"

definition whole_text :: "nat \<times> string \<Rightarrow> string" where
  "whole_text p = show_nat (fst p) @ snd p"

definition whole_seconds :: "nat \<times> string \<Rightarrow> nat" where
  "whole_seconds p = fst p * the (whole_units (snd p))"

lemma f64_round_nat: "n < 2 ^ 53 \<Longrightarrow> f64_round (of_nat n) = Fin (of_nat n)"
  using f64_round_int [of "int n"] by simp

lemma whole_unit:
  assumes "whole_units u = Some k"
  shows "timespanUnits u = Some (Fin (of_nat k))" "0 < k" "u \<noteq> []" "\<not> span_char (hd u)" "list_all printable u"
proof -
  have k: "(u, k) \<in> set [(''s'', 1), (''min'', 60), (''h'', 3600), (''d'', 86400), (''w'', 7 * 86400), (''month'', 30 * 86400),
             (''y'', 365 * 86400)]"
    using assms unfolding whole_units_def by (rule map_of_SomeD)
  have r: "f64_round 1 = Fin 1" "f64_round 60 = Fin 60" "f64_round 3600 = Fin 3600" "f64_round 86400 = Fin 86400"
    "f64_round 604800 = Fin 604800" "f64_round 2592000 = Fin 2592000" "f64_round 31536000 = Fin 31536000"
    using f64_round_nat [of 1] f64_round_nat [of 60] f64_round_nat [of 3600] f64_round_nat [of 86400]
      f64_round_nat [of 604800] f64_round_nat [of 2592000] f64_round_nat [of 31536000] by simp_all
  show "timespanUnits u = Some (Fin (of_nat k))" using k by (auto simp: timespanUnits_def r)
  show "0 < k" "u \<noteq> []" using k by auto
  show "\<not> span_char (hd u)" using k by (auto simp: span_char_def is_digit_def digit_val_def byte_def)
  show "list_all printable u" using k by (auto simp: printable_def byte_def)
qed

lemma whole_token:
  assumes "whole_units u = Some k" "n * k < 2 ^ 53"
  shows "span_token s (whole_text (n, u)) = Inr (Fin (of_nat (n * k)))" "token (whole_text (n, u))"
proof -
  note w = whole_unit [OF assms(1)]
  have d: "list_all span_char (show_nat n)"
    using show_nat_digits by (auto simp: list_all_iff span_char_def is_digit_def)
  have parts: "takeWhile span_char (show_nat n @ u) = show_nat n" "dropWhile span_char (show_nat n @ u) = u"
    using d w(3,4) by (cases u; auto simp: list_all_iff takeWhile_append2 dropWhile_append2)+
  have "n \<le> n * k" using w(2) by simp
  then have n: "n < 2 ^ 53" using assms(2) by linarith
  have "f64_round (of_nat (n * k)) = Fin (of_nat (n * k))" by (rule f64_round_nat [OF assms(2)])
  then show "span_token s (whole_text (n, u)) = Inr (Fin (of_nat (n * k)))"
    by (simp add: span_token_def whole_text_def parts ParseFloat_show_nat [OF n] w(1))
  show "token (whole_text (n, u))"
    using w(5) token_show_nat [of n] by (simp add: whole_text_def token_def)
qed

lemma whole_sum:
  assumes "\<And>p. p \<in> set ps \<Longrightarrow> whole_units (snd p) \<noteq> None" "a + sum_list (map whole_seconds ps) < 2 ^ 53"
  shows "span_sum s (Fin (of_nat a)) (map whole_text ps) = Inr (Fin (of_nat (a + sum_list (map whole_seconds ps))))"
  using assms
proof (induction ps arbitrary: a)
  case (Cons p ps)
  obtain n u k where p: "p = (n, u)" "whole_units u = Some k" using Cons.prems(1) [of p] by (cases p) auto
  then have ws: "whole_seconds p = n * k" by (simp add: whole_seconds_def)
  have lt: "n * k < 2 ^ 53" "a + n * k < 2 ^ 53" using Cons.prems(2) ws by auto
  with p have "span_sum s (Fin (of_nat a)) (map whole_text (p # ps)) = span_sum s (Fin (of_nat (a + n * k))) (map whole_text ps)"
    using f64_round_nat [OF lt(2)] whole_token(1) [OF p(2) lt(1)] by simp
  also have "\<dots> = Inr (Fin (of_nat (a + n * k + sum_list (map whole_seconds ps))))"
    using Cons.prems ws by (intro Cons.IH) (auto simp: add.assoc)
  finally show ?case using ws by (simp add: add.assoc)
qed simp

lemma whole_span_text:
  assumes "ps \<noteq> []" "\<And>p. p \<in> set ps \<Longrightarrow> whole_units (snd p) \<noteq> None" "sum_list (map whole_seconds ps) < 2 ^ 53"
  shows "span_text (Join '' '' (map whole_text ps)) (Fin (of_nat (sum_list (map whole_seconds ps))))"
proof -
  have tok: "token t" if "t \<in> set (map whole_text ps)" for t
  proof -
    from that obtain n u where nu: "(n, u) \<in> set ps" "t = whole_text (n, u)" by auto
    then obtain k where k: "whole_units u = Some k" using assms(2) by fastforce
    have "token (show_nat n @ u)" using whole_unit(5) [OF k] token_show_nat [of n] by (simp add: token_def)
    then show ?thesis using nu by (simp add: whole_text_def)
  qed
  have f: "Fields (Join '' '' (map whole_text ps)) = map whole_text ps" by (rule Fields_Join) (rule tok)
  have t: "TrimSpace (Join '' '' (map whole_text ps)) = Join '' '' (map whole_text ps)" by (rule TrimSpace_Join) (rule tok)
  have ne: "Join '' '' (map whole_text ps) \<noteq> []" using f assms(1) by fastforce
  have "span_sum s (Fin 0) (map whole_text ps) = Inr (Fin (of_nat (sum_list (map whole_seconds ps))))" for s
    using whole_sum [of ps 0 s] assms by simp
  then show ?thesis using tok ne by (simp add: span_text_def f parseTimespan_def t list_all_iff)
qed

text \<open>A line of blame: the words of the time, and the unit.\<close>

definition print_blame :: "BootBlameEntry \<Rightarrow> string" where
  "print_blame e = bb_Time e @ '' '' @ bb_Unit e"

definition printed_blame :: "BootBlameEntry \<Rightarrow> bool" where
  "printed_blame e = (token (bb_Unit e) \<and> span_text (bb_Time e) (bb_TimeSeconds e))"

lemma blame_words:
  assumes "printed_blame e"
  shows "print_blame e = Join '' '' (Fields (bb_Time e) @ [bb_Unit e])" "Fields (bb_Time e) \<noteq> []"
proof -
  have sp: "span_text (bb_Time e) (bb_TimeSeconds e)" using assms by (simp add: printed_blame_def)
  note w = span_text_words [OF sp]
  show "Fields (bb_Time e) \<noteq> []" by (rule w(1))
  then show "print_blame e = Join '' '' (Fields (bb_Time e) @ [bb_Unit e])"
    using w(3) by (simp add: print_blame_def Join_append)
qed

interpretation blame_text: line_printer parseBootBlame blame_line print_blame printed_blame
proof unfold_locales
  fix e assume ok: "printed_blame e"
  have toks: "t \<in> set (Fields (bb_Time e) @ [bb_Unit e]) \<Longrightarrow> token t" for t
    using ok span_text_words(2) by (auto simp: printed_blame_def)
  show "nl \<notin> set (print_blame e)"
    unfolding blame_words(1) [OF ok] by (rule Join_tokens_no_nl) (rule toks)
  have "Fields (print_blame e) = Fields (bb_Time e) @ [bb_Unit e]"
    unfolding blame_words(1) [OF ok] by (rule Fields_Join) (rule toks)
  moreover have "Suc 0 \<le> length (Fields (bb_Time e))" using blame_words(2) [OF ok] by (cases "Fields (bb_Time e)") auto
  ultimately show "blame_line (print_blame e) = Some e"
    using ok blame_words(2) [OF ok] by (simp add: blame_line_def printed_blame_def span_text_def Let_def)
qed (rule parseBootBlame_def)

text \<open>The phases, between plus signs.\<close>

lemma Index_mid:
  assumes "y \<notin> set a" "y \<noteq> x"
  shows "Index (a @ x # y # t @ r) (x # y # t) = Some (length a)"
  using assms(1)
proof (induction a)
  case (Cons c a)
  then show ?case using assms(2) by (cases a) auto
qed simp

lemma Index_mid_None: "y \<notin> set s \<Longrightarrow> Index s (x # y # t) = None"
  by (induction s) (auto simp: prefix_def)

lemma split_plus:
  assumes "xs \<noteq> []" "\<And>x. x \<in> set xs \<Longrightarrow> CHR ''+'' \<notin> set x"
  shows "split_sub '' + '' (Join '' + '' xs) = xs"
  using assms
proof (induction xs)
  case (Cons x xs)
  show ?case
  proof (cases "xs = []")
    case True
    with Cons.prems show ?thesis by (subst split_sub.simps) (simp add: Index_mid_None)
  next
    case False
    have "Index (Join '' + '' (x # xs)) '' + '' = Some (length x)"
      using Cons.prems False Index_mid [of "CHR ''+''" x "CHR '' ''" "'' ''" "Join '' + '' xs"]
      by (simp add: Join_Cons)
    then show ?thesis using Cons False by (subst split_sub.simps) (simp add: Join_Cons)
  qed
qed simp

definition print_phase :: "BootPhase \<Rightarrow> string" where
  "print_phase p = bp_Time p @ '' ('' @ bp_Name p @ '')''"

definition printed_phase :: "BootPhase \<Rightarrow> bool" where
  "printed_phase p =
     (token (bp_Name p) \<and> CHR ''+'' \<notin> set (bp_Name p) \<and> CHR ''='' \<notin> set (bp_Name p) \<and> span_text (bp_Time p) (bp_Seconds p))"

lemma phase_back:
  assumes "printed_phase p"
  shows "boot_phase (print_phase p) = Some p"
proof -
  have n: "CHR '' '' \<notin> set (bp_Name p)" using assms token_no_blank(1) by (simp add: printed_phase_def)
  have idx: "LastIndex (print_phase p) '' ('' = Some (length (bp_Time p))"
    using LastIndex_at [of "CHR '' ''" "''(''" "bp_Name p @ '')''" "bp_Time p"] n by (simp add: print_phase_def)
  have suf: "HasSuffix (print_phase p) '')''" by (simp add: HasSuffix_iff print_phase_def suffix_def)
  have parts: "take (length (print_phase p) - 1 - (length (bp_Time p) + 2)) (drop (length (bp_Time p) + 2) (print_phase p)) = bp_Name p"
    "take (length (bp_Time p)) (print_phase p) = bp_Time p"
    by (simp_all add: print_phase_def)
  show ?thesis
    unfolding boot_phase_def idx option.case parts using suf assms
    by (simp add: printed_phase_def span_text_def)
qed

interpretation phases: round_trip print_phase boot_phase printed_phase
  by unfold_locales (rule phase_back)

lemma phase_chars:
  assumes "printed_phase p"
  shows "CHR ''+'' \<notin> set (print_phase p)" "CHR ''='' \<notin> set (print_phase p)" "is_trimmed (print_phase p)"
proof -
  have sp: "span_text (bp_Time p) (bp_Seconds p)" and nm: "token (bp_Name p)"
    using assms by (auto simp: printed_phase_def)
  note c = span_text_chars [OF sp]
  show "CHR ''+'' \<notin> set (print_phase p)" "CHR ''='' \<notin> set (print_phase p)"
    using assms c by (auto simp: printed_phase_def print_phase_def)
  have "is_trimmed (bp_Time p @ '' '' @ (''('' @ bp_Name p @ '')''))"
  proof (rule trimmed_append)
    show "is_trimmed (bp_Time p)" by (rule span_text_words(4) [OF sp])
    have "token (''('' @ bp_Name p @ '')'')" using nm by (auto simp: token_def printable_def byte_def)
    then show "is_trimmed (''('' @ bp_Name p @ '')'')" by (rule token_trimmed)
  qed simp
  then show "is_trimmed (print_phase p)" by (simp add: print_phase_def)
qed

lemma phases_back:
  assumes "ps \<noteq> []" "\<And>p. p \<in> set ps \<Longrightarrow> printed_phase p"
  shows "parseBootPhases (Join '' + '' (map print_phase ps)) = ps"
proof -
  have "split_sub '' + '' (Join '' + '' (map print_phase ps)) = map print_phase ps"
    using assms phase_chars(1) by (intro split_plus) auto
  then show ?thesis using assms by (simp add: parseBootPhases_def phases.dec_all)
qed

lemma phases_chars:
  assumes "ps \<noteq> []" "\<And>p. p \<in> set ps \<Longrightarrow> printed_phase p"
  shows "CHR ''='' \<notin> set (Join '' + '' (map print_phase ps))" "is_trimmed (Join '' + '' (map print_phase ps))"
proof -
  show "CHR ''='' \<notin> set (Join '' + '' (map print_phase ps))"
    using set_Join [of "'' + ''" "map print_phase ps"] phase_chars(2) assms(2) by fastforce
  show "is_trimmed (Join '' + '' (map print_phase ps))"
    using assms
  proof (induction ps)
    case (Cons p ps)
    then show ?case
      using trimmed_append [of "print_phase p" "Join '' + '' (map print_phase ps)" "'' + ''"]
      by (cases "ps = []") (auto simp: Join_Cons phase_chars(3) byte_def)
  qed simp
qed

lemma startup_line:
  assumes "ps \<noteq> []" "\<And>p. p \<in> set ps \<Longrightarrow> printed_phase p" "span_text total_time v"
  shows "boot_time_line (''Startup finished in '' @ Join '' + '' (map print_phase ps) @ '' = '' @ total_time) r =
           r\<lparr>bt_Total := total_time, bt_TotalSeconds := v, Phases := ps\<rparr>"
proof -
  let ?b = "Join '' + '' (map print_phase ps)"
  let ?line = "''Startup finished in '' @ ?b @ '' = '' @ total_time"
  note c = phases_chars [OF assms(1,2)]
  have "is_trimmed (?b @ '' = '' @ total_time)"
    using trimmed_append [OF c(2) span_text_words(4) [OF assms(3)], of "'' = ''"] by (simp add: byte_def)
  moreover have "is_trimmed ''Startup''" by (simp add: is_trimmed_def printable_def byte_def)
  ultimately have "is_trimmed (''Startup'' @ '' finished in '' @ (?b @ '' = '' @ total_time))"
    by (intro trimmed_append [of "''Startup''" "?b @ '' = '' @ total_time"]) (simp_all add: byte_def)
  then have t: "TrimSpace ?line = ?line" by (simp add: TrimSpace_trimmed)
  have "Index (?b @ '' = '' @ total_time) '' = '' = Some (length ?b)"
    using Index_mid [of "CHR ''=''" ?b "CHR '' ''" "'' ''" total_time] c(1) by simp
  then have cut: "Cut (?b @ '' = '' @ total_time) '' = '' = (?b, total_time, True)" by (simp add: Cut_def)
  have p: "TrimPrefix ?line ''Startup finished in '' = ?b @ '' = '' @ total_time"
    unfolding TrimPrefix_def by (subst CutPrefix_append) simp
  have pre: "HasPrefix ?line ''Startup finished in ''" by simp
  have sec: "span_or_zero total_time = v" using assms(3) by (simp add: span_or_zero_def span_text_def)
  show ?thesis
    unfolding boot_time_line_def t p Let_def cut
    using pre by (simp add: phases_back [OF assms(1,2)] sec)
qed

lemma TrimSuffix_append [simp]: "TrimSuffix (s @ p) p = s"
proof -
  have "CutSuffix (s @ p) p = Some s" by (simp add: CutSuffix_Some)
  then show ?thesis by (simp add: TrimSuffix_def)
qed

lemma target_line:
  assumes "token target" "span_text reached v"
  shows "boot_time_line (target @ '' reached after '' @ reached @ '' in userspace.'') r =
           r\<lparr>bt_Target := target, TargetReachedTime := reached, TargetReachedSeconds := v\<rparr>"
proof -
  let ?line = "target @ '' reached after '' @ reached @ '' in userspace.''"
  have sp: "CHR '' '' \<notin> set target" using assms(1) token_no_blank(1) by simp
  have tr: "is_trimmed reached" by (rule span_text_words(4) [OF assms(2)])
  have "is_trimmed ''userspace.''" by (simp add: is_trimmed_def printable_def byte_def)
  with tr have u: "is_trimmed (reached @ '' in '' @ ''userspace.'')"
    by (rule trimmed_append) (simp add: byte_def)
  have "is_trimmed (target @ '' reached after '' @ (reached @ '' in '' @ ''userspace.''))"
    by (rule trimmed_append [OF token_trimmed [OF assms(1)] u]) (simp add: byte_def)
  then have t: "TrimSpace ?line = ?line" by (simp add: TrimSpace_trimmed)
  have pre: "\<not> HasPrefix ?line ''Startup finished in ''"
  proof
    assume "HasPrefix ?line ''Startup finished in ''"
    then obtain q where "?line = ''Startup finished in '' @ q" by (auto simp: prefix_def)
    then have "split_char (CHR '' '') ?line = ''Startup'' # ''finished'' # ''in'' # split_char (CHR '' '') q" by simp
    then show False using sp by (simp add: split_char_at)
  qed
  have cont: "Contains ?line '' reached after ''" "Contains ?line '' in userspace''"
    unfolding Contains_iff by (metis, rule exI [of _ "target @ '' reached after '' @ reached"], rule exI [of _ "''.''"], simp)
  have split: "?line = ((target @ '' reached after '' @ reached) @ '' in userspace'') @ ''.''" by simp
  have suf: "TrimSuffix (TrimSuffix ?line ''.'') '' in userspace'' = target @ '' reached after '' @ reached"
    by (subst split) (simp only: TrimSuffix_append)
  have cut: "Cut (target @ '' reached after '' @ reached) '' reached after '' = (target, reached, True)"
    using Index_start [of "CHR '' ''" target "''reached after ''" reached] sp by (simp add: Cut_def)
  have "TrimSpace reached = reached" "span_or_zero reached = v"
    using span_text_chars(4) [OF assms(2)] assms(2) by (auto simp: span_or_zero_def span_text_def)
  then show ?thesis
    unfolding boot_time_line_def t Let_def suf cut using pre cont by simp
qed

section \<open>Properties\<close>



text \<open>
  A ranking reads back: for any units and time spans of one or more words the entries are
  exactly the lines, in order, each with the value of its span in seconds.
\<close>

theorem blame_roundtrip:
  assumes "es \<noteq> []" "\<And>e. e \<in> set es \<Longrightarrow> printed_blame e"
  shows "parseBootBlame (Join [nl] (map print_blame es)) = es"
  by (rule blame_text.parse_print [OF assms])

lemma minute_span: "span_text ''1min 2s'' (Fin 62)"
proof -
  have "span_text (Join '' '' (map whole_text [(1, ''min''), (2, ''s'')]))
          (Fin (of_nat (sum_list (map whole_seconds [(1, ''min''), (2, ''s'')]))))"
    by (rule whole_span_text) (auto simp: whole_seconds_def whole_units_def split: if_splits)
  moreover have "show_nat 1 = ''1''" "show_nat 2 = ''2''" by code_simp+
  ultimately show ?thesis by (simp add: whole_text_def whole_seconds_def whole_units_def)
qed

theorem blame_roundtrip_witness:
  "parseBootBlame (Join [nl] (map print_blame
     [\<lparr>bb_Unit = ''a.service'', bb_Time = ''1min 2s'', bb_TimeSeconds = Fin 62\<rparr>])) =
   [\<lparr>bb_Unit = ''a.service'', bb_Time = ''1min 2s'', bb_TimeSeconds = Fin 62\<rparr>]"
  by (rule blame_roundtrip) (auto simp: printed_blame_def minute_span token_def printable_def byte_def)

text \<open>
  C39. A span of whole years, months, weeks, days, hours, minutes and seconds has exactly the sum
  of its parts as its value, as long as that is below 2^53 seconds.
\<close>

theorem whole_span_exact:
  assumes "ps \<noteq> []" "\<And>p. p \<in> set ps \<Longrightarrow> whole_units (snd p) \<noteq> None" "sum_list (map whole_seconds ps) < 2 ^ 53"
  shows "parseTimespan (Join '' '' (map whole_text ps)) = Inr (Fin (of_nat (sum_list (map whole_seconds ps))))"
  using whole_span_text [OF assms] by (simp add: span_text_def)

theorem whole_span_exact_witness:
  "parseTimespan (Join '' '' (map whole_text [(3, ''h''), (5, ''s'')])) =
     Inr (Fin (of_nat (sum_list (map whole_seconds [(3, ''h''), (5, ''s'')]))))"
  by (rule whole_span_exact) (auto simp: whole_seconds_def whole_units_def split: if_splits)

text \<open>
  The two lines of \<open>systemd-analyze time\<close> read back: every phase with its name and value, in
  order, the total, and the target with the time it was reached after.
\<close>

theorem boot_time_roundtrip:
  assumes "ps \<noteq> []" "\<And>p. p \<in> set ps \<Longrightarrow> printed_phase p" "span_text total_time v"
    "token target" "span_text reached u"
  shows "parseBootTime
           (''Startup finished in '' @ Join '' + '' (map print_phase ps) @ '' = '' @ total_time @ nl #
            target @ '' reached after '' @ reached @ '' in userspace.'') =
         \<lparr>Errors = [], Phases = ps, bt_Total = total_time, bt_TotalSeconds = v, bt_Target = target,
          TargetReachedTime = reached, TargetReachedSeconds = u\<rparr>"
proof -
  let ?a = "''Startup finished in '' @ Join '' + '' (map print_phase ps) @ '' = '' @ total_time"
  let ?b = "target @ '' reached after '' @ reached @ '' in userspace.''"
  have "nl \<notin> set (Join '' + '' (map print_phase ps))"
  proof -
    have "nl \<notin> set (print_phase p)" if "p \<in> set ps" for p
      using assms(2) [OF that] span_text_chars(3) token_no_blank(2) by (auto simp: print_phase_def printed_phase_def)
    then show ?thesis using set_Join [of "'' + ''" "map print_phase ps"] by fastforce
  qed
  then have "nl \<notin> set ?a" using span_text_chars(3) [OF assms(3)] by simp
  moreover have "nl \<notin> set ?b" using span_text_chars(3) [OF assms(5)] token_no_blank(2) [OF assms(4)] by simp
  ultimately have "lines_of (?a @ nl # ?b) = [?a, ?b]" by (rule split_char_two)
  then show ?thesis
    using startup_line [OF assms(1-3)] target_line [OF assms(4,5)] by (simp add: parseBootTime_def)
qed

theorem boot_time_roundtrip_witness:
  "parseBootTime
     (''Startup finished in '' @ Join '' + '' (map print_phase
        [\<lparr>bp_Name = ''kernel'', bp_Time = ''1min 2s'', bp_Seconds = Fin 62\<rparr>,
         \<lparr>bp_Name = ''userspace'', bp_Time = ''1min 2s'', bp_Seconds = Fin 62\<rparr>]) @ '' = '' @ ''1min 2s'' @ nl #
      ''graphical.target'' @ '' reached after '' @ ''1min 2s'' @ '' in userspace.'') =
   \<lparr>Errors = [],
    Phases = [\<lparr>bp_Name = ''kernel'', bp_Time = ''1min 2s'', bp_Seconds = Fin 62\<rparr>,
              \<lparr>bp_Name = ''userspace'', bp_Time = ''1min 2s'', bp_Seconds = Fin 62\<rparr>],
    bt_Total = ''1min 2s'', bt_TotalSeconds = Fin 62, bt_Target = ''graphical.target'',
    TargetReachedTime = ''1min 2s'', TargetReachedSeconds = Fin 62\<rparr>"
  by (rule boot_time_roundtrip)
     (auto simp: printed_phase_def minute_span token_def printable_def byte_def)

text \<open>
  A time of a minute or more has two words, which the pattern does not allow: the unit is
  missing from the chain, with or without a start time.
\<close>

lemma long_time_dropped:
  "parseBootChainLine (tree_branch True @ ''dev.device @1min 9.608s'') = None"
  "parseBootChainLine (tree_branch True @ ''dev.device @1min 9.608s +2ms'') = None"
  by code_simp+

text \<open>
  A vertical bar of the tree has three bytes, not one: under it a unit of the second level has
  depth 3.
\<close>

lemma bar_counts_bytes:
  "map_option bl_Depth (parseBootChainLine ([CHR 0xE2, CHR 0x94, CHR 0x82, CHR '' '', CHR 0xE2, CHR 0x94, CHR 0x94] @ tree_bar @ ''a.service'')) = Some 3"
  "map_option bl_Depth (parseBootChainLine (''  '' @ [CHR 0xE2, CHR 0x94, CHR 0x94] @ tree_bar @ ''a.service'')) = Some 2"
  by code_simp+

end
