(* ===== verification/GoUrl.thy ===== *)
theory GoUrl
  imports GoRuntime
begin

text \<open>
  \<open>net/url.Parse\<close> as far as the server uses it: the scheme, the decoded path, and every error
  but those of a host, which is a parameter (\<open>authority\<close>, the error for a text between \<open>//\<close>
  and the path; no host is never an error).
\<close>

definition hex_value :: "char \<Rightarrow> nat option" where
  "hex_value ch =
     (let b = byte ch in
      if 48 \<le> b \<and> b \<le> 57 then Some (b - 48)
      else if 97 \<le> b \<and> b \<le> 102 then Some (b - 87)
      else if 65 \<le> b \<and> b \<le> 70 then Some (b - 55) else None)"

text \<open>\<open>unescape\<close>: percent escapes; the first one that is malformed is the error.\<close>

definition escape_error :: "string \<Rightarrow> goerr" where
  "escape_error s = ErrText (''invalid URL escape '' @ go_quote (take 3 s))"

fun unescape :: "string \<Rightarrow> goerr + string" where
  "unescape [] = Inr []"
| "unescape (ch # s) =
     (if ch = CHR ''%'' then
        (case s of
           a # b # r \<Rightarrow>
             (case (hex_value a, hex_value b) of
                (Some x, Some y) \<Rightarrow> map_sum id (\<lambda>t. char_of (16 * x + y) # t) (unescape r)
              | _ \<Rightarrow> Inl (escape_error (ch # s)))
         | _ \<Rightarrow> Inl (escape_error (ch # s)))
      else map_sum id (\<lambda>t. ch # t) (unescape s))"

definition is_letter :: "char \<Rightarrow> bool" where
  "is_letter ch = (let b = byte ch in (97 \<le> b \<and> b \<le> 122) \<or> (65 \<le> b \<and> b \<le> 90))"

definition scheme_char :: "char \<Rightarrow> bool" where
  "scheme_char ch = (is_letter ch \<or> (48 \<le> byte ch \<and> byte ch \<le> 57) \<or> ch = CHR ''+'' \<or> ch = CHR ''-'' \<or> ch = CHR ''.'')"

text \<open>The scheme and the rest; without a scheme the rest is the whole text.\<close>

definition getScheme :: "string \<Rightarrow> goerr + string \<times> string" where
  "getScheme raw =
     (let a = takeWhile scheme_char raw; r = dropWhile scheme_char raw in
      if raw \<noteq> [] \<and> hd raw = CHR '':'' then Inl (ErrText ''missing protocol scheme'')
      else if raw \<noteq> [] \<and> is_letter (hd raw) \<and> r \<noteq> [] \<and> hd r = CHR '':'' then Inr (a, tl r)
      else Inr ([], raw))"

definition split_authority :: "string \<Rightarrow> string \<times> string" where
  "split_authority s = (takeWhile (\<lambda>ch. ch \<noteq> CHR ''/'') s, dropWhile (\<lambda>ch. ch \<noteq> CHR ''/'') s)"

text \<open>The scheme and the path of a reference without its fragment.\<close>

definition parse_reference :: "(string \<Rightarrow> goerr option) \<Rightarrow> string \<Rightarrow> goerr + string \<times> string" where
  "parse_reference authority raw =
     (if list_ex (\<lambda>ch. byte ch < 32 \<or> byte ch = 127) raw
      then Inl (ErrText ''net/url: invalid control character in URL'')
      else if raw = ''*'' then Inr ([], ''*'')
      else case getScheme raw of
        Inl e \<Rightarrow> Inl e
      | Inr (sch, r) \<Rightarrow>
          let scheme = map ascii_lower sch; rest = fst (Cut r ''?'') in
          if \<not> HasPrefix rest ''/'' \<and> scheme \<noteq> [] then Inr (scheme, [])
          else if \<not> HasPrefix rest ''/'' \<and> Contains (fst (Cut rest ''/'')) '':''
          then Inl (ErrText ''first path segment in URL cannot contain colon'')
          else
            let host = HasPrefix rest ''//'' \<and> (scheme \<noteq> [] \<or> \<not> HasPrefix rest ''///'');
                (auth, path) = (if host then split_authority (drop 2 rest) else ([], rest))
            in case (if auth = [] then None else authority auth) of
                 Some e \<Rightarrow> Inl e
               | None \<Rightarrow> map_sum id (\<lambda>p. (scheme, p)) (unescape path))"

definition url_Parse :: "(string \<Rightarrow> goerr option) \<Rightarrow> string \<Rightarrow> goerr + string \<times> string" where
  "url_Parse authority raw =
     (case Cut raw ''#'' of
        (u, frag, _) \<Rightarrow>
          (case parse_reference authority u of
             Inl e \<Rightarrow> Inl (ErrWrap (''parse '' @ go_quote u) e)
           | Inr p \<Rightarrow>
               (case unescape frag of
                  Inl e \<Rightarrow> Inl (ErrWrap (''parse '' @ go_quote raw) e)
                | Inr _ \<Rightarrow> Inr p)))"

section \<open>Lemmas\<close>

lemma unescape_plain: "CHR ''%'' \<notin> set s \<Longrightarrow> unescape s = Inr s"
  by (induction s) auto

definition plain_path :: "string \<Rightarrow> bool" where
  "plain_path p = list_all (\<lambda>ch. 32 \<le> byte ch \<and> byte ch \<noteq> 127 \<and> ch \<notin> set ''%?#'') p"

text \<open>A plain path after a scheme and three slashes is the path of the URL.\<close>

lemma url_Parse_plain:
  assumes "plain_path p"
  shows "url_Parse authority (''system:///'' @ p) = Inr (''system'', CHR ''/'' # p)"
proof -
  have all: "\<And>ch. ch \<in> set p \<Longrightarrow> 32 \<le> byte ch \<and> byte ch \<noteq> 127 \<and> ch \<notin> set ''%?#''"
    using assms unfolding plain_path_def list_all_iff by blast
  have c: "CHR ''%'' \<notin> set p" "CHR ''?'' \<notin> set p" "CHR ''#'' \<notin> set p"
    using all [of "CHR ''%''"] all [of "CHR ''?''"] all [of "CHR ''#''"] by auto
  have ctl: "\<not> list_ex (\<lambda>ch. byte ch < 32 \<or> byte ch = 127) p"
    unfolding list_ex_iff using all by fastforce
  have cut: "Cut (''system:///'' @ p) ''#'' = (''system:///'' @ p, [], False)" using c by (intro Cut_char_None) simp
  have q: "Cut (''///'' @ p) ''?'' = (''///'' @ p, [], False)" using c by (intro Cut_char_None) simp
  have sch: "takeWhile scheme_char (''system:///'' @ p) = ''system''"
    "dropWhile scheme_char (''system:///'' @ p) = '':///'' @ p"
    by (simp_all add: scheme_char_def is_letter_def byte_def)
  have "is_letter (CHR ''s'')" by (simp add: is_letter_def byte_def)
  then have g: "getScheme (''system:///'' @ p) = Inr (''system'', ''///'' @ p)"
    unfolding getScheme_def sch by simp
  have ctl: "\<not> list_ex (\<lambda>ch. byte ch < 32 \<or> byte ch = 127) (''system:///'' @ p)"
    using ctl by (simp add: byte_def)
  have low: "map ascii_lower ''system'' = ''system''" by (simp add: ascii_lower_def byte_def)
  have s: "split_authority (CHR ''/'' # p) = ([], CHR ''/'' # p)" by (simp add: split_authority_def)
  have u: "unescape (CHR ''/'' # p) = Inr (CHR ''/'' # p)" using c by (intro unescape_plain) simp
  have "parse_reference authority (''system:///'' @ p) = Inr (''system'', CHR ''/'' # p)"
    unfolding parse_reference_def g sum.case prod.case low Let_def q fst_conv
    using ctl u by (simp add: s)
  then show ?thesis unfolding url_Parse_def cut by simp
qed

end
