(* ===== verification/Snapshot.thy ===== *)
theory Snapshot
  imports System Host Network Process Docker "HOL-Library.Monad_Syntax"
begin

text \<open>
  The snapshot of tools/system.go, which composes nine other tools with \<open>collectOrFallback\<close>: a
  disabled or failed tool leaves its zero value and an entry among the errors.
\<close>

record SystemSnapshotOutput = OutputErrors +
  sn_System :: SystemInfoOutput
  sn_CPU :: CPUInfoOutput
  sn_Temperature :: CPUTemperatureOutput
  sn_Memory :: MemoryInfoOutput
  sn_Disk :: DiskInfoOutput
  sn_Network :: NetworkInfoOutput
  sn_LoadAverage :: LoadAverageOutput
  sn_Processes :: ProcessInfoOutput
  sn_Docker :: DockerInfoOutput

text \<open>What the library, the system and the daemon answer to the nine gather functions.\<close>

record sources =
  so_host :: "goerr + host_info"
  so_cpu :: "goerr + cpu_stat list"
  so_percent :: "goerr + f64 list"
  so_counts :: "bool \<Rightarrow> goerr + int"
  so_sensors :: "TemperatureStat list \<times> goerr option"
  so_virtual :: "goerr + usage_numbers"
  so_swap :: "goerr + usage_numbers"
  so_partitions :: "goerr + partition_stat list"
  so_usage :: "string \<Rightarrow> goerr + usage_numbers"
  so_counters :: "goerr + io_counters list"
  so_processes :: "goerr + gproc list"
  so_docker :: docker

section \<open>The zero values\<close>

definition no_system :: SystemInfoOutput where
  "no_system =
     \<lparr>Errors = [], Hostname = [], OSName = [], OSVersion = [], KernelVersion = [], Architecture = [],
      UptimeSeconds = 0, Platform = [], PlatformFamily = [], BootTime = 0, Procs = 0,
      VirtualizationSystem = [], VirtualizationRole = [], HostID = [], Manufacturer = [], ProductName = [],
      ProductVersion = [], BIOSVersion = [], BIOSDate = [], TPMVersion = []\<rparr>"

definition no_cpu :: CPUInfoOutput where
  "no_cpu = \<lparr>Errors = [], UsagePercent = Fin 0, PhysicalCoreCount = 0, Cores = []\<rparr>"

definition no_temperature :: CPUTemperatureOutput where
  "no_temperature = \<lparr>Errors = [], Temperatures = [], temp_Message = []\<rparr>"

definition no_memory :: MemoryInfoOutput where
  "no_memory =
     \<lparr>Errors = [], mem_Total = 0, mem_Used = 0, mem_Free = 0, mem_UsedPercent = Fin 0, SwapTotal = 0,
      SwapUsed = 0, SwapFree = 0, SwapUsedPercent = Fin 0\<rparr>"

definition no_disk :: DiskInfoOutput where "no_disk = \<lparr>Errors = [], Partitions = []\<rparr>"
definition no_network :: NetworkInfoOutput where "no_network = \<lparr>Errors = [], Interfaces = []\<rparr>"
definition no_load :: LoadAverageOutput where
  "no_load = \<lparr>Errors = [], Load1 = Fin 0, Load5 = Fin 0, Load15 = Fin 0\<rparr>"
definition no_processes :: ProcessInfoOutput where
  "no_processes = \<lparr>Errors = [], Processes = [], ByCPU = [], ByMemory = []\<rparr>"
definition no_docker :: DockerInfoOutput where
  "no_docker = \<lparr>Errors = [], dk_Containers = [], dk_Images = []\<rparr>"

section \<open>The snapshot\<close>

text \<open>\<open>None\<close> is the panic of \<open>collectOrFallback\<close>.\<close>

definition gather_snapshot ::
  "ProcessStat sorter \<Rightarrow> cfg_state \<Rightarrow> world \<Rightarrow> sources \<Rightarrow> ctx \<Rightarrow> SystemSnapshotOutput result option" where
  "gather_snapshot srt s w so c = do {
     (sys, errs) \<leftarrow> collectOrFallback s c ToolNameGetSystemInfo (\<lambda>_. GatherSystemInfo (so_host so) w) no_system [];
     (cpu, errs) \<leftarrow> collectOrFallback s c ToolNameGetCPUInfo
       (\<lambda>_. GatherCPUInfo (so_cpu so) (so_percent so) (so_counts so)) no_cpu errs;
     (temp, errs) \<leftarrow> collectOrFallback s c ToolNameGetCPUTemperature
       (\<lambda>_. GatherCPUTemperature (so_sensors so)) no_temperature errs;
     (mem, errs) \<leftarrow> collectOrFallback s c ToolNameGetMemoryInfo
       (\<lambda>_. GatherMemoryInfo (so_virtual so) (so_swap so)) no_memory errs;
     (disk, errs) \<leftarrow> collectOrFallback s c ToolNameGetDiskInfo
       (\<lambda>_. GatherDiskInfo (so_partitions so) (so_usage so) [] (Fin 0)) no_disk errs;
     (net, errs) \<leftarrow> collectOrFallback s c ToolNameGetNetworkInfo
       (\<lambda>_. GatherNetworkInfo (so_counters so)) no_network errs;
     (load, errs) \<leftarrow> collectOrFallback s c ToolNameGetLoadAverage (\<lambda>_. GatherLoadAverage w) no_load errs;
     (procs, errs) \<leftarrow> collectOrFallback s c ToolNameGetProcessInfo
       (\<lambda>_. GatherProcessInfo srt w (so_processes so) ''cpu'' 10) no_processes errs;
     (dock, errs) \<leftarrow> collectOrFallback s c ToolNameGetDockerInfo
       (\<lambda>_. GatherDockerInfo (so_docker so)) no_docker errs;
     Some (Some \<lparr>Errors = errs, sn_System = sys, sn_CPU = cpu, sn_Temperature = temp, sn_Memory = mem,
                 sn_Disk = disk, sn_Network = net, sn_LoadAverage = load, sn_Processes = procs,
                 sn_Docker = dock\<rparr>, None)
   }"

definition HandleGetSystemSnapshot ::
  "(nat \<Rightarrow> nat \<Rightarrow> nat \<Rightarrow> nat) \<Rightarrow> cfg_state \<Rightarrow> int \<Rightarrow> int \<Rightarrow> ctx \<Rightarrow> ProcessStat sorter \<Rightarrow> world \<Rightarrow> sources \<Rightarrow>
   (SystemSnapshotOutput result \<times> log_event list) option" where
  "HandleGetSystemSnapshot fr s now dur c srt w so =
     run_partial fr s now dur c ToolNameGetSystemSnapshot 0 (gather_snapshot srt s w so)"

section \<open>Lemmas\<close>

text \<open>What one source leaves in the snapshot, and among its errors.\<close>

definition collected :: "cfg_state \<Rightarrow> ctx \<Rightarrow> string \<Rightarrow> 'o gather \<Rightarrow> 'o \<Rightarrow> 'o" where
  "collected s c name gather fallback =
     (case gatherEnabled s c name gather of (out, None) \<Rightarrow> the out | (_, Some _) \<Rightarrow> fallback)"

definition source_error :: "cfg_state \<Rightarrow> ctx \<Rightarrow> string \<Rightarrow> 'o gather \<Rightarrow> string list" where
  "source_error s c name gather =
     (case gatherEnabled s c name gather of (_, None) \<Rightarrow> [] | (_, Some e) \<Rightarrow> [name @ '': '' @ err_text e])"

lemma collect_total:
  assumes "fst r \<noteq> None \<or> snd r \<noteq> None"
  shows "collectOrFallback s c name (\<lambda>_. r) fallback errs =
           Some (collected s c name (\<lambda>_. r) fallback, errs @ source_error s c name (\<lambda>_. r))"
proof -
  obtain out err where r: "gatherEnabled s c name (\<lambda>_. r) = (out, err)" by fastforce
  have "out \<noteq> None \<or> err \<noteq> None" using assms r by (auto simp: gatherEnabled_def split: if_splits)
  then show ?thesis
    by (cases out; cases err) (simp_all add: collectOrFallback_def collected_def source_error_def r appendErr_simps)
qed

text \<open>None of the nine gather functions returns neither an output nor an error.\<close>

lemma sources_answer:
  "fst (GatherSystemInfo h w) \<noteq> None \<or> snd (GatherSystemInfo h w) \<noteq> None"
  "fst (GatherCPUTemperature t) \<noteq> None \<or> snd (GatherCPUTemperature t) \<noteq> None"
  "fst (GatherNetworkInfo n) \<noteq> None \<or> snd (GatherNetworkInfo n) \<noteq> None"
  "fst (GatherProcessInfo srt w ps key k) \<noteq> None \<or> snd (GatherProcessInfo srt w ps key k) \<noteq> None"
  "fst (GatherDockerInfo d) \<noteq> None \<or> snd (GatherDockerInfo d) \<noteq> None"
  by (auto simp: GatherSystemInfo_def GatherCPUTemperature_def GatherNetworkInfo_def GatherProcessInfo_def
      GatherDockerInfo_def Let_def split: sum.splits prod.splits)

lemmas snapshot_steps = sources_answer [THEN collect_total] answers_something [THEN collect_total]

section \<open>Properties\<close>

text \<open>
  C17. A snapshot never fails and never panics: there is always an output and no error, every
  section is what its tool answers, or its zero value when the tool is disabled or fails, and the
  errors are those of the failed tools, each once, in order, with the tool's name.
\<close>

theorem snapshot_never_fails:
  "\<exists>out. gather_snapshot srt s w so c = Some (Some out, None) \<and>
     Errors out = concat
         [source_error s c ToolNameGetSystemInfo (\<lambda>_. GatherSystemInfo (so_host so) w),
          source_error s c ToolNameGetCPUInfo (\<lambda>_. GatherCPUInfo (so_cpu so) (so_percent so) (so_counts so)),
          source_error s c ToolNameGetCPUTemperature (\<lambda>_. GatherCPUTemperature (so_sensors so)),
          source_error s c ToolNameGetMemoryInfo (\<lambda>_. GatherMemoryInfo (so_virtual so) (so_swap so)),
          source_error s c ToolNameGetDiskInfo (\<lambda>_. GatherDiskInfo (so_partitions so) (so_usage so) [] (Fin 0)),
          source_error s c ToolNameGetNetworkInfo (\<lambda>_. GatherNetworkInfo (so_counters so)),
          source_error s c ToolNameGetLoadAverage (\<lambda>_. GatherLoadAverage w),
          source_error s c ToolNameGetProcessInfo (\<lambda>_. GatherProcessInfo srt w (so_processes so) ''cpu'' 10),
          source_error s c ToolNameGetDockerInfo (\<lambda>_. GatherDockerInfo (so_docker so))] \<and>
     sn_System out = collected s c ToolNameGetSystemInfo (\<lambda>_. GatherSystemInfo (so_host so) w) no_system \<and>
     sn_CPU out = collected s c ToolNameGetCPUInfo (\<lambda>_. GatherCPUInfo (so_cpu so) (so_percent so) (so_counts so)) no_cpu \<and>
     sn_Temperature out = collected s c ToolNameGetCPUTemperature (\<lambda>_. GatherCPUTemperature (so_sensors so)) no_temperature \<and>
     sn_Memory out = collected s c ToolNameGetMemoryInfo (\<lambda>_. GatherMemoryInfo (so_virtual so) (so_swap so)) no_memory \<and>
     sn_Disk out = collected s c ToolNameGetDiskInfo (\<lambda>_. GatherDiskInfo (so_partitions so) (so_usage so) [] (Fin 0)) no_disk \<and>
     sn_Network out = collected s c ToolNameGetNetworkInfo (\<lambda>_. GatherNetworkInfo (so_counters so)) no_network \<and>
     sn_LoadAverage out = collected s c ToolNameGetLoadAverage (\<lambda>_. GatherLoadAverage w) no_load \<and>
     sn_Processes out = collected s c ToolNameGetProcessInfo (\<lambda>_. GatherProcessInfo srt w (so_processes so) ''cpu'' 10) no_processes \<and>
     sn_Docker out = collected s c ToolNameGetDockerInfo (\<lambda>_. GatherDockerInfo (so_docker so)) no_docker"
  unfolding gather_snapshot_def by (simp add: snapshot_steps)

end
