(* ===== verification/Resources.thy ===== *)
theory Resources
  imports GoUrl Services Hardware Snapshot Storage Security
begin

text \<open>
  The resources the server offers (tools/resources.go). A resource is read by its URI: the URI is
  parsed, the entry is searched by its path, and its gather function runs under ten seconds. The
  encoder of JSON, the error of the protocol library for an unknown resource and its server are
  parameters.
\<close>

section \<open>The resources\<close>

text \<open>What the library, the system and its services answer to the gather functions.\<close>

record readings = sources +
  re_rocm :: "string \<Rightarrow> goerr + rocm_object"
  re_enum :: "rocm_object \<Rightarrow> string list"
  re_isdir :: "string \<Rightarrow> bool"
  re_systemctl :: combined

definition health_probes :: "readings \<Rightarrow> probes" where
  "health_probes so =
     \<lparr>p_virtual = so_virtual so, p_swap = so_swap so, p_partitions = so_partitions so, p_usage = so_usage so,
      p_cpu = so_cpu so, p_percent = so_percent so, p_counts = so_counts so\<rparr>"

text \<open>
  The values of type \<open>any\<close> that a resolver returns: the pointer of a gather function, which may
  be nil (\<open>None\<close>) without the value of type \<open>any\<close> being nil.
\<close>

datatype resource_data =
    DSystem "SystemInfoOutput option"
  | DCPU "CPUInfoOutput option"
  | DMemory "MemoryInfoOutput option"
  | DDisk "DiskInfoOutput option"
  | DNetwork "NetworkInfoOutput option"
  | DLoad "LoadAverageOutput option"
  | DTemperature "CPUTemperatureOutput option"
  | DGPU "GPUInfoOutput option"
  | DUsers "LoggedInUsersOutput option"
  | DPorts "ListeningPortsOutput option"
  | DLogins "FailedLoginsOutput option"
  | DBlock "BlockDevicesOutput option"
  | DRAID "RAIDStatusOutput option"
  | DTime "TimeSyncStatusOutput option"
  | DSecurity "SELinuxAppArmorOutput option"
  | DLogrotate "LogrotateStatusOutput option"
  | DHealth "SystemHealthCheckOutput option"
  | DService "ServiceStatusOutput option"

type_synonym resolver_fun = "cfg_state \<Rightarrow> world \<Rightarrow> readings \<Rightarrow> ctx \<Rightarrow> string \<Rightarrow> resource_data result"

record resourceDef =
  res_Path :: string
  res_Name :: string
  res_Description :: string
  res_ToolName :: string
  resolver :: resolver_fun

text \<open>The conversion of a gather function's two values to \<open>(any, error)\<close>.\<close>

definition as_any :: "('o option \<Rightarrow> resource_data) \<Rightarrow> 'o result \<Rightarrow> resource_data result" where
  "as_any box r = (Some (box (fst r)), snd r)"

definition staticResource ::
  "string \<Rightarrow> string \<Rightarrow> string \<Rightarrow> string \<Rightarrow> ('o option \<Rightarrow> resource_data) \<Rightarrow>
   (cfg_state \<Rightarrow> world \<Rightarrow> readings \<Rightarrow> ctx \<Rightarrow> 'o result) \<Rightarrow> resourceDef" where
  "staticResource path name description toolName box gather =
     \<lparr>res_Path = path, res_Name = name, res_Description = description, res_ToolName = toolName,
      resolver = (\<lambda>s w so c _. as_any box (gather s w so c))\<rparr>"

definition resource_scheme :: "string \<Rightarrow> string" where
  "resource_scheme path = ''system:///'' @ path"

definition URI :: "resourceDef \<Rightarrow> string" where
  "URI r = resource_scheme (TrimPrefix (res_Path r) ''/'')"

definition resource_prefix :: "resourceDef \<Rightarrow> string" where
  "resource_prefix r = (case Index (res_Path r) ''{'' of Some i \<Rightarrow> take i (res_Path r) | None \<Rightarrow> [])"

definition isTemplate :: "resourceDef \<Rightarrow> bool" where
  "isTemplate r = (resource_prefix r \<noteq> [])"

definition disk_at :: resolver_fun where
  "disk_at s w so c rest =
     (let mountPoint = (if rest \<noteq> [] \<and> \<not> HasPrefix rest ''/'' then CHR ''/'' # rest else rest)
      in as_any DDisk (GatherDiskInfo (so_partitions so) (so_usage so) mountPoint (Fin 0)))"

definition resourceRegistry :: "resourceDef list" where
  "resourceRegistry =
     [staticResource ''/info'' ''System Information'' ''Hostname, OS, kernel version, architecture, and uptime''
        ToolNameGetSystemInfo DSystem (\<lambda>s w so c. GatherSystemInfo (so_host so) w),
      staticResource ''/cpu'' ''CPU Information'' ''CPU usage, model, frequency, and core counts''
        ToolNameGetCPUInfo DCPU (\<lambda>s w so c. GatherCPUInfo (so_cpu so) (so_percent so) (so_counts so)),
      staticResource ''/memory'' ''Memory Information'' ''RAM and swap usage statistics''
        ToolNameGetMemoryInfo DMemory (\<lambda>s w so c. GatherMemoryInfo (so_virtual so) (so_swap so)),
      \<lparr>res_Path = ''/disk'', res_Name = ''Disk Information'',
       res_Description = ''Disk usage for all mounted partitions'', res_ToolName = ToolNameGetDiskInfo,
       resolver = (\<lambda>s w so c _. as_any DDisk (GatherDiskInfo (so_partitions so) (so_usage so) [] (Fin 0)))\<rparr>,
      staticResource ''/network'' ''Network Information'' ''Network I/O statistics per interface''
        ToolNameGetNetworkInfo DNetwork (\<lambda>s w so c. GatherNetworkInfo (so_counters so)),
      staticResource ''/load'' ''Load Average'' ''1-, 5-, and 15-minute load averages''
        ToolNameGetLoadAverage DLoad (\<lambda>s w so c. GatherLoadAverage w),
      staticResource ''/temperature'' ''CPU Temperature'' ''Current CPU temperature from available sensors''
        ToolNameGetCPUTemperature DTemperature (\<lambda>s w so c. GatherCPUTemperature (so_sensors so)),
      staticResource ''/gpu'' ''GPU Information'' ''GPU usage, memory, temperature, and power (NVIDIA/AMD/Intel)''
        ToolNameGetGPUInfo DGPU (\<lambda>s w so c. GatherGPUInfo (re_rocm so) (re_enum so) w c),
      staticResource ''/logged_in_users'' ''Logged In Users'' ''Active user sessions''
        ToolNameGetLoggedInUsers DUsers (\<lambda>s w so c. GatherLoggedInUsers w c),
      \<lparr>res_Path = ''/listening_ports'', res_Name = ''Listening Ports'',
       res_Description = ''Listening ports and associated processes'', res_ToolName = ToolNameGetNetworkConnections,
       resolver = (\<lambda>s w so c _. as_any DPorts (GatherListeningPorts w c []))\<rparr>,
      \<lparr>res_Path = ''/failed_logins'', res_Name = ''Failed Logins'',
       res_Description = ''Recent failed login attempts'', res_ToolName = ToolNameGetFailedLogins,
       resolver = (\<lambda>s w so c _. as_any DLogins (GatherFailedLogins w c 20))\<rparr>,
      staticResource ''/block_devices'' ''Block Devices'' ''Block devices and partitions detected on the system''
        ToolNameGetBlockDevices DBlock (\<lambda>s w so c. GatherBlockDevices w),
      staticResource ''/raid'' ''RAID Status'' ''Software RAID status from /proc/mdstat''
        ToolNameGetRAIDStatus DRAID (\<lambda>s w so c. GatherRAIDStatus w),
      staticResource ''/time_sync'' ''Time Sync Status'' ''NTP/Chrony time synchronization status''
        ToolNameGetTimeSyncStatus DTime (\<lambda>s w so c. GatherTimeSyncStatus w c),
      staticResource ''/selinux_apparmor'' ''SELinux/AppArmor Status'' ''Status of SELinux and AppArmor security modules''
        ToolNameGetSELinuxAppArmorStatus DSecurity (\<lambda>s w so c. GatherSELinuxAppArmorStatus w c),
      staticResource ''/logrotate'' ''Logrotate Status'' ''Logrotate configuration and state file''
        ToolNameGetLogrotateStatus DLogrotate (\<lambda>s w so c. GatherLogrotateStatus w (re_isdir so)),
      staticResource ''/health'' ''System Health Check'' ''Comprehensive system health assessment''
        ToolNameGetSystemHealthCheck DHealth (\<lambda>s w so c. GatherSystemHealthCheck s w (health_probes so) c),
      \<lparr>res_Path = ''/disk/{mount_point}'', res_Name = ''Disk Information (filtered)'',
       res_Description = ''Disk usage for a specific mount point, e.g. system:///disk/ (root) or system:///disk/boot'',
       res_ToolName = ToolNameGetDiskInfo, resolver = disk_at\<rparr>,
      \<lparr>res_Path = ''/service/{name}'', res_Name = ''Service Status'',
       res_Description =
         ''Detailed status of a systemd service, e.g. system:///service/sshd or system:///service/nginx.service'',
       res_ToolName = ToolNameGetServiceStatus,
       resolver = (\<lambda>s w so c rest. as_any DService (GatherServiceStatus (re_systemctl so) c rest False))\<rparr>]"

text \<open>What is registered: a template or a fixed resource, with URI, name and description.\<close>

datatype registration = Template string string string | Fixed string string string

definition RegisterResources :: "(registration \<Rightarrow> 's \<Rightarrow> 's) \<Rightarrow> 's \<Rightarrow> 's" where
  "RegisterResources add server =
     fold (\<lambda>r. add ((if isTemplate r then Template else Fixed) (URI r) (res_Name r) (res_Description r)))
       resourceRegistry server"

fun find_in :: "string \<Rightarrow> resourceDef list \<Rightarrow> resourceDef option \<times> string" where
  "find_in path [] = (None, [])"
| "find_in path (r # rs) =
     (if resource_prefix r \<noteq> [] then
        (case CutPrefix path (resource_prefix r) of Some after \<Rightarrow> (Some r, after) | None \<Rightarrow> find_in path rs)
      else if path = res_Path r then (Some r, []) else find_in path rs)"

definition findResource :: "string \<Rightarrow> resourceDef option \<times> string" where
  "findResource path = find_in path resourceRegistry"

record resource_contents =
  rc_URI :: string
  rc_MIMEType :: string
  rc_Text :: string

definition handleReadResource ::
  "(string \<Rightarrow> goerr option) \<Rightarrow> (string \<Rightarrow> goerr) \<Rightarrow> (resource_data \<Rightarrow> goerr + string) \<Rightarrow> cfg_state \<Rightarrow> int \<Rightarrow>
   ctx \<Rightarrow> world \<Rightarrow> readings \<Rightarrow> string \<Rightarrow> goerr + resource_contents" where
  "handleReadResource authority not_found marshal s now c w so uri =
     (case url_Parse authority uri of
        Inl e \<Rightarrow> Inl (ErrWrap ''invalid resource URI'' e)
      | Inr (sch, path) \<Rightarrow>
          if sch \<noteq> ''system'' then Inl (not_found uri)
          else case findResource path of
            (None, _) \<Rightarrow> Inl (not_found uri)
          | (Some r, rest) \<Rightarrow>
              (case gatherEnabled s (with_timeout now c (10 * 10 ^ 9)) (res_ToolName r)
                      (\<lambda>ct. resolver r s w so ct rest) of
                 (None, Some e) \<Rightarrow> Inl (ErrWrap ''resource unavailable'' e)
               | (None, None) \<Rightarrow> Inl (ErrText ''resource unavailable: no data'')
               | (Some data, _) \<Rightarrow>
                   (case marshal data of
                      Inl e \<Rightarrow> Inl (ErrWrap ''failed to marshal resource'' e)
                    | Inr text \<Rightarrow> Inr \<lparr>rc_URI = uri, rc_MIMEType = ''application/json'', rc_Text = text\<rparr>)))"

section \<open>Lemmas\<close>

text \<open>The search only reads prefixes and paths; it can be done on their list.\<close>

fun find_key :: "string \<Rightarrow> (string \<times> string) list \<Rightarrow> (nat \<times> string) option" where
  "find_key path [] = None"
| "find_key path ((pre, p) # ks) =
     (if pre \<noteq> [] then
        (case CutPrefix path pre of Some after \<Rightarrow> Some (0, after) | None \<Rightarrow> map_option (map_prod Suc id) (find_key path ks))
      else if path = p then Some (0, []) else map_option (map_prod Suc id) (find_key path ks))"

abbreviation resource_key :: "resourceDef \<Rightarrow> string \<times> string" where
  "resource_key r \<equiv> (resource_prefix r, res_Path r)"

lemma find_in_key:
  "find_in path rs =
     (case find_key path (map resource_key rs) of None \<Rightarrow> (None, []) | Some (i, rest) \<Rightarrow> (Some (rs ! i), rest))"
  by (induction rs) (auto split: option.splits)

definition resource_keys :: "(string \<times> string) list" where
  "resource_keys =
     [([], ''/info''), ([], ''/cpu''), ([], ''/memory''), ([], ''/disk''), ([], ''/network''), ([], ''/load''),
      ([], ''/temperature''), ([], ''/gpu''), ([], ''/logged_in_users''), ([], ''/listening_ports''),
      ([], ''/failed_logins''), ([], ''/block_devices''), ([], ''/raid''), ([], ''/time_sync''),
      ([], ''/selinux_apparmor''), ([], ''/logrotate''), ([], ''/health''),
      (''/disk/'', ''/disk/{mount_point}''), (''/service/'', ''/service/{name}'')]"

lemma registry_keys: "map resource_key resourceRegistry = resource_keys"
  by (simp add: resourceRegistry_def resource_keys_def staticResource_def resource_prefix_def)

lemma registry_length: "length resourceRegistry = 19"
  by (simp add: resourceRegistry_def)

lemma key_at: "i < 19 \<Longrightarrow> resource_key (resourceRegistry ! i) = resource_keys ! i"
  using registry_length by (metis nth_map registry_keys)

lemma fixed_keys:
  "list_all (\<lambda>i. fst (resource_keys ! i) \<noteq> [] \<or> find_key (snd (resource_keys ! i)) resource_keys = Some (i, [])) [0..<19]"
  by code_simp

lemma template_keys:
  "find_key (''/disk/'' @ rest) resource_keys = Some (17, rest)"
  "find_key (''/service/'' @ rest) resource_keys = Some (18, rest)"
  by (simp_all add: resource_keys_def CutPrefix_def)

lemma templates:
  assumes "i < 19" "fst (resource_keys ! i) \<noteq> []"
  shows "i = 17 \<or> i = 18"
proof -
  have "list_all (\<lambda>i. fst (resource_keys ! i) = [] \<or> i = 17 \<or> i = 18) [0..<19]" by code_simp
  then show ?thesis using assms by (auto simp: list_all_iff)
qed

lemma found_at: "find_key path resource_keys = Some (i, rest) \<Longrightarrow> findResource path = (Some (resourceRegistry ! i), rest)"
  by (simp add: findResource_def find_in_key registry_keys)

lemma registry_index:
  assumes "r \<in> set resourceRegistry"
  obtains i where "i < 19" "r = resourceRegistry ! i" "resource_key r = resource_keys ! i"
  using assms key_at registry_length by (metis in_set_conv_nth)

lemma find_fixed:
  assumes "r \<in> set resourceRegistry" "\<not> isTemplate r"
  shows "findResource (res_Path r) = (Some r, [])"
proof -
  obtain i where i: "i < 19" "r = resourceRegistry ! i" "resource_key r = resource_keys ! i"
    using assms(1) by (rule registry_index)
  have "fst (resource_keys ! i) = []" "snd (resource_keys ! i) = res_Path r"
    using assms(2) by (simp_all add: isTemplate_def flip: i(3))
  then have "find_key (res_Path r) resource_keys = Some (i, [])"
    using fixed_keys i(1) by (auto simp: list_all_iff)
  then show ?thesis using i(2) by (simp add: found_at)
qed

lemma find_template:
  assumes "r \<in> set resourceRegistry" "isTemplate r"
  shows "findResource (resource_prefix r @ rest) = (Some r, rest)"
proof -
  obtain i where i: "i < 19" "r = resourceRegistry ! i" "resource_key r = resource_keys ! i"
    using assms(1) by (rule registry_index)
  have pre: "resource_prefix r = fst (resource_keys ! i)" by (simp flip: i(3))
  have at: "fst (resource_keys ! 17) = ''/disk/''" "fst (resource_keys ! 18) = ''/service/''" by code_simp+
  have "i = 17 \<or> i = 18" using templates [OF i(1)] assms(2) by (simp add: isTemplate_def pre)
  then have "find_key (resource_prefix r @ rest) resource_keys = Some (i, rest)"
    unfolding pre using template_keys [of rest] at by auto
  then show ?thesis unfolding i(2) by (rule found_at)
qed

text \<open>The paths of the fixed entries are plain, so that their URIs lead back to them.\<close>

lemma fixed_uri:
  assumes "r \<in> set resourceRegistry" "\<not> isTemplate r"
  shows "url_Parse authority (URI r) = Inr (''system'', res_Path r)"
proof -
  obtain i where i: "i < 19" "resource_key r = resource_keys ! i" using assms(1) by (rule registry_index)
  have "list_all (\<lambda>k. fst k \<noteq> [] \<or> (hd (snd k) = CHR ''/'' \<and> snd k \<noteq> [] \<and> plain_path (tl (snd k)))) resource_keys"
    by code_simp
  then have k: "hd (res_Path r) = CHR ''/''" "res_Path r \<noteq> []" "plain_path (tl (res_Path r))"
    using i assms(2) nth_mem [of i resource_keys]
    by (auto simp: list_all_iff isTemplate_def resource_keys_def)
  then obtain p where p: "res_Path r = CHR ''/'' # p" by (cases "res_Path r") auto
  then have "TrimPrefix (res_Path r) ''/'' = p" by (simp add: TrimPrefix_def CutPrefix_def)
  then show ?thesis using k p url_Parse_plain [of p authority] by (simp add: URI_def resource_scheme_def)
qed

text \<open>Every resolver answers with a value of type \<open>any\<close> that is not nil.\<close>

lemma resolver_boxes:
  assumes "r \<in> set resourceRegistry"
  shows "fst (resolver r s w so c rest) \<noteq> None"
  using assms unfolding resourceRegistry_def
  by (auto simp: staticResource_def as_any_def disk_at_def Let_def)

lemma resource_answer_aux:
  assumes "r \<in> set resourceRegistry" "\<not> isTemplate r"
  shows "handleReadResource authority not_found marshal s now c w so (URI r) =
           (if IsDisabled s (res_ToolName r)
            then Inl (ErrWrap ''resource unavailable'' (ErrText ''tool disabled by configuration''))
            else case marshal (the (fst (resolver r s w so (with_timeout now c 10000000000) []))) of
              Inl e \<Rightarrow> Inl (ErrWrap ''failed to marshal resource'' e)
            | Inr text \<Rightarrow> Inr \<lparr>rc_URI = URI r, rc_MIMEType = ''application/json'', rc_Text = text\<rparr>)"
proof -
  obtain d e where "resolver r s w so (with_timeout now c 10000000000) [] = (Some d, e)"
    using resolver_boxes [OF assms(1), of s w so "with_timeout now c 10000000000" "[]"] by (metis option.exhaust prod.collapse)
  then show ?thesis
    by (simp add: handleReadResource_def fixed_uri [OF assms] find_fixed [OF assms] gatherEnabled_def)
qed

section \<open>Properties\<close>

text \<open>
  C24. Routing of resources: the path of a fixed entry finds that entry, and every path that begins
  with the static part of a template finds the template with exactly the rest of the path; no
  entry hides another.
\<close>

theorem resource_routing:
  assumes "r \<in> set resourceRegistry"
  shows "if isTemplate r then findResource (resource_prefix r @ rest) = (Some r, rest)
         else findResource (res_Path r) = (Some r, [])"
  using find_template [OF assms] find_fixed [OF assms] by simp

theorem resource_routing_witness:
  "findResource ''/disk/boot'' = (Some (resourceRegistry ! 17), ''boot'')"
proof -
  have "resourceRegistry ! 17 \<in> set resourceRegistry" by (rule nth_mem) (simp add: registry_length)
  moreover have "resource_prefix (resourceRegistry ! 17) = ''/disk/''"
    using key_at [of 17] by (simp add: resource_keys_def)
  ultimately show ?thesis using resource_routing [of "resourceRegistry ! 17" "''boot''"] by (simp add: isTemplate_def)
qed

text \<open>
  C25. Reading the URI of a fixed resource: a disabled tool makes it unavailable, and otherwise the
  answer is the encoded value of the gather function, run under at most ten seconds, whatever
  error that function returned.
\<close>

theorem resource_answer:
  assumes "r \<in> set resourceRegistry" "\<not> isTemplate r"
  shows "handleReadResource authority not_found marshal s now c w so (URI r) =
           (if IsDisabled s (res_ToolName r)
            then Inl (ErrWrap ''resource unavailable'' (ErrText ''tool disabled by configuration''))
            else case marshal (the (fst (resolver r s w so (with_timeout now c 10000000000) []))) of
              Inl e \<Rightarrow> Inl (ErrWrap ''failed to marshal resource'' e)
            | Inr text \<Rightarrow> Inr \<lparr>rc_URI = URI r, rc_MIMEType = ''application/json'', rc_Text = text\<rparr>)"
  by (rule resource_answer_aux [OF assms])

theorem resource_answer_witness:
  "\<forall>so. handleReadResource (\<lambda>_. None) ErrText (\<lambda>_. Inr ''{}'') init_state 0 \<lparr>deadline = None\<rparr> broken_world so ''system:///load'' =
     Inr \<lparr>rc_URI = ''system:///load'', rc_MIMEType = ''application/json'', rc_Text = ''{}''\<rparr>"
proof
  fix so
  let ?r = "resourceRegistry ! 5"
  have r: "?r \<in> set resourceRegistry" by (rule nth_mem) (simp add: registry_length)
  have k: "\<not> isTemplate ?r" "URI ?r = ''system:///load''"
    using key_at [of 5] by (simp_all add: resource_keys_def isTemplate_def URI_def resource_scheme_def TrimPrefix_def CutPrefix_def)
  show "handleReadResource (\<lambda>_. None) ErrText (\<lambda>_. Inr ''{}'') init_state 0 \<lparr>deadline = None\<rparr> broken_world so ''system:///load'' =
     Inr \<lparr>rc_URI = ''system:///load'', rc_MIMEType = ''application/json'', rc_Text = ''{}''\<rparr>"
    using resource_answer [OF r k(1), of "\<lambda>_. None" ErrText "\<lambda>_. Inr ''{}''" init_state 0 "\<lparr>deadline = None\<rparr>" broken_world so]
    by (simp add: k(2) IsDisabled_def Get_def init_state_def defaultConfig_def)
qed

text \<open>
  A failed gather function answers a nil pointer, which is not a nil value of type \<open>any\<close>: the
  resource is then the text \<open>null\<close>, and the error is lost.
\<close>

lemma failed_gather_reads_null:
  assumes "\<not> IsDisabled s ToolNameGetCPUInfo" "so_cpu so = Inl e" "marshal (DCPU None) = Inr ''null''"
  shows "handleReadResource authority not_found marshal s now c w so ''system:///cpu'' =
           Inr \<lparr>rc_URI = ''system:///cpu'', rc_MIMEType = ''application/json'', rc_Text = ''null''\<rparr>"
proof -
  let ?r = "resourceRegistry ! 1"
  have r: "?r \<in> set resourceRegistry" "\<not> isTemplate ?r" "URI ?r = ''system:///cpu''" "res_ToolName ?r = ToolNameGetCPUInfo"
    "fst (resolver ?r s w so ct []) = Some (DCPU None)" for ct
    using assms(2)
    by (simp_all add: resourceRegistry_def staticResource_def isTemplate_def resource_prefix_def URI_def resource_scheme_def
        TrimPrefix_def CutPrefix_def as_any_def GatherCPUInfo_def)
  show ?thesis using resource_answer_aux [OF r(1,2)] assms(1,3) r(3,4,5) by simp
qed

text \<open>
  The name in the path of the service resource is not checked, unlike that of the tool: one that
  is an option of systemctl is passed to it.
\<close>

lemma service_option_passed:
  assumes "findResource (''/service/'' @ opt) = (Some r, rest)"
  shows "rest = opt \<and> resolver r s w so c rest = as_any DService (GatherServiceStatus (re_systemctl so) c opt False)"
proof -
  have "findResource (''/service/'' @ opt) = (Some (resourceRegistry ! 18), opt)" by (rule found_at [OF template_keys(2)])
  with assms show ?thesis by (simp add: resourceRegistry_def)
qed

end
