(* ===== verification/Tools.thy ===== *)
theory Tools
  imports Resources Boot Proc Process Packages Network Accounts System DockerObjects DockerStats
begin

text \<open>
  The tools the server offers (tools/register.go), with the input structs of all handlers. What the
  library, the system and its services answer to a call is the record \<open>machine\<close>, what the protocol
  library decodes the arguments of a call to, for each input struct, the record \<open>arguments\<close>. The
  handlers have different output types, which the protocol library encodes; here they are the
  constructors of one type, by component. The descriptions of the tools are left out.
\<close>

section \<open>Input\<close>

record GetBootCriticalChainInput =
  GetBootCriticalChain_Unit :: string

record GetDiskInfoInput =
  GetDiskInfo_MountPoint :: string
  GetDiskInfo_Threshold :: f64

record GetInodeUsageInput =
  GetInodeUsage_MountPoint :: string

record GetLargestFilesInput =
  GetLargestFiles_Path :: string
  GetLargestFiles_Limit :: int

record GetMountOptionsInput =
  GetMountOptions_MountPoint :: string

record GetDockerContainerDetailInput =
  GetDockerContainerDetail_ContainerID :: string

record GetDockerContainerLogsInput =
  GetDockerContainerLogs_ContainerID :: string
  GetDockerContainerLogs_Tail :: int
  GetDockerContainerLogs_Timestamps :: bool

record GetDockerContainerStatsInput =
  GetDockerContainerStats_ContainerIDs :: string

record GetDockerContainerTopInput =
  GetDockerContainerTop_ContainerID :: string
  GetDockerContainerTop_Args :: "string list"

record GetDockerContainerDiffInput =
  GetDockerContainerDiff_ContainerID :: string

record GetDockerImageHistoryInput =
  GetDockerImageHistory_ImageID :: string

record GetDockerImageDetailInput =
  GetDockerImageDetail_ImageID :: string

record GetJournalLogsInput =
  GetJournalLogs_Unit :: string
  GetJournalLogs_Priority :: string
  GetJournalLogs_Since :: string
  GetJournalLogs_Until :: string
  GetJournalLogs_Lines :: int
  GetJournalLogs_User :: bool

record GetManPageInput =
  GetManPage_Command :: string
  GetManPage_MaxLines :: int
  GetManPage_CleanSpecialChars :: bool
  GetManPage_Search :: string
  GetManPage_ContextLines :: int
  GetManPage_Offset :: int

record ResolveDNSInput =
  ResolveDNS_Hostname :: string

record GetNetworkConnectionsInput =
  GetNetworkConnections_Status :: string
  GetNetworkConnections_Type :: string
  GetNetworkConnections_ResolveHostnames :: bool
  GetNetworkConnections_Grouped :: bool
  GetNetworkConnections_MaxConnections :: int

record GetIPInfoInput =
  GetIPInfo_IP :: string

record GetInstalledPackagesInput =
  GetInstalledPackages_Name :: string

record PingHostInput =
  PingHost_Host :: string
  PingHost_Count :: int
  PingHost_Timeout :: int

record GetProcDiagnosticsInput =
  GetProcDiagnostics_Sections :: string

record GetProcessInfoInput =
  GetProcessInfo_SortBy :: string
  GetProcessInfo_Limit :: int

record GetTopIOProcessesInput =
  GetTopIOProcesses_Limit :: int

record GetProcessFDsInput =
  GetProcessFDs_PID :: int

record GetProcessTreeInput =
  GetProcessTree_PID :: "int option"

record GetFailedLoginsInput =
  GetFailedLogins_Lines :: int

record GetAuditLogsInput =
  GetAuditLogs_Lines :: int

record GetServiceStatusInput =
  GetServiceStatus_Name :: string
  GetServiceStatus_User :: bool

record GetSystemdUnitsInput =
  GetSystemdUnits_State :: string

record GetSMARTHealthInput =
  GetSMARTHealth_Device :: string

record GetEnvironmentVariablesInput =
  GetEnvironmentVariables_Search :: string

record GetHardwareBusInfoInput =
  GetHardwareBusInfo_Search :: string

record GetUserInfoInput =
  GetUserInfo_Search :: string

record arguments =
  arg_GetBootCriticalChainInput :: GetBootCriticalChainInput
  arg_GetDiskInfoInput :: GetDiskInfoInput
  arg_GetInodeUsageInput :: GetInodeUsageInput
  arg_GetLargestFilesInput :: GetLargestFilesInput
  arg_GetMountOptionsInput :: GetMountOptionsInput
  arg_GetDockerContainerDetailInput :: GetDockerContainerDetailInput
  arg_GetDockerContainerLogsInput :: GetDockerContainerLogsInput
  arg_GetDockerContainerStatsInput :: GetDockerContainerStatsInput
  arg_GetDockerContainerTopInput :: GetDockerContainerTopInput
  arg_GetDockerContainerDiffInput :: GetDockerContainerDiffInput
  arg_GetDockerImageHistoryInput :: GetDockerImageHistoryInput
  arg_GetDockerImageDetailInput :: GetDockerImageDetailInput
  arg_GetJournalLogsInput :: GetJournalLogsInput
  arg_GetManPageInput :: GetManPageInput
  arg_ResolveDNSInput :: ResolveDNSInput
  arg_GetNetworkConnectionsInput :: GetNetworkConnectionsInput
  arg_GetIPInfoInput :: GetIPInfoInput
  arg_GetInstalledPackagesInput :: GetInstalledPackagesInput
  arg_PingHostInput :: PingHostInput
  arg_GetProcDiagnosticsInput :: GetProcDiagnosticsInput
  arg_GetProcessInfoInput :: GetProcessInfoInput
  arg_GetTopIOProcessesInput :: GetTopIOProcessesInput
  arg_GetProcessFDsInput :: GetProcessFDsInput
  arg_GetProcessTreeInput :: GetProcessTreeInput
  arg_GetFailedLoginsInput :: GetFailedLoginsInput
  arg_GetAuditLogsInput :: GetAuditLogsInput
  arg_GetServiceStatusInput :: GetServiceStatusInput
  arg_GetSystemdUnitsInput :: GetSystemdUnitsInput
  arg_GetSMARTHealthInput :: GetSMARTHealthInput
  arg_GetEnvironmentVariablesInput :: GetEnvironmentVariablesInput
  arg_GetHardwareBusInfoInput :: GetHardwareBusInfoInput
  arg_GetUserInfoInput :: GetUserInfoInput

text \<open>A call: when it starts, how long it takes, and the context of the caller.\<close>

record call =
  call_now :: int
  call_dur :: int
  call_ctx :: ctx

record machine = readings +
  mc_world :: "world"
  mc_sort_processes :: "ProcessStat sorter"
  mc_sort_groups :: "ConnectionGroup sorter"
  mc_sort_fds :: "ProcessFD sorter"
  mc_sort_io :: "IOProcessStat sorter"
  mc_sort_files :: "LargestFileEntry sorter"
  mc_sort_environment :: "EnvironmentVariable sorter"
  mc_sort_irqs :: "(irqLine \<Rightarrow> irqLine \<Rightarrow> bool) \<Rightarrow> irqLine list \<Rightarrow> irqLine list"
  mc_sort_slabs :: "(SlabInfoEntry \<Rightarrow> SlabInfoEntry \<Rightarrow> bool) \<Rightarrow> SlabInfoEntry list \<Rightarrow> SlabInfoEntry list"
  mc_enum_runtimes :: "(string \<rightharpoonup> unit) \<Rightarrow> string list"
  mc_enum_connections :: "(int \<rightharpoonup> NetworkConnection list) \<Rightarrow> int list"
  mc_enum_fds :: "(uint64 \<rightharpoonup> ProcessFD) \<Rightarrow> uint64 list"
  mc_enum_groups :: "(string \<rightharpoonup> string list) \<Rightarrow> string list"
  mc_enum_procs :: "(int \<rightharpoonup> procInfo) \<Rightarrow> int list"
  mc_enum_roots :: "(int \<rightharpoonup> procInfo) \<Rightarrow> int list"
  mc_cron_order :: "string list"
  mc_arrive :: "statResult list \<Rightarrow> statResult list"
  mc_journal :: "json_decoder"
  mc_rfc3339 :: "int \<Rightarrow> string"
  mc_timers :: "string \<Rightarrow> goerr + SystemdTimer list"
  mc_connections :: "goerr + conn_stat list"
  mc_lookup_addr :: "string \<Rightarrow> goerr + string list"
  mc_lookup_host :: "string \<Rightarrow> goerr + string list"
  mc_is_ip :: "string \<Rightarrow> bool"
  mc_fetch :: "ctx \<Rightarrow> string \<Rightarrow> goerr + ipAPIResponse"
  mc_new_process :: "int \<Rightarrow> goerr + string \<times> (uint64 \<times> string) list"
  mc_size_of :: "dirent \<Rightarrow> goerr + int64"
  mc_stopped_files :: "ctx \<Rightarrow> nat \<Rightarrow> goerr option"
  mc_stopped_disks :: "nat \<Rightarrow> goerr option"
  mc_umask :: "nat"
  mc_fuel :: "nat"

section \<open>Output\<close>

datatype host_output =
    OSystemInfo SystemInfoOutput
  | OCPUInfo CPUInfoOutput
  | OCPUTemperature CPUTemperatureOutput
  | OMemoryInfo MemoryInfoOutput
  | OLoadAverage LoadAverageOutput
  | OEnvironmentVariables EnvironmentVariablesOutput
  | OHardwareBusInfo HardwareBusInfoOutput
  | OUserAutomation UserAutomationOutput
  | ODesktopSession DesktopSessionOutput
  | OKernelModules KernelModulesOutput
  | OSystemSnapshot SystemSnapshotOutput

datatype disk_output =
    ODiskInfo DiskInfoOutput
  | OInodeUsage InodeUsageOutput
  | OLargestFiles LargestFilesOutput
  | OMountOptions MountOptionsOutput
  | OBlockDevices BlockDevicesOutput
  | ORAIDStatus RAIDStatusOutput
  | OLogrotateStatus LogrotateStatusOutput
  | OSMARTHealth SMARTHealthOutput
  | ODiskIOMetrics DiskIOMetricsOutput
  | OFileLocks FileLocksOutput

datatype network_output =
    ONetworkInfo NetworkInfoOutput
  | ONetworkConnections NetworkConnectionsOutput
  | OResolveDNS ResolveDNSOutput
  | OIPInfo IPInfoOutput
  | ORoutingTable RoutingTableOutput
  | OPing PingOutput

datatype process_output =
    OProcessInfo ProcessInfoOutput
  | OProcessFDs ProcessFDsOutput
  | OTopIOProcesses TopIOProcessesOutput
  | OProcessTree ProcessTreeOutput
  | OSharedMemory SharedMemoryOutput
  | OProcDiagnostics ProcDiagnosticsOutput

datatype service_output =
    OServiceStatus ServiceStatusOutput
  | OSystemdUnits SystemdUnitsOutput
  | OJournalLogs JournalLogsOutput
  | OManPage ManPageOutput
  | OBootTime BootTimeOutput
  | OBootBlame BootBlameOutput
  | OBootCriticalChain BootCriticalChainOutput
  | OCronJobs CronJobsOutput
  | OTimeSyncStatus TimeSyncStatusOutput
  | OSystemHealthCheck SystemHealthCheckOutput

datatype security_output =
    OFailedLogins FailedLoginsOutput
  | OLoggedInUsers LoggedInUsersOutput
  | OSecurityAudit SecurityAuditOutput
  | OAuditLogs AuditLogsOutput
  | OSELinuxAppArmor SELinuxAppArmorOutput
  | OGetUserInfo GetUserInfoOutput

datatype package_output =
    OInstalledPackages InstalledPackagesOutput
  | OAvailableUpdates AvailableUpdatesOutput
  | OGPUInfo GPUInfoOutput
  | OPowerAnalytics PowerAnalyticsOutput

datatype docker_output =
    ODockerInfo DockerInfoOutput
  | ODockerContainerDetail DockerContainerDetailOutput
  | ODockerContainerLogs DockerContainerLogsOutput
  | ODockerContainerStats DockerContainerStatsOutput
  | ODockerContainerTop DockerContainerTopOutput
  | ODockerContainerDiff DockerContainerDiffOutput
  | ODockerImageHistory DockerImageHistoryOutput
  | ODockerImageDetail DockerImageDetailOutput
  | ODockerNetworks DockerNetworksOutput
  | ODockerVolumes DockerVolumesOutput
  | ODockerSystemInfo DockerSystemInfoOutput
  | ODockerDiskUsage DockerDiskUsageOutput

datatype tool_output =
    HostOut host_output
  | DiskOut disk_output
  | NetOut network_output
  | ProcOut process_output
  | ServOut service_output
  | SecuOut security_output
  | PackOut package_output
  | DockOut docker_output

text \<open>
  The answer of a call: output, error and log; \<open>None\<close> is a panic or a recursion that does not end.
\<close>

type_synonym tool_answer = "(tool_output result \<times> log_event list) option"

definition boxed :: "('o \<Rightarrow> tool_output) \<Rightarrow> 'o result \<times> log_event list \<Rightarrow> tool_answer" where
  "boxed box r = Some ((map_option box (fst (fst r)), snd (fst r)), snd r)"

definition boxed_partial :: "('o \<Rightarrow> tool_output) \<Rightarrow> ('o result \<times> log_event list) option \<Rightarrow> tool_answer" where
  "boxed_partial box r = (case r of None \<Rightarrow> None | Some r \<Rightarrow> boxed box r)"

section \<open>The registry\<close>

type_synonym tool_handler =
  "(nat \<Rightarrow> nat \<Rightarrow> nat \<Rightarrow> nat) \<Rightarrow> cfg_state \<Rightarrow> call \<Rightarrow> machine \<Rightarrow> arguments \<Rightarrow> tool_answer"

type_synonym toolDef = "string \<times> tool_handler"

definition tool :: "string \<Rightarrow> tool_handler \<Rightarrow> toolDef" where
  "tool name h = (name, h)"

text \<open>The entries in the order of the source, in three parts.\<close>

definition inventory_tools :: "toolDef list" where
  "inventory_tools =
     [tool ToolNameGetSystemInfo (\<lambda>fr s k m a. boxed (HostOut \<circ> OSystemInfo)
         (HandleGetSystemInfo fr s (call_now k) (call_dur k) (call_ctx k) (so_host m) (mc_world m))),
      tool ToolNameGetCPUInfo (\<lambda>fr s k m a. boxed (HostOut \<circ> OCPUInfo)
         (HandleGetCPUInfo fr s (call_now k) (call_dur k) (call_ctx k) (so_cpu m) (so_percent m) (so_counts m))),
      tool ToolNameGetCPUTemperature (\<lambda>fr s k m a. boxed (HostOut \<circ> OCPUTemperature)
         (HandleGetCPUTemperature fr s (call_now k) (call_dur k) (call_ctx k) (so_sensors m))),
      tool ToolNameGetMemoryInfo (\<lambda>fr s k m a. boxed (HostOut \<circ> OMemoryInfo)
         (HandleGetMemoryInfo fr s (call_now k) (call_dur k) (call_ctx k) (so_virtual m) (so_swap m))),
      tool ToolNameGetDiskInfo (\<lambda>fr s k m a. boxed (DiskOut \<circ> ODiskInfo)
         (HandleGetDiskInfo fr s (call_now k) (call_dur k) (call_ctx k) (so_partitions m) (so_usage m)
           (GetDiskInfo_MountPoint (arg_GetDiskInfoInput a)) (GetDiskInfo_Threshold (arg_GetDiskInfoInput a)))),
      tool ToolNameGetNetworkInfo (\<lambda>fr s k m a. boxed (NetOut \<circ> ONetworkInfo)
         (HandleGetNetworkInfo fr s (call_now k) (call_dur k) (call_ctx k) (so_counters m))),
      tool ToolNameGetProcessInfo (\<lambda>fr s k m a. boxed (ProcOut \<circ> OProcessInfo)
         (HandleGetProcessInfo fr s (call_now k) (call_dur k) (call_ctx k) (mc_sort_processes m) (mc_world m)
           (so_processes m) (GetProcessInfo_SortBy (arg_GetProcessInfoInput a))
           (GetProcessInfo_Limit (arg_GetProcessInfoInput a)))),
      tool ToolNameGetDockerInfo (\<lambda>fr s k m a. boxed (DockOut \<circ> ODockerInfo)
         (HandleGetDockerInfo fr s (call_now k) (call_dur k) (call_ctx k) (so_docker m))),
      tool ToolNameGetDockerContainerDetails (\<lambda>fr s k m a. boxed (DockOut \<circ> ODockerContainerDetail)
         (HandleGetContainerDetail fr s (call_now k) (call_dur k) (call_ctx k) (so_docker m)
           (GetDockerContainerDetail_ContainerID (arg_GetDockerContainerDetailInput a)))),
      tool ToolNameGetDockerContainerLogs (\<lambda>fr s k m a. boxed (DockOut \<circ> ODockerContainerLogs)
         (HandleGetContainerLogs fr s (call_now k) (call_dur k) (call_ctx k) (so_docker m)
           (GetDockerContainerLogs_ContainerID (arg_GetDockerContainerLogsInput a))
           (GetDockerContainerLogs_Tail (arg_GetDockerContainerLogsInput a))
           (GetDockerContainerLogs_Timestamps (arg_GetDockerContainerLogsInput a)))),
      tool ToolNameGetDockerContainerStats (\<lambda>fr s k m a. boxed_partial (DockOut \<circ> ODockerContainerStats)
         (HandleGetContainerStats fr s (call_now k) (call_dur k) (call_ctx k) (mc_arrive m) (so_docker m)
           (GetDockerContainerStats_ContainerIDs (arg_GetDockerContainerStatsInput a)))),
      tool ToolNameGetDockerContainerTop (\<lambda>fr s k m a. boxed (DockOut \<circ> ODockerContainerTop)
         (HandleGetContainerTop fr s (call_now k) (call_dur k) (call_ctx k) (so_docker m)
           (GetDockerContainerTop_ContainerID (arg_GetDockerContainerTopInput a))
           (GetDockerContainerTop_Args (arg_GetDockerContainerTopInput a)))),
      tool ToolNameGetDockerContainerDiff (\<lambda>fr s k m a. boxed (DockOut \<circ> ODockerContainerDiff)
         (HandleGetContainerDiff fr s (call_now k) (call_dur k) (call_ctx k) (so_docker m)
           (GetDockerContainerDiff_ContainerID (arg_GetDockerContainerDiffInput a)))),
      tool ToolNameGetDockerImageHistory (\<lambda>fr s k m a. boxed (DockOut \<circ> ODockerImageHistory)
         (HandleGetImageHistory fr s (call_now k) (call_dur k) (call_ctx k) (so_docker m)
           (GetDockerImageHistory_ImageID (arg_GetDockerImageHistoryInput a)))),
      tool ToolNameGetDockerImageDetails (\<lambda>fr s k m a. boxed (DockOut \<circ> ODockerImageDetail)
         (HandleGetImageDetail fr s (call_now k) (call_dur k) (call_ctx k) (so_docker m)
           (GetDockerImageDetail_ImageID (arg_GetDockerImageDetailInput a)))),
      tool ToolNameGetDockerNetworks (\<lambda>fr s k m a. boxed (DockOut \<circ> ODockerNetworks)
         (HandleGetDockerNetworks fr s (call_now k) (call_dur k) (call_ctx k) (so_docker m))),
      tool ToolNameGetDockerVolumes (\<lambda>fr s k m a. boxed (DockOut \<circ> ODockerVolumes)
         (HandleGetDockerVolumes fr s (call_now k) (call_dur k) (call_ctx k) (so_docker m))),
      tool ToolNameGetDockerSystemInfo (\<lambda>fr s k m a. boxed (DockOut \<circ> ODockerSystemInfo)
         (HandleGetDockerSystemInfo fr s (call_now k) (call_dur k) (call_ctx k) (mc_enum_runtimes m) (so_docker m))),
      tool ToolNameGetDockerDiskUsage (\<lambda>fr s k m a. boxed (DockOut \<circ> ODockerDiskUsage)
         (HandleGetDockerDiskUsage fr s (call_now k) (call_dur k) (call_ctx k) (so_docker m))),
      tool ToolNameGetSystemSnapshot (\<lambda>fr s k m a. boxed_partial (HostOut \<circ> OSystemSnapshot)
         (HandleGetSystemSnapshot fr s (call_now k) (call_dur k) (call_ctx k) (mc_sort_processes m) (mc_world m)
           (sources.truncate m)))]"

definition service_tools :: "toolDef list" where
  "service_tools =
     [tool ToolNameGetJournalLogs (\<lambda>fr s k m a. boxed (ServOut \<circ> OJournalLogs)
         (HandleGetJournalLogs fr s (call_now k) (call_dur k) (call_ctx k) (mc_world m) (mc_journal m)
           (mc_rfc3339 m) (GetJournalLogs_Unit (arg_GetJournalLogsInput a))
           (GetJournalLogs_Priority (arg_GetJournalLogsInput a)) (GetJournalLogs_Since (arg_GetJournalLogsInput a))
           (GetJournalLogs_Until (arg_GetJournalLogsInput a)) (GetJournalLogs_Lines (arg_GetJournalLogsInput a))
           (GetJournalLogs_User (arg_GetJournalLogsInput a)))),
      tool ToolNameGetInodeUsage (\<lambda>fr s k m a. boxed (DiskOut \<circ> OInodeUsage)
         (HandleGetInodeUsage fr s (call_now k) (call_dur k) (call_ctx k) (mc_world m)
           (GetInodeUsage_MountPoint (arg_GetInodeUsageInput a)))),
      tool ToolNameGetNetworkConnections (\<lambda>fr s k m a. boxed (NetOut \<circ> ONetworkConnections)
         (HandleGetNetworkConnections fr s (call_now k) (call_dur k) (call_ctx k) (mc_enum_connections m)
           (mc_sort_groups m) (mc_world m) (mc_lookup_addr m) (mc_connections m)
           (GetNetworkConnections_Status (arg_GetNetworkConnectionsInput a))
           (GetNetworkConnections_Type (arg_GetNetworkConnectionsInput a))
           (GetNetworkConnections_ResolveHostnames (arg_GetNetworkConnectionsInput a))
           (GetNetworkConnections_Grouped (arg_GetNetworkConnectionsInput a))
           (GetNetworkConnections_MaxConnections (arg_GetNetworkConnectionsInput a)))),
      tool ToolNameGetServiceStatus (\<lambda>fr s k m a. boxed (ServOut \<circ> OServiceStatus)
         (HandleGetServiceStatus fr s (call_now k) (call_dur k) (call_ctx k) (re_systemctl m)
           (GetServiceStatus_Name (arg_GetServiceStatusInput a))
           (GetServiceStatus_User (arg_GetServiceStatusInput a)))),
      tool ToolNameGetProcessFDs (\<lambda>fr s k m a. boxed (ProcOut \<circ> OProcessFDs)
         (HandleGetProcessFDs fr s (call_now k) (call_dur k) (call_ctx k) (mc_enum_fds m) (mc_sort_fds m)
           (mc_world m) (mc_new_process m) (GetProcessFDs_PID (arg_GetProcessFDsInput a)))),
      tool ToolNameGetTopIOProcesses (\<lambda>fr s k m a. boxed (ProcOut \<circ> OTopIOProcesses)
         (HandleGetTopIOProcesses fr s (call_now k) (call_dur k) (call_ctx k) (mc_sort_io m) (mc_world m)
           (GetTopIOProcesses_Limit (arg_GetTopIOProcessesInput a)))),
      tool ToolNameGetFailedLogins (\<lambda>fr s k m a. boxed (SecuOut \<circ> OFailedLogins)
         (HandleGetFailedLogins fr s (call_now k) (call_dur k) (call_ctx k) (mc_world m)
           (GetFailedLogins_Lines (arg_GetFailedLoginsInput a)))),
      tool ToolNameGetGPUInfo (\<lambda>fr s k m a. boxed (PackOut \<circ> OGPUInfo)
         (HandleGetGPUInfo fr s (call_now k) (call_dur k) (call_ctx k) (re_rocm m) (re_enum m) (mc_world m))),
      tool ToolNameGetLargestFiles (\<lambda>fr s k m a. boxed (DiskOut \<circ> OLargestFiles)
         (HandleGetLargestFiles fr s (call_now k) (call_dur k) (call_ctx k) (mc_sort_files m) (mc_world m)
           (mc_stopped_files m) (mc_size_of m) (GetLargestFiles_Path (arg_GetLargestFilesInput a))
           (GetLargestFiles_Limit (arg_GetLargestFilesInput a)))),
      tool ToolNamePingHost (\<lambda>fr s k m a. boxed (NetOut \<circ> OPing)
         (HandlePingHost fr s (call_now k) (call_dur k) (call_ctx k) (mc_is_ip m) (mc_world m)
           (PingHost_Host (arg_PingHostInput a)) (PingHost_Count (arg_PingHostInput a))
           (PingHost_Timeout (arg_PingHostInput a)))),
      tool ToolNameGetInstalledPackages (\<lambda>fr s k m a. boxed (PackOut \<circ> OInstalledPackages)
         (HandleGetInstalledPackages fr s (call_now k) (call_dur k) (call_ctx k) (mc_world m)
           (GetInstalledPackages_Name (arg_GetInstalledPackagesInput a)))),
      tool ToolNameGetAvailableUpdates (\<lambda>fr s k m a. boxed (PackOut \<circ> OAvailableUpdates)
         (HandleGetAvailableUpdates fr s (call_now k) (call_dur k) (call_ctx k) (mc_world m))),
      tool ToolNameGetLoadAverage (\<lambda>fr s k m a. boxed (HostOut \<circ> OLoadAverage)
         (HandleGetLoadAverage fr s (call_now k) (call_dur k) (call_ctx k) (mc_world m))),
      tool ToolNameGetLoggedInUsers (\<lambda>fr s k m a. boxed (SecuOut \<circ> OLoggedInUsers)
         (HandleGetLoggedInUsers fr s (call_now k) (call_dur k) (call_ctx k) (mc_world m))),
      tool ToolNameResolveDNS (\<lambda>fr s k m a. boxed (NetOut \<circ> OResolveDNS)
         (HandleResolveDNS fr s (call_now k) (call_dur k) (call_ctx k) (mc_lookup_host m)
           (ResolveDNS_Hostname (arg_ResolveDNSInput a)))),
      tool ToolNameGetMountOptions (\<lambda>fr s k m a. boxed (DiskOut \<circ> OMountOptions)
         (HandleGetMountOptions fr s (call_now k) (call_dur k) (call_ctx k) (mc_world m)
           (GetMountOptions_MountPoint (arg_GetMountOptionsInput a)))),
      tool ToolNameGetSystemdUnits (\<lambda>fr s k m a. boxed (ServOut \<circ> OSystemdUnits)
         (HandleGetSystemdUnits fr s (call_now k) (call_dur k) (call_ctx k) (mc_world m)
           (GetSystemdUnits_State (arg_GetSystemdUnitsInput a)))),
      tool ToolNameGetBootTime (\<lambda>fr s k m a. boxed (ServOut \<circ> OBootTime)
         (HandleGetBootTime fr s (call_now k) (call_dur k) (call_ctx k) (mc_world m))),
      tool ToolNameGetBootBlame (\<lambda>fr s k m a. boxed (ServOut \<circ> OBootBlame)
         (HandleGetBootBlame fr s (call_now k) (call_dur k) (call_ctx k) (mc_world m))),
      tool ToolNameGetBootCriticalChain (\<lambda>fr s k m a. boxed (ServOut \<circ> OBootCriticalChain)
         (HandleGetBootCriticalChain fr s (call_now k) (call_dur k) (call_ctx k) (mc_world m)
           (GetBootCriticalChain_Unit (arg_GetBootCriticalChainInput a)))),
      tool ToolNameGetManPage (\<lambda>fr s k m a. boxed_partial (ServOut \<circ> OManPage)
         (HandleGetManPage fr s (call_now k) (call_dur k) (call_ctx k) (mc_world m)
           (GetManPage_Command (arg_GetManPageInput a)) (GetManPage_MaxLines (arg_GetManPageInput a))
           (GetManPage_Search (arg_GetManPageInput a)) (GetManPage_ContextLines (arg_GetManPageInput a))
           (GetManPage_Offset (arg_GetManPageInput a)))),
      tool ToolNameGetEnvironmentVariables (\<lambda>fr s k m a. boxed (HostOut \<circ> OEnvironmentVariables)
         (HandleGetEnvironmentVariables fr s (call_now k) (call_dur k) (call_ctx k) (mc_sort_environment m)
           (mc_world m) (GetEnvironmentVariables_Search (arg_GetEnvironmentVariablesInput a)))),
      tool ToolNameGetHardwareBusInfo (\<lambda>fr s k m a. boxed (HostOut \<circ> OHardwareBusInfo)
         (HandleGetHardwareBusInfo fr s (call_now k) (call_dur k) (call_ctx k) (mc_world m)
           (GetHardwareBusInfo_Search (arg_GetHardwareBusInfoInput a)))),
      tool ToolNameGetUserAutomation (\<lambda>fr s k m a. boxed (HostOut \<circ> OUserAutomation)
         (HandleGetUserAutomation fr s (call_now k) (call_dur k) (call_ctx k) (mc_timers m) (mc_world m)))]"

definition session_tools :: "toolDef list" where
  "session_tools =
     [tool ToolNameGetDesktopSessionInfo (\<lambda>fr s k m a. boxed (HostOut \<circ> ODesktopSession)
         (HandleGetDesktopSessionInfo fr s (call_now k) (call_dur k) (call_ctx k) (mc_world m))),
      tool ToolNameGetPowerAnalytics (\<lambda>fr s k m a. boxed (PackOut \<circ> OPowerAnalytics)
         (HandleGetPowerAnalytics fr s (call_now k) (call_dur k) (call_ctx k) (mc_world m))),
      tool ToolNameGetUserInfo (\<lambda>fr s k m a. boxed (SecuOut \<circ> OGetUserInfo)
         (HandleGetUserInfo fr s (call_now k) (call_dur k) (call_ctx k) (mc_enum_groups m) (mc_world m)
           (GetUserInfo_Search (arg_GetUserInfoInput a)))),
      tool ToolNameGetIPInfo (\<lambda>fr s k m a. boxed (NetOut \<circ> OIPInfo)
         (HandleGetIPInfo fr s (call_now k) (call_dur k) (call_ctx k) (mc_world m) (mc_is_ip m) (mc_fetch m)
           (GetIPInfo_IP (arg_GetIPInfoInput a)))),
      tool ToolNameGetBlockDevices (\<lambda>fr s k m a. boxed (DiskOut \<circ> OBlockDevices)
         (HandleGetBlockDevices fr s (call_now k) (call_dur k) (call_ctx k) (mc_world m))),
      tool ToolNameGetSELinuxAppArmorStatus (\<lambda>fr s k m a. boxed (SecuOut \<circ> OSELinuxAppArmor)
         (HandleGetSELinuxAppArmorStatus fr s (call_now k) (call_dur k) (call_ctx k) (mc_world m))),
      tool ToolNameGetTimeSyncStatus (\<lambda>fr s k m a. boxed (ServOut \<circ> OTimeSyncStatus)
         (HandleGetTimeSyncStatus fr s (call_now k) (call_dur k) (call_ctx k) (mc_world m))),
      tool ToolNameGetRAIDStatus (\<lambda>fr s k m a. boxed (DiskOut \<circ> ORAIDStatus)
         (HandleGetRAIDStatus fr s (call_now k) (call_dur k) (call_ctx k) (mc_world m))),
      tool ToolNameGetLogrotateStatus (\<lambda>fr s k m a. boxed (DiskOut \<circ> OLogrotateStatus)
         (HandleGetLogrotateStatus fr s (call_now k) (call_dur k) (call_ctx k) (mc_world m) (re_isdir m))),
      tool ToolNameGetCronJobs (\<lambda>fr s k m a. boxed (ServOut \<circ> OCronJobs)
         (HandleGetCronJobs fr s (call_now k) (call_dur k) (call_ctx k) (mc_cron_order m) (mc_world m))),
      tool ToolNameGetSystemHealthCheck (\<lambda>fr s k m a. boxed (ServOut \<circ> OSystemHealthCheck)
         (HandleGetSystemHealthCheck fr s (call_now k) (call_dur k) (call_ctx k) (mc_world m) (health_probes (readings.truncate m)))),
      tool ToolNameGetSMARTHealth (\<lambda>fr s k m a. boxed (DiskOut \<circ> OSMARTHealth)
         (HandleGetSMARTHealth fr s (call_now k) (call_dur k) (call_ctx k) (mc_stopped_disks m) (mc_world m)
           (GetSMARTHealth_Device (arg_GetSMARTHealthInput a)))),
      tool ToolNameGetSecurityAudit (\<lambda>fr s k m a. boxed_partial (SecuOut \<circ> OSecurityAudit)
         (HandleGetSecurityAudit fr s (call_now k) (call_dur k) (call_ctx k) (mc_fuel m) (mc_umask m) (mc_world m))),
      tool ToolNameGetDiskIOMetrics (\<lambda>fr s k m a. boxed (DiskOut \<circ> ODiskIOMetrics)
         (HandleGetDiskIOMetrics fr s (call_now k) (call_dur k) (call_ctx k) (mc_world m))),
      tool ToolNameGetProcDiagnostics (\<lambda>fr s k m a. boxed (ProcOut \<circ> OProcDiagnostics)
         (HandleGetProcDiagnostics fr s (call_now k) (call_dur k) (call_ctx k) (mc_sort_irqs m) (mc_sort_slabs m)
           (mc_world m) (GetProcDiagnostics_Sections (arg_GetProcDiagnosticsInput a)))),
      tool ToolNameGetAuditLogs (\<lambda>fr s k m a. boxed_partial (SecuOut \<circ> OAuditLogs)
         (HandleGetAuditLogs fr s (call_now k) (call_dur k) (call_ctx k) (mc_world m)
           (GetAuditLogs_Lines (arg_GetAuditLogsInput a)))),
      tool ToolNameGetFileLocks (\<lambda>fr s k m a. boxed (DiskOut \<circ> OFileLocks)
         (HandleGetFileLocks fr s (call_now k) (call_dur k) (call_ctx k) (mc_world m))),
      tool ToolNameGetSharedMemorySegments (\<lambda>fr s k m a. boxed (ProcOut \<circ> OSharedMemory)
         (HandleGetSharedMemorySegments fr s (call_now k) (call_dur k) (call_ctx k) (mc_world m))),
      tool ToolNameGetProcessTree (\<lambda>fr s k m a. boxed_partial (ProcOut \<circ> OProcessTree)
         (HandleGetProcessTree fr s (call_now k) (call_dur k) (call_ctx k) (mc_fuel m) (mc_enum_procs m)
           (mc_enum_roots m) (mc_world m) (GetProcessTree_PID (arg_GetProcessTreeInput a)))),
      tool ToolNameGetKernelModules (\<lambda>fr s k m a. boxed (HostOut \<circ> OKernelModules)
         (HandleGetKernelModules fr s (call_now k) (call_dur k) (call_ctx k) (mc_world m))),
      tool ToolNameGetRoutingTable (\<lambda>fr s k m a. boxed (NetOut \<circ> ORoutingTable)
         (HandleGetRoutingTable fr s (call_now k) (call_dur k) (call_ctx k) (mc_world m)))]"

definition toolRegistry :: "toolDef list" where
  "toolRegistry = inventory_tools @ service_tools @ session_tools"

text \<open>\<open>add_tool\<close> is \<open>mcp.AddTool\<close> on the library's server.\<close>

definition RegisterTools :: "(toolDef \<Rightarrow> 's \<Rightarrow> 's) \<Rightarrow> 's \<Rightarrow> 's" where
  "RegisterTools add_tool server = fold add_tool toolRegistry server"

section \<open>Lemmas\<close>

lemmas handler_defs =
  HandleGetSystemInfo_def HandleGetCPUInfo_def HandleGetCPUTemperature_def HandleGetMemoryInfo_def
  HandleGetDiskInfo_def HandleGetNetworkInfo_def HandleGetProcessInfo_def HandleGetDockerInfo_def
  HandleGetContainerDetail_def HandleGetContainerLogs_def HandleGetContainerStats_def HandleGetContainerTop_def
  HandleGetContainerDiff_def HandleGetImageHistory_def HandleGetImageDetail_def HandleGetDockerNetworks_def
  HandleGetDockerVolumes_def HandleGetDockerSystemInfo_def HandleGetDockerDiskUsage_def
  HandleGetSystemSnapshot_def HandleGetJournalLogs_def HandleGetInodeUsage_def HandleGetNetworkConnections_def
  HandleGetServiceStatus_def HandleGetProcessFDs_def HandleGetTopIOProcesses_def HandleGetFailedLogins_def
  HandleGetGPUInfo_def HandleGetLargestFiles_def HandlePingHost_def HandleGetInstalledPackages_def
  HandleGetAvailableUpdates_def HandleGetLoadAverage_def HandleGetLoggedInUsers_def HandleResolveDNS_def
  HandleGetMountOptions_def HandleGetSystemdUnits_def HandleGetBootTime_def HandleGetBootBlame_def
  HandleGetBootCriticalChain_def HandleGetManPage_def HandleGetEnvironmentVariables_def
  HandleGetHardwareBusInfo_def HandleGetUserAutomation_def HandleGetDesktopSessionInfo_def
  HandleGetPowerAnalytics_def HandleGetUserInfo_def HandleGetIPInfo_def HandleGetBlockDevices_def
  HandleGetSELinuxAppArmorStatus_def HandleGetTimeSyncStatus_def HandleGetRAIDStatus_def
  HandleGetLogrotateStatus_def HandleGetCronJobs_def HandleGetSystemHealthCheck_def HandleGetSMARTHealth_def
  HandleGetSecurityAudit_def HandleGetDiskIOMetrics_def HandleGetProcDiagnostics_def HandleGetAuditLogs_def
  HandleGetFileLocks_def HandleGetSharedMemorySegments_def HandleGetProcessTree_def HandleGetKernelModules_def
  HandleGetRoutingTable_def

text \<open>What a handler may do under the name it is registered with.\<close>

fun event_tool :: "log_event \<Rightarrow> string" where
  "event_tool (ToolCall t _ _) = t"
| "event_tool (NilOutput t _) = t"

definition refusal :: goerr where
  "refusal = ErrText ''tool disabled by configuration''"

definition governed :: "cfg_state \<Rightarrow> string \<Rightarrow> 'o result \<times> log_event list \<Rightarrow> bool" where
  "governed s name r =
     (case r of ((out, err), evs) \<Rightarrow>
        (out = None \<or> err = None) \<and> list_all (\<lambda>ev. event_tool ev = name) evs \<and>
        (evs = [] \<longrightarrow> out = None \<and> err \<noteq> None) \<and>
        (evs \<noteq> [] \<and> IsDisabled s name \<longrightarrow> out = None \<and> err = Some refusal))"

definition obeys :: "cfg_state \<Rightarrow> string \<Rightarrow> ('o result \<times> log_event list) option \<Rightarrow> bool" where
  "obeys s name r = (case r of None \<Rightarrow> \<not> IsDisabled s name | Some x \<Rightarrow> governed s name x)"

lemma governed_run_tool: "governed s name (run_tool fr s now dur c name fallback gather)"
  by (auto simp: governed_def handleToolCall_def gatherEnabled_def refusal_def LogToolCall_def
      split: option.split prod.split)

lemma governed_error: "governed s name ((None, Some e), [])"
  by (simp add: governed_def)

lemma obeys_Some: "obeys s name (Some r) \<longleftrightarrow> governed s name r"
  by (simp add: obeys_def)

lemma obeys_run_partial: "obeys s name (run_partial fr s now dur c name fallback gather)"
  by (auto simp: obeys_def run_partial_def governed_run_tool split: option.split)

lemma obeys_boxed: "governed s name r \<Longrightarrow> obeys s name (boxed box r)"
  by (auto simp: obeys_def boxed_def governed_def split: prod.splits)

lemma obeys_boxed_partial: "obeys s name r \<Longrightarrow> obeys s name (boxed_partial box r)"
  by (auto simp: obeys_def boxed_partial_def boxed_def governed_def split: option.splits prod.splits)

lemmas governed_rules = obeys_boxed obeys_boxed_partial governed_run_tool governed_error obeys_run_partial

lemma registry_governed:
  "list_all (\<lambda>(n, h). obeys s n (h fr s k m a)) inventory_tools"
  "list_all (\<lambda>(n, h). obeys s n (h fr s k m a)) service_tools"
  "list_all (\<lambda>(n, h). obeys s n (h fr s k m a)) session_tools"
  unfolding inventory_tools_def service_tools_def session_tools_def tool_def list.pred_inject prod.case
  by (intro conjI TrueI governed_rules;
      (simp add: handler_defs Let_def governed_rules obeys_Some split: option.split list.split)?)+

text \<open>A disabled tool is answered before anything of the machine is read.\<close>

lemma run_tool_disabled:
  "IsDisabled s name \<Longrightarrow>
   run_tool fr s now dur c name fallback gather = ((None, Some refusal), [ToolCall name dur 0, NilOutput name refusal])"
  by (simp add: handleToolCall_def gatherEnabled_def refusal_def LogToolCall_def)

lemma run_partial_disabled:
  "IsDisabled s name \<Longrightarrow>
   run_partial fr s now dur c name fallback gather = Some ((None, Some refusal), [ToolCall name dur 0, NilOutput name refusal])"
  by (simp add: run_partial_def run_tool_disabled)

lemma registry_blind:
  assumes "mc_is_ip m = mc_is_ip m'"
  shows "list_all (\<lambda>(n, h). IsDisabled s n \<longrightarrow> h fr s k m a = h fr s k m' a) inventory_tools"
    "list_all (\<lambda>(n, h). IsDisabled s n \<longrightarrow> h fr s k m a = h fr s k m' a) service_tools"
    "list_all (\<lambda>(n, h). IsDisabled s n \<longrightarrow> h fr s k m a = h fr s k m' a) session_tools"
  unfolding inventory_tools_def service_tools_def session_tools_def tool_def list.pred_inject prod.case
  by (intro conjI TrueI impI;
      (simp add: handler_defs Let_def run_tool_disabled run_partial_disabled assms split: option.split list.split)?)+

lemma registry_cases:
  "t \<in> set toolRegistry \<longleftrightarrow> t \<in> set inventory_tools \<or> t \<in> set service_tools \<or> t \<in> set session_tools"
  by (auto simp: toolRegistry_def)

text \<open>The names in the order of the registry.\<close>

definition registered_names :: "string list" where
  "registered_names =
     [ToolNameGetSystemInfo,
      ToolNameGetCPUInfo,
      ToolNameGetCPUTemperature,
      ToolNameGetMemoryInfo,
      ToolNameGetDiskInfo,
      ToolNameGetNetworkInfo,
      ToolNameGetProcessInfo,
      ToolNameGetDockerInfo,
      ToolNameGetDockerContainerDetails,
      ToolNameGetDockerContainerLogs,
      ToolNameGetDockerContainerStats,
      ToolNameGetDockerContainerTop,
      ToolNameGetDockerContainerDiff,
      ToolNameGetDockerImageHistory,
      ToolNameGetDockerImageDetails,
      ToolNameGetDockerNetworks,
      ToolNameGetDockerVolumes,
      ToolNameGetDockerSystemInfo,
      ToolNameGetDockerDiskUsage,
      ToolNameGetSystemSnapshot,
      ToolNameGetJournalLogs,
      ToolNameGetInodeUsage,
      ToolNameGetNetworkConnections,
      ToolNameGetServiceStatus,
      ToolNameGetProcessFDs,
      ToolNameGetTopIOProcesses,
      ToolNameGetFailedLogins,
      ToolNameGetGPUInfo,
      ToolNameGetLargestFiles,
      ToolNamePingHost,
      ToolNameGetInstalledPackages,
      ToolNameGetAvailableUpdates,
      ToolNameGetLoadAverage,
      ToolNameGetLoggedInUsers,
      ToolNameResolveDNS,
      ToolNameGetMountOptions,
      ToolNameGetSystemdUnits,
      ToolNameGetBootTime,
      ToolNameGetBootBlame,
      ToolNameGetBootCriticalChain,
      ToolNameGetManPage,
      ToolNameGetEnvironmentVariables,
      ToolNameGetHardwareBusInfo,
      ToolNameGetUserAutomation,
      ToolNameGetDesktopSessionInfo,
      ToolNameGetPowerAnalytics,
      ToolNameGetUserInfo,
      ToolNameGetIPInfo,
      ToolNameGetBlockDevices,
      ToolNameGetSELinuxAppArmorStatus,
      ToolNameGetTimeSyncStatus,
      ToolNameGetRAIDStatus,
      ToolNameGetLogrotateStatus,
      ToolNameGetCronJobs,
      ToolNameGetSystemHealthCheck,
      ToolNameGetSMARTHealth,
      ToolNameGetSecurityAudit,
      ToolNameGetDiskIOMetrics,
      ToolNameGetProcDiagnostics,
      ToolNameGetAuditLogs,
      ToolNameGetFileLocks,
      ToolNameGetSharedMemorySegments,
      ToolNameGetProcessTree,
      ToolNameGetKernelModules,
      ToolNameGetRoutingTable]"

lemma registry_names: "map fst toolRegistry = registered_names"
  by (simp only: toolRegistry_def inventory_tools_def service_tools_def session_tools_def tool_def map_append
      list.map fst_conv append.simps registered_names_def)

lemma registered_names_distinct: "distinct registered_names"
  by code_simp

lemma registered_names_set: "set registered_names = set tool_names"
proof -
  have "list_all (\<lambda>n. n \<in> set tool_names) registered_names" by code_simp
  moreover have "list_all (\<lambda>n. n \<in> set registered_names) tool_names" by code_simp
  ultimately show ?thesis by (auto simp only: list_all_iff)
qed

section \<open>Properties\<close>

text \<open>
  C40. Every tool of the configuration is registered once and under its own name, and no other: the
  names of the registry are distinct, a server that keeps tools by name ends up with exactly the
  tools the configuration knows, and every resource belongs to one of them.
\<close>

theorem every_tool_registered:
  "distinct (map fst toolRegistry) \<and>
   dom (RegisterTools (\<lambda>t server. server(fst t \<mapsto> snd t)) Map.empty) = set tool_names \<and>
   set (map res_ToolName resourceRegistry) \<subseteq> set (map fst toolRegistry)"
proof -
  have fold: "dom (fold (\<lambda>t server. server(fst t \<mapsto> snd t)) ts m) = fst ` set ts \<union> dom m" for ts m
    by (induction ts arbitrary: m) auto
  have "fst ` set toolRegistry = set registered_names" by (simp flip: registry_names)
  then have "dom (RegisterTools (\<lambda>t server. server(fst t \<mapsto> snd t)) Map.empty) = set tool_names"
    by (simp add: RegisterTools_def fold registered_names_set)
  moreover have "set (map res_ToolName resourceRegistry) \<subseteq> set registered_names"
    by (simp add: resourceRegistry_def staticResource_def registered_names_def)
  ultimately show ?thesis by (simp only: registry_names registered_names_distinct simp_thms)
qed

text \<open>
  C1. Every handler answers under the name it is registered with: it never gives both an output and
  an error, every line of its log carries that name, a call without a log line is one refused for
  its arguments, and when the configuration disables that name, the call neither panics nor has an
  output, and its error says so.
\<close>

theorem registered_name_governs:
  assumes "(name, h) \<in> set toolRegistry"
  shows "obeys s name (h fr s k m a)"
  using assms registry_governed [of s fr k m a] by (auto simp: registry_cases list_all_iff)

theorem registered_name_governs_witness:
  "\<forall>fr s k m a. obeys s ToolNameGetSystemInfo (snd (toolRegistry ! 0) fr s k m a)"
proof -
  have "(ToolNameGetSystemInfo, snd (toolRegistry ! 0)) \<in> set toolRegistry"
    by (simp add: toolRegistry_def inventory_tools_def tool_def)
  then show ?thesis using registered_name_governs by blast
qed

text \<open>
  C16. A disabled tool sees nothing of the machine: its answer and its log are the same for any two
  machines, whatever files, commands, daemons and services they have.
\<close>

theorem disabled_tools_blind:
  assumes "(name, h) \<in> set toolRegistry" "IsDisabled s name" "mc_is_ip m = mc_is_ip m'"
  shows "h fr s k m a = h fr s k m' a"
  using assms registry_blind [OF assms(3), of s fr k a] by (auto simp: registry_cases list_all_iff)

theorem disabled_tools_blind_witness:
  "\<forall>fr k m w a. snd (toolRegistry ! 0) fr \<lparr>current = Some (defaultConfig\<lparr>Disabled := [ToolNameGetSystemInfo]\<rparr>), filePath = []\<rparr> k m a =
     snd (toolRegistry ! 0) fr \<lparr>current = Some (defaultConfig\<lparr>Disabled := [ToolNameGetSystemInfo]\<rparr>), filePath = []\<rparr> k (m\<lparr>mc_world := w\<rparr>) a"
proof (intro allI)
  fix fr k m w a
  let ?s = "\<lparr>current = Some (defaultConfig\<lparr>Disabled := [ToolNameGetSystemInfo]\<rparr>), filePath = []\<rparr>"
  have "(ToolNameGetSystemInfo, snd (toolRegistry ! 0)) \<in> set toolRegistry"
    by (simp add: toolRegistry_def inventory_tools_def tool_def)
  moreover have "IsDisabled ?s ToolNameGetSystemInfo" by (simp add: IsDisabled_def Get_def)
  ultimately show "snd (toolRegistry ! 0) fr ?s k m a = snd (toolRegistry ! 0) fr ?s k (m\<lparr>mc_world := w\<rparr>) a"
    by (rule disabled_tools_blind) simp
qed

end
