(* ===== verification/Server.thy ===== *)
theory Server
  imports Tools
begin

text \<open>
  The process (main.go): its configuration, the level of its log, and the requests it serves. A
  request is a call of a tool, the reading of a resource, or the signal that reloads the
  configuration; \<open>serve\<close> is one of them and \<open>serve_all\<close> a history of them, one after the other. The
  protocol library, its encoder and its errors are the record \<open>library\<close>.
\<close>

section \<open>The log\<close>

datatype log_level = LevelDebug | LevelInfo | LevelWarn | LevelError

text \<open>Levels are ordered by severity, and a handler writes the records of its level and above.\<close>

fun severity :: "log_level \<Rightarrow> int" where
  "severity LevelDebug = - 4"
| "severity LevelInfo = 0"
| "severity LevelWarn = 4"
| "severity LevelError = 8"

instantiation log_level :: linorder
begin

definition less_eq_log_level :: "log_level \<Rightarrow> log_level \<Rightarrow> bool" where
  "less_eq_log_level a b = (severity a \<le> severity b)"

definition less_log_level :: "log_level \<Rightarrow> log_level \<Rightarrow> bool" where
  "less_log_level a b = (severity a < severity b)"

instance
proof
  have inj: "severity a = severity b \<Longrightarrow> a = b" for a b by (cases a; cases b) simp_all
  show "x < y \<longleftrightarrow> x \<le> y \<and> \<not> y \<le> x" "x \<le> x" "x \<le> y \<Longrightarrow> y \<le> z \<Longrightarrow> x \<le> z" "x \<le> y \<or> y \<le> x" for x y z :: log_level
    by (auto simp: less_eq_log_level_def less_log_level_def)
  show "x \<le> y \<Longrightarrow> y \<le> x \<Longrightarrow> x = y" for x y :: log_level
    by (rule inj) (simp add: less_eq_log_level_def)
qed

end

definition parseLogLevel :: "string \<Rightarrow> log_level" where
  "parseLogLevel s =
     (if s = ''debug'' then LevelDebug else if s = ''info'' then LevelInfo
      else if s = ''warn'' then LevelWarn else if s = ''error'' then LevelError else LevelInfo)"

definition setupLogging :: "cfg_state \<Rightarrow> log_level" where
  "setupLogging s = parseLogLevel (LogLevel (Get s))"

record process =
  pr_config :: cfg_state
  pr_level :: log_level

text \<open>The start, which a failed load ends (\<open>None\<close>), and the signal SIGHUP.\<close>

definition main_start :: "decoder \<Rightarrow> (nat \<Rightarrow> nat \<Rightarrow> nat \<Rightarrow> nat) \<Rightarrow> world \<Rightarrow> process option" where
  "main_start dec fr w =
     (case Load dec fr w init_state of
        (_, Some e) \<Rightarrow> None
      | (s, None) \<Rightarrow> Some \<lparr>pr_config = s, pr_level = setupLogging s\<rparr>)"

definition on_sighup :: "decoder \<Rightarrow> (nat \<Rightarrow> nat \<Rightarrow> nat \<Rightarrow> nat) \<Rightarrow> world \<Rightarrow> process \<Rightarrow> process" where
  "on_sighup dec fr w p =
     (case Reload dec fr w (pr_config p) of
        (s, Some e) \<Rightarrow> p\<lparr>pr_config := s\<rparr>
      | (s, None) \<Rightarrow> \<lparr>pr_config = s, pr_level = setupLogging s\<rparr>)"

text \<open>What a handler's log lines come to: tool calls have the level info, a missing output that of errors.\<close>

fun event_level :: "log_event \<Rightarrow> log_level" where
  "event_level (ToolCall _ _ _) = LevelInfo"
| "event_level (NilOutput _ _) = LevelError"

definition written :: "process \<Rightarrow> log_event list \<Rightarrow> log_event list" where
  "written p evs = filter (\<lambda>ev. pr_level p \<le> event_level ev) evs"

section \<open>Requests\<close>

record library =
  lib_decode :: decoder
  lib_fraction :: "nat \<Rightarrow> nat \<Rightarrow> nat \<Rightarrow> nat"
  lib_authority :: "string \<Rightarrow> goerr option"
  lib_not_found :: "string \<Rightarrow> goerr"
  lib_marshal :: "resource_data \<Rightarrow> goerr + string"

datatype request =
    CallTool string call machine arguments
  | ReadResource string call machine
  | Sighup world

text \<open>The library answers a call of a tool that is not registered itself.\<close>

datatype response =
    ToolAnswer tool_answer
  | ResourceAnswer "goerr + resource_contents"
  | NoSuchTool
  | NoAnswer

fun serve :: "library \<Rightarrow> request \<Rightarrow> process \<Rightarrow> process \<times> response" where
  "serve lib (CallTool name k m a) p =
     (p, case map_of toolRegistry name of
           None \<Rightarrow> NoSuchTool
         | Some h \<Rightarrow> ToolAnswer (h (lib_fraction lib) (pr_config p) k m a))"
| "serve lib (ReadResource uri k m) p =
     (p, ResourceAnswer
           (handleReadResource (lib_authority lib) (lib_not_found lib) (lib_marshal lib) (pr_config p) (call_now k)
              (call_ctx k) (mc_world m) (readings.truncate m) uri))"
| "serve lib (Sighup w) p = (on_sighup (lib_decode lib) (lib_fraction lib) w p, NoAnswer)"

fun serve_all :: "library \<Rightarrow> request list \<Rightarrow> process \<Rightarrow> process \<times> response list" where
  "serve_all lib [] p = (p, [])"
| "serve_all lib (r # rs) p =
     (case serve lib r p of
        (p', x) \<Rightarrow> (case serve_all lib rs p' of (p'', xs) \<Rightarrow> (p'', x # xs)))"

inductive runs :: "library \<Rightarrow> process \<Rightarrow> bool" for lib where
  start: "main_start (lib_decode lib) (lib_fraction lib) w = Some p \<Longrightarrow> runs lib p"
| request: "runs lib p \<Longrightarrow> runs lib (fst (serve lib r p))"

section \<open>Lemmas\<close>

text \<open>
  The process is a store too: a signal keeps its configuration valid and its level in step, and
  one that fails changes neither the configuration in force nor the level.
\<close>

definition process_good :: "(nat \<Rightarrow> nat \<Rightarrow> nat \<Rightarrow> nat) \<Rightarrow> process \<Rightarrow> bool" where
  "process_good fr p = (cfg_good fr (pr_config p) \<and> pr_level p = setupLogging (pr_config p))"

definition sighup :: "decoder \<Rightarrow> (nat \<Rightarrow> nat \<Rightarrow> nat \<Rightarrow> nat) \<Rightarrow> world \<Rightarrow> process \<Rightarrow> process \<times> goerr option" where
  "sighup dec fr w p = (on_sighup dec fr w p, snd (Reload dec fr w (pr_config p)))"

interpretation process: guarded_store "sighup dec fr" "process_good fr" "\<lambda>p. (current (pr_config p), pr_level p)"
  for dec :: decoder and fr
proof
  fix w and p :: process
  obtain s e where s: "Reload dec fr w (pr_config p) = (s, e)" by fastforce
  have kept: "e \<noteq> None \<Longrightarrow> current s = current (pr_config p)"
    using cfg.failed_view [of dec fr "EvReload w" "pr_config p"] s by simp
  show "process_good fr (fst (sighup dec fr w p))" if "process_good fr p"
  proof -
    have "cfg_good fr s"
      using cfg.perform_good [of fr "pr_config p" dec "EvReload w"] that s by (simp add: process_good_def)
    then show ?thesis
      using that s kept by (cases e) (auto simp: sighup_def process_good_def on_sighup_def setupLogging_def Get_def)
  qed
  show "(current (pr_config (fst (sighup dec fr w p))), pr_level (fst (sighup dec fr w p))) = (current (pr_config p), pr_level p)"
    if "snd (sighup dec fr w p) \<noteq> None"
    using that s kept by (auto simp: sighup_def on_sighup_def)
qed

text \<open>Whatever the configured level, the log keeps the tools that answered nothing with an error.\<close>

lemma errors_written: "set (written p evs) \<supseteq> {NilOutput t e | t e. NilOutput t e \<in> set evs}"
  by (cases "pr_level p") (auto simp: written_def less_eq_log_level_def)

lemma serve_good: "process_good (lib_fraction lib) p \<Longrightarrow> process_good (lib_fraction lib) (fst (serve lib r p))"
  using process.perform_good [of "lib_fraction lib" p "lib_decode lib"] by (cases r) (auto simp: sighup_def)

lemma start_good:
  assumes "main_start dec fr w = Some p"
  shows "process_good fr p"
proof -
  have "cfg_good fr (fst (Load dec fr w init_state))"
    using cfg.perform_good [of fr init_state dec "EvLoad w"] by (simp add: cfg_good_def init_state_def)
  with assms show ?thesis by (auto simp: main_start_def process_good_def split: prod.splits option.splits)
qed

text \<open>The name a request is governed by: of the tool, or of the tool behind the resource.\<close>

definition resource_tool :: "library \<Rightarrow> string \<Rightarrow> string option" where
  "resource_tool lib uri =
     (case url_Parse (lib_authority lib) uri of
        Inl _ \<Rightarrow> None
      | Inr (_, path) \<Rightarrow> map_option res_ToolName (fst (findResource path)))"

fun governed_by :: "library \<Rightarrow> request \<Rightarrow> string \<Rightarrow> bool" where
  "governed_by lib (CallTool n k m a) name = (n = name \<and> n \<in> set tool_names)"
| "governed_by lib (ReadResource uri k m) name = (resource_tool lib uri = Some name)"
| "governed_by lib (Sighup w) name = False"

fun refused :: "response \<Rightarrow> bool" where
  "refused (ToolAnswer ans) = (case ans of Some ((None, Some _), _) \<Rightarrow> True | _ \<Rightarrow> False)"
| "refused (ResourceAnswer r) = (case r of Inl _ \<Rightarrow> True | Inr _ \<Rightarrow> False)"
| "refused NoSuchTool = False"
| "refused NoAnswer = False"

lemma resource_refused:
  assumes "resource_tool lib uri = Some name" "IsDisabled s name"
  shows "\<exists>e. handleReadResource (lib_authority lib) nf marshal s now c w so uri = Inl e"
  using assms
  by (auto simp: resource_tool_def handleReadResource_def gatherEnabled_def split: sum.splits prod.splits option.splits)

lemma call_refused:
  assumes "(name, h) \<in> set toolRegistry" "IsDisabled s name"
  shows "refused (ToolAnswer (h fr s k m a))"
proof -
  have ok: "obeys s name (h fr s k m a)" using assms(1) registry_governed [of s fr k m a] by (auto simp: registry_cases list_all_iff)
  then obtain out err evs where r: "h fr s k m a = Some ((out, err), evs)"
    using assms(2) by (cases "h fr s k m a") (auto simp: obeys_def)
  have "out = None \<and> err \<noteq> None"
    using ok assms(2) by (cases "evs = []") (auto simp: r obeys_def governed_def)
  then show ?thesis by (auto simp: r)
qed

lemma registered:
  assumes "name \<in> set tool_names"
  obtains h where "map_of toolRegistry name = Some h" "(name, h) \<in> set toolRegistry"
proof -
  have "name \<in> fst ` set toolRegistry"
    using assms by (simp flip: registered_names_set registry_names)
  then obtain h where "map_of toolRegistry name = Some h" by (metis domIff dom_map_of_conv_image_fst option.exhaust)
  then show thesis using that map_of_SomeD by metis
qed

lemma disabled_refused:
  assumes "governed_by lib r name" "IsDisabled (pr_config p) name"
  shows "refused (snd (serve lib r p))"
proof (cases r)
  case (CallTool n k m a)
  then have "name \<in> set tool_names" "n = name" using assms(1) by auto
  then obtain h where "map_of toolRegistry n = Some h" "(name, h) \<in> set toolRegistry" by (metis registered)
  then show ?thesis using call_refused [OF _ assms(2)] CallTool by simp
next
  case (ReadResource uri k m)
  then have t: "resource_tool lib uri = Some name" using assms(1) by simp
  obtain e where "handleReadResource (lib_authority lib) (lib_not_found lib) (lib_marshal lib) (pr_config p) (call_now k)
      (call_ctx k) (mc_world m) (readings.truncate m) uri = Inl e"
    using resource_refused [OF t assms(2)] by blast
  then show ?thesis using ReadResource by simp
next
  case (Sighup w)
  then show ?thesis using assms(1) by simp
qed

text \<open>A history whose signals all fail.\<close>

fun no_reload :: "library \<Rightarrow> request list \<Rightarrow> process \<Rightarrow> bool" where
  "no_reload lib [] p = True"
| "no_reload lib (r # rs) p =
     ((case r of Sighup w \<Rightarrow> snd (Reload (lib_decode lib) (lib_fraction lib) w (pr_config p)) \<noteq> None | _ \<Rightarrow> True) \<and>
      no_reload lib rs (fst (serve lib r p)))"

lemma no_reload_keeps:
  assumes "no_reload lib (r # rs) p"
  shows "current (pr_config (fst (serve lib r p))) = current (pr_config p)"
  using assms process.failed_view [of "lib_decode lib" "lib_fraction lib" _ p]
  by (cases r) (auto simp: sighup_def)

lemma length_serve_all [simp]: "length (snd (serve_all lib rs p)) = length rs"
proof (induction rs arbitrary: p)
  case (Cons r rs)
  obtain p' x where s: "serve lib r p = (p', x)" by fastforce
  obtain p'' xs where t: "serve_all lib rs p' = (p'', xs)" by fastforce
  with s Cons [of p'] show ?case by simp
qed simp

section \<open>Properties\<close>

text \<open>
  C10. The process keeps its log level in step with its configuration: after any requests and
  signals, with any files, the level is the one of the configuration in force, and that configuration is valid.
\<close>

theorem level_follows_config:
  assumes "runs lib p"
  shows "pr_level p = parseLogLevel (LogLevel (Get (pr_config p))) \<and> validate (lib_fraction lib) (Get (pr_config p)) = None"
proof -
  have "process_good (lib_fraction lib) p"
    using assms
  proof induction
    case (start w p)
    then show ?case by (rule start_good)
  qed (rule serve_good)
  then show ?thesis by (simp add: process_good_def setupLogging_def Get_valid)
qed

text \<open>A library without JSON, as an instance for the parameters.\<close>

definition plain_library :: library where
  "plain_library =
     \<lparr>lib_decode = reject_all, lib_fraction = exact_fraction, lib_authority = (\<lambda>_. None), lib_not_found = ErrText,
      lib_marshal = (\<lambda>_. Inr ''{}'')\<rparr>"

theorem level_follows_config_witness:
  "\<exists>p. runs plain_library p \<and> pr_level p = LevelInfo \<and> validate exact_fraction (Get (pr_config p)) = None"
proof -
  let ?p = "\<lparr>pr_config = init_state\<lparr>current := Some defaultConfig\<rparr>, pr_level = setupLogging (init_state\<lparr>current := Some defaultConfig\<rparr>)\<rparr>"
  have "envPath (broken_world\<lparr>w_environ := []\<rparr>) = []" by code_simp
  then have "main_start reject_all exact_fraction (broken_world\<lparr>w_environ := []\<rparr>) = Some ?p"
    by (simp add: main_start_def Load_def loadAtPath_def)
  then have r: "runs plain_library ?p" by (intro runs.start) (simp add: plain_library_def)
  show ?thesis
    using r level_follows_config [OF r]
    by (intro exI [of _ ?p]) (simp add: parseLogLevel_def Get_def defaultConfig_def plain_library_def)
qed

text \<open>
  C7. A tool that the configuration disables stays closed until a reload succeeds: in any history of
  calls, resource reads and failing signals, every call of that tool and every read of a resource
  that rests on it is refused, with an error and no output.
\<close>

theorem disabled_until_reload:
  assumes "no_reload lib rs p" "IsDisabled (pr_config p) name" "i < length rs" "governed_by lib (rs ! i) name"
  shows "refused (snd (serve_all lib rs p) ! i)"
  using assms
proof (induction rs arbitrary: p i)
  case (Cons r rs)
  obtain p' x where s: "serve lib r p = (p', x)" by fastforce
  obtain p'' xs where t: "serve_all lib rs p' = (p'', xs)" by fastforce
  have "IsDisabled (pr_config p') name"
    using Cons.prems(2) no_reload_keeps [OF Cons.prems(1)] s by (simp add: IsDisabled_def Get_def)
  moreover have "no_reload lib rs p'" using Cons.prems(1) s by simp
  moreover have "refused x" if "governed_by lib r name"
    using disabled_refused [OF that Cons.prems(2)] s by simp
  ultimately show ?case
    using Cons.prems(3,4) Cons.IH [of p'] s t by (cases i) auto
qed simp

theorem disabled_until_reload_witness:
  "\<forall>k m a. refused (snd (serve_all plain_library
       [Sighup broken_world, CallTool ''get_load_average'' k m a, ReadResource ''system:///load'' k m]
       \<lparr>pr_config = \<lparr>current = Some (defaultConfig\<lparr>Disabled := [''get_load_average'']\<rparr>), filePath = ''/c.json''\<rparr>,
        pr_level = LevelInfo\<rparr>) ! 1)"
proof (intro allI)
  fix k m a
  let ?p = "\<lparr>pr_config = \<lparr>current = Some (defaultConfig\<lparr>Disabled := [''get_load_average'']\<rparr>), filePath = ''/c.json''\<rparr>, pr_level = LevelInfo\<rparr>"
  let ?rs = "[Sighup broken_world, CallTool ''get_load_average'' k m a, ReadResource ''system:///load'' k m]"
  have "no_reload plain_library ?rs ?p"
    by (simp add: Reload_def loadFile_def broken_world_def plain_library_def reject_all_def)
  moreover have "governed_by plain_library (?rs ! 1) ''get_load_average''" by (simp add: tool_names_def)
  ultimately show "refused (snd (serve_all plain_library ?rs ?p) ! 1)"
    by (intro disabled_until_reload) (simp_all add: IsDisabled_def Get_def)
qed

end
