(* ===== verification/Asking.thy ===== *)
theory Asking
  imports Tools
begin

text \<open>
  The handlers of the tools with their loads of the configuration (tools/handler.go, config/config.go). The
  configuration is an \<open>atomic.Value\<close> that another goroutine may store to at any time, and a handler loads
  it anew each time it asks for a timeout or for a disabled tool. A handler is a value of
  \<open>asking\<close>, which stops at each load; \<open>asking_registry\<close> has one for every tool, and \<open>asking_call\<close>
  relates it to the handler of \<open>toolRegistry\<close>, which runs in one configuration.
\<close>

section \<open>Code that loads the configuration\<close>

datatype 'a asking = Done 'a | Ask "cfg_state \<Rightarrow> 'a asking"

primrec then_ask :: "'a asking \<Rightarrow> ('a \<Rightarrow> 'b asking) \<Rightarrow> 'b asking" where
  "then_ask (Done x) f = f x"
| "then_ask (Ask q) f = Ask (\<lambda>s. then_ask (q s) f)"

text \<open>With a result that is a panic when it is \<open>None\<close>.\<close>

definition then_try :: "'a option asking \<Rightarrow> ('a \<Rightarrow> 'b option asking) \<Rightarrow> 'b option asking" where
  "then_try p f = then_ask p (\<lambda>r. case r of None \<Rightarrow> Done None | Some x \<Rightarrow> f x)"

text \<open>The result for the configurations the loads return, one for each load.\<close>

primrec feed :: "'a asking \<Rightarrow> cfg_state list \<Rightarrow> 'a option" where
  "feed (Done x) = (\<lambda>ss. if ss = [] then Some x else None)"
| "feed (Ask q) = (\<lambda>ss. case ss of [] \<Rightarrow> None | s # ss' \<Rightarrow> feed (q s) ss')"

text \<open>\<open>gatherEnabled\<close>, \<open>handleToolCall\<close> and \<open>collectOrFallback\<close>, with their loads in the order of the code.\<close>

definition enabled_asking :: "ctx \<Rightarrow> string \<Rightarrow> (ctx \<Rightarrow> 'o result option asking) \<Rightarrow> 'o result option asking" where
  "enabled_asking c name gather =
     Ask (\<lambda>s. if IsDisabled s name then Done (Some (None, Some (ErrText ''tool disabled by configuration'')))
              else gather c)"

definition call_answer :: "string \<Rightarrow> int \<Rightarrow> ('a OutputErrors_scheme) result \<Rightarrow> ('a OutputErrors_scheme) result \<times> log_event list" where
  "call_answer name dur r =
     (case r of
        (Some out, err) \<Rightarrow>
          ((Some (case err of None \<Rightarrow> out | Some e \<Rightarrow> AppendError (err_text e) out), None),
           [LogToolCall name dur (ErrorCount out)])
      | (None, Some e) \<Rightarrow> ((None, Some e), [LogToolCall name dur 0, NilOutput name e])
      | (None, None) \<Rightarrow> ((None, None), [LogToolCall name dur 0]))"

definition handle_asking ::
  "(nat \<Rightarrow> nat \<Rightarrow> nat \<Rightarrow> nat) \<Rightarrow> int \<Rightarrow> int \<Rightarrow> ctx \<Rightarrow> string \<Rightarrow> int \<Rightarrow>
   (ctx \<Rightarrow> ('a OutputErrors_scheme) result option asking) \<Rightarrow>
   (('a OutputErrors_scheme) result \<times> log_event list) option asking" where
  "handle_asking fr now dur c name fallback gather =
     Ask (\<lambda>s. then_ask (enabled_asking (WithToolTimeout fr s now c name fallback) name gather)
                (\<lambda>r. Done (map_option (call_answer name dur) r)))"

definition collect_asking ::
  "ctx \<Rightarrow> string \<Rightarrow> 'o gather \<Rightarrow> 'o \<Rightarrow> string list \<Rightarrow> ('o \<times> string list) option asking" where
  "collect_asking c name gather fallback errs =
     then_try (enabled_asking c name (\<lambda>ct. Done (Some (gather ct))))
       (\<lambda>r. Done (case r of
          (_, Some e) \<Rightarrow> Some (fallback, appendErr errs name (Some e))
        | (Some out, None) \<Rightarrow> Some (out, errs)
        | (None, None) \<Rightarrow> None))"

section \<open>The two tools that ask for others\<close>

definition snapshot_asking ::
  "ProcessStat sorter \<Rightarrow> world \<Rightarrow> sources \<Rightarrow> ctx \<Rightarrow> SystemSnapshotOutput result option asking" where
  "snapshot_asking srt w so c =
     then_try (collect_asking c ToolNameGetSystemInfo (\<lambda>_. GatherSystemInfo (so_host so) w) no_system []) (\<lambda>(sys, errs).
     then_try (collect_asking c ToolNameGetCPUInfo
       (\<lambda>_. GatherCPUInfo (so_cpu so) (so_percent so) (so_counts so)) no_cpu errs) (\<lambda>(cpu, errs).
     then_try (collect_asking c ToolNameGetCPUTemperature
       (\<lambda>_. GatherCPUTemperature (so_sensors so)) no_temperature errs) (\<lambda>(temp, errs).
     then_try (collect_asking c ToolNameGetMemoryInfo
       (\<lambda>_. GatherMemoryInfo (so_virtual so) (so_swap so)) no_memory errs) (\<lambda>(mem, errs).
     then_try (collect_asking c ToolNameGetDiskInfo
       (\<lambda>_. GatherDiskInfo (so_partitions so) (so_usage so) [] (Fin 0)) no_disk errs) (\<lambda>(disk, errs).
     then_try (collect_asking c ToolNameGetNetworkInfo
       (\<lambda>_. GatherNetworkInfo (so_counters so)) no_network errs) (\<lambda>(net, errs).
     then_try (collect_asking c ToolNameGetLoadAverage (\<lambda>_. GatherLoadAverage w) no_load errs) (\<lambda>(load, errs).
     then_try (collect_asking c ToolNameGetProcessInfo
       (\<lambda>_. GatherProcessInfo srt w (so_processes so) ''cpu'' 10) no_processes errs) (\<lambda>(procs, errs).
     then_try (collect_asking c ToolNameGetDockerInfo
       (\<lambda>_. GatherDockerInfo (so_docker so)) no_docker errs) (\<lambda>(dock, errs).
     Done (Some (Some \<lparr>Errors = errs, sn_System = sys, sn_CPU = cpu, sn_Temperature = temp, sn_Memory = mem,
                       sn_Disk = disk, sn_Network = net, sn_LoadAverage = load, sn_Processes = procs,
                       sn_Docker = dock\<rparr>, None)))))))))))"

definition health_asking :: "world \<Rightarrow> probes \<Rightarrow> ctx \<Rightarrow> SystemHealthCheckOutput result option asking" where
  "health_asking w p c =
     then_try (enabled_asking c ToolNameGetMemoryInfo
       (\<lambda>_. Done (Some (GatherMemoryInfo (p_virtual p) (p_swap p))))) (\<lambda>mem.
     then_try (enabled_asking c ToolNameGetDiskInfo
       (\<lambda>_. Done (Some (GatherDiskInfo (p_partitions p) (p_usage p) [] (Fin 80))))) (\<lambda>disk.
     then_try (enabled_asking c ToolNameGetCPUInfo
       (\<lambda>_. Done (Some (GatherCPUInfo (p_cpu p) (p_percent p) (p_counts p))))) (\<lambda>cpu.
     then_try (enabled_asking c ToolNameGetLoadAverage (\<lambda>_. Done (Some (GatherLoadAverage w)))) (\<lambda>load.
     then_try (enabled_asking c ToolNameGetSystemdUnits (\<lambda>ct. Done (Some (GatherSystemdUnits w ct ''failed'')))) (\<lambda>units.
     let h = \<lparr>h_checks = [], h_errs = [], hasWarning = False, hasCritical = False\<rparr>;
         h = check_units units (check_load cpu load (check_disk disk (check_memory mem h)));
         out = \<lparr>Errors = h_errs h, Overall = verdict h, Checks = h_checks h\<rparr>
     in Done (Some (Some out, Err out)))))))"

section \<open>The handlers of the registry\<close>

text \<open>
  A handler that calls \<open>handleToolCall\<close> with a gather function: \<open>asks_for\<close> with one that loads the
  configuration itself, \<open>asks\<close> with one that does not. \<open>refuses\<close> is the return before that call for
  arguments that are not valid: nothing is loaded.
\<close>

type_synonym asking_handler =
  "(nat \<Rightarrow> nat \<Rightarrow> nat \<Rightarrow> nat) \<Rightarrow> call \<Rightarrow> machine \<Rightarrow> arguments \<Rightarrow> tool_answer asking"

definition asks_for ::
  "('a OutputErrors_scheme \<Rightarrow> tool_output) \<Rightarrow> string \<Rightarrow> (nat \<Rightarrow> nat \<Rightarrow> nat \<Rightarrow> nat) \<Rightarrow> call \<Rightarrow>
   (ctx \<Rightarrow> ('a OutputErrors_scheme) result option asking) \<Rightarrow> tool_answer asking" where
  "asks_for box name fr k gather =
     map_asking (boxed_partial box) (handle_asking fr (call_now k) (call_dur k) (call_ctx k) name 0 gather)"

definition asks ::
  "('a OutputErrors_scheme \<Rightarrow> tool_output) \<Rightarrow> string \<Rightarrow> (nat \<Rightarrow> nat \<Rightarrow> nat \<Rightarrow> nat) \<Rightarrow> call \<Rightarrow>
   (ctx \<Rightarrow> ('a OutputErrors_scheme) result option) \<Rightarrow> tool_answer asking" where
  "asks box name fr k gather = asks_for box name fr k (\<lambda>ct. Done (gather ct))"

definition refuses :: "goerr \<Rightarrow> tool_answer asking" where
  "refuses e = Done (Some ((None, Some e), []))"

text \<open>The entries in the order of \<open>toolRegistry\<close>.\<close>

definition inventory_asking :: "(string \<times> asking_handler) list" where
  "inventory_asking =
     [(ToolNameGetSystemInfo, \<lambda>fr k m a.
         asks (HostOut \<circ> OSystemInfo) ToolNameGetSystemInfo fr k (\<lambda>_. Some
           (GatherSystemInfo (so_host m) (mc_world m)))),
      (ToolNameGetCPUInfo, \<lambda>fr k m a.
         asks (HostOut \<circ> OCPUInfo) ToolNameGetCPUInfo fr k (\<lambda>_. Some (GatherCPUInfo (so_cpu
           m) (so_percent m) (so_counts m)))),
      (ToolNameGetCPUTemperature, \<lambda>fr k m a.
         asks (HostOut \<circ> OCPUTemperature) ToolNameGetCPUTemperature fr k (\<lambda>_. Some
           (GatherCPUTemperature (so_sensors m)))),
      (ToolNameGetMemoryInfo, \<lambda>fr k m a.
         asks (HostOut \<circ> OMemoryInfo) ToolNameGetMemoryInfo fr k (\<lambda>_. Some
           (GatherMemoryInfo (so_virtual m) (so_swap m)))),
      (ToolNameGetDiskInfo, \<lambda>fr k m a.
         let mountPoint = GetDiskInfo_MountPoint (arg_GetDiskInfoInput a) in
         if mountPoint \<noteq> [] \<and> \<not> HasPrefix mountPoint ''/''
         then refuses (ErrText ''invalid mount point: must start with /'')
         else asks (DiskOut \<circ> ODiskInfo) ToolNameGetDiskInfo fr k (\<lambda>_. Some (GatherDiskInfo
           (so_partitions m) (so_usage m) mountPoint (GetDiskInfo_Threshold (arg_GetDiskInfoInput a))))),
      (ToolNameGetNetworkInfo, \<lambda>fr k m a.
         asks (NetOut \<circ> ONetworkInfo) ToolNameGetNetworkInfo fr k (\<lambda>_. Some
           (GatherNetworkInfo (so_counters m)))),
      (ToolNameGetProcessInfo, \<lambda>fr k m a.
         asks (ProcOut \<circ> OProcessInfo) ToolNameGetProcessInfo fr k (\<lambda>_. Some
           (GatherProcessInfo (mc_sort_processes m) (mc_world m) (so_processes m) (GetProcessInfo_SortBy
           (arg_GetProcessInfoInput a)) (nat (clampZero (GetProcessInfo_Limit (arg_GetProcessInfoInput
           a)) 10 100))))),
      (ToolNameGetDockerInfo, \<lambda>fr k m a.
         asks (DockOut \<circ> ODockerInfo) ToolNameGetDockerInfo fr k (\<lambda>_. Some
           (GatherDockerInfo (so_docker m)))),
      (ToolNameGetDockerContainerDetails, \<lambda>fr k m a.
         let containerID = GetDockerContainerDetail_ContainerID (arg_GetDockerContainerDetailInput a) in
         case requireField containerID ''container_id'' of
           Some e \<Rightarrow> refuses e
         | None \<Rightarrow> asks (DockOut \<circ> ODockerContainerDetail)
           ToolNameGetDockerContainerDetails fr k (\<lambda>_. Some (GatherContainerDetail (so_docker m)
           containerID))),
      (ToolNameGetDockerContainerLogs, \<lambda>fr k m a.
         let containerID = GetDockerContainerLogs_ContainerID (arg_GetDockerContainerLogsInput a) in
         case requireField containerID ''container_id'' of
           Some e \<Rightarrow> refuses e
         | None \<Rightarrow> asks (DockOut \<circ> ODockerContainerLogs) ToolNameGetDockerContainerLogs
           fr k (\<lambda>_. Some (GatherContainerLogs (so_docker m) containerID (clampZero
           (GetDockerContainerLogs_Tail (arg_GetDockerContainerLogsInput a)) 100 10000)
           (GetDockerContainerLogs_Timestamps (arg_GetDockerContainerLogsInput a))))),
      (ToolNameGetDockerContainerStats, \<lambda>fr k m a.
         let containerIDs = GetDockerContainerStats_ContainerIDs (arg_GetDockerContainerStatsInput a);
         run = asks (DockOut \<circ> ODockerContainerStats) ToolNameGetDockerContainerStats fr k in
         case requireField containerIDs ''container_ids'' of
           Some e \<Rightarrow> refuses e
         | None \<Rightarrow> if containerIDs = ''all'' then run (\<lambda>_. GatherDockerStatsAll
           (mc_arrive m) (so_docker m) [])
         else (case map TrimSpace (split_char (CHR '','') containerIDs) of
              [cid] \<Rightarrow> run (\<lambda>_. Some (GatherContainerStats (so_docker m) cid))
            | ids \<Rightarrow> run (\<lambda>_. GatherDockerStatsAll (mc_arrive m) (so_docker m) ids))),
      (ToolNameGetDockerContainerTop, \<lambda>fr k m a.
         let containerID = GetDockerContainerTop_ContainerID (arg_GetDockerContainerTopInput a) in
         case requireField containerID ''container_id'' of
           Some e \<Rightarrow> refuses e
         | None \<Rightarrow> asks (DockOut \<circ> ODockerContainerTop) ToolNameGetDockerContainerTop fr
           k (\<lambda>_. Some (GatherContainerTop (so_docker m) containerID (GetDockerContainerTop_Args
           (arg_GetDockerContainerTopInput a))))),
      (ToolNameGetDockerContainerDiff, \<lambda>fr k m a.
         let containerID = GetDockerContainerDiff_ContainerID (arg_GetDockerContainerDiffInput a) in
         case requireField containerID ''container_id'' of
           Some e \<Rightarrow> refuses e
         | None \<Rightarrow> asks (DockOut \<circ> ODockerContainerDiff) ToolNameGetDockerContainerDiff
           fr k (\<lambda>_. Some (GatherContainerDiff (so_docker m) containerID))),
      (ToolNameGetDockerImageHistory, \<lambda>fr k m a.
         let imageID = GetDockerImageHistory_ImageID (arg_GetDockerImageHistoryInput a) in
         case requireField imageID ''image_id'' of
           Some e \<Rightarrow> refuses e
         | None \<Rightarrow> asks (DockOut \<circ> ODockerImageHistory) ToolNameGetDockerImageHistory fr
           k (\<lambda>_. Some (GatherImageHistory (so_docker m) imageID))),
      (ToolNameGetDockerImageDetails, \<lambda>fr k m a.
         let imageID = GetDockerImageDetail_ImageID (arg_GetDockerImageDetailInput a) in
         case requireField imageID ''image_id'' of
           Some e \<Rightarrow> refuses e
         | None \<Rightarrow> asks (DockOut \<circ> ODockerImageDetail) ToolNameGetDockerImageDetails fr
           k (\<lambda>_. Some (GatherImageDetail (so_docker m) imageID))),
      (ToolNameGetDockerNetworks, \<lambda>fr k m a.
         asks (DockOut \<circ> ODockerNetworks) ToolNameGetDockerNetworks fr k (\<lambda>_. Some
           (GatherDockerNetworks (so_docker m)))),
      (ToolNameGetDockerVolumes, \<lambda>fr k m a.
         asks (DockOut \<circ> ODockerVolumes) ToolNameGetDockerVolumes fr k (\<lambda>_. Some
           (GatherDockerVolumes (so_docker m)))),
      (ToolNameGetDockerSystemInfo, \<lambda>fr k m a.
         asks (DockOut \<circ> ODockerSystemInfo) ToolNameGetDockerSystemInfo fr k (\<lambda>_. Some
           (GatherDockerSystemInfo (mc_enum_runtimes m) (so_docker m)))),
      (ToolNameGetDockerDiskUsage, \<lambda>fr k m a.
         asks (DockOut \<circ> ODockerDiskUsage) ToolNameGetDockerDiskUsage fr k (\<lambda>_. Some
           (GatherDockerDiskUsage (so_docker m)))),
      (ToolNameGetSystemSnapshot, \<lambda>fr k m a.
         asks_for (HostOut \<circ> OSystemSnapshot) ToolNameGetSystemSnapshot fr k (snapshot_asking
           (mc_sort_processes m) (mc_world m) (sources.truncate m)))]"

definition service_asking :: "(string \<times> asking_handler) list" where
  "service_asking =
     [(ToolNameGetJournalLogs, \<lambda>fr k m a.
         let unit = GetJournalLogs_Unit (arg_GetJournalLogsInput a);
         n = GetJournalLogs_Lines (arg_GetJournalLogsInput a) in
         if \<not> isValidUnitName unit
         then refuses (ErrQuoted ''invalid unit name:'' unit)
         else asks (ServOut \<circ> OJournalLogs) ToolNameGetJournalLogs fr k (\<lambda>ct. Some
           (GatherJournalLogs (mc_world m) (mc_journal m) (mc_rfc3339 m) ct unit (GetJournalLogs_Priority
           (arg_GetJournalLogsInput a)) (GetJournalLogs_Since (arg_GetJournalLogsInput a))
           (GetJournalLogs_Until (arg_GetJournalLogsInput a)) (if n \<le> 0 then 50 else n)
           (GetJournalLogs_User (arg_GetJournalLogsInput a))))),
      (ToolNameGetInodeUsage, \<lambda>fr k m a.
         asks (DiskOut \<circ> OInodeUsage) ToolNameGetInodeUsage fr k (\<lambda>ct. Some
           (GatherInodeUsage (mc_world m) ct (GetInodeUsage_MountPoint (arg_GetInodeUsageInput a))))),
      (ToolNameGetNetworkConnections, \<lambda>fr k m a.
         asks (NetOut \<circ> ONetworkConnections) ToolNameGetNetworkConnections fr k (\<lambda>_. Some
           (GatherNetworkConnections (mc_enum_connections m) (mc_sort_groups m) (mc_world m)
           (mc_lookup_addr m) (mc_connections m) (GetNetworkConnections_Status
           (arg_GetNetworkConnectionsInput a)) (GetNetworkConnections_Type
           (arg_GetNetworkConnectionsInput a)) (GetNetworkConnections_ResolveHostnames
           (arg_GetNetworkConnectionsInput a)) (GetNetworkConnections_Grouped
           (arg_GetNetworkConnectionsInput a)) (clampVal (GetNetworkConnections_MaxConnections
           (arg_GetNetworkConnectionsInput a)) 0 maxNetworkConnections)))),
      (ToolNameGetServiceStatus, \<lambda>fr k m a.
         let name = GetServiceStatus_Name (arg_GetServiceStatusInput a) in
         case requireField name ''name'' of
           Some e \<Rightarrow> refuses e
         | None \<Rightarrow> if \<not> validServiceName name
         then refuses (ErrQuoted ''invalid service name:'' name)
         else asks (ServOut \<circ> OServiceStatus) ToolNameGetServiceStatus fr k (\<lambda>ct. Some
           (GatherServiceStatus (re_systemctl m) ct name (GetServiceStatus_User
           (arg_GetServiceStatusInput a))))),
      (ToolNameGetProcessFDs, \<lambda>fr k m a.
         asks (ProcOut \<circ> OProcessFDs) ToolNameGetProcessFDs fr k (\<lambda>_. Some
           (GatherProcessFDs (mc_enum_fds m) (mc_sort_fds m) (mc_world m) (mc_new_process m)
           (GetProcessFDs_PID (arg_GetProcessFDsInput a))))),
      (ToolNameGetTopIOProcesses, \<lambda>fr k m a.
         asks (ProcOut \<circ> OTopIOProcesses) ToolNameGetTopIOProcesses fr k (\<lambda>ct. Some
           (GatherTopIOProcesses (mc_sort_io m) (mc_world m) ct (GetTopIOProcesses_Limit
           (arg_GetTopIOProcessesInput a))))),
      (ToolNameGetFailedLogins, \<lambda>fr k m a.
         let n = GetFailedLogins_Lines (arg_GetFailedLoginsInput a) in
         asks (SecuOut \<circ> OFailedLogins) ToolNameGetFailedLogins fr k (\<lambda>ct. Some
           (GatherFailedLogins (mc_world m) ct (if n \<le> 0 then 20 else n)))),
      (ToolNameGetGPUInfo, \<lambda>fr k m a.
         asks (PackOut \<circ> OGPUInfo) ToolNameGetGPUInfo fr k (\<lambda>ct. Some (GatherGPUInfo
           (re_rocm m) (re_enum m) (mc_world m) ct))),
      (ToolNameGetLargestFiles, \<lambda>fr k m a.
         asks (DiskOut \<circ> OLargestFiles) ToolNameGetLargestFiles fr k (\<lambda>ct. Some
           (GatherLargestFiles (mc_sort_files m) (mc_world m) (mc_stopped_files m ct) (mc_size_of m)
           (GetLargestFiles_Path (arg_GetLargestFilesInput a)) (clampZero (GetLargestFiles_Limit
           (arg_GetLargestFilesInput a)) 10 100)))),
      (ToolNamePingHost, \<lambda>fr k m a.
         let host = PingHost_Host (arg_PingHostInput a);
         cnt = PingHost_Count (arg_PingHostInput a);
         timeout = PingHost_Timeout (arg_PingHostInput a) in
         if \<not> validHost (mc_is_ip m) host
         then refuses errInvalidHost
         else let cnt = (if cnt \<le> 0 then 4 else cnt);
         timeout = (if timeout \<le> 0 then 10 else timeout) in asks (NetOut \<circ> OPing)
           ToolNamePingHost fr k (\<lambda>ct. Some (GatherPing (mc_world m) ct host cnt timeout))),
      (ToolNameGetInstalledPackages, \<lambda>fr k m a.
         asks (PackOut \<circ> OInstalledPackages) ToolNameGetInstalledPackages fr k (\<lambda>ct. Some
           (GatherInstalledPackages (mc_world m) ct (GetInstalledPackages_Name
           (arg_GetInstalledPackagesInput a))))),
      (ToolNameGetAvailableUpdates, \<lambda>fr k m a.
         asks (PackOut \<circ> OAvailableUpdates) ToolNameGetAvailableUpdates fr k (\<lambda>ct. Some
           (GatherAvailableUpdates (mc_world m) ct))),
      (ToolNameGetLoadAverage, \<lambda>fr k m a.
         asks (HostOut \<circ> OLoadAverage) ToolNameGetLoadAverage fr k (\<lambda>_. Some
           (GatherLoadAverage (mc_world m)))),
      (ToolNameGetLoggedInUsers, \<lambda>fr k m a.
         asks (SecuOut \<circ> OLoggedInUsers) ToolNameGetLoggedInUsers fr k (\<lambda>ct. Some
           (GatherLoggedInUsers (mc_world m) ct))),
      (ToolNameResolveDNS, \<lambda>fr k m a.
         let hostname = ResolveDNS_Hostname (arg_ResolveDNSInput a) in
         case requireField hostname ''hostname'' of
           Some e \<Rightarrow> refuses e
         | None \<Rightarrow> asks (NetOut \<circ> OResolveDNS) ToolNameResolveDNS fr k (\<lambda>_. Some
           (GatherDNSResolve (mc_lookup_host m) hostname))),
      (ToolNameGetMountOptions, \<lambda>fr k m a.
         asks (DiskOut \<circ> OMountOptions) ToolNameGetMountOptions fr k (\<lambda>ct. Some
           (GatherMountOptions (mc_world m) ct (GetMountOptions_MountPoint (arg_GetMountOptionsInput
           a))))),
      (ToolNameGetSystemdUnits, \<lambda>fr k m a.
         asks (ServOut \<circ> OSystemdUnits) ToolNameGetSystemdUnits fr k (\<lambda>ct. Some
           (GatherSystemdUnits (mc_world m) ct (GetSystemdUnits_State (arg_GetSystemdUnitsInput a))))),
      (ToolNameGetBootTime, \<lambda>fr k m a.
         asks (ServOut \<circ> OBootTime) ToolNameGetBootTime fr k (\<lambda>ct. Some (GatherBootTime
           (mc_world m) ct))),
      (ToolNameGetBootBlame, \<lambda>fr k m a.
         asks (ServOut \<circ> OBootBlame) ToolNameGetBootBlame fr k (\<lambda>ct. Some (GatherBootBlame
           (mc_world m) ct))),
      (ToolNameGetBootCriticalChain, \<lambda>fr k m a.
         let unit = GetBootCriticalChain_Unit (arg_GetBootCriticalChainInput a) in
         if unit \<noteq> [] \<and> \<not> validServiceName unit
         then refuses (ErrQuoted ''invalid unit name:'' unit)
         else asks (ServOut \<circ> OBootCriticalChain) ToolNameGetBootCriticalChain fr k (\<lambda>ct.
           Some (GatherBootCriticalChain (mc_world m) ct unit))),
      (ToolNameGetManPage, \<lambda>fr k m a.
         let command = GetManPage_Command (arg_GetManPageInput a);
         search = GetManPage_Search (arg_GetManPageInput a);
         contextLines = GetManPage_ContextLines (arg_GetManPageInput a) in
         case requireField command ''command'' of
           Some e \<Rightarrow> refuses e
         | None \<Rightarrow> if \<not> validManName command
         then refuses (ErrQuoted ''invalid command name:'' command)
         else let maxl = clampZero (GetManPage_MaxLines (arg_GetManPageInput a)) 500 10000;
         cl = (if search \<noteq> [] \<and> contextLines \<le> 0 then 2 else contextLines) in asks
           (ServOut \<circ> OManPage) ToolNameGetManPage fr k (\<lambda>ct. GatherManPage (mc_world m) ct
           command maxl True search cl (GetManPage_Offset (arg_GetManPageInput a)))),
      (ToolNameGetEnvironmentVariables, \<lambda>fr k m a.
         asks (HostOut \<circ> OEnvironmentVariables) ToolNameGetEnvironmentVariables fr k (\<lambda>_.
           Some (GatherEnvironmentVariables (mc_sort_environment m) (mc_world m)
           (GetEnvironmentVariables_Search (arg_GetEnvironmentVariablesInput a))))),
      (ToolNameGetHardwareBusInfo, \<lambda>fr k m a.
         asks (HostOut \<circ> OHardwareBusInfo) ToolNameGetHardwareBusInfo fr k (\<lambda>ct. Some
           (GatherHardwareBusInfo (mc_world m) ct (GetHardwareBusInfo_Search (arg_GetHardwareBusInfoInput
           a))))),
      (ToolNameGetUserAutomation, \<lambda>fr k m a.
         asks (HostOut \<circ> OUserAutomation) ToolNameGetUserAutomation fr k (\<lambda>ct. Some
           (GatherUserAutomation (mc_timers m) (mc_world m) ct)))]"

definition session_asking :: "(string \<times> asking_handler) list" where
  "session_asking =
     [(ToolNameGetDesktopSessionInfo, \<lambda>fr k m a.
         asks (HostOut \<circ> ODesktopSession) ToolNameGetDesktopSessionInfo fr k (\<lambda>_. Some
           (GatherDesktopSessionInfo (mc_world m)))),
      (ToolNameGetPowerAnalytics, \<lambda>fr k m a.
         asks (PackOut \<circ> OPowerAnalytics) ToolNameGetPowerAnalytics fr k (\<lambda>_. Some
           (GatherPowerAnalytics (mc_world m)))),
      (ToolNameGetUserInfo, \<lambda>fr k m a.
         asks (SecuOut \<circ> OGetUserInfo) ToolNameGetUserInfo fr k (\<lambda>_. Some (GatherUserInfo
           (mc_enum_groups m) (mc_world m) (GetUserInfo_Search (arg_GetUserInfoInput a))))),
      (ToolNameGetIPInfo, \<lambda>fr k m a.
         asks (NetOut \<circ> OIPInfo) ToolNameGetIPInfo fr k (\<lambda>ct. Some (GatherIPInfo (mc_world
           m) (mc_is_ip m) (mc_fetch m) ct (GetIPInfo_IP (arg_GetIPInfoInput a))))),
      (ToolNameGetBlockDevices, \<lambda>fr k m a.
         asks (DiskOut \<circ> OBlockDevices) ToolNameGetBlockDevices fr k (\<lambda>_. Some
           (GatherBlockDevices (mc_world m)))),
      (ToolNameGetSELinuxAppArmorStatus, \<lambda>fr k m a.
         asks (SecuOut \<circ> OSELinuxAppArmor) ToolNameGetSELinuxAppArmorStatus fr k (\<lambda>ct. Some
           (GatherSELinuxAppArmorStatus (mc_world m) ct))),
      (ToolNameGetTimeSyncStatus, \<lambda>fr k m a.
         asks (ServOut \<circ> OTimeSyncStatus) ToolNameGetTimeSyncStatus fr k (\<lambda>ct. Some
           (GatherTimeSyncStatus (mc_world m) ct))),
      (ToolNameGetRAIDStatus, \<lambda>fr k m a.
         asks (DiskOut \<circ> ORAIDStatus) ToolNameGetRAIDStatus fr k (\<lambda>_. Some
           (GatherRAIDStatus (mc_world m)))),
      (ToolNameGetLogrotateStatus, \<lambda>fr k m a.
         asks (DiskOut \<circ> OLogrotateStatus) ToolNameGetLogrotateStatus fr k (\<lambda>_. Some
           (GatherLogrotateStatus (mc_world m) (re_isdir m)))),
      (ToolNameGetCronJobs, \<lambda>fr k m a.
         asks (ServOut \<circ> OCronJobs) ToolNameGetCronJobs fr k (\<lambda>_. Some (GatherCronJobs
           (mc_cron_order m) (mc_world m)))),
      (ToolNameGetSystemHealthCheck, \<lambda>fr k m a.
         asks_for (ServOut \<circ> OSystemHealthCheck) ToolNameGetSystemHealthCheck fr k (health_asking
           (mc_world m) (health_probes (readings.truncate m)))),
      (ToolNameGetSMARTHealth, \<lambda>fr k m a.
         asks (DiskOut \<circ> OSMARTHealth) ToolNameGetSMARTHealth fr k (\<lambda>ct. Some
           (GatherSMARTHealth (mc_stopped_disks m) (mc_world m) ct (TrimSpace (GetSMARTHealth_Device
           (arg_GetSMARTHealthInput a)))))),
      (ToolNameGetSecurityAudit, \<lambda>fr k m a.
         asks (SecuOut \<circ> OSecurityAudit) ToolNameGetSecurityAudit fr k (GatherSecurityAudit
           (mc_fuel m) (mc_umask m) (mc_world m))),
      (ToolNameGetDiskIOMetrics, \<lambda>fr k m a.
         asks (DiskOut \<circ> ODiskIOMetrics) ToolNameGetDiskIOMetrics fr k (\<lambda>_. Some
           (GatherDiskIOMetrics (mc_world m)))),
      (ToolNameGetProcDiagnostics, \<lambda>fr k m a.
         asks (ProcOut \<circ> OProcDiagnostics) ToolNameGetProcDiagnostics fr k (\<lambda>_. Some
           (GatherProcDiagnostics (mc_sort_irqs m) (mc_sort_slabs m) (mc_world m) (TrimSpace
           (GetProcDiagnostics_Sections (arg_GetProcDiagnosticsInput a)))))),
      (ToolNameGetAuditLogs, \<lambda>fr k m a.
         let n = GetAuditLogs_Lines (arg_GetAuditLogsInput a) in
         asks (SecuOut \<circ> OAuditLogs) ToolNameGetAuditLogs fr k (\<lambda>_. GatherAuditLogs
           (mc_world m) (if n \<le> 0 then 50 else n))),
      (ToolNameGetFileLocks, \<lambda>fr k m a.
         asks (DiskOut \<circ> OFileLocks) ToolNameGetFileLocks fr k (\<lambda>_. Some (GatherFileLocks
           (mc_world m)))),
      (ToolNameGetSharedMemorySegments, \<lambda>fr k m a.
         asks (ProcOut \<circ> OSharedMemory) ToolNameGetSharedMemorySegments fr k (\<lambda>_. Some
           (GatherSharedMemorySegments (mc_world m)))),
      (ToolNameGetProcessTree, \<lambda>fr k m a.
         asks (ProcOut \<circ> OProcessTree) ToolNameGetProcessTree fr k (\<lambda>_. GatherProcessTree
           (mc_fuel m) (mc_enum_procs m) (mc_enum_roots m) (mc_world m) (GetProcessTree_PID
           (arg_GetProcessTreeInput a)))),
      (ToolNameGetKernelModules, \<lambda>fr k m a.
         asks (HostOut \<circ> OKernelModules) ToolNameGetKernelModules fr k (\<lambda>_. Some
           (GatherKernelModules (mc_world m)))),
      (ToolNameGetRoutingTable, \<lambda>fr k m a.
         asks (NetOut \<circ> ORoutingTable) ToolNameGetRoutingTable fr k (\<lambda>ct. Some
           (GatherRoutingTable (mc_world m) ct)))]"

definition asking_registry :: "(string \<times> asking_handler) list" where
  "asking_registry = inventory_asking @ service_asking @ session_asking"

section \<open>One configuration for the loads of a call\<close>

definition agree :: "cfg_state \<Rightarrow> (string \<times> cfg_state) list \<Rightarrow> bool" where
  "agree s asked = list_all (\<lambda>(n, t). IsDisabled s n = IsDisabled t n) asked"

lemma agree_Cons [simp]: "agree s ((n, t) # asked) \<longleftrightarrow> IsDisabled s n = IsDisabled t n \<and> agree s asked"
  by (simp add: agree_def)

lemma agree_Nil [simp]: "agree s []"
  by (simp add: agree_def)

lemma feed_map: "feed (then_ask p (\<lambda>r. Done (f r))) ss = map_option f (feed p ss)"
  by (induction p arbitrary: ss) (auto split: list.splits)

lemma feed_map_asking: "feed (map_asking f p) ss = map_option f (feed p ss)"
  by (induction p arbitrary: ss) (auto split: list.splits)

lemma feed_try_enabled:
  "feed (then_try (enabled_asking c n (\<lambda>ct. Done (Some (g ct)))) f) ss =
     (case ss of [] \<Rightarrow> None | s # ss' \<Rightarrow> feed (f (gatherEnabled s c n g)) ss')"
  by (cases ss) (auto simp: then_try_def enabled_asking_def gatherEnabled_def)

lemma feed_collect:
  assumes "fst r \<noteq> None \<or> snd r \<noteq> None"
  shows "feed (then_try (collect_asking c n (\<lambda>_. r) fallback errs) f) ss =
     (case ss of [] \<Rightarrow> None
      | s # ss' \<Rightarrow> feed (f (collected s c n (\<lambda>_. r) fallback, errs @ source_error s c n (\<lambda>_. r))) ss')"
  using assms
  by (cases r; cases "fst r"; cases "snd r"; cases ss)
    (auto simp: collect_asking_def then_try_def enabled_asking_def collected_def source_error_def gatherEnabled_def appendErr_simps)

lemma call_answer_enabled: "handleToolCall AppendError ErrorCount fr s now dur c name fallback gather =
    call_answer name dur (gatherEnabled s (WithToolTimeout fr s now c name fallback) name gather)"
  by (simp add: handleToolCall_def call_answer_def split: prod.splits option.splits)

text \<open>
  The contract of a gather function that asks for the tools \<open>parts\<close>: whatever configurations it
  loads, it answers as the gather function of the sequential model does under any configuration that agrees
  with what it loaded. Then the same holds of the call, with the timeout that was loaded first.
\<close>

locale asking_gather =
  fixes parts :: "string list"
    and seq :: "cfg_state \<Rightarrow> ctx \<Rightarrow> ('a OutputErrors_scheme) result option"
    and par :: "ctx \<Rightarrow> ('a OutputErrors_scheme) result option asking"
  assumes loads: "feed (par c) ss = Some r \<Longrightarrow> length ss \<le> length parts"
    and agrees: "feed (par c) ss = Some r \<Longrightarrow> agree s (zip parts ss) \<Longrightarrow> seq s c = r"
begin

lemma call_loads:
  assumes "feed (handle_asking fr now dur c name fallback par) ss = Some x"
  obtains t u us where "ss = t # u # us" "length us \<le> length parts"
  using assms that by (auto simp: handle_asking_def enabled_asking_def feed_map dest!: loads split: list.splits if_splits)

lemma one_config:
  assumes "feed (handle_asking fr now dur c name fallback par) (t # us) = Some x"
    "ToolTimeout fr s name fallback = ToolTimeout fr t name fallback" "agree s (zip (name # parts) us)"
  shows "x = run_partial fr s now dur c name fallback (seq s)"
proof -
  from assms(1) obtain u ss where us: "us = u # ss"
    by (auto simp: handle_asking_def enabled_asking_def feed_map split: list.splits)
  have time: "WithToolTimeout fr s now c name fallback = WithToolTimeout fr t now c name fallback"
    using assms(2) by (simp add: WithToolTimeout_def)
  have m: "IsDisabled s name = IsDisabled u name" "agree s (zip parts ss)" using assms(3) by (simp_all add: us)
  show ?thesis
  proof (cases "IsDisabled u name")
    case True
    then show ?thesis
      using assms(1) m us time
      by (simp add: handle_asking_def enabled_asking_def run_partial_def call_answer_enabled gatherEnabled_def
          split: if_splits)
  next
    case False
    then obtain r where r: "feed (par (WithToolTimeout fr t now c name fallback)) ss = Some r"
      "x = map_option (call_answer name dur) r"
      using assms(1) us by (auto simp: handle_asking_def enabled_asking_def feed_map)
    then have "seq s (WithToolTimeout fr t now c name fallback) = r" using agrees [OF r(1)] m(2) by simp
    then show ?thesis
      using False m time r(2)
      by (cases r) (simp_all add: run_partial_def call_answer_enabled gatherEnabled_def)
  qed
qed

end

text \<open>A tool whose gather function loads no configuration, and the two that ask for other tools.\<close>

interpretation plain: asking_gather "[]" "\<lambda>s. g" "\<lambda>c. Done (g c)" for g
  by unfold_locales (simp_all split: if_splits)

lemma run_partial_total: "run_partial fr s now dur c name fallback (\<lambda>c. Some (g c)) = Some (run_tool fr s now dur c name fallback g)"
  by (simp add: run_partial_def handleToolCall_def gatherEnabled_def)

definition snapshot_parts :: "string list" where
  "snapshot_parts =
     [ToolNameGetSystemInfo, ToolNameGetCPUInfo, ToolNameGetCPUTemperature, ToolNameGetMemoryInfo,
      ToolNameGetDiskInfo, ToolNameGetNetworkInfo, ToolNameGetLoadAverage, ToolNameGetProcessInfo,
      ToolNameGetDockerInfo]"

definition health_parts :: "string list" where
  "health_parts =
     [ToolNameGetMemoryInfo, ToolNameGetDiskInfo, ToolNameGetCPUInfo, ToolNameGetLoadAverage,
      ToolNameGetSystemdUnits]"

lemma parts_distinct:
  "distinct (ToolNameGetSystemSnapshot # snapshot_parts)" "distinct (ToolNameGetSystemHealthCheck # health_parts)"
  by (simp_all add: snapshot_parts_def health_parts_def)

lemmas snapshot_loads = sources_answer [THEN feed_collect] answers_something [THEN feed_collect]

lemma collected_cong: "IsDisabled s n = IsDisabled t n \<Longrightarrow> collected s c n g fb = collected t c n g fb"
  by (simp add: collected_def gatherEnabled_def)

lemma source_error_cong: "IsDisabled s n = IsDisabled t n \<Longrightarrow> source_error s c n g = source_error t c n g"
  by (simp add: source_error_def gatherEnabled_def)

lemma gatherEnabled_cong: "IsDisabled s n = IsDisabled t n \<Longrightarrow> gatherEnabled s c n g = gatherEnabled t c n g"
  by (simp add: gatherEnabled_def)

interpretation snapshot: asking_gather snapshot_parts
  "\<lambda>s. gather_snapshot srt s w so" "snapshot_asking srt w so" for srt w so
proof
  fix c ss r
  assume "feed (snapshot_asking srt w so c) ss = Some r"
  then obtain s1 s2 s3 s4 s5 s6 s7 s8 s9 where ss: "ss = [s1, s2, s3, s4, s5, s6, s7, s8, s9]"
    and f: "feed (snapshot_asking srt w so c) [s1, s2, s3, s4, s5, s6, s7, s8, s9] = Some r"
    by (auto simp: snapshot_asking_def snapshot_loads split: list.splits if_splits)
  show "length ss \<le> length snapshot_parts" by (simp add: ss snapshot_parts_def)
  fix s assume a: "agree s (zip snapshot_parts ss)"
  have p: "IsDisabled s ToolNameGetSystemInfo = IsDisabled s1 ToolNameGetSystemInfo"
    "IsDisabled s ToolNameGetCPUInfo = IsDisabled s2 ToolNameGetCPUInfo"
    "IsDisabled s ToolNameGetCPUTemperature = IsDisabled s3 ToolNameGetCPUTemperature"
    "IsDisabled s ToolNameGetMemoryInfo = IsDisabled s4 ToolNameGetMemoryInfo"
    "IsDisabled s ToolNameGetDiskInfo = IsDisabled s5 ToolNameGetDiskInfo"
    "IsDisabled s ToolNameGetNetworkInfo = IsDisabled s6 ToolNameGetNetworkInfo"
    "IsDisabled s ToolNameGetLoadAverage = IsDisabled s7 ToolNameGetLoadAverage"
    "IsDisabled s ToolNameGetProcessInfo = IsDisabled s8 ToolNameGetProcessInfo"
    "IsDisabled s ToolNameGetDockerInfo = IsDisabled s9 ToolNameGetDockerInfo"
    using a unfolding ss snapshot_parts_def zip_Cons_Cons agree_Cons by blast+
  show "gather_snapshot srt s w so c = r"
    using f unfolding gather_snapshot_def snapshot_asking_def
    by (simp add: snapshot_steps snapshot_loads p [THEN collected_cong] p [THEN source_error_cong])
qed

interpretation health: asking_gather health_parts
  "\<lambda>s c. Some (GatherSystemHealthCheck s w p c)" "health_asking w p" for w p
proof
  fix c ss r
  assume "feed (health_asking w p c) ss = Some r"
  then obtain s1 s2 s3 s4 s5 where ss: "ss = [s1, s2, s3, s4, s5]"
    and f: "feed (health_asking w p c) [s1, s2, s3, s4, s5] = Some r"
    by (auto simp: health_asking_def feed_try_enabled Let_def split: list.splits if_splits)
  show "length ss \<le> length health_parts" by (simp add: ss health_parts_def)
  fix s assume a: "agree s (zip health_parts ss)"
  have q: "IsDisabled s ToolNameGetMemoryInfo = IsDisabled s1 ToolNameGetMemoryInfo"
    "IsDisabled s ToolNameGetDiskInfo = IsDisabled s2 ToolNameGetDiskInfo"
    "IsDisabled s ToolNameGetCPUInfo = IsDisabled s3 ToolNameGetCPUInfo"
    "IsDisabled s ToolNameGetLoadAverage = IsDisabled s4 ToolNameGetLoadAverage"
    "IsDisabled s ToolNameGetSystemdUnits = IsDisabled s5 ToolNameGetSystemdUnits"
    using a unfolding ss health_parts_def zip_Cons_Cons agree_Cons by blast+
  show "Some (GatherSystemHealthCheck s w p c) = r"
    using f by (simp add: health_asking_def feed_try_enabled GatherSystemHealthCheck_def Let_def q [THEN gatherEnabled_cong])
qed

section \<open>The handlers with their loads and the handlers in one configuration\<close>

definition parts_of :: "string \<Rightarrow> string list" where
  "parts_of name =
     (if name = ToolNameGetSystemSnapshot then snapshot_parts
      else if name = ToolNameGetSystemHealthCheck then health_parts else [])"

lemma parts_of_distinct: "distinct (name # parts_of name)"
  using parts_distinct by (simp add: parts_of_def)

lemma parts_of_short: "length (parts_of name) \<le> 9"
  by (simp add: parts_of_def snapshot_parts_def health_parts_def)

text \<open>
  A configuration is consistent with what a call loaded if the call, had it been in force throughout, would have found the
  timeout that it loaded first and each switch as it loaded it afterwards.
\<close>

definition consistent_call :: "(nat \<Rightarrow> nat \<Rightarrow> nat \<Rightarrow> nat) \<Rightarrow> string \<Rightarrow> cfg_state list \<Rightarrow> cfg_state \<Rightarrow> bool" where
  "consistent_call fr name ss s =
     (case ss of
        [] \<Rightarrow> True
      | t # us \<Rightarrow> (\<forall>fallback. ToolTimeout fr s name fallback = ToolTimeout fr t name fallback) \<and>
                  agree s (zip (name # parts_of name) us))"

definition mirrors :: "(nat \<Rightarrow> nat \<Rightarrow> nat \<Rightarrow> nat) \<Rightarrow> string \<Rightarrow> cfg_state \<Rightarrow> 'a asking \<Rightarrow> 'a \<Rightarrow> bool" where
  "mirrors fr name s p y =
     (\<forall>ss x. feed p ss = Some x \<longrightarrow> length ss \<le> 11 \<and> (consistent_call fr name ss s \<longrightarrow> x = y))"

lemma mirrors_refuses: "mirrors fr name s (refuses e) (Some ((None, Some e), []))"
  by (simp add: mirrors_def refuses_def)

lemma boxed_refuses [simp]: "boxed box ((None, Some e), []) = Some ((None, Some e), [])"
  by (simp add: boxed_def)

lemma boxed_partial_refuses [simp]: "boxed_partial box (Some ((None, Some e), [])) = Some ((None, Some e), [])"
  by (simp add: boxed_partial_def)

lemma mirrors_asks:
  "mirrors fr name s (asks box name fr k g)
     (boxed_partial box (run_partial fr s (call_now k) (call_dur k) (call_ctx k) name 0 g))"
  unfolding mirrors_def
proof (intro allI impI conjI)
  fix ss x assume "feed (asks box name fr k g) ss = Some x"
  then obtain y where y: "feed (handle_asking fr (call_now k) (call_dur k) (call_ctx k) name 0 (\<lambda>c. Done (g c))) ss = Some y"
    "x = boxed_partial box y"
    by (auto simp: asks_def asks_for_def feed_map_asking)
  then obtain t u where ss: "ss = [t, u]" using plain.call_loads [OF y(1)] by (metis le_zero_eq length_0_conv list.size(3))
  show "length ss \<le> 11" by (simp add: ss)
  assume "consistent_call fr name ss s"
  with plain.one_config [of fr "call_now k" "call_dur k" "call_ctx k" name 0 g t "[u]" y s] y
  show "x = boxed_partial box (run_partial fr s (call_now k) (call_dur k) (call_ctx k) name 0 g)"
    by (simp add: ss consistent_call_def)
qed

lemma mirrors_asks_total:
  "mirrors fr name s (asks box name fr k (\<lambda>ct. Some (g ct)))
     (boxed box (run_tool fr s (call_now k) (call_dur k) (call_ctx k) name 0 g))"
  using mirrors_asks [of fr name s box k "\<lambda>ct. Some (g ct)"] by (simp add: run_partial_total boxed_partial_def)

lemma mirrors_snapshot:
  "mirrors fr ToolNameGetSystemSnapshot s (asks_for box ToolNameGetSystemSnapshot fr k (snapshot_asking srt w so))
     (boxed_partial box (run_partial fr s (call_now k) (call_dur k) (call_ctx k) ToolNameGetSystemSnapshot 0
        (gather_snapshot srt s w so)))"
  unfolding mirrors_def
proof (intro allI impI)
  fix ss x assume "feed (asks_for box ToolNameGetSystemSnapshot fr k (snapshot_asking srt w so)) ss = Some x"
  then obtain y where y: "feed (handle_asking fr (call_now k) (call_dur k) (call_ctx k) ToolNameGetSystemSnapshot 0
      (snapshot_asking srt w so)) ss = Some y" "x = boxed_partial box y"
    by (auto simp: asks_for_def feed_map_asking)
  obtain t u us where ss: "ss = t # u # us" "length us \<le> length snapshot_parts" using snapshot.call_loads [OF y(1)] .
  from snapshot.one_config [OF y(1) [unfolded ss(1)], of s]
  show "length ss \<le> 11 \<and> (consistent_call fr ToolNameGetSystemSnapshot ss s \<longrightarrow>
      x = boxed_partial box (run_partial fr s (call_now k) (call_dur k) (call_ctx k) ToolNameGetSystemSnapshot 0
        (gather_snapshot srt s w so)))"
    using ss y(2) by (simp add: consistent_call_def parts_of_def) (simp add: snapshot_parts_def)
qed

lemma mirrors_health:
  "mirrors fr ToolNameGetSystemHealthCheck s (asks_for box ToolNameGetSystemHealthCheck fr k (health_asking w p))
     (boxed box (run_tool fr s (call_now k) (call_dur k) (call_ctx k) ToolNameGetSystemHealthCheck 0
        (GatherSystemHealthCheck s w p)))"
  unfolding mirrors_def
proof (intro allI impI)
  fix ss x assume "feed (asks_for box ToolNameGetSystemHealthCheck fr k (health_asking w p)) ss = Some x"
  then obtain y where y: "feed (handle_asking fr (call_now k) (call_dur k) (call_ctx k) ToolNameGetSystemHealthCheck 0
      (health_asking w p)) ss = Some y" "x = boxed_partial box y"
    by (auto simp: asks_for_def feed_map_asking)
  obtain t u us where ss: "ss = t # u # us" "length us \<le> length health_parts" using health.call_loads [OF y(1)] .
  from health.one_config [OF y(1) [unfolded ss(1)], of s]
  show "length ss \<le> 11 \<and> (consistent_call fr ToolNameGetSystemHealthCheck ss s \<longrightarrow>
      x = boxed box (run_tool fr s (call_now k) (call_dur k) (call_ctx k) ToolNameGetSystemHealthCheck 0
        (GatherSystemHealthCheck s w p)))"
    using ss y(2) by (simp add: consistent_call_def parts_of_def run_partial_total boxed_partial_def) (simp add: health_parts_def)
qed

lemmas mirrors_rules = mirrors_refuses mirrors_asks mirrors_asks_total mirrors_snapshot mirrors_health

lemma registry_mirrors:
  "list_all2 (\<lambda>(n, q) (n', h). n = n' \<and> mirrors fr n s (q fr k m a) (h fr s k m a)) inventory_asking inventory_tools"
  "list_all2 (\<lambda>(n, q) (n', h). n = n' \<and> mirrors fr n s (q fr k m a) (h fr s k m a)) service_asking service_tools"
  "list_all2 (\<lambda>(n, q) (n', h). n = n' \<and> mirrors fr n s (q fr k m a) (h fr s k m a)) session_asking session_tools"
  unfolding inventory_tools_def service_tools_def session_tools_def inventory_asking_def service_asking_def
    session_asking_def tool_def list_all2_Cons list_all2_Nil prod.case
  by (intro conjI TrueI refl mirrors_rules;
      (simp add: handler_defs Let_def mirrors_rules split: option.split list.split)?)+

lemma asking_registry_mirrors:
  "list_all2 (\<lambda>(n, q) (n', h). n = n' \<and> mirrors fr n s (q fr k m a) (h fr s k m a)) asking_registry toolRegistry"
  by (simp only: asking_registry_def toolRegistry_def list_all2_appendI registry_mirrors)

lemma paired_names: "list_all2 (\<lambda>(n, q) (n', h). n = n' \<and> P n q h) xs ys \<Longrightarrow> map fst xs = map fst ys"
  by (induction rule: list_all2_induct) auto

lemma paired_entries:
  "list_all2 (\<lambda>(n, q) (n', h). n = n' \<and> P n q h) xs ys \<Longrightarrow>
   (case (map_of xs n, map_of ys n) of (None, None) \<Rightarrow> True | (Some q, Some h) \<Rightarrow> P n q h | _ \<Rightarrow> False)"
  by (induction rule: list_all2_induct) auto

text \<open>Every tool has both handlers; in any configuration consistent with the loads they answer alike.\<close>

lemma asking_names: "map fst asking_registry = map fst toolRegistry"
  using asking_registry_mirrors by (rule paired_names)

lemma asking_call:
  "(case (map_of asking_registry name, map_of toolRegistry name) of
      (None, None) \<Rightarrow> True
    | (Some q, Some h) \<Rightarrow> mirrors fr name s (q fr k m a) (h fr s k m a)
    | _ \<Rightarrow> False)"
  by (rule paired_entries) (rule asking_registry_mirrors)

end
