(* ===== verification/Reloads.thy ===== *)
theory Reloads
  imports Server Asking "HOL-Library.Sublist"
begin

text \<open>
  Requests that run while the configuration is reloaded (main.go, config/config.go). The goroutine of
  the signals and the requests share the configuration, an \<open>atomic.Value\<close>: the goroutine
  stores it, a request loads it again each time it asks for a timeout or for a disabled tool. A request
  is a value of \<open>asking\<close> (theory Asking), which stops at each of these loads; \<open>fire\<close> is one step of the process, and
  \<open>execute\<close> a sequence of steps in any interleaving. \<open>serve\<close> of the theory Server is the case
  where a request is not interrupted.
\<close>

section \<open>The reading of resources\<close>

text \<open>
  Only the resolver of the health check loads the configuration; it does not panic. The others are the
  same function of every configuration (\<open>resolver_plain\<close>).
\<close>

definition resolver_asking :: "resourceDef \<Rightarrow> world \<Rightarrow> readings \<Rightarrow> ctx \<Rightarrow> string \<Rightarrow> resource_data result asking" where
  "resolver_asking r w so c rest =
     (if res_ToolName r = ToolNameGetSystemHealthCheck
      then map_asking (\<lambda>x. as_any DHealth (the x)) (health_asking w (health_probes so) c)
      else Done (resolver r init_state w so c rest))"

definition resource_text :: "(resource_data \<Rightarrow> goerr + string) \<Rightarrow> string \<Rightarrow> resource_data result \<Rightarrow> goerr + resource_contents" where
  "resource_text marshal uri d =
     (case d of
        (None, Some e) \<Rightarrow> Inl (ErrWrap ''resource unavailable'' e)
      | (None, None) \<Rightarrow> Inl (ErrText ''resource unavailable: no data'')
      | (Some data, _) \<Rightarrow>
          (case marshal data of
             Inl e \<Rightarrow> Inl (ErrWrap ''failed to marshal resource'' e)
           | Inr text \<Rightarrow> Inr \<lparr>rc_URI = uri, rc_MIMEType = ''application/json'', rc_Text = text\<rparr>))"

definition read_asking :: "library \<Rightarrow> int \<Rightarrow> ctx \<Rightarrow> world \<Rightarrow> readings \<Rightarrow> string \<Rightarrow> (goerr + resource_contents) asking" where
  "read_asking lib now c w so uri =
     (case url_Parse (lib_authority lib) uri of
        Inl e \<Rightarrow> Done (Inl (ErrWrap ''invalid resource URI'' e))
      | Inr (sch, path) \<Rightarrow>
          if sch \<noteq> ''system'' then Done (Inl (lib_not_found lib uri))
          else case findResource path of
            (None, _) \<Rightarrow> Done (Inl (lib_not_found lib uri))
          | (Some r, rest) \<Rightarrow>
              Ask (\<lambda>s. then_ask
                (if IsDisabled s (res_ToolName r) then Done (None, Some (ErrText ''tool disabled by configuration''))
                 else resolver_asking r w so (with_timeout now c (10 * 10 ^ 9)) rest)
                (\<lambda>d. Done (resource_text (lib_marshal lib) uri d))))"

text \<open>The tools whose switches a request asks for.\<close>

fun asked_names :: "library \<Rightarrow> request \<Rightarrow> string list" where
  "asked_names lib (CallTool name k m a) = name # parts_of name"
| "asked_names lib (ReadResource uri k m) =
     (case resource_tool lib uri of None \<Rightarrow> [] | Some n \<Rightarrow> n # parts_of n)"
| "asked_names lib (Sighup w) = []"

lemma asked_names_distinct: "distinct (asked_names lib r)"
  using parts_of_distinct by (cases r) (simp_all split: option.split)

lemma resource_tools: "r \<in> set resourceRegistry \<Longrightarrow> res_ToolName r \<noteq> ToolNameGetSystemSnapshot"
  unfolding resourceRegistry_def by (auto simp: staticResource_def)

lemma resolver_plain:
  assumes "r \<in> set resourceRegistry" "res_ToolName r \<noteq> ToolNameGetSystemHealthCheck"
  shows "resolver r s w so c rest = resolver r t w so c rest"
  using assms unfolding resourceRegistry_def by (auto simp: staticResource_def disk_at_def)

lemma resolver_health:
  assumes "r \<in> set resourceRegistry" "res_ToolName r = ToolNameGetSystemHealthCheck"
  shows "resolver r s w so c rest = as_any DHealth (GatherSystemHealthCheck s w (health_probes so) c)"
  using assms unfolding resourceRegistry_def by (auto simp: staticResource_def disk_at_def)

lemma find_in_member: "find_in path rs = (Some r, rest) \<Longrightarrow> r \<in> set rs"
  by (induction rs) (auto split: if_splits option.splits)

lemma resource_tool_found:
  assumes "url_Parse (lib_authority lib) uri = Inr (sch, path)" "findResource path = (Some r, rest)"
  shows "asked_names lib (ReadResource uri k m) = res_ToolName r # parts_of (res_ToolName r)"
  using assms by (simp add: resource_tool_def)

lemma read_found:
  assumes "url_Parse (lib_authority lib) uri = Inr (''system'', path)" "findResource path = (Some r, rest)"
    "feed (read_asking lib now c w so uri) ss = Some x" "agree s (zip (asked_names lib (ReadResource uri k m)) ss)"
  shows "ss \<noteq> [] \<and> length ss \<le> length (asked_names lib (ReadResource uri k m)) \<and>
    x = handleReadResource (lib_authority lib) (lib_not_found lib) (lib_marshal lib) s now c w so uri"
proof -
  have r: "r \<in> set resourceRegistry" using assms(2) find_in_member by (metis findResource_def)
  from assms(1-3) obtain t ss' where ss: "ss = t # ss'" by (cases ss) (simp_all add: read_asking_def)
  let ?n = "res_ToolName r" and ?c = "with_timeout now c (10 * 10 ^ 9)"
  have agree: "IsDisabled s ?n = IsDisabled t ?n" "agree s (zip (parts_of ?n) ss')"
    using assms(4) unfolding resource_tool_found [OF assms(1,2)] ss by simp_all
  have answer: "handleReadResource (lib_authority lib) (lib_not_found lib) (lib_marshal lib) s now c w so uri =
      resource_text (lib_marshal lib) uri (gatherEnabled s ?c ?n (\<lambda>ct. resolver r s w so ct rest))"
    unfolding handleReadResource_def resource_text_def using assms(1,2) by (simp split: option.split prod.split)
  show ?thesis
  proof (cases "IsDisabled t ?n")
    case True
    then show ?thesis
      using assms(1-3) agree(1) unfolding answer ss resource_tool_found [OF assms(1,2)]
      by (auto simp: read_asking_def gatherEnabled_def split: if_splits)
  next
    case False
    with assms(1-3) ss obtain d where d: "feed (resolver_asking r w so ?c rest) ss' = Some d"
      "x = resource_text (lib_marshal lib) uri d"
      by (auto simp: read_asking_def feed_map)
    have "length ss' \<le> length (parts_of ?n) \<and> d = resolver r s w so ?c rest"
    proof (cases "?n = ToolNameGetSystemHealthCheck")
      case True
      then have parts: "parts_of ?n = health_parts" by (simp add: parts_of_def)
      from True d(1) obtain y where y: "feed (health_asking w (health_probes so) ?c) ss' = Some y" "d = as_any DHealth (the y)"
        by (auto simp: resolver_asking_def feed_map_asking)
      show ?thesis
        using health.loads [OF y(1)] health.agrees [OF y(1), of s] y(2) agree(2) parts resolver_health [OF r True] by auto
    next
      case False
      then show ?thesis
        using d(1) resolver_plain [OF r False] by (auto simp: resolver_asking_def split: if_splits)
    qed
    then show ?thesis
      using False agree(1) d(2) unfolding answer ss resource_tool_found [OF assms(1,2)] by (simp add: gatherEnabled_def)
  qed
qed

lemma read_one_config:
  assumes "feed (read_asking lib now c w so uri) ss = Some x" "agree s (zip (asked_names lib (ReadResource uri k m)) ss)"
  shows "length ss \<le> length (asked_names lib (ReadResource uri k m)) \<and>
    x = handleReadResource (lib_authority lib) (lib_not_found lib) (lib_marshal lib) s now c w so uri"
proof (cases "\<exists>path r rest. url_Parse (lib_authority lib) uri = Inr (''system'', path) \<and> findResource path = (Some r, rest)")
  case True
  then show ?thesis using read_found [OF _ _ assms] by metis
next
  case False
  then have "ss = [] \<and> x = handleReadResource (lib_authority lib) (lib_not_found lib) (lib_marshal lib) s now c w so uri"
    using assms(1)
    by (auto simp: read_asking_def handleReadResource_def split: sum.splits prod.splits option.splits if_splits)
  then show ?thesis by (intro conjI) (simp, blast)
qed

section \<open>Requests\<close>

fun request_asking :: "library \<Rightarrow> request \<Rightarrow> response asking" where
  "request_asking lib (CallTool name k m a) =
     (case map_of asking_registry name of
        None \<Rightarrow> Done NoSuchTool
      | Some q \<Rightarrow> map_asking ToolAnswer (q (lib_fraction lib) k m a))"
| "request_asking lib (ReadResource uri k m) =
     map_asking ResourceAnswer
       (read_asking lib (call_now k) (call_ctx k) (mc_world m) (readings.truncate m) uri)"
| "request_asking lib (Sighup w) = Done NoAnswer"

text \<open>
  The configurations consistent with what a request loaded: had one of them been in force throughout, the request
  would have found the same timeout and the same switches. A call loads its timeout first, the reading of a
  resource, with its fixed one, only the switches. A request that loads nothing says nothing of the configuration.
\<close>

fun consistent :: "library \<Rightarrow> request \<Rightarrow> cfg_state list \<Rightarrow> cfg_state \<Rightarrow> bool" where
  "consistent lib (CallTool name k m a) ss s = consistent_call (lib_fraction lib) name ss s"
| "consistent lib (ReadResource uri k m) ss s = agree s (zip (asked_names lib (ReadResource uri k m)) ss)"
| "consistent lib (Sighup w) ss s = True"

lemma call_feed:
  assumes "feed (request_asking lib (CallTool name k m a)) ss = Some x"
  shows "length ss \<le> 11"
    and "consistent lib (CallTool name k m a) ss s \<Longrightarrow>
      x = snd (serve lib (CallTool name k m a) \<lparr>pr_config = s, pr_level = l\<rparr>)"
proof -
  have both: "length ss \<le> 11 \<and> (consistent lib (CallTool name k m a) ss s \<longrightarrow>
      x = snd (serve lib (CallTool name k m a) \<lparr>pr_config = s, pr_level = l\<rparr>))" for s
  proof (cases "map_of asking_registry name")
    case None
    then have "map_of toolRegistry name = None" using asking_call [where name = name] by (simp split: option.splits)
    then show ?thesis using assms None by (simp split: if_splits)
  next
    case (Some q)
    then obtain h where h: "map_of toolRegistry name = Some h"
      "mirrors (lib_fraction lib) name s (q (lib_fraction lib) k m a) (h (lib_fraction lib) s k m a)"
      using asking_call [where name = name and fr = "lib_fraction lib" and s = s and k = k and m = m and a = a] by (auto split: option.splits)
    obtain y where y: "feed (q (lib_fraction lib) k m a) ss = Some y" "x = ToolAnswer y"
      using assms Some by (auto simp: feed_map_asking)
    show ?thesis using h y by (simp add: mirrors_def)
  qed
  show "length ss \<le> 11" using both by blast
  show "consistent lib (CallTool name k m a) ss s \<Longrightarrow>
      x = snd (serve lib (CallTool name k m a) \<lparr>pr_config = s, pr_level = l\<rparr>)" using both by blast
qed

text \<open>
  A consistent configuration: the one that was loaded first, but with the tools that were asked for
  later disabled as they were when they were asked for.
\<close>

definition asked_disabled :: "(string \<times> cfg_state) list \<Rightarrow> string list" where
  "asked_disabled asked = map fst (filter (\<lambda>(n, t). IsDisabled t n) asked)"

definition mixed :: "cfg_state \<Rightarrow> (string \<times> cfg_state) list \<Rightarrow> cfg_state" where
  "mixed s asked =
     s\<lparr>current := Some ((Get s)\<lparr>Disabled :=
        asked_disabled asked @ filter (\<lambda>n. n \<notin> fst ` set asked) (Disabled (Get s))\<rparr>)\<rparr>"

lemma Get_mixed [simp]:
  "Get (mixed s asked) =
     (Get s)\<lparr>Disabled := asked_disabled asked @ filter (\<lambda>n. n \<notin> fst ` set asked) (Disabled (Get s))\<rparr>"
  by (simp add: mixed_def Get_def)

lemma ToolTimeout_mixed [simp]: "ToolTimeout fr (mixed s asked) n fallback = ToolTimeout fr s n fallback"
  by (simp add: ToolTimeout_def lookup_timeout_def)

lemma WithToolTimeout_mixed [simp]: "WithToolTimeout fr (mixed s asked) now c n fallback = WithToolTimeout fr s now c n fallback"
  by (simp add: WithToolTimeout_def)

lemma asked_disabled_iff:
  assumes "distinct (map fst asked)" "(n, t) \<in> set asked"
  shows "n \<in> set (asked_disabled asked) \<longleftrightarrow> IsDisabled t n"
  using assms by (auto simp: asked_disabled_def dest: eq_key_imp_eq_value intro!: image_eqI [of _ _ "(n, t)"])

lemma IsDisabled_mixed:
  assumes "distinct (map fst asked)" "(n, t) \<in> set asked"
  shows "IsDisabled (mixed s asked) n = IsDisabled t n"
  using asked_disabled_iff [OF assms] assms(2) by (auto simp: IsDisabled_def intro: rev_image_eqI)

lemma IsDisabled_mixed_other:
  assumes "n \<notin> fst ` set asked"
  shows "IsDisabled (mixed s asked) n = IsDisabled s n"
  using assms by (auto simp: IsDisabled_def asked_disabled_def)

lemma agree_mixed: "distinct (map fst asked) \<Longrightarrow> agree (mixed s asked) asked"
  by (auto simp: agree_def list_all_iff IsDisabled_mixed)

lemma agree_zip: "distinct ns \<Longrightarrow> agree (mixed s (zip ns ss)) (zip ns ss)"
  by (rule agree_mixed) (simp only: map_fst_zip_take distinct_take)

lemma consistent_mixed:
  "consistent_call fr name (t # us) (mixed t (zip (name # parts_of name) us))"
  using agree_zip [OF parts_of_distinct] by (simp add: consistent_call_def)

lemma consistent_exists: "\<exists>s. consistent lib r ss s"
proof (cases r)
  case (CallTool name k m a)
  show ?thesis
  proof (cases ss)
    case (Cons t us)
    then show ?thesis unfolding CallTool Cons consistent.simps using consistent_mixed by blast
  qed (simp add: CallTool consistent_call_def)
next
  case (ReadResource uri k m)
  then show ?thesis using agree_zip [OF asked_names_distinct] by (simp del: asked_names.simps) blast
qed simp

lemma request_one_config:
  assumes "feed (request_asking lib r) ss = Some x"
  shows "length ss \<le> 11"
    and "consistent lib r ss s \<Longrightarrow> x = snd (serve lib r \<lparr>pr_config = s, pr_level = l\<rparr>)"
proof -
  have "length ss \<le> 11 \<and> (\<forall>s. consistent lib r ss s \<longrightarrow> x = snd (serve lib r \<lparr>pr_config = s, pr_level = l\<rparr>))"
  proof (cases r)
    case (CallTool name k m a)
    then show ?thesis using call_feed assms by blast
  next
    case (ReadResource uri k m)
    with assms obtain y where y: "x = ResourceAnswer y"
      "feed (read_asking lib (call_now k) (call_ctx k) (mc_world m) (readings.truncate m) uri) ss = Some y"
      by (auto simp: feed_map_asking)
    have "length (asked_names lib (ReadResource uri k m)) \<le> 10"
      using parts_of_short by (simp split: option.split)
    moreover obtain s0 where "consistent lib (ReadResource uri k m) ss s0" using consistent_exists by blast
    ultimately have "length ss \<le> 11"
      using read_one_config [OF y(2), of s0 k m] unfolding consistent.simps by linarith
    then show ?thesis using read_one_config [OF y(2), where k = k and m = m] y(1) ReadResource by auto
  next
    case (Sighup w)
    then show ?thesis using assms by (simp split: if_splits)
  qed
  then show "length ss \<le> 11" "consistent lib r ss s \<Longrightarrow> x = snd (serve lib r \<lparr>pr_config = s, pr_level = l\<rparr>)"
    by blast+
qed

section \<open>The process\<close>

text \<open>
  The goroutine of \<open>main\<close>: it waits for the channel, runs \<open>Reload\<close>, which reads the file and stores what
  it holds, and sets up the log again. The channel \<open>sigCh\<close> has one place; a signal that finds it taken is dropped.
\<close>

datatype reloader = Waiting | Woken | Loaded Config | Reloaded

record server =
  sv_config :: cfg_state
  sv_level :: log_level
  sv_world :: world
  sv_queued :: bool
  sv_reloader :: reloader
  sv_calls :: "response asking list"

text \<open>
  The environment changes files and sends signals, the goroutine takes its four steps, a request starts
  a call, and a call goes on to its next load.
\<close>

datatype event =
    Change world
  | Signal
  | Receive
  | ReadConfig
  | Store
  | SetupLog
  | Request request
  | Proceed nat

fun fire :: "library \<Rightarrow> event \<Rightarrow> server \<Rightarrow> server option" where
  "fire lib (Change w) st = Some (st\<lparr>sv_world := w\<rparr>)"
| "fire lib Signal st = Some (st\<lparr>sv_queued := True\<rparr>)"
| "fire lib Receive st =
     (if sv_queued st \<and> sv_reloader st = Waiting
      then Some (st\<lparr>sv_queued := False, sv_reloader := Woken\<rparr>) else None)"
| "fire lib ReadConfig st =
     (if sv_reloader st \<noteq> Woken then None
      else if filePath (sv_config st) = [] then Some (st\<lparr>sv_reloader := Reloaded\<rparr>)
      else case loadFile (lib_decode lib) (lib_fraction lib) (sv_world st) (filePath (sv_config st)) of
             Inl e \<Rightarrow> Some (st\<lparr>sv_reloader := Waiting\<rparr>)
           | Inr cfg \<Rightarrow> Some (st\<lparr>sv_reloader := Loaded cfg\<rparr>))"
| "fire lib Store st =
     (case sv_reloader st of
        Loaded cfg \<Rightarrow> Some (st\<lparr>sv_config := (sv_config st)\<lparr>current := Some cfg\<rparr>, sv_reloader := Reloaded\<rparr>)
      | _ \<Rightarrow> None)"
| "fire lib SetupLog st =
     (if sv_reloader st = Reloaded
      then Some (st\<lparr>sv_level := setupLogging (sv_config st), sv_reloader := Waiting\<rparr>) else None)"
| "fire lib (Request r) st =
     (case r of
        Sighup _ \<Rightarrow> None
      | _ \<Rightarrow> Some (st\<lparr>sv_calls := sv_calls st @ [request_asking lib r]\<rparr>))"
| "fire lib (Proceed i) st =
     (if i < length (sv_calls st) then
        (case sv_calls st ! i of
           Done _ \<Rightarrow> None
         | Ask q \<Rightarrow> Some (st\<lparr>sv_calls := (sv_calls st)[i := q (sv_config st)]\<rparr>))
      else None)"

fun execute :: "('e \<Rightarrow> 's \<Rightarrow> 's option) \<Rightarrow> 'e list \<Rightarrow> 's \<Rightarrow> 's option" where
  "execute f [] st = Some st"
| "execute f (e # es) st = (case f e st of None \<Rightarrow> None | Some st' \<Rightarrow> execute f es st')"

text \<open>The configurations in force before each event and at the end.\<close>

fun in_force :: "library \<Rightarrow> event list \<Rightarrow> server \<Rightarrow> cfg_state list" where
  "in_force lib [] st = [sv_config st]"
| "in_force lib (e # es) st =
     sv_config st # (case fire lib e st of None \<Rightarrow> [] | Some st' \<Rightarrow> in_force lib es st')"

text \<open>The process after its start.\<close>

definition started :: "process \<Rightarrow> world \<Rightarrow> server" where
  "started p w =
     \<lparr>sv_config = pr_config p, sv_level = pr_level p, sv_world = w, sv_queued = False, sv_reloader = Waiting,
      sv_calls = []\<rparr>"

section \<open>Invariants of executions\<close>

text \<open>What every step keeps, every execution keeps.\<close>

locale kept_by_steps =
  fixes step :: "'e \<Rightarrow> 's \<Rightarrow> 's option" and allowed :: "'e \<Rightarrow> bool" and inv :: "'s \<Rightarrow> bool"
  assumes step_keeps: "allowed e \<Longrightarrow> step e st = Some st' \<Longrightarrow> inv st \<Longrightarrow> inv st'"
begin

lemma execute_keeps:
  assumes "execute step es st = Some st'" "list_all allowed es" "inv st"
  shows "inv st'"
  using assms by (induction es arbitrary: st) (auto split: option.splits dest: step_keeps)

end

text \<open>
  The configuration in force, and the one the goroutine has read, are valid; the level follows the configuration
  except between the two steps of the goroutine that change them.
\<close>

definition server_good :: "library \<Rightarrow> server \<Rightarrow> bool" where
  "server_good lib st =
     (cfg_good (lib_fraction lib) (sv_config st) \<and>
      (\<forall>cfg. sv_reloader st = Loaded cfg \<longrightarrow> validate (lib_fraction lib) cfg = None) \<and>
      (sv_reloader st \<noteq> Reloaded \<longrightarrow> sv_level st = setupLogging (sv_config st)))"

interpretation good: kept_by_steps "fire lib" "\<lambda>_. True" "server_good lib" for lib
proof
  show "server_good lib st'" if "fire lib e st = Some st'" "server_good lib st" for e st st'
    using that
    by (cases e) (auto simp: server_good_def cfg_good_def loadFile_valid split: if_splits option.splits sum.splits
      reloader.splits asking.splits request.splits)
qed

text \<open>
  After a signal, as long as the files stay as they are: a reload is still to come, or what the goroutine holds
  comes from the files as they are.
\<close>

definition up_to_date :: "library \<Rightarrow> server \<Rightarrow> bool" where
  "up_to_date lib st =
     (\<forall>cfg. filePath (sv_config st) \<noteq> [] \<and>
        loadFile (lib_decode lib) (lib_fraction lib) (sv_world st) (filePath (sv_config st)) = Inr cfg \<longrightarrow>
        current (sv_config st) = Some cfg \<and> sv_level st = parseLogLevel (LogLevel cfg))"

definition on_the_way :: "library \<Rightarrow> server \<Rightarrow> bool" where
  "on_the_way lib st =
     (sv_queued st \<or>
      (case sv_reloader st of
         Waiting \<Rightarrow> up_to_date lib st
       | Woken \<Rightarrow> True
       | Loaded cfg \<Rightarrow> loadFile (lib_decode lib) (lib_fraction lib) (sv_world st) (filePath (sv_config st)) = Inr cfg
       | Reloaded \<Rightarrow> filePath (sv_config st) = [] \<or>
           (\<exists>cfg. loadFile (lib_decode lib) (lib_fraction lib) (sv_world st) (filePath (sv_config st)) = Inr cfg \<and>
                  current (sv_config st) = Some cfg)))"

interpretation reload: kept_by_steps "fire lib" "\<lambda>e. \<forall>w. e \<noteq> Change w" "on_the_way lib" for lib
proof
  show "on_the_way lib st'" if "\<forall>w. e \<noteq> Change w" "fire lib e st = Some st'" "on_the_way lib st" for e st st'
    using that
    by (cases e) (auto simp: on_the_way_def up_to_date_def setupLogging_def Get_def split: if_splits option.splits sum.splits
      reloader.splits asking.splits request.splits)
qed

section \<open>Calls in an execution\<close>

text \<open>A step leaves a call as it is, or hands it the configuration in force.\<close>

lemma fire_call:
  assumes "fire lib e st = Some st'" "i < length (sv_calls st)"
  shows "i < length (sv_calls st') \<and>
    (sv_calls st' ! i = sv_calls st ! i \<or> (\<exists>q. sv_calls st ! i = Ask q \<and> sv_calls st' ! i = q (sv_config st)))"
  using assms
  by (cases e) (auto simp: nth_append nth_list_update split: if_splits option.splits sum.splits reloader.splits asking.splits request.splits)

lemma call_loads_in_order:
  assumes "execute (fire lib) es st = Some st'" "i < length (sv_calls st)" "sv_calls st' ! i = Done x"
  shows "\<exists>ss. subseq ss (in_force lib es st) \<and> feed (sv_calls st ! i) ss = Some x"
  using assms
proof (induction es arbitrary: st)
  case Nil
  then show ?case by (intro exI [of _ "[]"]) simp
next
  case (Cons e es)
  then obtain st1 where f: "fire lib e st = Some st1" and ex: "execute (fire lib) es st1 = Some st'"
    by (auto split: option.splits)
  note step = fire_call [OF f Cons.prems(2)]
  obtain ss where ss: "subseq ss (in_force lib es st1)" "feed (sv_calls st1 ! i) ss = Some x"
    using Cons.IH [OF ex] step Cons.prems(3) by blast
  from step consider "sv_calls st1 ! i = sv_calls st ! i"
    | q where "sv_calls st ! i = Ask q" "sv_calls st1 ! i = q (sv_config st)" by blast
  then show ?case
  proof cases
    case 1
    then show ?thesis using ss f by (intro exI [of _ ss]) auto
  next
    case 2
    then show ?thesis using ss f by (intro exI [of _ "sv_config st # ss"]) simp
  qed
qed

lemma request_started:
  assumes "execute (fire lib) (Request r # es) st = Some st'"
  shows "execute (fire lib) es (st\<lparr>sv_calls := sv_calls st @ [request_asking lib r]\<rparr>) = Some st' \<and>
    in_force lib (Request r # es) st = sv_config st # in_force lib es (st\<lparr>sv_calls := sv_calls st @ [request_asking lib r]\<rparr>)"
  using assms by (cases r) simp_all

lemma request_loads:
  assumes "execute (fire lib) (Request r # es) st = Some st'" "sv_calls st' ! length (sv_calls st) = Done x"
  obtains ss where "subseq ss (in_force lib (Request r # es) st)" "feed (request_asking lib r) ss = Some x"
proof -
  note st = request_started [OF assms(1)]
  from call_loads_in_order [OF conjunct1 [OF st] _ assms(2)] obtain ss where
    "subseq ss (in_force lib es (st\<lparr>sv_calls := sv_calls st @ [request_asking lib r]\<rparr>))"
    "feed (request_asking lib r) ss = Some x"
    by auto
  then show thesis using that [of ss] unfolding conjunct2 [OF st] by (metis list_emb_Cons)
qed

lemma subseq_members: "subseq xs ys \<Longrightarrow> set xs \<subseteq> set ys"
  by (auto elim: list_emb_set)

text \<open>The five steps of a reload that nothing interrupts are \<open>on_sighup\<close>.\<close>

lemma sighup_steps:
  assumes "sv_reloader st = Waiting"
  shows "\<exists>es st'. execute (fire lib) es st = Some st' \<and> sv_reloader st' = Waiting \<and>
    on_sighup (lib_decode lib) (lib_fraction lib) (sv_world st) \<lparr>pr_config = sv_config st, pr_level = sv_level st\<rparr> =
    \<lparr>pr_config = sv_config st', pr_level = sv_level st'\<rparr>"
proof (cases "filePath (sv_config st) = []")
  case True
  with assms show ?thesis
    by (intro exI [of _ "[Signal, Receive, ReadConfig, SetupLog]"]) (simp add: on_sighup_def Reload_def)
next
  case False
  show ?thesis
  proof (cases "loadFile (lib_decode lib) (lib_fraction lib) (sv_world st) (filePath (sv_config st))")
    case (Inl e)
    with assms False show ?thesis
      by (intro exI [of _ "[Signal, Receive, ReadConfig]"]) (simp add: on_sighup_def Reload_def)
  next
    case (Inr cfg)
    with assms False show ?thesis
      by (intro exI [of _ "[Signal, Receive, ReadConfig, Store, SetupLog]"]) (simp add: on_sighup_def Reload_def)
  qed
qed

text \<open>The goroutine's own steps, and how many of them are left without a further signal.\<close>

fun is_reload :: "event \<Rightarrow> bool" where
  "is_reload Receive = True"
| "is_reload ReadConfig = True"
| "is_reload Store = True"
| "is_reload SetupLog = True"
| "is_reload _ = False"

definition reload_left :: "server \<Rightarrow> nat" where
  "reload_left st =
     (if sv_queued st then 4 else 0) +
     (case sv_reloader st of Waiting \<Rightarrow> 0 | Woken \<Rightarrow> 3 | Loaded _ \<Rightarrow> 2 | Reloaded \<Rightarrow> 1)"

lemma reload_left_decreases:
  assumes "fire lib e st = Some st'" "e \<noteq> Signal"
  shows "reload_left st' + (if is_reload e then 1 else 0) \<le> reload_left st"
  using assms
  by (cases e) (auto simp: reload_left_def split: if_splits option.splits sum.splits reloader.splits asking.splits request.splits)

lemma reload_steps_bounded:
  assumes "execute (fire lib) es st = Some st'" "Signal \<notin> set es"
  shows "length (filter is_reload es) + reload_left st' \<le> reload_left st"
  using assms
proof (induction es arbitrary: st)
  case (Cons e es)
  then obtain st1 where f: "fire lib e st = Some st1" and ex: "execute (fire lib) es st1 = Some st'"
    by (auto split: option.splits)
  show ?case using Cons.IH [OF ex] reload_left_decreases [OF f] Cons.prems(2) by auto
qed simp

text \<open>What a tool may depend on: its own timeout, and whether it and the tools it asks for are disabled.\<close>

definition same_for :: "(nat \<Rightarrow> nat \<Rightarrow> nat \<Rightarrow> nat) \<Rightarrow> string \<Rightarrow> cfg_state \<Rightarrow> cfg_state \<Rightarrow> bool" where
  "same_for fr name s t =
     ((\<forall>fallback. ToolTimeout fr s name fallback = ToolTimeout fr t name fallback) \<and>
      list_all (\<lambda>n. IsDisabled s n = IsDisabled t n) (name # parts_of name))"

text \<open>What a request may depend on: the timeout of a call, and the switches that are asked for.\<close>

fun same_request :: "library \<Rightarrow> request \<Rightarrow> cfg_state \<Rightarrow> cfg_state \<Rightarrow> bool" where
  "same_request lib (CallTool name k m a) s t = same_for (lib_fraction lib) name s t"
| "same_request lib (ReadResource uri k m) s t =
     list_all (\<lambda>n. IsDisabled s n = IsDisabled t n) (asked_names lib (ReadResource uri k m))"
| "same_request lib (Sighup w) s t = False"

lemma same_agree:
  assumes "\<forall>t \<in> set ss. list_all (\<lambda>n. IsDisabled t n = IsDisabled s n) ns"
  shows "agree s (zip ns ss)"
proof -
  have "IsDisabled s n = IsDisabled t n" if "(n, t) \<in> set (zip ns ss)" for n t
    using assms set_zip_leftD [OF that] set_zip_rightD [OF that] by (simp add: list_all_iff)
  then show ?thesis by (auto simp: agree_def list_all_iff)
qed

lemma same_consistent:
  assumes "\<forall>t \<in> set ss. same_request lib r t s"
  shows "consistent lib r ss s"
proof (cases r)
  case (CallTool name k m a)
  with assms have "\<forall>t \<in> set ss. same_for (lib_fraction lib) name t s" by simp
  then show ?thesis
    using same_agree [of "tl ss" s "name # parts_of name"] CallTool
    by (cases ss) (auto simp: consistent_call_def same_for_def)
next
  case (ReadResource uri k m)
  then show ?thesis using assms same_agree by (simp del: asked_names.simps)
qed simp

lemma mixed_first:
  assumes "\<forall>t \<in> set (s # ss). IsDisabled t n" "asked = zip ns ss"
  shows "IsDisabled (mixed s asked) n"
proof (cases "n \<in> fst ` set asked")
  case True
  then obtain t where t: "(n, t) \<in> set asked" by fastforce
  then have "IsDisabled t n" using assms set_zip_rightD by (metis list.set_intros(2))
  then show ?thesis using t by (auto simp: IsDisabled_def asked_disabled_def intro!: image_eqI [of _ _ "(n, t)"])
next
  case False
  then show ?thesis using IsDisabled_mixed_other assms(1) by simp
qed

text \<open>Where every loaded configuration disables a tool, one that disables it is consistent with the loads.\<close>

lemma consistent_disabled:
  assumes "\<forall>t \<in> set ss. IsDisabled t name"
  shows "\<exists>s. consistent lib r ss s \<and> IsDisabled s name"
proof (cases ss)
  case Nil
  have "IsDisabled \<lparr>current = Some (defaultConfig\<lparr>Disabled := [name]\<rparr>), filePath = []\<rparr> name"
    by (simp add: IsDisabled_def Get_def)
  then show ?thesis unfolding Nil by (cases r) (auto simp: consistent_call_def)
next
  case (Cons t us)
  show ?thesis
  proof (cases r)
    case (CallTool n k m a)
    show ?thesis unfolding CallTool Cons consistent.simps
      using consistent_mixed mixed_first [OF assms [unfolded Cons] refl] by blast
  next
    case (ReadResource uri k m)
    have "IsDisabled (mixed t (zip (asked_names lib (ReadResource uri k m)) (t # us))) name"
      using assms Cons by (intro mixed_first [OF _ refl]) simp
    moreover have "agree (mixed t (zip (asked_names lib (ReadResource uri k m)) (t # us)))
        (zip (asked_names lib (ReadResource uri k m)) (t # us))"
      by (rule agree_zip [OF asked_names_distinct])
    ultimately show ?thesis unfolding ReadResource Cons consistent.simps by blast
  qed (use assms Cons in auto)
qed

lemma request_disabled:
  assumes "feed (request_asking lib r) ss = Some x" "governed_by lib r name" "\<forall>t \<in> set ss. IsDisabled t name"
  shows "refused x"
proof -
  obtain s where "consistent lib r ss s" "IsDisabled s name" using consistent_disabled [OF assms(3)] by blast
  then show ?thesis
    using request_one_config(2) [OF assms(1), of s LevelInfo]
      disabled_refused [OF assms(2), of "\<lparr>pr_config = s, pr_level = LevelInfo\<rparr>"] by simp
qed

section \<open>Properties\<close>

text \<open>
  An instance for the witnesses: every file holds a configuration that disables the ping, and a reload
  comes between the loads of a call of the load average.
\<close>

definition ping_library :: library where
  "ping_library =
     plain_library\<lparr>lib_decode := \<lambda>_. Inr \<lparr>raw_level = ''debug'', raw_timeouts = Some [(''get_load_average'', ''5s'')],
                                     raw_disabled = Some [''ping_host'']\<rparr>\<rparr>"

definition ping_config :: Config where
  "ping_config = \<lparr>LogLevel = ''debug'', Timeouts = [(''get_load_average'', ''5s'')], Disabled = [''ping_host'']\<rparr>"

definition quiet_server :: server where
  "quiet_server =
     started \<lparr>pr_config = \<lparr>current = Some defaultConfig, filePath = ''/c.json''\<rparr>, pr_level = LevelInfo\<rparr> broken_world"

definition reload_between :: "event list" where
  "reload_between = [Proceed 0, Signal, Receive, ReadConfig, Store, Proceed 0, SetupLog]"

lemma ping_file: "loadFile (lib_decode ping_library) (lib_fraction ping_library) broken_world p = Inr ping_config"
  by (simp add: loadFile_def ping_library_def plain_library_def broken_world_def with_defaults_def ping_config_def
      validate_def default_durations)

lemma load_average_request:
  obtains answer where "request_asking lib (CallTool ''get_load_average'' k m a) = Ask (\<lambda>s. Ask (\<lambda>t. Done (answer s t)))"
proof -
  have d: "distinct (map fst asking_registry)" unfolding asking_names by (simp add: registry_names registered_names_def)
  have "(ToolNameGetLoadAverage, \<lambda>fr k m a. asks (HostOut \<circ> OLoadAverage) ToolNameGetLoadAverage fr k
      (\<lambda>_. Some (GatherLoadAverage (mc_world m)))) \<in> set asking_registry"
    unfolding asking_registry_def service_asking_def set_append list.set by (intro UnI2 UnI1) (simp only: insert_iff simp_thms)
  then have "map_of asking_registry ''get_load_average'' = Some (\<lambda>fr k m a. asks (HostOut \<circ> OLoadAverage) ToolNameGetLoadAverage fr k
      (\<lambda>_. Some (GatherLoadAverage (mc_world m))))"
    using d by (simp only: map_of_eq_Some_iff)
  moreover define gathered where "gathered = (\<lambda>t. if IsDisabled t ToolNameGetLoadAverage
      then (None, Some (ErrText ''tool disabled by configuration'')) else GatherLoadAverage (mc_world m))"
  ultimately have "request_asking lib (CallTool ''get_load_average'' k m a) = Ask (\<lambda>s. Ask (\<lambda>t. Done
      (ToolAnswer (boxed_partial (HostOut \<circ> OLoadAverage)
        (Some (call_answer ToolNameGetLoadAverage (call_dur k) (gathered t)))))))"
    by (auto simp: asks_def asks_for_def handle_asking_def enabled_asking_def comp_def fun_eq_iff)
  then show thesis by (rule that)
qed

lemma between_runs:
  "\<exists>st x. execute (fire ping_library) (Request (CallTool ''get_load_average'' k m a) # reload_between) quiet_server = Some st \<and>
     sv_calls st ! length (sv_calls quiet_server) = Done x"
  by (rule load_average_request [of ping_library k m a])
    (simp add: reload_between_def quiet_server_def started_def ping_file del: request_asking.simps)

text \<open>
  C4. A request is answered as if one configuration had been in force: in every interleaving of requests,
  signals, changes of files and steps of a reload, it loads the configurations in force at certain moments after its
  start, in their order and at most eleven times, and its answer is the one of the sequential process in any one
  configuration consistent with these loads, of which there is one: it has, for a call, the timeout that was loaded first, and the
  tool and the parts it asks for are disabled as they were when they were asked for. Where nothing is loaded,
  as for arguments that are refused, the answer is the same in every configuration.
\<close>

theorem request_has_one_config:
  assumes "execute (fire lib) (Request r # es) st = Some st'" "sv_calls st' ! length (sv_calls st) = Done x"
  shows "\<exists>ss. subseq ss (in_force lib (Request r # es) st) \<and> length ss \<le> 11 \<and>
     (\<exists>s. consistent lib r ss s) \<and>
     (\<forall>s. consistent lib r ss s \<longrightarrow> x = snd (serve lib r \<lparr>pr_config = s, pr_level = sv_level st\<rparr>))"
proof -
  obtain ss where ss: "subseq ss (in_force lib (Request r # es) st)" "feed (request_asking lib r) ss = Some x"
    using request_loads [OF assms] by blast
  then show ?thesis
    by (intro exI [of _ ss] conjI allI impI consistent_exists request_one_config [OF ss(2)])
qed

theorem request_has_one_config_witness:
  "\<forall>k m a. \<exists>st x ss.
     execute (fire ping_library) (Request (CallTool ''get_load_average'' k m a) # reload_between) quiet_server = Some st \<and>
     sv_calls st ! 0 = Done x \<and>
     subseq ss (in_force ping_library (Request (CallTool ''get_load_average'' k m a) # reload_between) quiet_server) \<and>
     (\<forall>s. consistent ping_library (CallTool ''get_load_average'' k m a) ss s \<longrightarrow>
        x = snd (serve ping_library (CallTool ''get_load_average'' k m a) \<lparr>pr_config = s, pr_level = LevelInfo\<rparr>))"
proof (intro allI)
  fix k m a
  let ?r = "CallTool ''get_load_average'' k m a"
  obtain st x where r: "execute (fire ping_library) (Request ?r # reload_between) quiet_server = Some st"
    "sv_calls st ! length (sv_calls quiet_server) = Done x" using between_runs by blast
  have "sv_level quiet_server = LevelInfo" "length (sv_calls quiet_server) = 0" by (simp_all add: quiet_server_def started_def)
  then show "\<exists>st x ss. execute (fire ping_library) (Request ?r # reload_between) quiet_server = Some st \<and>
     sv_calls st ! 0 = Done x \<and> subseq ss (in_force ping_library (Request ?r # reload_between) quiet_server) \<and>
     (\<forall>s. consistent ping_library ?r ss s \<longrightarrow> x = snd (serve ping_library ?r \<lparr>pr_config = s, pr_level = LevelInfo\<rparr>))"
    using r request_has_one_config [OF r] by metis
qed

text \<open>
  C14. A reload does not disturb the requests it does not concern: if the configurations in force during a request agree
  on the timeout of the called tool and on the switches of the tools that are asked for, the request
  gets the answer of the sequential process under any one of them.
\<close>

theorem reload_leaves_other_requests:
  assumes "execute (fire lib) (Request r # es) st = Some st'" "sv_calls st' ! length (sv_calls st) = Done x"
    "\<forall>t \<in> set (in_force lib (Request r # es) st). same_request lib r t s"
  shows "x = snd (serve lib r \<lparr>pr_config = s, pr_level = l\<rparr>)"
proof -
  obtain ss where ss: "subseq ss (in_force lib (Request r # es) st)" "feed (request_asking lib r) ss = Some x"
    using request_loads [OF assms(1,2)] by blast
  then have "\<forall>t \<in> set ss. same_request lib r t s" using assms(3) subseq_members [OF ss(1)] by blast
  then show ?thesis using request_one_config(2) [OF ss(2) same_consistent] by blast
qed

theorem reload_leaves_other_requests_witness:
  "\<forall>k m a. \<exists>st.
     execute (fire ping_library) (Request (CallTool ''get_load_average'' k m a) # reload_between) quiet_server = Some st \<and>
     sv_calls st ! 0 = Done (snd (serve ping_library (CallTool ''get_load_average'' k m a)
                                   \<lparr>pr_config = sv_config quiet_server, pr_level = LevelInfo\<rparr>))"
proof (intro allI)
  fix k m a
  let ?r = "CallTool ''get_load_average'' k m a"
  obtain answer where h: "request_asking ping_library ?r = Ask (\<lambda>s. Ask (\<lambda>t. Done (answer s t)))"
    by (rule load_average_request)
  obtain st x where r: "execute (fire ping_library) (Request ?r # reload_between) quiet_server = Some st"
    "sv_calls st ! length (sv_calls quiet_server) = Done x" using between_runs by blast
  have same: "same_for fr ''get_load_average'' \<lparr>current = Some ping_config, filePath = p\<rparr> \<lparr>current = Some defaultConfig, filePath = p\<rparr>"
    for fr p
    by (simp add: same_for_def parts_of_def ToolTimeout_def lookup_timeout_def IsDisabled_def Get_def ping_config_def
        defaultConfig_def default_durations)
  have refl: "same_for fr n s s" for fr n s by (simp add: same_for_def list_all_iff)
  have "\<forall>t \<in> set (in_force ping_library (Request ?r # reload_between) quiet_server).
      same_request ping_library ?r t (sv_config quiet_server)"
    by (simp add: h reload_between_def quiet_server_def started_def ping_file same refl del: request_asking.simps)
  from reload_leaves_other_requests [OF r this, of LevelInfo]
  show "\<exists>st. execute (fire ping_library) (Request ?r # reload_between) quiet_server = Some st \<and>
     sv_calls st ! 0 = Done (snd (serve ping_library ?r \<lparr>pr_config = sv_config quiet_server, pr_level = LevelInfo\<rparr>))"
    using r by (intro exI [of _ st]) (simp add: quiet_server_def started_def)
qed

text \<open>
  C15. A tool that is disabled in every configuration in force during a request refuses it, whatever
  reloads there are meanwhile: the calls of the tool and the reading of the resources that rest on it.
\<close>

theorem disabled_throughout_refused:
  assumes "execute (fire lib) (Request r # es) st = Some st'" "sv_calls st' ! length (sv_calls st) = Done x"
    "governed_by lib r name" "\<forall>t \<in> set (in_force lib (Request r # es) st). IsDisabled t name"
  shows "refused x"
proof -
  obtain ss where ss: "subseq ss (in_force lib (Request r # es) st)" "feed (request_asking lib r) ss = Some x"
    using request_loads [OF assms(1,2)] by blast
  then have "\<forall>t \<in> set ss. IsDisabled t name" using assms(4) subseq_members [OF ss(1)] by blast
  then show ?thesis by (rule request_disabled [OF ss(2) assms(3)])
qed

theorem disabled_throughout_refused_witness:
  "\<forall>k m a. \<exists>st x. execute (fire plain_library) [Request (CallTool ''get_load_average'' k m a), Proceed 0, Signal, Proceed 0]
        (started \<lparr>pr_config = \<lparr>current = Some (defaultConfig\<lparr>Disabled := [''get_load_average'']\<rparr>), filePath = ''/c.json''\<rparr>,
                  pr_level = LevelInfo\<rparr> broken_world) = Some st \<and>
     sv_calls st ! 0 = Done x \<and> refused x"
proof (intro allI)
  fix k m a
  let ?st = "started \<lparr>pr_config = \<lparr>current = Some (defaultConfig\<lparr>Disabled := [''get_load_average'']\<rparr>), filePath = ''/c.json''\<rparr>,
                  pr_level = LevelInfo\<rparr> broken_world"
  let ?r = "CallTool ''get_load_average'' k m a" and ?es = "[Proceed 0, Signal, Proceed 0]"
  obtain answer where h: "request_asking plain_library ?r = Ask (\<lambda>s. Ask (\<lambda>t. Done (answer s t)))"
    by (rule load_average_request)
  obtain st x where r: "execute (fire plain_library) (Request ?r # ?es) ?st = Some st"
    "sv_calls st ! length (sv_calls ?st) = Done x"
    by (simp add: started_def h del: request_asking.simps)
  have "\<forall>t \<in> set (in_force plain_library (Request ?r # ?es) ?st). IsDisabled t ''get_load_average''"
    by (simp add: started_def h IsDisabled_def Get_def del: request_asking.simps)
  moreover have "governed_by plain_library ?r ''get_load_average''" by (simp add: tool_names_def)
  ultimately have "refused x" using disabled_throughout_refused [OF r] by blast
  then show "\<exists>st x. execute (fire plain_library) (Request ?r # ?es) ?st = Some st \<and> sv_calls st ! 0 = Done x \<and> refused x"
    using r by (intro exI [of _ st] exI [of _ x]) (simp add: started_def)
qed

text \<open>
  C5. No signal is lost: when the goroutine has come to rest after a signal, however many signals were
  sent before and since and whatever it was doing, a file that has not changed since and
  is a valid configuration is in force, and the log has its level.
\<close>

theorem signal_not_lost:
  assumes "execute (fire lib) (Signal # es) st = Some st'" "\<forall>w. Change w \<notin> set es"
    "\<not> sv_queued st'" "sv_reloader st' = Waiting" "filePath (sv_config st') \<noteq> []"
    "loadFile (lib_decode lib) (lib_fraction lib) (sv_world st') (filePath (sv_config st')) = Inr cfg"
  shows "Get (sv_config st') = cfg \<and> sv_level st' = parseLogLevel (LogLevel cfg)"
proof -
  have "on_the_way lib (st\<lparr>sv_queued := True\<rparr>)" by (simp add: on_the_way_def)
  moreover have "execute (fire lib) es (st\<lparr>sv_queued := True\<rparr>) = Some st'" using assms(1) by simp
  moreover have "list_all (\<lambda>e. \<forall>w. e \<noteq> Change w) es" using assms(2) by (auto simp: list_all_iff)
  ultimately have "on_the_way lib st'" using reload.execute_keeps by blast
  then show ?thesis using assms(3-6) by (simp add: on_the_way_def up_to_date_def Get_def)
qed

theorem signal_not_lost_witness:
  "\<exists>st. execute (fire ping_library) [Signal, Receive, ReadConfig, Store, SetupLog] quiet_server = Some st \<and>
     Get (sv_config st) = ping_config \<and> sv_level st = LevelDebug"
proof -
  obtain st where r: "execute (fire ping_library) [Signal, Receive, ReadConfig, Store, SetupLog] quiet_server = Some st"
    and e: "\<not> sv_queued st" "sv_reloader st = Waiting" "filePath (sv_config st) \<noteq> []" "sv_world st = broken_world"
    by (simp add: quiet_server_def started_def ping_file)
  have "Get (sv_config st) = ping_config \<and> sv_level st = parseLogLevel (LogLevel ping_config)"
    by (rule signal_not_lost [OF r _ e(1-3)]) (simp_all add: e(4) ping_file)
  then show ?thesis using r by (intro exI [of _ st]) (simp add: ping_config_def parseLogLevel_def)
qed

text \<open>
  C18. The goroutine comes to rest: without a further signal it takes at most seven steps, in any
  interleaving, and it can take one exactly as long as a signal is queued or a reload under way.
\<close>

theorem reload_settles:
  assumes "execute (fire lib) es st = Some st'" "Signal \<notin> set es"
  shows "length (filter is_reload es) \<le> 7 \<and>
    ((\<exists>e. is_reload e \<and> fire lib e st' \<noteq> None) \<longleftrightarrow> sv_queued st' \<or> sv_reloader st' \<noteq> Waiting)"
proof
  have "reload_left st \<le> 7" by (simp add: reload_left_def split: reloader.split)
  then show "length (filter is_reload es) \<le> 7" using reload_steps_bounded [OF assms] by simp
  have "fire lib Receive st' \<noteq> None \<or> fire lib ReadConfig st' \<noteq> None \<or> fire lib Store st' \<noteq> None \<or>
      fire lib SetupLog st' \<noteq> None \<longleftrightarrow> sv_queued st' \<or> sv_reloader st' \<noteq> Waiting"
    by (cases "sv_reloader st'") (auto split: sum.split)
  moreover have "(\<exists>e. is_reload e \<and> fire lib e st' \<noteq> None) \<longleftrightarrow>
      fire lib Receive st' \<noteq> None \<or> fire lib ReadConfig st' \<noteq> None \<or> fire lib Store st' \<noteq> None \<or> fire lib SetupLog st' \<noteq> None"
    by (rule iffI, elim exE conjE, rename_tac e, case_tac e) (auto intro: is_reload.simps(1-4) [THEN iffD2])
  ultimately show "(\<exists>e. is_reload e \<and> fire lib e st' \<noteq> None) \<longleftrightarrow> sv_queued st' \<or> sv_reloader st' \<noteq> Waiting"
    by blast
qed

theorem reload_settles_witness:
  "\<exists>st. execute (fire ping_library) [Receive, ReadConfig, Store, SetupLog] (quiet_server\<lparr>sv_queued := True\<rparr>) = Some st \<and>
     \<not> (\<exists>e. is_reload e \<and> fire ping_library e st \<noteq> None)"
proof -
  obtain st where r: "execute (fire ping_library) [Receive, ReadConfig, Store, SetupLog] (quiet_server\<lparr>sv_queued := True\<rparr>) = Some st"
    and e: "\<not> sv_queued st" "sv_reloader st = Waiting"
    by (simp add: quiet_server_def started_def ping_file)
  then show ?thesis using reload_settles [OF r] by simp
qed

text \<open>
  C11. In every interleaving, from the start of the process on, the configuration in force is valid, and the log
  has its level except between the two steps in which the goroutine stores a configuration and sets up the log.
\<close>

theorem valid_in_every_interleaving:
  assumes "main_start (lib_decode lib) (lib_fraction lib) w0 = Some p"
    "execute (fire lib) es (started p w) = Some st"
  shows "validate (lib_fraction lib) (Get (sv_config st)) = None \<and>
    (sv_reloader st \<noteq> Reloaded \<longrightarrow> sv_level st = parseLogLevel (LogLevel (Get (sv_config st))))"
proof -
  have "server_good lib (started p w)"
    using start_good [OF assms(1)] by (simp add: server_good_def started_def process_good_def)
  then have "server_good lib st" using good.execute_keeps [OF assms(2)] by (simp add: list_all_iff)
  then show ?thesis by (simp add: server_good_def Get_valid setupLogging_def)
qed

theorem valid_in_every_interleaving_witness:
  "\<exists>p st. main_start (lib_decode ping_library) (lib_fraction ping_library) broken_world = Some p \<and>
     execute (fire ping_library) [Signal, Receive, Signal, ReadConfig, Store] (started p broken_world) = Some st \<and>
     validate (lib_fraction ping_library) (Get (sv_config st)) = None"
proof -
  have e: "envPath broken_world = ''/c.json''"
    by (simp add: envPath_def broken_world_def Cut_def)
  obtain p where p: "main_start (lib_decode ping_library) (lib_fraction ping_library) broken_world = Some p"
    and f: "filePath (pr_config p) = ''/c.json''"
    by (simp add: main_start_def Load_def loadAtPath_def e ping_file)
  obtain st where r: "execute (fire ping_library) [Signal, Receive, Signal, ReadConfig, Store] (started p broken_world) = Some st"
    by (simp add: started_def ping_file f)
  show ?thesis using p r valid_in_every_interleaving [OF p r] by blast
qed

end
