(* ===== verification/Spec2Isabelle.thy ===== *)
theory Spec2Isabelle
  imports Proc Process Packages Security Network Services Accounts Host Storage System DockerObjects DockerStats Hardware Boot Reloads
begin

text \<open>
  A verification development for linux-mcp, a server of the Model Context Protocol that answers
  questions about a Linux machine (src/).

  \<^bold>\<open>The program.\<close> \<open>main.go\<close> loads the configuration (\<open>config/config.go\<close>), registers the tools
  (\<open>tools/register.go\<close>) and the resources (\<open>tools/resources.go\<close>), and serves them over standard
  input; the signal SIGHUP reloads the configuration and the level of the log. A tool is a
  handler, which checks its arguments and calls \<open>handleToolCall\<close> (\<open>tools/handler.go\<close>) with a
  gather function. \<open>handleToolCall\<close> sets the deadline of the tool, refuses a disabled tool and
  moves an error that comes with an output into the output. The gather functions read files of
  /proc and /sys, run commands and ask the daemon of Docker, and parse what they get; the parsers
  are most of the program. The snapshot and the health check compose the gather functions of
  other tools. A resource is a gather function without arguments, read by its URI.

  \<^bold>\<open>How the code is modelled.\<close> A struct is a \<open>record\<close>, an embedded \<open>OutputErrors\<close> the record it
  extends; strings are lists of bytes; \<open>int64\<close> and \<open>uint64\<close> are words where the code computes with
  them, an \<open>int\<close> is \<open>int\<close>, with \<open>wrap_int\<close> where a sum of arguments can overflow; \<open>float64\<close> is
  \<open>f64\<close>, a rational number or one of the special values, with every operation rounded. A pair
  \<open>(out, err)\<close> of results is a pair of options (\<open>result\<close>), where a nil pointer is \<open>None\<close>. A panic
  and a recursion that does not end are \<open>None\<close> of a further option. A loop over lines is a filter
  and map of a function of one line (\<open>line_parser\<close>), or a \<open>fold\<close> where lines depend on each other.
  The machine is the record \<open>world\<close> of what the operating system answers: files, directories,
  commands under a context, environment. What the libraries answer (gopsutil, Docker's client, the
  resolver, HTTP, JSON decoders), the order of a range over a map (\<open>enum\<close>, with the law \<open>ranges\<close>),
  a library sort of a long slice (\<open>sorter\<close>, with the laws of the locale \<open>slice_sorter\<close>) and the
  duration of a call are parameters. All of them together, for the tools of the registry, are the
  record \<open>machine\<close>; the decoded arguments of the tools are the record \<open>arguments\<close>. The configuration is
  \<open>cfg_state\<close>, passed to a handler as a whole; that a handler loads it several times, while the goroutine of the signals
  may store another, is modelled apart (Asking, Reloads).

  \<^bold>\<open>The library.\<close>
  Prelude: types, rule collections, lists.
  GoStrings: the package strings on bytes, with the laws of splitting, joining, searching and
  trimming. GoNum, GoFloat: strconv, rounding, printing, Sscanf. GoRuntime: errors, contexts, the
  world, maps and sorting, and the interfaces \<open>line_parser\<close>, \<open>line_printer\<close>, \<open>round_trip\<close> and
  \<open>guarded_store\<close>. GoUrl: net/url.

  \<^bold>\<open>The components.\<close>
  ToolNames and Config (config/config.go): durations, defaults, validation, load, reload, lookup;
  the state is \<open>cfg_state\<close>. Every history of loads and reloads keeps a valid configuration.
  Util (tools/util.go) and Handler (tools/handler.go): the helpers and the life of a call.
  Proc (tools/proc.go): the kernel's diagnostic files, with a round trip for the disk statistics,
  whose texts also have the virtual devices that the parser leaves out.
  Process (tools/process.go): the process list, descriptors, I/O ranking and the process tree.
  Packages (tools/packages.go): package managers and their listings, that of apk line by line.
  Security (tools/security.go, tools/security_audit.go): logins, the audit log, the sshd
  configuration with its includes and the order in which its settings are read, the score.
  Network (tools/network.go): connections and their groups, routes, addresses.
  Services (tools/service.go, ping.go, man.go, journal.go): units, ping, manual pages, journal.
  Accounts (tools/users.go, locks.go, sysvipc.go): accounts and groups, locks, shared memory.
  Host (tools/cpu.go, memory.go, disk.go and the load average of tools/system.go).
  Storage (tools/storage.go): devices, RAID, cron, logrotate, time, and the health check.
  System (tools/system.go): host, environment, buses, automation, modules.
  Docker, DockerObjects, DockerStats (tools/docker.go): the tools on the daemon; the concurrent
  statistics also as a step relation of goroutines, channel and receiver.
  Hardware (tools/smart.go, gpu.go, power.go), Boot (tools/analyze.go): disks, cards, batteries,
  the boot.
  Snapshot (the snapshot of tools/system.go): nine tools composed.
  Resources (tools/resources.go): the table of resources, the search of a path, the reading of a resource.
  Tools (tools/register.go): the table of the 65 tools, each with its handler on the machine and its
  arguments, which are the structs of the inputs.
  Server (main.go): the process with its configuration and log level, a request (\<open>serve\<close>) and a
  history of requests and signals, one after the other.
  Asking (tools/handler.go, tools/register.go): the 65 handlers again, each as a value of \<open>asking\<close>, which
  stops at each load of the configuration: none where the arguments are refused, the timeout and the
  switch for most, up to eleven for the snapshot. Each of them answers as the handler of the table does
  in any configuration consistent with what it loaded.
  Reloads (main.go, config/config.go): the same process with everything interleaved. A request goes on from
  load to load, the goroutine of the signals takes its steps, the channel of signals has its one place, and
  files change at any time.

  \<^bold>\<open>What the theorems show.\<close> Invariants and safety: the configuration in force is valid after
  any history and in any interleaving, and the log level follows it; a disabled tool never runs, sees nothing
  of the machine and stays closed until a reload succeeds; every handler of the table obeys the switch
  of the name it is registered with; an error is never lost
  between a gather function and the caller; a snapshot never fails; what the tools of Docker and
  the environment tool answer does not depend on the secrets they hide; a process name cannot
  forge a parent; ping runs with no option for a host; a health check that is OK rests on five
  answers. Functional statements on all branches: the process tree, the manual search, the groups
  of an account, the connections by process, the score, the verdict of the health check, the
  routing of resources. Refinement: the runs of the goroutines of the statistics tool give exactly
  the answers of its function, for the orders of arrival; a request that runs while the configuration is
  reloaded is answered as the sequential process answers under every configuration consistent with
  what it loaded, of which there is one, and is not disturbed by a reload that does not concern it. Termination and liveness: the walk of
  the process tree ends on acyclic tables and not on a root that is its own parent; a
  configuration of sshd is read to an end exactly when its includes have no cycle; the statistics
  tool never blocks; no signal is lost, and the goroutine that serves them comes to rest. Texts
  in the formats of the kernel, of apk and of systemd-analyze: the packages and the disks read back, and
  of a critical chain exactly the units without a time of several words. The settings of sshd that are
  reported are those read last.
  Lemmas outside the properties state faults of the code that modelling showed, each on the
  shortest input that has it.

  \<^bold>\<open>Fuel.\<close> \<open>walk\<close> takes the depth of the process tree: a table with n processes needs at most n,
  as a path in a forest repeats none, and then the result does not change with more.
  \<open>parseSSHDConfig\<close> takes the depth of the includes: the number of files on the longest chain is
  enough, and with a cycle no fuel is. Everything else is structural or has a measure.

  \<^bold>\<open>Bounds.\<close> Go's \<open>int\<close> has 64 bits. The parser of floating point has no hexadecimal syntax; a
  product and a sum are rounded apart, as on amd64.

  \<^bold>\<open>Not modelled.\<close> The protocol library (schemas, transport, the server object): it is not in the
  repository, its decoder, encoder and errors are the record \<open>library\<close>. The descriptions of the tools: text for the
  client without behaviour. The text of the log, apart from which lines a level keeps. gopsutil,
  Docker's client, the JSON decoders and the resolver: not in the repository. The cancellation
  inside a running command: it is part of what the world answers under a context. The host part of
  a URL, which the server ignores. Upper and lower case beyond ASCII: parameters of \<open>world\<close>. Tests,
  scripts, the schema for editors and the documentation are no part of the running server.
\<close>

end
